(* ===== verification/Prelude.thy ===== *)
theory Prelude
  imports Complex_Main "HOL-Library.State_Monad" "HOL-Library.AList"
begin

text \<open>
  Shared vocabulary of the development: the state monad's Hoare triples (the services of
  ezLiveStreaming are state-passing programs over Redis, the job queue and the clock), loops
  over Go slices inside the monad, and generic facts on lists and association lists.

  \<^item> \<open>valid P m Q\<close>: from a state with \<open>P\<close>, the program \<open>m\<close> ends with a result and a
    state related by \<open>Q\<close>;
  \<^item> \<open>keeps I m\<close>: \<open>m\<close> preserves the state invariant \<open>I\<close>;
  \<^item> the collection \<open>keeps_intros\<close>: the compositional rules for \<open>keeps\<close>; a service
    theory adds one rule per operation, so an invariant proof is one call of \<open>intro\<close>.
\<close>

named_theorems keeps_intros \<open>rules that compose the preservation of an invariant\<close>

named_theorems run_simps \<open>how an operation runs, as rewrite rules on its result and state\<close>

section \<open>Programs over a state\<close>

abbreviation ret :: "'a \<Rightarrow> ('s, 'a) state" where
  "ret \<equiv> State_Monad.return"

definition gets :: "('s \<Rightarrow> 'a) \<Rightarrow> ('s, 'a) state" where
  "gets f = State (\<lambda>s. (f s, s))"

definition modify :: "('s \<Rightarrow> 's) \<Rightarrow> ('s, unit) state" where
  "modify f = State (\<lambda>s. ((), f s))"

text \<open>A state transformer that also yields a value, as a program.\<close>

definition act :: "('s \<Rightarrow> 'a \<times> 's) \<Rightarrow> ('s, 'a) state" where
  "act f = State f"

lemma run_gets [simp]: "run_state (gets f) s = (f s, s)"
  by (simp add: gets_def)

lemma run_modify [simp]: "run_state (modify f) s = ((), f s)"
  by (simp add: modify_def)

lemma run_act [simp]: "run_state (act f) s = f s"
  by (simp add: act_def)

text \<open>The final state and the result of a run.\<close>

abbreviation exec_state :: "('s, 'a) state \<Rightarrow> 's \<Rightarrow> 's" where
  "exec_state m s \<equiv> snd (run_state m s)"

abbreviation result :: "('s, 'a) state \<Rightarrow> 's \<Rightarrow> 'a" where
  "result m s \<equiv> fst (run_state m s)"

section \<open>Loops over slices\<close>

text \<open>\<open>for _, x := range xs { f(x) }\<close>, the body run for its effect on the state.\<close>

fun for_each :: "'a list \<Rightarrow> ('a \<Rightarrow> ('s, unit) state) \<Rightarrow> ('s, unit) state" where
  "for_each [] f = ret ()"
| "for_each (x # xs) f = do { f x; for_each xs f }"

text \<open>
  A loop that appends one value per element to a slice and stops at the first error, returning
  what it gathered so far together with the error (Go's \<open>return workers, err\<close>).
\<close>

fun collect :: "'a list \<Rightarrow> ('a \<Rightarrow> ('s, 'e + 'b list) state) \<Rightarrow> 'b list \<Rightarrow>
    ('s, 'e option \<times> 'b list) state" where
  "collect [] f acc = ret (None, acc)"
| "collect (x # xs) f acc = do {
     r \<leftarrow> f x;
     case r of
       Inl e \<Rightarrow> ret (Some e, acc)
     | Inr ys \<Rightarrow> collect xs f (acc @ ys) }"

section \<open>Hoare triples and invariants\<close>

definition valid :: "('s \<Rightarrow> bool) \<Rightarrow> ('s, 'a) state \<Rightarrow> ('a \<Rightarrow> 's \<Rightarrow> bool) \<Rightarrow> bool" where
  "valid P m Q \<longleftrightarrow> (\<forall>s. P s \<longrightarrow> Q (result m s) (exec_state m s))"

definition keeps :: "('s \<Rightarrow> bool) \<Rightarrow> ('s, 'a) state \<Rightarrow> bool" where
  "keeps I m \<longleftrightarrow> (\<forall>s. I s \<longrightarrow> I (exec_state m s))"

lemma keepsI: "(\<And>s. I s \<Longrightarrow> I (exec_state m s)) \<Longrightarrow> keeps I m"
  by (simp add: keeps_def)

lemma keepsD: "keeps I m \<Longrightarrow> I s \<Longrightarrow> I (exec_state m s)"
  by (simp add: keeps_def)

lemma validI: "(\<And>s. P s \<Longrightarrow> Q (result m s) (exec_state m s)) \<Longrightarrow> valid P m Q"
  by (simp add: valid_def)

lemma validD: "valid P m Q \<Longrightarrow> P s \<Longrightarrow> Q (result m s) (exec_state m s)"
  by (simp add: valid_def)

lemma valid_bind:
  assumes "valid P m R" and "\<And>x. valid (R x) (f x) Q"
  shows "valid P (State_Monad.bind m f) Q"
  using assms by (auto simp: valid_def split: prod.splits)

lemma valid_return: "(\<And>s. P s \<Longrightarrow> Q x s) \<Longrightarrow> valid P (ret x) Q"
  by (simp add: valid_def)

lemma valid_weaken: "valid P' m Q' \<Longrightarrow> (\<And>s. P s \<Longrightarrow> P' s) \<Longrightarrow> (\<And>r s. Q' r s \<Longrightarrow> Q r s) \<Longrightarrow> valid P m Q"
  by (simp add: valid_def)

lemma keeps_return [keeps_intros]: "keeps I (ret x)"
  by (simp add: keeps_def)

lemma keeps_gets [keeps_intros]: "keeps I (gets f)"
  by (simp add: keeps_def)

lemma keeps_bind [keeps_intros]:
  "keeps I m \<Longrightarrow> (\<And>x. keeps I (f x)) \<Longrightarrow> keeps I (State_Monad.bind m f)"
  by (auto simp: keeps_def split: prod.splits)

text \<open>A bind whose continuation needs to know what the first program can return.\<close>

lemma keeps_bind_res:
  assumes "valid I m (\<lambda>x s. I s \<and> R x)" and "\<And>x. R x \<Longrightarrow> keeps I (f x)"
  shows "keeps I (State_Monad.bind m f)"
  using assms by (auto simp: keeps_def valid_def split: prod.splits)

lemma keeps_if [keeps_intros]:
  "(b \<Longrightarrow> keeps I m) \<Longrightarrow> (\<not> b \<Longrightarrow> keeps I n) \<Longrightarrow> keeps I (if b then m else n)"
  by simp

lemma keeps_case_option [keeps_intros]:
  "(r = None \<Longrightarrow> keeps I m) \<Longrightarrow> (\<And>x. r = Some x \<Longrightarrow> keeps I (f x)) \<Longrightarrow>
    keeps I (case r of None \<Rightarrow> m | Some x \<Rightarrow> f x)"
  by (cases r) auto

lemma keeps_case_sum [keeps_intros]:
  "(\<And>e. r = Inl e \<Longrightarrow> keeps I (g e)) \<Longrightarrow> (\<And>x. r = Inr x \<Longrightarrow> keeps I (f x)) \<Longrightarrow>
    keeps I (case r of Inl e \<Rightarrow> g e | Inr x \<Rightarrow> f x)"
  by (cases r) auto

lemma keeps_case_prod [keeps_intros]:
  "(\<And>a b. p = (a, b) \<Longrightarrow> keeps I (f a b)) \<Longrightarrow> keeps I (case p of (a, b) \<Rightarrow> f a b)"
  by (cases p) auto

lemma keeps_case_list [keeps_intros]:
  "(xs = [] \<Longrightarrow> keeps I m) \<Longrightarrow> (\<And>y ys. xs = y # ys \<Longrightarrow> keeps I (f y ys)) \<Longrightarrow>
    keeps I (case xs of [] \<Rightarrow> m | y # ys \<Rightarrow> f y ys)"
  by (cases xs) auto

lemma keeps_for_each [keeps_intros]: "(\<And>x. keeps I (f x)) \<Longrightarrow> keeps I (for_each xs f)"
  by (induction xs) (auto intro!: keeps_intros)

lemma keeps_collect [keeps_intros]: "(\<And>x. keeps I (f x)) \<Longrightarrow> keeps I (collect xs f acc)"
proof (induction xs arbitrary: acc)
  case Nil
  then show ?case by (simp add: keeps_return)
next
  case (Cons x xs)
  then show ?case by (auto intro!: keeps_bind keeps_case_sum keeps_return)
qed

lemma keeps_conj: "keeps I m \<Longrightarrow> keeps J m \<Longrightarrow> keeps (\<lambda>s. I s \<and> J s) m"
  by (simp add: keeps_def)

text \<open>A program that leaves a field alone keeps every property of that field.\<close>

definition frames :: "('s \<Rightarrow> 'b) \<Rightarrow> ('s, 'a) state \<Rightarrow> bool" where
  "frames f m \<longleftrightarrow> (\<forall>s. f (exec_state m s) = f s)"

lemma frames_keeps: "frames f m \<longleftrightarrow> (\<forall>v. keeps (\<lambda>s. f s = v) m)"
  by (auto simp: frames_def keeps_def)

lemma framesI: "(\<And>v. keeps (\<lambda>s. f s = v) m) \<Longrightarrow> frames f m"
  by (simp add: frames_keeps)

lemma framesD: "frames f m \<Longrightarrow> f (exec_state m s) = f s"
  by (simp add: frames_def)

section \<open>Generic lemmas on lists and association lists\<close>

lemma map_of_update [simp]: "map_of (AList.update k v xs) = (map_of xs)(k \<mapsto> v)"
  by (rule ext) (simp add: update_conv')

lemma map_of_delete [simp]: "map_of (AList.delete k xs) = (map_of xs)(k := None)"
  by (rule ext) (simp add: delete_conv')

lemma sum_list_remove_nth:
  fixes xs :: "int list"
  assumes "i < length xs"
  shows "sum_list (take i xs @ drop (Suc i) xs) = sum_list xs - xs ! i"
proof -
  have "sum_list xs = sum_list (take i xs) + sum_list (xs ! i # drop (Suc i) xs)"
    using assms by (metis id_take_nth_drop sum_list_append)
  then show ?thesis by simp
qed

lemma last_snoc_split: "xs \<noteq> [] \<Longrightarrow> xs = butlast xs @ [last xs]"
  by simp

end
