(* ===== verification/GoStrings.thy ===== *)
theory GoStrings
  imports Prelude
begin

text \<open>
  The part of Go's \<open>strings\<close> and \<open>strconv\<close> packages the services use on text: searching,
  slicing with its run-time bounds check, joining, and decimal integers. A Go string is a byte
  sequence, here a \<open>string\<close>; a slice expression out of range panics, here \<open>None\<close>.
\<close>

section \<open>Searching\<close>

fun has_prefix :: "string \<Rightarrow> string \<Rightarrow> bool" where
  "has_prefix s [] = True"
| "has_prefix [] (c # p) = False"
| "has_prefix (a # s) (c # p) = (a = c \<and> has_prefix s p)"

text \<open>\<open>strings.Index\<close> and \<open>strings.LastIndex\<close>; \<open>None\<close> is Go's \<open>-1\<close>.\<close>

fun index_of :: "string \<Rightarrow> string \<Rightarrow> nat option" where
  "index_of [] p = (if p = [] then Some 0 else None)"
| "index_of (c # s) p =
     (if has_prefix (c # s) p then Some 0 else map_option Suc (index_of s p))"

fun last_index_of :: "string \<Rightarrow> string \<Rightarrow> nat option" where
  "last_index_of [] p = (if p = [] then Some 0 else None)"
| "last_index_of (c # s) p =
     (case last_index_of s p of
        Some n \<Rightarrow> Some (Suc n)
      | None \<Rightarrow> if has_prefix (c # s) p then Some 0 else None)"

definition go_int_of_index :: "nat option \<Rightarrow> int" where
  "go_int_of_index i = (case i of None \<Rightarrow> -1 | Some n \<Rightarrow> int n)"

definition str_index :: "string \<Rightarrow> string \<Rightarrow> int" where
  "str_index s p = go_int_of_index (index_of s p)"

definition str_last_index :: "string \<Rightarrow> string \<Rightarrow> int" where
  "str_last_index s p = go_int_of_index (last_index_of s p)"

definition str_contains :: "string \<Rightarrow> string \<Rightarrow> bool" where
  "str_contains s p = (index_of s p \<noteq> None)"

text \<open>\<open>s[lo:hi]\<close>, with the bounds check of the language.\<close>

definition slice :: "'a list \<Rightarrow> int \<Rightarrow> int \<Rightarrow> 'a list option" where
  "slice s lo hi =
     (if 0 \<le> lo \<and> lo \<le> hi \<and> hi \<le> int (length s)
      then Some (take (nat (hi - lo)) (drop (nat lo) s)) else None)"

text \<open>\<open>s[lo:]\<close> and \<open>s[:hi]\<close>.\<close>

definition slice_from :: "'a list \<Rightarrow> int \<Rightarrow> 'a list option" where
  "slice_from s lo = slice s lo (int (length s))"

definition slice_to :: "'a list \<Rightarrow> int \<Rightarrow> 'a list option" where
  "slice_to s hi = slice s 0 hi"

text \<open>\<open>strings.Join\<close>.\<close>

fun str_join :: "string list \<Rightarrow> string \<Rightarrow> string" where
  "str_join [] sep = []"
| "str_join [x] sep = x"
| "str_join (x # y # xs) sep = x @ sep @ str_join (y # xs) sep"

lemma has_prefix_append [simp]: "has_prefix (p @ s) p"
  by (induction p) auto

lemma has_prefix_iff: "has_prefix s p \<longleftrightarrow> (\<exists>t. s = p @ t)"
proof (induction s p rule: has_prefix.induct)
  case (3 a s c p)
  then show ?case by auto
qed auto

lemma index_of_SomeD:
  "index_of s p = Some n \<Longrightarrow> n \<le> length s \<and> has_prefix (drop n s) p"
  by (induction s arbitrary: n) (auto split: if_splits)

lemma last_index_of_SomeD:
  "last_index_of s p = Some n \<Longrightarrow> n \<le> length s \<and> has_prefix (drop n s) p"
  by (induction s arbitrary: n) (auto split: if_splits option.splits)

lemma index_of_append: "index_of (a @ p @ b) p \<noteq> None"
proof (induction a)
  case Nil
  show ?case
  proof (cases p)
    case Nil
    then show ?thesis by (cases b) auto
  next
    case (Cons c q)
    have "has_prefix (p @ b) p" by simp
    with Cons show ?thesis by simp
  qed
next
  case (Cons c a)
  then show ?case by auto
qed

lemma str_contains_iff: "str_contains s p \<longleftrightarrow> (\<exists>a b. s = a @ p @ b)"
proof
  assume "str_contains s p"
  then obtain n where n: "index_of s p = Some n" by (auto simp: str_contains_def)
  then obtain t where "drop n s = p @ t"
    using index_of_SomeD has_prefix_iff by blast
  then have "s = take n s @ p @ t" by (metis append_take_drop_id)
  then show "\<exists>a b. s = a @ p @ b" by blast
next
  assume "\<exists>a b. s = a @ p @ b"
  then show "str_contains s p" using index_of_append by (auto simp: str_contains_def)
qed

lemma str_contains_self [simp]: "str_contains (a @ p @ b) p"
  by (auto simp: str_contains_iff)

text \<open>A single-character pattern occurs exactly where the character does.\<close>

lemma last_index_of_char_None: "last_index_of s [c] = None \<longleftrightarrow> c \<notin> set s"
proof (induction s)
  case (Cons a s)
  have "has_prefix (a # s) [c] \<longleftrightarrow> a = c" by simp
  with Cons show ?case by (auto split: option.splits)
qed simp

lemma last_index_of_char_append:
  "c \<notin> set t \<Longrightarrow> last_index_of (s @ c # t) [c] = Some (length s)"
proof (induction s)
  case Nil
  have "last_index_of t [c] = None" using Nil by (simp add: last_index_of_char_None)
  then show ?case by simp
next
  case (Cons a s)
  then show ?case by simp
qed

lemma str_last_index_char:
  "c \<notin> set t \<Longrightarrow> str_last_index (s @ c # t) [c] = int (length s)"
  by (simp add: str_last_index_def go_int_of_index_def last_index_of_char_append)

text \<open>The first occurrence of a pattern behind a text that holds no occurrence of its head.\<close>

lemma index_of_skip:
  "hd p \<notin> set a \<Longrightarrow> p \<noteq> [] \<Longrightarrow> index_of (a @ p @ b) p = Some (length a)"
proof (induction a)
  case Nil
  then obtain c q where "p = c # q" by (cases p) auto
  moreover have "has_prefix (p @ b) p" by simp
  ultimately show ?case by simp
next
  case (Cons x a)
  then have "\<not> has_prefix ((x # a) @ p @ b) p" by (cases p) auto
  with Cons show ?case by simp
qed

lemma slice_append [simp]:
  "slice (a @ b @ c) (int (length a)) (int (length a + length b)) = Some b"
  by (simp add: slice_def)

lemma slice_from_append [simp]: "slice_from (a @ b) (int (length a)) = Some b"
  by (simp add: slice_from_def slice_def)

lemma slice_to_append [simp]: "slice_to (a @ b) (int (length a)) = Some a"
  by (simp add: slice_to_def slice_def)

lemma slice_None_iff: "slice s lo hi = None \<longleftrightarrow> \<not> (0 \<le> lo \<and> lo \<le> hi \<and> hi \<le> int (length s))"
  by (simp add: slice_def)

lemma slice_length: "slice s lo hi = Some t \<Longrightarrow> int (length t) = hi - lo"
  by (auto simp: slice_def split: if_splits)

section \<open>Decimal integers\<close>

definition digit_char :: "nat \<Rightarrow> char" where
  "digit_char d = char_of (48 + d mod 10)"

definition digit_of :: "char \<Rightarrow> int option" where
  "digit_of c = (let n = of_char c in if 48 \<le> n \<and> n \<le> 57 then Some (n - 48) else None)"

fun nat_digits :: "nat \<Rightarrow> string" where
  "nat_digits n =
     (if n < 10 then [digit_char n] else nat_digits (n div 10) @ [digit_char (n mod 10)])"

declare nat_digits.simps [simp del]

text \<open>\<open>strconv.Itoa\<close>.\<close>

definition itoa :: "int \<Rightarrow> string" where
  "itoa i = (if i < 0 then CHR ''-'' # nat_digits (nat (- i)) else nat_digits (nat i))"

text \<open>The value of a digit string, \<open>None\<close> when it holds anything else.\<close>

fun digits_val :: "int \<Rightarrow> string \<Rightarrow> int option" where
  "digits_val acc [] = Some acc"
| "digits_val acc (c # s) =
     (case digit_of c of None \<Rightarrow> None | Some d \<Rightarrow> digits_val (10 * acc + d) s)"

text \<open>
  \<open>strconv.ParseInt(s, 10, 64)\<close> and \<open>strconv.Atoi\<close>: an optional sign, at least one digit,
  and a value of 64 bits; every other input is an error (\<open>None\<close>).
\<close>

definition parse_int :: "string \<Rightarrow> int option" where
  "parse_int s =
     (let (neg, body) =
        (case s of [] \<Rightarrow> (False, [])
         | c # t \<Rightarrow> if c = CHR ''-'' then (True, t) else if c = CHR ''+'' then (False, t)
                   else (False, s))
      in if body = [] then None
         else case digits_val 0 body of
             None \<Rightarrow> None
           | Some n \<Rightarrow>
               let v = (if neg then - n else n)
               in if - (2 ^ 63) \<le> v \<and> v < 2 ^ 63 then Some v else None)"

lemma of_char_digit_char: "of_char (digit_char d) = (48 + int (d mod 10))"
proof -
  have "(of_char (digit_char d) :: nat) = 48 + d mod 10"
    by (simp add: digit_char_def)
  then show ?thesis by (metis of_char_of of_nat_add of_nat_numeral of_nat_of_char)
qed

lemma digit_of_char [simp]: "d < 10 \<Longrightarrow> digit_of (digit_char d) = Some (int d)"
  by (simp add: digit_of_def of_char_digit_char)

lemma digit_char_neq [simp]:
  "digit_char d \<noteq> CHR ''-''" "digit_char d \<noteq> CHR ''+''" "digit_char d \<noteq> CHR ''/''"
  "digit_char d \<noteq> CHR '':''" "digit_char d \<noteq> CHR ''.''" "digit_char d \<noteq> CHR ''_''"
proof -
  have "of_char (digit_char d) = 48 + int (d mod 10)" by (rule of_char_digit_char)
  then have "of_char (digit_char d) \<noteq> (of_char c :: int)"
    if "of_char c < (48 :: int) \<or> 57 < (of_char c :: int)" for c
    using that by auto
  then have "digit_char d \<noteq> c"
    if "of_char c < (48 :: int) \<or> 57 < (of_char c :: int)" for c
    using that by blast
  then show "digit_char d \<noteq> CHR ''-''" "digit_char d \<noteq> CHR ''+''" "digit_char d \<noteq> CHR ''/''"
    "digit_char d \<noteq> CHR '':''" "digit_char d \<noteq> CHR ''.''" "digit_char d \<noteq> CHR ''_''"
    by simp_all
qed

lemma digits_val_append:
  "digits_val acc (s @ t) = (case digits_val acc s of None \<Rightarrow> None | Some v \<Rightarrow> digits_val v t)"
  by (induction s arbitrary: acc) (auto split: option.splits)

lemma nat_digits_nonempty [simp]: "nat_digits n \<noteq> []"
  by (subst nat_digits.simps) simp

lemma digits_val_nat_digits [simp]: "digits_val 0 (nat_digits n) = Some (int n)"
proof (induction n rule: nat_digits.induct)
  case (1 n)
  show ?case
  proof (cases "n < 10")
    case True
    then show ?thesis by (subst nat_digits.simps) simp
  next
    case False
    with 1 have "digits_val 0 (nat_digits (n div 10)) = Some (int (n div 10))" by simp
    moreover have "10 * int (n div 10) + int (n mod 10) = int n"
      by (metis mult_div_mod_eq of_nat_add of_nat_mult of_nat_numeral)
    ultimately show ?thesis
      using False by (subst nat_digits.simps) (simp add: digits_val_append)
  qed
qed

lemma nat_digits_hd: "\<exists>d. hd (nat_digits n) = digit_char d"
proof (induction n rule: nat_digits.induct)
  case (1 n)
  show ?case
  proof (cases "n < 10")
    case True
    then show ?thesis by (subst nat_digits.simps) auto
  next
    case False
    with 1 show ?thesis by (subst nat_digits.simps) (auto simp: hd_append)
  qed
qed

text \<open>Printing and parsing 64-bit integers are inverse.\<close>

lemma parse_int_itoa: "- (2 ^ 63) \<le> i \<Longrightarrow> i < 2 ^ 63 \<Longrightarrow> parse_int (itoa i) = Some i"
proof (cases "i < 0")
  case True
  assume "- (2 ^ 63) \<le> i" "i < 2 ^ 63"
  with True show ?thesis by (simp add: itoa_def parse_int_def)
next
  case False
  assume r: "- (2 ^ 63) \<le> i" "i < 2 ^ 63"
  obtain c t where ct: "nat_digits (nat i) = c # t"
    by (cases "nat_digits (nat i)") auto
  moreover obtain d where "hd (nat_digits (nat i)) = digit_char d"
    using nat_digits_hd by blast
  ultimately have "c \<noteq> CHR ''-''" "c \<noteq> CHR ''+''" by auto
  moreover have "digits_val 0 (c # t) = Some i"
    using digits_val_nat_digits [of "nat i"] ct False by simp
  ultimately show ?thesis using False r ct by (simp add: itoa_def parse_int_def)
qed

lemma itoa_inj: "- (2 ^ 63) \<le> i \<Longrightarrow> i < 2 ^ 63 \<Longrightarrow> - (2 ^ 63) \<le> j \<Longrightarrow> j < 2 ^ 63 \<Longrightarrow>
    itoa i = itoa j \<Longrightarrow> i = j"
  by (metis option.inject parse_int_itoa)

section \<open>64-bit arithmetic\<close>

text \<open>The value of an \<open>int64\<close> expression: two's complement wrap-around.\<close>

definition wrap64 :: "int \<Rightarrow> int" where
  "wrap64 x = (x + 2 ^ 63) mod 2 ^ 64 - 2 ^ 63"

text \<open>Go's integer division truncates towards zero.\<close>

definition quot :: "int \<Rightarrow> int \<Rightarrow> int" where
  "quot a b = sgn a * sgn b * (\<bar>a\<bar> div \<bar>b\<bar>)"

lemma wrap64_small [simp]: "- (2 ^ 63) \<le> x \<Longrightarrow> x < 2 ^ 63 \<Longrightarrow> wrap64 x = x"
  by (simp add: wrap64_def)

lemma quot_nonneg [simp]: "0 \<le> a \<Longrightarrow> 0 < b \<Longrightarrow> quot a b = a div b"
  by (cases "a = 0") (auto simp: quot_def)

end
