(* ===== verification/GoFloat.thy ===== *)
theory GoFloat
  imports GoStrings
begin

text \<open>
  \<open>float64\<close> values and the two text formats the services read with them:
  \<open>strconv.ParseFloat(s, 64)\<close> and \<open>time.ParseDuration\<close>. A value is a rational or one of
  the three specials; the two signed zeros are one value here, since the services only
  compare and print nonzero numbers. Reading a number rounds the written value to the nearest
  \<open>float64\<close>, ties to even.
\<close>

section \<open>Values and comparisons\<close>

datatype go_float = NaN | PInf | NInf | Fin rat

fun flt :: "go_float \<Rightarrow> go_float \<Rightarrow> bool" where
  "flt NaN y = False"
| "flt x NaN = False"
| "flt (Fin a) (Fin b) = (a < b)"
| "flt NInf NInf = False"
| "flt NInf y = True"
| "flt x PInf = (x \<noteq> PInf)"
| "flt PInf y = False"
| "flt (Fin a) NInf = False"

abbreviation fgt :: "go_float \<Rightarrow> go_float \<Rightarrow> bool" where
  "fgt x y \<equiv> flt y x"

fun feq :: "go_float \<Rightarrow> go_float \<Rightarrow> bool" where
  "feq NaN y = False"
| "feq x NaN = False"
| "feq x y = (x = y)"

definition fle :: "go_float \<Rightarrow> go_float \<Rightarrow> bool" where
  "fle x y = (flt x y \<or> feq x y)"

lemma flt_NaN [simp]: "\<not> flt NaN y" "\<not> flt x NaN"
  by (auto, cases x, auto)

lemma flt_Fin_cases:
  "flt (Fin a) x \<longleftrightarrow> x = PInf \<or> (\<exists>b. x = Fin b \<and> a < b)"
  "flt x (Fin a) \<longleftrightarrow> x = NInf \<or> (\<exists>b. x = Fin b \<and> b < a)"
  by (cases x; auto)+

text \<open>A value that is neither below \<open>lo\<close> nor above \<open>hi\<close>, and is a number, is in between.\<close>

lemma not_flt_range:
  assumes "\<not> flt x (Fin lo)" "\<not> fgt x (Fin hi)"
  shows "x = NaN \<or> (\<exists>r. x = Fin r \<and> lo \<le> r \<and> r \<le> hi)"
  using assms by (cases x) auto

section \<open>Rounding to binary64\<close>

text \<open>The length of the binary numeral of \<open>n\<close>, and \<open>\<lfloor>log\<^sub>2 (a / d)\<rfloor>\<close> for positive
  \<open>a\<close> and \<open>d\<close>.\<close>

function bit_length :: "int \<Rightarrow> int" where
  "bit_length n = (if n \<le> 0 then 0 else 1 + bit_length (n div 2))"
  by pat_completeness auto
termination
  by (relation "measure nat") auto

declare bit_length.simps [simp del]

definition log2_ratio :: "int \<Rightarrow> int \<Rightarrow> int" where
  "log2_ratio a d =
     (let k = bit_length a - bit_length d
      in if (if 0 \<le> k then d * 2 ^ nat k \<le> a else d \<le> a * 2 ^ nat (- k)) then k else k - 1)"

text \<open>
  The \<open>float64\<close> nearest to \<open>a / d\<close> (for \<open>0 \<le> a\<close> and \<open>0 < d\<close>): a 53-bit significand,
  exponents down to \<open>-1074\<close>, ties to even; \<open>None\<close> when the result overflows.
\<close>

definition round_half_even :: "int \<Rightarrow> int \<Rightarrow> int" where
  "round_half_even n q =
     (let m = n div q; r = n mod q in if 2 * r > q \<or> (2 * r = q \<and> odd m) then m + 1 else m)"

definition round_ratio :: "int \<Rightarrow> int \<Rightarrow> rat option" where
  "round_ratio a d =
     (if a = 0 then Some 0
      else
        let e = max (log2_ratio a d - 52) (- 1074) in
        if e < 0 then Some (of_int (round_half_even (a * 2 ^ nat (- e)) d) / 2 ^ nat (- e))
        else let v = round_half_even a (d * 2 ^ nat e) * 2 ^ nat e
             in if v \<ge> 2 ^ 1024 then None else Some (of_int v))"

definition round_rat :: "rat \<Rightarrow> rat option" where
  "round_rat x =
     (let (p, q) = quotient_of x in
      map_option (\<lambda>v. if p < 0 then - v else v) (round_ratio \<bar>p\<bar> q))"

lemma round_half_even_nonneg: "0 \<le> n \<Longrightarrow> 0 < q \<Longrightarrow> 0 \<le> round_half_even n q"
  by (simp add: round_half_even_def Let_def pos_imp_zdiv_nonneg_iff)

lemma round_ratio_nonneg:
  assumes "0 \<le> a" "0 < d" "round_ratio a d = Some v"
  shows "0 \<le> v"
proof -
  have "0 \<le> round_half_even (a * 2 ^ n) d" "0 \<le> round_half_even a (d * 2 ^ n)" for n
    using assms by (simp_all add: round_half_even_nonneg)
  then show ?thesis
    using assms(3) by (auto simp: round_ratio_def Let_def split: if_splits)
qed

text \<open>Multiplication of two \<open>float64\<close> values.\<close>

definition round_float :: "rat \<Rightarrow> go_float" where
  "round_float x = (case round_rat x of Some v \<Rightarrow> Fin v | None \<Rightarrow> if 0 < x then PInf else NInf)"

fun fsign :: "go_float \<Rightarrow> int" where
  "fsign NaN = 0"
| "fsign PInf = 1"
| "fsign NInf = - 1"
| "fsign (Fin a) = (if 0 < a then 1 else if a < 0 then - 1 else 0)"

fun fmul :: "go_float \<Rightarrow> go_float \<Rightarrow> go_float" where
  "fmul (Fin a) (Fin b) = round_float (a * b)"
| "fmul NaN y = NaN"
| "fmul x NaN = NaN"
| "fmul x y = (if fsign x * fsign y = 0 then NaN else if 0 < fsign x * fsign y then PInf else NInf)"

section \<open>ParseFloat\<close>

definition lower :: "char \<Rightarrow> char" where
  "lower c =
     (let n = (of_char c :: nat) in if 65 \<le> n \<and> n \<le> 90 then char_of (n + 32) else c)"

definition hex_digit_of :: "char \<Rightarrow> int option" where
  "hex_digit_of c =
     (let n = of_char (lower c) in
      if 48 \<le> n \<and> n \<le> 57 then Some (n - 48)
      else if 97 \<le> n \<and> n \<le> 102 then Some (n - 87) else None)"

definition base_digit :: "bool \<Rightarrow> char \<Rightarrow> int option" where
  "base_digit hex c = (if hex then hex_digit_of c else digit_of c)"

text \<open>
  The mantissa scan of \<open>readFloat\<close>: digits, one point, underscores skipped. It yields whether a
  digit was seen, the digits' value, how many followed the point, and the rest of the text.
\<close>

fun scan_mant :: "bool \<Rightarrow> string \<Rightarrow> bool \<Rightarrow> bool \<Rightarrow> int \<Rightarrow> int \<Rightarrow> bool \<times> int \<times> int \<times> string" where
  "scan_mant hex [] sawdot sawdigits m f = (sawdigits, m, f, [])"
| "scan_mant hex (c # s) sawdot sawdigits m f =
     (if c = CHR ''_'' then scan_mant hex s sawdot sawdigits m f
      else if c = CHR ''.'' then
        (if sawdot then (sawdigits, m, f, c # s) else scan_mant hex s True sawdigits m f)
      else case base_digit hex c of
          Some d \<Rightarrow> scan_mant hex s sawdot True ((if hex then 16 else 10) * m + d)
                      (if sawdot then f + 1 else f)
        | None \<Rightarrow> (sawdigits, m, f, c # s))"

text \<open>The exponent digits, saturating as the source does; \<open>None\<close> on any other character.\<close>

fun scan_exp :: "string \<Rightarrow> int \<Rightarrow> int option" where
  "scan_exp [] e = Some e"
| "scan_exp (c # s) e =
     (if c = CHR ''_'' then scan_exp s e
      else case digit_of c of
          Some d \<Rightarrow> scan_exp s (if e < 10000 then e * 10 + d else e)
        | None \<Rightarrow> None)"

definition read_exp :: "string \<Rightarrow> int option" where
  "read_exp s =
     (let (neg, t) = (case s of
          [] \<Rightarrow> (False, [])
        | c # u \<Rightarrow> if c = CHR ''+'' then (False, u) else if c = CHR ''-'' then (True, u)
                  else (False, s))
      in case t of
          [] \<Rightarrow> None
        | c # _ \<Rightarrow> if digit_of c = None then None
                  else map_option (\<lambda>e. if neg then - e else e) (scan_exp t 0))"

text \<open>\<open>underscoreOK\<close>: underscores only between digits (a base prefix counts as one).\<close>

datatype prev_char = Start | Digit | Under | Other

fun underscore_scan :: "bool \<Rightarrow> string \<Rightarrow> prev_char \<Rightarrow> bool" where
  "underscore_scan hex [] i = (i \<noteq> Under)"
| "underscore_scan hex (c # s) i =
     (if base_digit hex c \<noteq> None then underscore_scan hex s Digit
      else if c = CHR ''_'' then (i = Digit \<and> underscore_scan hex s Under)
      else i \<noteq> Under \<and> underscore_scan hex s Other)"

definition drop_sign :: "string \<Rightarrow> bool \<times> string" where
  "drop_sign s = (case s of
       [] \<Rightarrow> (False, [])
     | c # t \<Rightarrow> if c = CHR ''+'' then (False, t) else if c = CHR ''-'' then (True, t)
               else (False, s))"

definition underscore_ok :: "string \<Rightarrow> bool" where
  "underscore_ok s =
     (let t = snd (drop_sign s) in
      case t of
        a # b # u \<Rightarrow>
          if a = CHR ''0'' \<and> lower b \<in> set ''box''
          then underscore_scan (lower b = CHR ''x'') u Digit
          else underscore_scan False t Start
      | _ \<Rightarrow> underscore_scan False t Start)"

text \<open>
  \<open>ParseFloat(s, 64)\<close>: \<open>None\<close> for its syntax error and its range error alike. \<open>inf\<close>,
  \<open>infinity\<close> (signed or not) and \<open>nan\<close> are accepted in any letter case.
\<close>

definition parse_special :: "string \<Rightarrow> go_float option" where
  "parse_special s =
     (let (neg, t) = drop_sign s; u = map lower t in
      if u = ''inf'' \<or> u = ''infinity'' then Some (if neg then NInf else PInf)
      else if map lower s = ''nan'' then Some NaN
      else None)"

definition float_value :: "bool \<Rightarrow> bool \<Rightarrow> int \<Rightarrow> int \<Rightarrow> int \<Rightarrow> go_float option" where
  "float_value neg hex m f e =
     (let e' = (if hex then e - 4 * f else e - f); b = (if hex then 2 else 10 :: int) in
      map_option (\<lambda>v. Fin (if neg then - v else v))
        (if m = 0 then Some 0
         else if 0 \<le> e' then round_ratio (m * b ^ nat e') 1
         else round_ratio m (b ^ nat (- e'))))"

definition read_float :: "string \<Rightarrow> go_float option" where
  "read_float s =
     (let (neg, t) = drop_sign s;
          hex = (case t of a # b # _ # _ \<Rightarrow> a = CHR ''0'' \<and> lower b = CHR ''x'' | _ \<Rightarrow> False);
          body = (if hex then drop 2 t else t);
          (sawdigits, m, f, rest) = scan_mant hex body False False 0 0
      in if \<not> sawdigits then None
         else case rest of
             [] \<Rightarrow> if hex \<or> \<not> underscore_ok s then None else float_value neg hex m f 0
           | c # ex \<Rightarrow>
               if lower c = (if hex then CHR ''p'' else CHR ''e'') then
                 (case read_exp ex of
                    None \<Rightarrow> None
                  | Some e \<Rightarrow> if \<not> underscore_ok s then None else float_value neg hex m f e)
               else None)"

definition parse_float :: "string \<Rightarrow> go_float option" where
  "parse_float s =
     (case parse_special s of Some v \<Rightarrow> Some v | None \<Rightarrow> read_float s)"

section \<open>ParseDuration\<close>

text \<open>A run of digits with the overflow limit of \<open>leadingInt\<close>; the rest of the text.\<close>

fun leading_int :: "string \<Rightarrow> int \<Rightarrow> (int \<times> string) option" where
  "leading_int [] x = Some (x, [])"
| "leading_int (c # s) x =
     (case digit_of c of
        None \<Rightarrow> Some (x, c # s)
      | Some d \<Rightarrow>
          if x > 2 ^ 63 div 10 then None
          else if 10 * x + d > 2 ^ 63 then None
          else leading_int s (10 * x + d))"

fun leading_fraction :: "string \<Rightarrow> int \<Rightarrow> int \<Rightarrow> bool \<Rightarrow> int \<times> int \<times> string" where
  "leading_fraction [] x scale overflow = (x, scale, [])"
| "leading_fraction (c # s) x scale overflow =
     (case digit_of c of
        None \<Rightarrow> (x, scale, c # s)
      | Some d \<Rightarrow>
          if overflow \<or> x > (2 ^ 63 - 1) div 10 \<or> 10 * x + d > 2 ^ 63
          then leading_fraction s x scale True
          else leading_fraction s (10 * x + d) (10 * scale) False)"

definition unit_ns :: "string \<Rightarrow> int option" where
  "unit_ns u = map_of
     [(''ns'', 1), (''us'', 1000), (CHR 0xC2 # CHR 0xB5 # ''s'', 1000),
      (CHR 0xCE # CHR 0xBC # ''s'', 1000), (''ms'', 1000000), (''s'', 1000000000),
      (''m'', 60000000000), (''h'', 3600000000000)] u"

definition is_unit_char :: "char \<Rightarrow> bool" where
  "is_unit_char c = (c \<noteq> CHR ''.'' \<and> digit_of c = None)"

text \<open>The fractional part, in \<open>float64\<close> arithmetic truncated to whole nanoseconds.\<close>

definition fraction_ns :: "int \<Rightarrow> int \<Rightarrow> int \<Rightarrow> int" where
  "fraction_ns f scale unit =
     (case (round_ratio f 1, round_ratio unit scale) of
        (Some a, Some b) \<Rightarrow> (case round_rat (a * b) of Some v \<Rightarrow> \<lfloor>v\<rfloor> | None \<Rightarrow> 0)
      | _ \<Rightarrow> 0)"

text \<open>One number with its unit; its nanoseconds and the rest of the text.\<close>

definition duration_item :: "string \<Rightarrow> (int \<times> string) option" where
  "duration_item s =
     (case s of [] \<Rightarrow> None
      | c # _ \<Rightarrow>
        if c \<noteq> CHR ''.'' \<and> digit_of c = None then None
        else case leading_int s 0 of
            None \<Rightarrow> None
          | Some (v, s1) \<Rightarrow>
            let pre = (length s1 \<noteq> length s);
                (f, scale, s2) = (case s1 of
                    d # t \<Rightarrow> if d = CHR ''.'' then leading_fraction t 0 1 False else (0, 1, s1)
                  | [] \<Rightarrow> (0, 1, s1));
                post = (case s1 of
                    d # t \<Rightarrow> d = CHR ''.'' \<and> length s2 \<noteq> length t
                  | [] \<Rightarrow> False);
                u = takeWhile is_unit_char s2;
                s3 = dropWhile is_unit_char s2
            in if \<not> pre \<and> \<not> post then None
               else if u = [] then None
               else case unit_ns u of
                   None \<Rightarrow> None
                 | Some unit \<Rightarrow>
                     if v > 2 ^ 63 div unit then None
                     else let w = v * unit + (if f > 0 then fraction_ns f scale unit else 0)
                          in if w > 2 ^ 63 then None else Some (w, s3))"

text \<open>The loop over the items; each consumes text, so the text's length is enough fuel.\<close>

fun duration_items :: "nat \<Rightarrow> string \<Rightarrow> int \<Rightarrow> int option" where
  "duration_items fuel [] d = Some d"
| "duration_items 0 (c # s) d = None"
| "duration_items (Suc fuel) (c # s) d =
     (case duration_item (c # s) of
        None \<Rightarrow> None
      | Some (v, s') \<Rightarrow> if d + v > 2 ^ 63 then None else duration_items fuel s' (d + v))"

definition parse_duration :: "string \<Rightarrow> int option" where
  "parse_duration s =
     (let (neg, t) = drop_sign s in
      if t = ''0'' then Some 0
      else if t = [] then None
      else case duration_items (length t) t 0 of
          None \<Rightarrow> None
        | Some d \<Rightarrow> if neg then Some (- d) else if d > 2 ^ 63 - 1 then None else Some d)"

section \<open>What the services read\<close>

lemma parse_float_nan [simp]: "parse_float ''nan'' = Some NaN"
  by (simp add: parse_float_def parse_special_def drop_sign_def lower_def)

end
