(* ===== verification/JobTypes.thy ===== *)
theory JobTypes
  imports GoFloat
begin

text \<open>
  The data the services exchange: the job specification and job record of \<open>job/job.go\<close>, the
  worker records of \<open>models/worker.go\<close> and the DRM key records of \<open>models/drm.go\<close>, each with
  its zero value (what Go's \<open>var x T\<close> holds). Go \<open>int\<close> and \<open>int64\<close> fields are \<open>int\<close>;
  where the code computes on them the wrap-around is written out with \<open>wrap64\<close>. A
  \<open>time.Time\<close> is its nanoseconds since the Unix epoch; \<open>zero_time\<close> is the zero \<open>Time\<close>,
  January 1 of year 1.
\<close>

section \<open>Time\<close>

type_synonym go_time = int

definition zero_time :: go_time where
  "zero_time = - 62135596800000000000"

text \<open>\<open>Time.UnixMilli\<close>: whole milliseconds, rounded down.\<close>

definition UnixMilli :: "go_time \<Rightarrow> int" where
  "UnixMilli t = t div 1000000"

lemma UnixMilli_mono: "s \<le> t \<Longrightarrow> UnixMilli s \<le> UnixMilli t"
  by (simp add: UnixMilli_def zdiv_mono1)

lemma UnixMilli_zero [simp]: "UnixMilli zero_time = - 62135596800000"
  by (simp add: UnixMilli_def zero_time_def)

section \<open>Job specification\<close>

record LiveVideoOutputSpec =
  vo_Codec :: string
  vo_Framerate :: go_float
  vo_Width :: int
  vo_Height :: int
  vo_Bitrate :: string
  vo_Max_bitrate :: string
  vo_Buf_size :: string
  vo_Preset :: string
  vo_Crf :: int
  vo_Threads :: int

record LiveAudioOutputSpec =
  ao_Codec :: string
  ao_Bitrate :: string

record DrmConfig =
  Disable_clear_key :: int
  Protection_system :: string
  Protection_scheme :: string

record ObjectDetectionConfig =
  Input_video_frame_rate :: go_float
  Input_video_resolution_height :: int
  Input_video_resolution_width :: int
  Input_video_bitrate :: string
  Input_video_max_bitrate :: string
  Input_video_buf_size :: string
  Encode_codec :: string
  Encode_preset :: string
  Encode_crf :: int

record s3OutputConfig =
  Bucket :: string

record LiveJobOutputSpec =
  Stream_type :: string
  Segment_format :: string
  Segment_duration :: int
  Fragment_duration :: int
  Low_latency_mode :: int
  Time_shift_buffer_depth :: int
  Drm :: DrmConfig
  Detection :: ObjectDetectionConfig
  S3_output :: s3OutputConfig
  Video_outputs :: "LiveVideoOutputSpec list"
  Audio_outputs :: "LiveAudioOutputSpec list"

record LiveJobInputSpec =
  in_Url :: string
  JobUdpPortBase :: int

record LiveJobSpec =
  Input :: LiveJobInputSpec
  Output :: LiveJobOutputSpec
  Api_test :: int

definition zero_DrmConfig :: DrmConfig where
  "zero_DrmConfig = \<lparr>Disable_clear_key = 0, Protection_system = [], Protection_scheme = []\<rparr>"

definition zero_Detection :: ObjectDetectionConfig where
  "zero_Detection = \<lparr>Input_video_frame_rate = Fin 0, Input_video_resolution_height = 0,
     Input_video_resolution_width = 0, Input_video_bitrate = [], Input_video_max_bitrate = [],
     Input_video_buf_size = [], Encode_codec = [], Encode_preset = [], Encode_crf = 0\<rparr>"

definition zero_Spec :: LiveJobSpec where
  "zero_Spec = \<lparr>Input = \<lparr>in_Url = [], JobUdpPortBase = 0\<rparr>,
     Output = \<lparr>Stream_type = [], Segment_format = [], Segment_duration = 0,
       Fragment_duration = 0, Low_latency_mode = 0, Time_shift_buffer_depth = 0,
       Drm = zero_DrmConfig, Detection = zero_Detection, S3_output = \<lparr>Bucket = []\<rparr>,
       Video_outputs = [], Audio_outputs = []\<rparr>,
     Api_test = 0\<rparr>"

section \<open>File names\<close>

definition DASH_MPD_FILE_NAME :: string where "DASH_MPD_FILE_NAME = ''master.mpd''"
definition HLS_MASTER_PLAYLIST_FILE_NAME :: string where
  "HLS_MASTER_PLAYLIST_FILE_NAME = ''master.m3u8''"
definition Input_json_file_name :: string where "Input_json_file_name = ''input_info.json''"

section \<open>DRM keys\<close>

record KeyInfo =
  Key_id :: string
  Key :: string
  ki_Content_id :: string
  ki_Time_created :: go_time

record CreateKeyRequest =
  ckr_Content_id :: string

record CreateKeyResponse =
  ckp_Key_id :: string
  ckp_Content_id :: string
  ckp_Time_created :: go_time

definition zero_KeyInfo :: KeyInfo where
  "zero_KeyInfo = \<lparr>Key_id = [], Key = [], ki_Content_id = [], ki_Time_created = zero_time\<rparr>"

text \<open>
  \<open>Random_16bytes_as_string\<close>: 16 bytes of the system's random source (the argument, or its
  failure), each printed with two lower-case hexadecimal digits.
\<close>

definition hex_char :: "int \<Rightarrow> char" where
  "hex_char d = (if d < 10 then char_of (48 + d) else char_of (87 + d))"

definition hex_byte :: "int \<Rightarrow> string" where
  "hex_byte b = [hex_char ((b mod 256) div 16), hex_char (b mod 16)]"

definition Random_16bytes_as_string :: "int list option \<Rightarrow> string option" where
  "Random_16bytes_as_string r = map_option (\<lambda>bs. concat (map hex_byte bs)) r"

section \<open>The life of a job\<close>

definition JOB_STATE_CREATED :: string where "JOB_STATE_CREATED = ''created''"
definition JOB_STATE_RUNNING :: string where "JOB_STATE_RUNNING = ''running''"
definition JOB_STATE_STREAMING :: string where "JOB_STATE_STREAMING = ''streaming''"
definition JOB_STATE_STOPPED :: string where "JOB_STATE_STOPPED = ''stopped''"

lemmas job_states = JOB_STATE_CREATED_def JOB_STATE_RUNNING_def JOB_STATE_STREAMING_def
  JOB_STATE_STOPPED_def

record LiveJob =
  lj_Id :: string
  lj_State :: string
  Time_last_worker_report_ms :: int
  lj_Ingress_bandwidth_kbps :: int
  lj_Transcoding_cpu_utilization :: string
  Total_bytes_ingested :: int
  Total_up_seconds :: int
  Total_active_seconds :: int
  Playback_url :: string
  RtmpIngestUrl :: string
  RtmpIngestPort :: int
  Input_info_url :: string
  Spec :: LiveJobSpec
  Job_validation_warnings :: string
  StreamKey :: string
  Time_created :: go_time
  Time_received_by_scheduler :: go_time
  Time_received_by_worker :: go_time
  Assigned_worker_id :: string
  DrmEncryptionKeyInfo :: KeyInfo
  Stop :: bool
  Delete :: bool

definition zero_LiveJob :: LiveJob where
  "zero_LiveJob = \<lparr>lj_Id = [], lj_State = [], Time_last_worker_report_ms = 0,
     lj_Ingress_bandwidth_kbps = 0, lj_Transcoding_cpu_utilization = [],
     Total_bytes_ingested = 0, Total_up_seconds = 0, Total_active_seconds = 0,
     Playback_url = [], RtmpIngestUrl = [], RtmpIngestPort = 0, Input_info_url = [],
     Spec = zero_Spec, Job_validation_warnings = [], StreamKey = [],
     Time_created = zero_time, Time_received_by_scheduler = zero_time,
     Time_received_by_worker = zero_time, Assigned_worker_id = [],
     DrmEncryptionKeyInfo = zero_KeyInfo, Stop = False, Delete = False\<rparr>"

section \<open>Workers\<close>

definition WORKER_STATE_IDLE :: string where "WORKER_STATE_IDLE = ''idle''"
definition WORKER_STATE_LOADED :: string where "WORKER_STATE_LOADED = ''loaded''"
definition WORKER_STATE_NOTAVAILABLE :: string where
  "WORKER_STATE_NOTAVAILABLE = ''notavailable''"

lemmas worker_states = WORKER_STATE_IDLE_def WORKER_STATE_LOADED_def
  WORKER_STATE_NOTAVAILABLE_def

record WorkerInfo =
  ServerIp :: string
  ServerPort :: string
  CpuCapacity :: int
  BandwidthCapacity :: int
  HeartbeatInterval :: string

record LiveWorker =
  lw_Id :: string
  Registered_at :: go_time
  lw_State :: string
  Info :: WorkerInfo
  LastHeartbeatTime :: go_time

record LiveJobStats =
  st_Id :: string
  st_Ingress_bandwidth_kbps :: int
  st_Transcoding_cpu_utilization :: string

record WorkerJobReport =
  WorkerId :: string
  StoppedJobs :: "string list"
  JobStatsReport :: "LiveJobStats list"

record JobLoad =
  jl_Id :: string
  jl_CpuLoad :: int
  jl_BandwidthLoad :: int

record WorkerLoad =
  wl_Id :: string
  Jobs :: "JobLoad list"
  CpuLoad :: int
  BandwidthLoad :: int

record WorkerHeartbeat =
  Worker_id :: string
  hb_LastHeartbeatTime :: go_time

definition zero_WorkerInfo :: WorkerInfo where
  "zero_WorkerInfo = \<lparr>ServerIp = [], ServerPort = [], CpuCapacity = 0,
     BandwidthCapacity = 0, HeartbeatInterval = []\<rparr>"

definition zero_LiveWorker :: LiveWorker where
  "zero_LiveWorker = \<lparr>lw_Id = [], Registered_at = zero_time, lw_State = [],
     Info = zero_WorkerInfo, LastHeartbeatTime = zero_time\<rparr>"

definition zero_WorkerLoad :: WorkerLoad where
  "zero_WorkerLoad = \<lparr>wl_Id = [], Jobs = [], CpuLoad = 0, BandwidthLoad = 0\<rparr>"

lemma zero_WorkerLoad_sel [simp]:
  "Jobs zero_WorkerLoad = []" "CpuLoad zero_WorkerLoad = 0"
  "BandwidthLoad zero_WorkerLoad = 0" "wl_Id zero_WorkerLoad = []"
  by (simp_all add: zero_WorkerLoad_def)

section \<open>Random keys\<close>

lemma Random_16bytes_length:
  "length bs = 16 \<Longrightarrow> Random_16bytes_as_string (Some bs) = Some s \<Longrightarrow> length s = 32"
  by (auto simp: Random_16bytes_as_string_def length_concat hex_byte_def o_def sum_list_triv)

end
