(* ===== verification/Redis.thy ===== *)
theory Redis
  imports JobTypes
begin

text \<open>
  \<open>redis_client/redis_client.go\<close> and the environment its callers share. Redis and the job
  queue (AWS SQS) are services outside the repository; what the code relies on is Redis'
  documented behaviour of hash tables, lists and variables.

  A stored text is represented by the value it encodes (\<open>rtext\<close>): \<open>TBad\<close> is a text
  \<open>json.Unmarshal\<close> rejects. The world also carries the scripts of what the environment will
  answer: whether the coming calls fail (\<open>w_faults\<close>, empty when all succeed), the readings of
  the clock, and the random draws. A failing write may have been applied (the reply was lost)
  or not (the request was lost).
\<close>

section \<open>Texts\<close>

datatype rtext = TJob LiveJob | TWorker LiveWorker | TLoad WorkerLoad | TKey KeyInfo
  | TInt int | TBad string

text \<open>
  \<open>json.Marshal\<close> fails on a float that is not a number and on a time outside the years 0 to
  9999; everything else the services store can be marshalled.
\<close>

definition json_float :: "go_float \<Rightarrow> bool" where
  "json_float x = (case x of Fin _ \<Rightarrow> True | _ \<Rightarrow> False)"

definition json_time :: "go_time \<Rightarrow> bool" where
  "json_time t = (- 62167219200000000000 \<le> t \<and> t < 253402300800000000000)"

definition json_spec :: "LiveJobSpec \<Rightarrow> bool" where
  "json_spec j = (json_float (Input_video_frame_rate (Detection (Output j))) \<and>
     list_all (\<lambda>vo. json_float (vo_Framerate vo)) (Video_outputs (Output j)))"

definition json_job :: "LiveJob \<Rightarrow> bool" where
  "json_job j = (json_spec (Spec j) \<and> json_time (Time_created j) \<and>
     json_time (Time_received_by_scheduler j) \<and> json_time (Time_received_by_worker j) \<and>
     json_time (ki_Time_created (DrmEncryptionKeyInfo j)))"

fun marshalable :: "rtext \<Rightarrow> bool" where
  "marshalable (TJob j) = json_job j"
| "marshalable (TWorker w) = (json_time (Registered_at w) \<and> json_time (LastHeartbeatTime w))"
| "marshalable (TLoad l) = True"
| "marshalable (TKey k) = json_time (ki_Time_created k)"
| "marshalable (TInt i) = True"
| "marshalable (TBad s) = True"

text \<open>
  \<open>json.Unmarshal\<close> into a fresh variable: fields are matched by name, so the text of another
  struct fills the fields the two have in common; a number or a bad text is an error.
\<close>

fun unmarshal_job :: "rtext \<Rightarrow> LiveJob option" where
  "unmarshal_job (TJob j) = Some j"
| "unmarshal_job (TWorker w) = Some (zero_LiveJob\<lparr>lj_Id := lw_Id w, lj_State := lw_State w\<rparr>)"
| "unmarshal_job (TLoad l) = Some (zero_LiveJob\<lparr>lj_Id := wl_Id l\<rparr>)"
| "unmarshal_job (TKey k) = Some (zero_LiveJob\<lparr>Time_created := ki_Time_created k\<rparr>)"
| "unmarshal_job (TInt i) = None"
| "unmarshal_job (TBad s) = None"

fun unmarshal_worker :: "rtext \<Rightarrow> LiveWorker option" where
  "unmarshal_worker (TWorker w) = Some w"
| "unmarshal_worker (TJob j) = Some (zero_LiveWorker\<lparr>lw_Id := lj_Id j, lw_State := lj_State j\<rparr>)"
| "unmarshal_worker (TLoad l) = Some (zero_LiveWorker\<lparr>lw_Id := wl_Id l\<rparr>)"
| "unmarshal_worker (TKey k) = Some zero_LiveWorker"
| "unmarshal_worker (TInt i) = None"
| "unmarshal_worker (TBad s) = None"

fun unmarshal_load :: "rtext \<Rightarrow> WorkerLoad option" where
  "unmarshal_load (TLoad l) = Some l"
| "unmarshal_load (TJob j) = Some (zero_WorkerLoad\<lparr>wl_Id := lj_Id j\<rparr>)"
| "unmarshal_load (TWorker w) = Some (zero_WorkerLoad\<lparr>wl_Id := lw_Id w\<rparr>)"
| "unmarshal_load (TKey k) = Some zero_WorkerLoad"
| "unmarshal_load (TInt i) = None"
| "unmarshal_load (TBad s) = None"

fun unmarshal_key :: "rtext \<Rightarrow> KeyInfo option" where
  "unmarshal_key (TKey k) = Some k"
| "unmarshal_key (TJob j) = Some (zero_KeyInfo\<lparr>ki_Time_created := Time_created j\<rparr>)"
| "unmarshal_key (TWorker w) = Some zero_KeyInfo"
| "unmarshal_key (TLoad l) = Some zero_KeyInfo"
| "unmarshal_key (TInt i) = None"
| "unmarshal_key (TBad s) = None"

section \<open>The world the services run in\<close>

datatype outcome = Done | LostRequest | LostReply

text \<open>
  A request the scheduler sends to a worker: method, URL and body (\<open>None\<close>: an empty body, sent
  when the job cannot be marshalled).
\<close>

record wreq =
  rq_method :: string
  rq_url :: string
  rq_job :: "LiveJob option"

record world =
  w_hash :: "string \<Rightarrow> (string \<times> rtext) list"
  w_list :: "string \<Rightarrow> rtext list"
  w_var :: "string \<Rightarrow> rtext option"
  w_sqs :: "rtext list"
  w_sent :: "wreq list"
  w_faults :: "outcome list"
  w_clock :: "go_time list"
  w_now :: go_time
  w_uuids :: "string list"
  w_random :: "int list option list"
  w_draws :: "nat list"

definition REDIS_KEY_ALLJOBS :: string where "REDIS_KEY_ALLJOBS = ''jobs''"
definition REDIS_KEY_ALLWORKERS :: string where "REDIS_KEY_ALLWORKERS = ''workers''"
definition REDIS_KEY_NUMWORKERS :: string where "REDIS_KEY_NUMWORKERS = ''num_workers''"
definition REDIS_KEY_SCHEDULER_QUEUED_JOBS :: string where
  "REDIS_KEY_SCHEDULER_QUEUED_JOBS = ''queued_jobs''"
definition REDIS_KEY_WORKER_LOADS :: string where "REDIS_KEY_WORKER_LOADS = ''worker_loads''"
definition REDIS_KEY_DRM_KEYS :: string where "REDIS_KEY_DRM_KEYS = ''drm_keys''"

lemmas redis_keys = REDIS_KEY_ALLJOBS_def REDIS_KEY_ALLWORKERS_def REDIS_KEY_NUMWORKERS_def
  REDIS_KEY_SCHEDULER_QUEUED_JOBS_def REDIS_KEY_WORKER_LOADS_def REDIS_KEY_DRM_KEYS_def

text \<open>The next entry of each script; an exhausted script answers as described above.\<close>

definition next_outcome :: "(world, outcome) state" where
  "next_outcome = act (\<lambda>w. case w_faults w of
       [] \<Rightarrow> (Done, w) | f # fs \<Rightarrow> (f, w\<lparr>w_faults := fs\<rparr>))"

text \<open>\<open>time.Now\<close>: the next reading of the clock, which stands still at the end of the script.\<close>

definition time_Now :: "(world, go_time) state" where
  "time_Now = act (\<lambda>w. case w_clock w of
       [] \<Rightarrow> (w_now w, w) | t # ts \<Rightarrow> (t, w\<lparr>w_clock := ts, w_now := t\<rparr>))"

definition uuid_New :: "(world, string) state" where
  "uuid_New = act (\<lambda>w. case w_uuids w of [] \<Rightarrow> ([], w) | u # us \<Rightarrow> (u, w\<lparr>w_uuids := us\<rparr>))"

definition rand_Read16 :: "(world, int list option) state" where
  "rand_Read16 = act (\<lambda>w. case w_random w of
       [] \<Rightarrow> (None, w) | r # rs \<Rightarrow> (r, w\<lparr>w_random := rs\<rparr>))"

text \<open>\<open>rand.Intn(n)\<close>: a draw below \<open>n\<close>.\<close>

definition rand_Intn :: "nat \<Rightarrow> (world, nat) state" where
  "rand_Intn n = act (\<lambda>w. case w_draws w of
       [] \<Rightarrow> (0, w) | d # ds \<Rightarrow> (d mod n, w\<lparr>w_draws := ds\<rparr>))"

section \<open>The Redis commands\<close>

text \<open>A Redis error is a text; a missing field is the client library's \<open>redis.Nil\<close>.\<close>

definition redis_Nil :: string where "redis_Nil = ''redis: nil''"
definition redis_failure :: string where "redis_failure = ''redis: connection failure''"
definition json_failure :: string where "json_failure = ''json: unsupported value''"

definition redis_write :: "(world \<Rightarrow> world) \<Rightarrow> (world, string option) state" where
  "redis_write f = do {
     r \<leftarrow> next_outcome;
     (if r = LostRequest then ret () else modify f);
     ret (if r = Done then None else Some redis_failure) }"

definition redis_read :: "(world \<Rightarrow> string + 'a) \<Rightarrow> (world, string + 'a) state" where
  "redis_read f = do {
     r \<leftarrow> next_outcome;
     if r = Done then gets f else ret (Inl redis_failure) }"

definition hput :: "string \<Rightarrow> string \<Rightarrow> rtext \<Rightarrow> world \<Rightarrow> world" where
  "hput t k v w = w\<lparr>w_hash := (w_hash w)(t := AList.update k v (w_hash w t))\<rparr>"

definition hdel :: "string \<Rightarrow> string \<Rightarrow> world \<Rightarrow> world" where
  "hdel t k w = w\<lparr>w_hash := (w_hash w)(t := AList.delete k (w_hash w t))\<rparr>"

definition hlookup :: "string \<Rightarrow> world \<Rightarrow> string \<Rightarrow> rtext option" where
  "hlookup t w k = map_of (w_hash w t) k"

definition lpush :: "string \<Rightarrow> rtext \<Rightarrow> world \<Rightarrow> world" where
  "lpush q v w = w\<lparr>w_list := (w_list w)(q := v # w_list w q)\<rparr>"

section \<open>The client's operations\<close>

definition HSetString :: "string \<Rightarrow> string \<Rightarrow> rtext \<Rightarrow> (world, string option) state" where
  "HSetString htable k v = redis_write (hput htable k v)"

definition HSetStruct :: "string \<Rightarrow> string \<Rightarrow> rtext \<Rightarrow> (world, string option) state" where
  "HSetStruct htable k v =
     (if \<not> marshalable v then ret (Some json_failure) else HSetString htable k v)"

definition HGet :: "string \<Rightarrow> string \<Rightarrow> (world, string + rtext) state" where
  "HGet htable k = redis_read (\<lambda>w.
     case hlookup htable w k of None \<Rightarrow> Inl redis_Nil | Some v \<Rightarrow> Inr v)"

definition HKeys :: "string \<Rightarrow> (world, string + string list) state" where
  "HKeys htable = redis_read (\<lambda>w. Inr (map fst (w_hash w htable)))"

definition HGetAll :: "string \<Rightarrow> (world, string + rtext list) state" where
  "HGetAll htable = do {
     r \<leftarrow> HKeys htable;
     case r of
       Inl e \<Rightarrow> ret (Inl e)
     | Inr allKeys \<Rightarrow> do {
         (err, allVals) \<leftarrow> collect allKeys (\<lambda>k. do {
            v \<leftarrow> HGet htable k;
            ret (case v of Inl e \<Rightarrow> Inl e | Inr x \<Rightarrow> Inr [x]) }) [];
         ret (case err of Some e \<Rightarrow> Inl e | None \<Rightarrow> Inr allVals) } }"

definition SetKVString :: "string \<Rightarrow> rtext \<Rightarrow> (world, string option) state" where
  "SetKVString k v = redis_write (\<lambda>w. w\<lparr>w_var := (w_var w)(k \<mapsto> v)\<rparr>)"

definition SetKVStruct :: "string \<Rightarrow> rtext \<Rightarrow> (world, string option) state" where
  "SetKVStruct k v =
     (if \<not> marshalable v then ret (Some json_failure) else SetKVString k v)"

definition GetKV :: "string \<Rightarrow> (world, string + rtext) state" where
  "GetKV k = redis_read (\<lambda>w. case w_var w k of None \<Rightarrow> Inl redis_Nil | Some v \<Rightarrow> Inr v)"

definition HDelOne :: "string \<Rightarrow> string \<Rightarrow> (world, string option) state" where
  "HDelOne htable k = redis_write (hdel htable k)"

fun HDel_loop :: "string \<Rightarrow> string list \<Rightarrow> string option \<Rightarrow> (world, string option) state" where
  "HDel_loop htable [] err = ret err"
| "HDel_loop htable (k # ks) err = do { e \<leftarrow> HDelOne htable k; HDel_loop htable ks e }"

definition HDelAll :: "string \<Rightarrow> (world, string option) state" where
  "HDelAll htable = do {
     r \<leftarrow> HKeys htable;
     case r of Inl e \<Rightarrow> ret (Some e) | Inr keys \<Rightarrow> HDel_loop htable keys None }"

definition QPushString :: "string \<Rightarrow> rtext \<Rightarrow> (world, string option) state" where
  "QPushString qname v = redis_write (lpush qname v)"

definition QPushStruct :: "string \<Rightarrow> rtext \<Rightarrow> (world, string option) state" where
  "QPushStruct qname v =
     (if \<not> marshalable v then ret (Some json_failure) else QPushString qname v)"

text \<open>
  \<open>LRANGE q -1 -1\<close> is the one element at the right end, or nothing: \<open>elements[0]\<close> then panics
  (\<open>None\<close>).
\<close>

definition QFront :: "string \<Rightarrow> (world, (string + rtext) option) state" where
  "QFront qname = do {
     r \<leftarrow> redis_read (\<lambda>w. Inr (if w_list w qname = [] then [] else [last (w_list w qname)]));
     ret (case r of
         Inl e \<Rightarrow> Some (Inl e)
       | Inr elements \<Rightarrow> (case elements of [] \<Rightarrow> None | x # _ \<Rightarrow> Some (Inr x))) }"

definition QPop :: "string \<Rightarrow> (world, string + rtext) state" where
  "QPop qname = do {
     r \<leftarrow> next_outcome;
     q \<leftarrow> gets (\<lambda>w. w_list w qname);
     (if r = LostRequest then ret () else modify (\<lambda>w. w\<lparr>w_list := (w_list w)(qname := butlast q)\<rparr>));
     ret (if r \<noteq> Done then Inl redis_failure else if q = [] then Inl redis_Nil else Inr (last q)) }"

text \<open>The length, \<open>-1\<close> together with an error.\<close>

definition QLen :: "string \<Rightarrow> (world, string option \<times> int) state" where
  "QLen qname = do {
     r \<leftarrow> redis_read (\<lambda>w. Inr (int (length (w_list w qname))));
     ret (case r of Inl e \<Rightarrow> (Some e, -1) | Inr n \<Rightarrow> (None, n)) }"

end
