(* ===== verification/Http.thy ===== *)
theory Http
  imports Redis
begin

text \<open>
  What the request handlers share: the request, the response writer, and how the last part of
  the URL path is found.

  A handler's result is the list of actions on its \<open>http.ResponseWriter\<close>. The status the
  client sees is that of the first \<open>WriteHeader\<close>, unless the body was written first (then
  200); a later \<open>WriteHeader\<close> is ignored by \<open>net/http\<close>. A body is represented by the value it
  encodes; decoding it as another type gives that type's zero value, since the request types
  share no field names. \<open>NoBody\<close> is a request whose \<open>Body\<close> is nil; \<open>BodyBad\<close> is a body
  that is not JSON of the expected shape (an empty one included).
\<close>

datatype http_body = NoBody | BodyBad
  | BodySpec LiveJobSpec | BodyJob LiveJob | BodyWorkerInfo WorkerInfo
  | BodyHeartbeat WorkerHeartbeat | BodyReport WorkerJobReport
  | BodyKeyRequest CreateKeyRequest | BodyFeed string

record http_request =
  r_Method :: string
  r_Path :: string
  r_Body :: http_body

datatype chunk = CText string | CJob LiveJob | CJobs "LiveJob list" | CWorker LiveWorker
  | CRaw "rtext list" | CHeartbeat WorkerHeartbeat | CKeyResponse CreateKeyResponse
  | CKeyInfo KeyInfo | CJobTable "(string \<times> LiveJob) list"

datatype wact = WriteHeader int | Write chunk

text \<open>
  What a request that a service itself makes comes to: no request (the URL does not parse), no
  reply, or a status and a body; \<open>None\<close> is a body that cannot be read, \<open>Some None\<close> one that is
  not JSON.
\<close>

datatype 'a web_reply = WebBadUrl | WebNoReply | WebReply int "'a option option"

text \<open>A status line, a line break, and the rest of an error page.\<close>

definition error_page :: "string \<Rightarrow> string \<Rightarrow> string \<Rightarrow> string" where
  "error_page status indent res = status @ [CHR 0x0A] @ indent @ ''Error: '' @ res"

definition http_Error :: "string \<Rightarrow> int \<Rightarrow> wact list" where
  "http_Error msg code = [WriteHeader code, Write (CText msg)]"

fun http_status :: "wact list \<Rightarrow> int" where
  "http_status [] = 200"
| "http_status (WriteHeader c # acts) = c"
| "http_status (Write b # acts) = 200"

lemma http_status_Error [simp]: "http_status (http_Error msg code @ acts) = code"
  "http_status (http_Error msg code) = code"
  by (simp_all add: http_Error_def)

text \<open>The handlers' \<open>UrlLastPart\<close>; \<open>None\<close> is the panic on a path without a slash.\<close>

definition UrlLastPart :: "string \<Rightarrow> string option" where
  "UrlLastPart path =
     (let posLastSingleSlash = str_last_index path ''/'' in
      case slice_from path (posLastSingleSlash + 1) of
        None \<Rightarrow> None
      | Some part \<Rightarrow>
          if part = [] then
            (case slice path 0 posLastSingleSlash of
               None \<Rightarrow> None
             | Some path_without_trailing_slash \<Rightarrow>
                 slice_from path_without_trailing_slash
                   (str_last_index path_without_trailing_slash ''/'' + 1))
          else Some part)"

fun decode_spec :: "http_body \<Rightarrow> LiveJobSpec option" where
  "decode_spec (BodySpec j) = Some j"
| "decode_spec NoBody = None"
| "decode_spec BodyBad = None"
| "decode_spec _ = Some zero_Spec"

fun decode_job :: "http_body \<Rightarrow> LiveJob option" where
  "decode_job (BodyJob j) = Some j"
| "decode_job NoBody = None"
| "decode_job BodyBad = None"
| "decode_job (BodyFeed u) = Some (zero_LiveJob\<lparr>RtmpIngestUrl := u\<rparr>)"
| "decode_job _ = Some zero_LiveJob"

fun decode_worker_info :: "http_body \<Rightarrow> WorkerInfo option" where
  "decode_worker_info (BodyWorkerInfo i) = Some i"
| "decode_worker_info NoBody = None"
| "decode_worker_info BodyBad = None"
| "decode_worker_info _ = Some zero_WorkerInfo"

fun decode_heartbeat :: "http_body \<Rightarrow> WorkerHeartbeat option" where
  "decode_heartbeat (BodyHeartbeat h) = Some h"
| "decode_heartbeat NoBody = None"
| "decode_heartbeat BodyBad = None"
| "decode_heartbeat _ = Some \<lparr>Worker_id = [], hb_LastHeartbeatTime = zero_time\<rparr>"

fun decode_report :: "http_body \<Rightarrow> WorkerJobReport option" where
  "decode_report (BodyReport r) = Some r"
| "decode_report NoBody = None"
| "decode_report BodyBad = None"
| "decode_report _ = Some \<lparr>WorkerId = [], StoppedJobs = [], JobStatsReport = []\<rparr>"

fun decode_key_request :: "http_body \<Rightarrow> CreateKeyRequest option" where
  "decode_key_request (BodyKeyRequest k) = Some k"
| "decode_key_request NoBody = None"
| "decode_key_request BodyBad = None"
| "decode_key_request _ = Some \<lparr>ckr_Content_id = []\<rparr>"

fun decode_feed :: "http_body \<Rightarrow> string option" where
  "decode_feed (BodyFeed u) = Some u"
| "decode_feed NoBody = None"
| "decode_feed BodyBad = None"
| "decode_feed (BodyJob j) = Some (RtmpIngestUrl j)"
| "decode_feed _ = Some []"

section \<open>Paths\<close>

text \<open>The last part is what follows the last slash, whether or not one more slash follows it.\<close>

lemma UrlLastPart_plain:
  assumes "CHR ''/'' \<notin> set part" "part \<noteq> []"
  shows "UrlLastPart (dir @ ''/'' @ part) = Some part"
proof -
  have "str_last_index (dir @ ''/'' @ part) ''/'' = int (length dir)"
    using str_last_index_char [OF assms(1), of dir] by simp
  moreover have "slice_from (dir @ ''/'' @ part) (int (length dir) + 1) = Some part"
    using slice_from_append [of "dir @ ''/''" part] by (simp add: add.commute)
  ultimately show ?thesis using assms(2) by (simp add: UrlLastPart_def)
qed

lemma UrlLastPart_trailing:
  assumes "CHR ''/'' \<notin> set part"
  shows "UrlLastPart (dir @ ''/'' @ part @ ''/'') = Some part"
proof -
  have "str_last_index (dir @ ''/'' @ part @ ''/'') ''/'' = int (length (dir @ ''/'' @ part))"
    using str_last_index_char [of "CHR ''/''" "[]" "dir @ ''/'' @ part"] by simp
  moreover have "slice_from (dir @ ''/'' @ part @ ''/'') (int (length (dir @ ''/'' @ part)) + 1) = Some []"
    using slice_from_append [of "dir @ ''/'' @ part @ ''/''" "[]"] by simp
  moreover have "slice (dir @ ''/'' @ part @ ''/'') 0 (int (length (dir @ ''/'' @ part)))
      = Some (dir @ ''/'' @ part)"
    using slice_append [of "[]" "dir @ ''/'' @ part" "''/''"] by simp
  moreover have "str_last_index (dir @ ''/'' @ part) ''/'' = int (length dir)"
    using str_last_index_char [OF assms, of dir] by simp
  moreover have "slice_from (dir @ ''/'' @ part) (int (length dir) + 1) = Some part"
    using slice_from_append [of "dir @ ''/''" part] by (simp add: add.commute)
  ultimately show ?thesis by (simp add: UrlLastPart_def)
qed

end
