(* ===== verification/Interfaces.thy ===== *)
theory Interfaces
  imports Prelude
begin

text \<open>
  The two interfaces the services rely on, with the lemmas their clients use, proved once:
  \<^item> \<open>field_store\<close>: a table of fields (a Redis hash table, a Go map): lookup, put, delete;
  \<^item> \<open>fifo_queue\<close>: a first-in first-out queue (a Redis list used with LPUSH and RPOP, a
    \<open>container/list\<close> used with PushBack and Front).
  Each provider's theory interprets them on its own operations.
\<close>

section \<open>Tables of fields\<close>

locale field_store =
  fixes lookup :: "'s \<Rightarrow> 'k \<Rightarrow> 'v option"
    and put :: "'k \<Rightarrow> 'v \<Rightarrow> 's \<Rightarrow> 's"
    and del :: "'k \<Rightarrow> 's \<Rightarrow> 's"
  assumes lookup_put: "lookup (put k v s) = (lookup s)(k \<mapsto> v)"
    and lookup_del: "lookup (del k s) = (lookup s)(k := None)"
begin

definition entries_ok :: "('k \<Rightarrow> 'v \<Rightarrow> bool) \<Rightarrow> 's \<Rightarrow> bool" where
  "entries_ok P s \<longleftrightarrow> (\<forall>k v. lookup s k = Some v \<longrightarrow> P k v)"

lemma entries_okD: "entries_ok P s \<Longrightarrow> lookup s k = Some v \<Longrightarrow> P k v"
  by (simp add: entries_ok_def)

lemma entries_ok_put: "entries_ok P s \<Longrightarrow> P k v \<Longrightarrow> entries_ok P (put k v s)"
  by (simp add: entries_ok_def lookup_put)

lemma entries_ok_del: "entries_ok P s \<Longrightarrow> entries_ok P (del k s)"
  by (simp add: entries_ok_def lookup_del)

lemma put_shadows: "lookup (put k v (put k u s)) = lookup (put k v s)"
  by (simp add: lookup_put)

lemma put_commutes: "k \<noteq> l \<Longrightarrow> lookup (put k v (put l u s)) = lookup (put l u (put k v s))"
  by (auto simp: lookup_put)

lemma del_put: "lookup (del k (put k v s)) = lookup (del k s)"
  by (simp add: lookup_put lookup_del)

end

section \<open>Queues\<close>

locale fifo_queue =
  fixes contents :: "'s \<Rightarrow> 'a list"
    and enq :: "'a \<Rightarrow> 's \<Rightarrow> 's"
    and front :: "'s \<Rightarrow> 'a option"
    and deq :: "'s \<Rightarrow> 's"
  assumes contents_enq: "contents (enq x s) = contents s @ [x]"
    and front_Nil: "contents s = [] \<Longrightarrow> front s = None"
    and front_Cons: "contents s = x # xs \<Longrightarrow> front s = Some x"
    and contents_deq: "contents (deq s) = tl (contents s)"
begin

lemma front_None_iff: "front s = None \<longleftrightarrow> contents s = []"
  by (cases "contents s") (auto simp: front_Nil front_Cons)

lemma front_deq: "front s = Some x \<Longrightarrow> contents s = x # contents (deq s)"
  by (cases "contents s") (auto simp: front_Nil front_Cons contents_deq)

lemma front_enq: "front s = Some x \<Longrightarrow> front (enq y s) = Some x"
  by (cases "contents s") (auto simp: front_Nil front_Cons contents_enq)

text \<open>Giving the front element back puts it behind every other one.\<close>

lemma contents_retry: "front s = Some x \<Longrightarrow> contents (enq x (deq s)) = rotate1 (contents s)"
  by (cases "contents s") (auto simp: front_Nil front_Cons contents_enq contents_deq)

text \<open>An element moves one place forward whenever the front leaves, retried or not.\<close>

lemma nth_deq: "Suc i < length (contents s) \<Longrightarrow> contents (deq s) ! i = contents s ! Suc i"
  by (simp add: contents_deq nth_tl)

lemma nth_retry:
  "Suc i < length (contents s) \<Longrightarrow> contents (enq y (deq s)) ! i = contents s ! Suc i"
  by (auto simp: contents_enq contents_deq nth_append nth_tl)

end

end
