(* ===== verification/RedisSpec.thy ===== *)
theory RedisSpec
  imports Redis Interfaces
begin

text \<open>
  How the Redis client behaves: the interpretations of the table and queue interfaces, what each
  operation does when no call fails (\<open>run_simps\<close>), and which invariants each operation keeps
  whatever fails (\<open>keeps_intros\<close>).
\<close>

section \<open>Tables and queues\<close>

lemma hlookup_hput: "hlookup t (hput t k v w) = (hlookup t w)(k \<mapsto> v)"
  by (rule ext) (simp add: hlookup_def hput_def)

lemma hlookup_hdel: "hlookup t (hdel t k w) = (hlookup t w)(k := None)"
  by (rule ext) (simp add: hlookup_def hdel_def)

lemma hlookup_other [simp]:
  "t \<noteq> t' \<Longrightarrow> hlookup t (hput t' k v w) = hlookup t w"
  "t \<noteq> t' \<Longrightarrow> hlookup t (hdel t' k w) = hlookup t w"
  by (auto simp: hlookup_def hput_def hdel_def)

interpretation tbl: field_store "hlookup t" "hput t" "hdel t" for t
  by unfold_locales (rule hlookup_hput hlookup_hdel)+

definition queue_contents :: "string \<Rightarrow> world \<Rightarrow> rtext list" where
  "queue_contents q w = rev (w_list w q)"

definition queue_front :: "string \<Rightarrow> world \<Rightarrow> rtext option" where
  "queue_front q w = (if w_list w q = [] then None else Some (last (w_list w q)))"

definition rpop :: "string \<Rightarrow> world \<Rightarrow> world" where
  "rpop q w = w\<lparr>w_list := (w_list w)(q := butlast (w_list w q))\<rparr>"

lemma rev_ConsD: "rev xs = y # ys \<Longrightarrow> xs = rev ys @ [y]"
  by (metis rev.simps(2) rev_rev_ident)

lemma rev_butlast: "rev (butlast xs) = tl (rev xs)"
  by (cases xs rule: rev_cases) auto

interpretation rq: fifo_queue "queue_contents q" "lpush q" "queue_front q" "rpop q" for q
  by unfold_locales
    (auto simp: queue_contents_def queue_front_def lpush_def rpop_def rev_butlast
      dest: rev_ConsD)

text \<open>What leaves what alone.\<close>

lemma world_frame [simp]:
  "w_list (hput t k v w) = w_list w" "w_list (hdel t k w) = w_list w"
  "w_sqs (hput t k v w) = w_sqs w" "w_sqs (hdel t k w) = w_sqs w" "w_sqs (lpush q v w) = w_sqs w"
  "w_sqs (rpop q w) = w_sqs w"
  "w_sent (hput t k v w) = w_sent w" "w_sent (hdel t k w) = w_sent w"
  "w_sent (lpush q v w) = w_sent w" "w_sent (rpop q w) = w_sent w"
  "w_faults (hput t k v w) = w_faults w" "w_faults (hdel t k w) = w_faults w"
  "w_faults (lpush q v w) = w_faults w" "w_faults (rpop q w) = w_faults w"
  "w_hash (lpush q v w) = w_hash w" "w_hash (rpop q w) = w_hash w"
  "w_clock (hput t k v w) = w_clock w" "w_now (hput t k v w) = w_now w"
  "w_uuids (hput t k v w) = w_uuids w" "w_random (hput t k v w) = w_random w"
  "w_clock (lpush q v w) = w_clock w" "w_clock (rpop q w) = w_clock w"
  "w_now (lpush q v w) = w_now w" "w_now (rpop q w) = w_now w"
  "w_draws (hput t k v w) = w_draws w" "w_draws (lpush q v w) = w_draws w"
  "w_draws (rpop q w) = w_draws w" "w_var (hput t k v w) = w_var w"
  by (simp_all add: hput_def hdel_def lpush_def rpop_def)

lemma hlookup_frame [simp]:
  "hlookup t (w\<lparr>w_list := x1\<rparr>) = hlookup t w" "hlookup t (w\<lparr>w_sqs := x2\<rparr>) = hlookup t w"
  "hlookup t (w\<lparr>w_sent := x3\<rparr>) = hlookup t w" "hlookup t (w\<lparr>w_faults := x4\<rparr>) = hlookup t w"
  "hlookup t (w\<lparr>w_clock := x5\<rparr>) = hlookup t w" "hlookup t (w\<lparr>w_now := x6\<rparr>) = hlookup t w"
  "hlookup t (w\<lparr>w_uuids := x7\<rparr>) = hlookup t w" "hlookup t (w\<lparr>w_random := x8\<rparr>) = hlookup t w"
  "hlookup t (w\<lparr>w_draws := x9\<rparr>) = hlookup t w" "hlookup t (w\<lparr>w_var := x10\<rparr>) = hlookup t w"
  "hlookup t (lpush q v w) = hlookup t w" "hlookup t (rpop q w) = hlookup t w"
  by (simp_all add: hlookup_def lpush_def rpop_def fun_eq_iff)

lemma queue_contents_frame [simp]:
  "queue_contents q (w\<lparr>w_hash := x1\<rparr>) = queue_contents q w"
  "queue_contents q (w\<lparr>w_sqs := x2\<rparr>) = queue_contents q w"
  "queue_contents q (w\<lparr>w_sent := x3\<rparr>) = queue_contents q w"
  "queue_contents q (w\<lparr>w_faults := x4\<rparr>) = queue_contents q w"
  "queue_contents q (w\<lparr>w_clock := x5\<rparr>) = queue_contents q w"
  "queue_contents q (w\<lparr>w_now := x6\<rparr>) = queue_contents q w"
  "queue_contents q (w\<lparr>w_uuids := x7\<rparr>) = queue_contents q w"
  "queue_contents q (w\<lparr>w_random := x8\<rparr>) = queue_contents q w"
  "queue_contents q (w\<lparr>w_draws := x9\<rparr>) = queue_contents q w"
  "queue_contents q (w\<lparr>w_var := x10\<rparr>) = queue_contents q w"
  "queue_contents q (hput t k v w) = queue_contents q w"
  "queue_contents q (hdel t k w) = queue_contents q w"
  by (simp_all add: queue_contents_def)

lemma queue_contents_lpush [simp]:
  "queue_contents q (lpush q v w) = queue_contents q w @ [v]"
  by (rule rq.contents_enq)

lemma queue_contents_rpop [simp]:
  "queue_contents q (rpop q w) = tl (queue_contents q w)"
  by (rule rq.contents_deq)

section \<open>Runs without failures\<close>

text \<open>No coming call fails.\<close>

definition quiet :: "world \<Rightarrow> bool" where
  "quiet w \<longleftrightarrow> w_faults w = []"

lemma quiet_frame [simp]:
  "quiet (hput t k v w) = quiet w" "quiet (hdel t k w) = quiet w"
  "quiet (lpush q v w) = quiet w" "quiet (rpop q w) = quiet w"
  "quiet (w\<lparr>w_clock := x5\<rparr>) = quiet w" "quiet (w\<lparr>w_now := x6\<rparr>) = quiet w"
  "quiet (w\<lparr>w_uuids := x7\<rparr>) = quiet w" "quiet (w\<lparr>w_random := x8\<rparr>) = quiet w"
  "quiet (w\<lparr>w_draws := x9\<rparr>) = quiet w" "quiet (w\<lparr>w_sqs := x2\<rparr>) = quiet w"
  "quiet (w\<lparr>w_sent := x3\<rparr>) = quiet w"
  by (simp_all add: quiet_def)

lemma run_next_outcome [run_simps]: "quiet w \<Longrightarrow> run_state next_outcome w = (Done, w)"
  by (simp add: next_outcome_def quiet_def)

lemma run_redis_write [run_simps]: "quiet w \<Longrightarrow> run_state (redis_write f) w = (None, f w)"
  by (simp add: redis_write_def run_next_outcome)

lemma run_redis_read [run_simps]: "quiet w \<Longrightarrow> run_state (redis_read f) w = (f w, w)"
  by (simp add: redis_read_def run_next_outcome)

lemma run_HGet [run_simps]:
  "quiet w \<Longrightarrow> run_state (HGet t k) w =
     (case hlookup t w k of None \<Rightarrow> Inl redis_Nil | Some v \<Rightarrow> Inr v, w)"
  by (simp add: HGet_def run_redis_read)

lemma run_HSetStruct [run_simps]:
  "quiet w \<Longrightarrow> run_state (HSetStruct t k v) w =
     (if marshalable v then (None, hput t k v w) else (Some json_failure, w))"
  by (simp add: HSetStruct_def HSetString_def run_redis_write)

lemma run_HDelOne [run_simps]: "quiet w \<Longrightarrow> run_state (HDelOne t k) w = (None, hdel t k w)"
  by (simp add: HDelOne_def run_redis_write)

lemma run_HKeys [run_simps]:
  "quiet w \<Longrightarrow> run_state (HKeys t) w = (Inr (map fst (w_hash w t)), w)"
  by (simp add: HKeys_def run_redis_read)

lemma run_QPushStruct [run_simps]:
  "quiet w \<Longrightarrow> run_state (QPushStruct q v) w =
     (if marshalable v then (None, lpush q v w) else (Some json_failure, w))"
  by (simp add: QPushStruct_def QPushString_def run_redis_write)

lemma run_QLen [run_simps]:
  "quiet w \<Longrightarrow> run_state (QLen q) w = ((None, int (length (queue_contents q w))), w)"
  by (simp add: QLen_def run_redis_read queue_contents_def)

lemma run_QFront [run_simps]:
  "quiet w \<Longrightarrow> run_state (QFront q) w = (map_option Inr (queue_front q w), w)"
  by (simp add: QFront_def run_redis_read queue_front_def)

lemma run_QPop [run_simps]:
  "quiet w \<Longrightarrow> run_state (QPop q) w =
     (case queue_front q w of None \<Rightarrow> Inl redis_Nil | Some x \<Rightarrow> Inr x, rpop q w)"
  by (simp add: QPop_def run_next_outcome rpop_def queue_front_def)

lemma run_HGet_loop:
  assumes "quiet w" and "\<And>k. k \<in> set ks \<Longrightarrow> hlookup t w k \<noteq> None"
  shows "run_state (collect ks (\<lambda>k. do {
            v \<leftarrow> HGet t k;
            ret (case v of Inl e \<Rightarrow> Inl e | Inr x \<Rightarrow> Inr [x]) }) acc) w
     = ((None, acc @ map (\<lambda>k. the (hlookup t w k)) ks), w)"
  using assms
proof (induction ks arbitrary: acc)
  case (Cons k ks)
  then obtain v where "hlookup t w k = Some v" by fastforce
  with Cons show ?case by (simp add: run_HGet)
qed simp

text \<open>HGETALL reads every field of the table, each once.\<close>

lemma hlookup_keys: "k \<in> set (map fst (w_hash w t)) \<Longrightarrow> hlookup t w k \<noteq> None"
  by (simp add: hlookup_def map_of_eq_None_iff)

lemma run_HGetAll [run_simps]:
  assumes "quiet w"
  shows "run_state (HGetAll t) w =
     (Inr (map (\<lambda>k. the (hlookup t w k)) (map fst (w_hash w t))), w)"
proof -
  have "run_state (collect (map fst (w_hash w t)) (\<lambda>k. do {
            v \<leftarrow> HGet t k;
            ret (case v of Inl e \<Rightarrow> Inl e | Inr x \<Rightarrow> Inr [x]) }) []) w
     = ((None, map (\<lambda>k. the (hlookup t w k)) (map fst (w_hash w t))), w)"
    by (simp only: run_HGet_loop [OF assms hlookup_keys] append_Nil)
  then show ?thesis using assms by (simp add: HGetAll_def run_HKeys)
qed

section \<open>Invariants of the store, whatever fails\<close>

text \<open>
  An invariant of the stored data: it does not look at the environment's scripts.
\<close>

definition data_inv :: "(world \<Rightarrow> bool) \<Rightarrow> bool" where
  "data_inv I \<longleftrightarrow>
     (\<forall>w f. I (w\<lparr>w_faults := f\<rparr>) = I w) \<and> (\<forall>w c n. I (w\<lparr>w_clock := c, w_now := n\<rparr>) = I w) \<and>
     (\<forall>w u. I (w\<lparr>w_uuids := u\<rparr>) = I w) \<and> (\<forall>w r. I (w\<lparr>w_random := r\<rparr>) = I w) \<and>
     (\<forall>w d. I (w\<lparr>w_draws := d\<rparr>) = I w)"

lemma keeps_next_outcome [keeps_intros]: "data_inv I \<Longrightarrow> keeps I next_outcome"
  by (auto simp: keeps_def next_outcome_def data_inv_def split: list.splits)

lemma keeps_time_Now [keeps_intros]: "data_inv I \<Longrightarrow> keeps I time_Now"
  by (auto simp: keeps_def time_Now_def data_inv_def split: list.splits)

lemma keeps_uuid_New [keeps_intros]: "data_inv I \<Longrightarrow> keeps I uuid_New"
  by (auto simp: keeps_def uuid_New_def data_inv_def split: list.splits)

lemma keeps_rand_Read16 [keeps_intros]: "data_inv I \<Longrightarrow> keeps I rand_Read16"
  by (auto simp: keeps_def rand_Read16_def data_inv_def split: list.splits)

lemma keeps_rand_Intn [keeps_intros]: "data_inv I \<Longrightarrow> keeps I (rand_Intn n)"
  by (auto simp: keeps_def rand_Intn_def data_inv_def split: list.splits)

lemma keeps_redis_read [keeps_intros]: "data_inv I \<Longrightarrow> keeps I (redis_read f)"
  unfolding redis_read_def by (intro keeps_intros)

lemma keeps_modify: "(\<And>w. I w \<Longrightarrow> I (f w)) \<Longrightarrow> keeps I (modify f)"
  by (simp add: keeps_def)

lemma keeps_redis_write:
  "data_inv I \<Longrightarrow> (\<And>w. I w \<Longrightarrow> I (f w)) \<Longrightarrow> keeps I (redis_write f)"
  unfolding redis_write_def by (intro keeps_intros keeps_modify) auto

lemma keeps_HGet [keeps_intros]: "data_inv I \<Longrightarrow> keeps I (HGet t k)"
  unfolding HGet_def by (intro keeps_intros)

lemma keeps_HKeys [keeps_intros]: "data_inv I \<Longrightarrow> keeps I (HKeys t)"
  unfolding HKeys_def by (intro keeps_intros)

lemma keeps_HGetAll [keeps_intros]: "data_inv I \<Longrightarrow> keeps I (HGetAll t)"
  unfolding HGetAll_def by (intro keeps_intros)

lemma keeps_QLen [keeps_intros]: "data_inv I \<Longrightarrow> keeps I (QLen q)"
  unfolding QLen_def by (intro keeps_intros)

lemma keeps_QFront [keeps_intros]: "data_inv I \<Longrightarrow> keeps I (QFront q)"
  unfolding QFront_def by (intro keeps_intros)

lemma keeps_HSetStruct:
  "data_inv I \<Longrightarrow> (\<And>w. I w \<Longrightarrow> marshalable v \<Longrightarrow> I (hput t k v w)) \<Longrightarrow> keeps I (HSetStruct t k v)"
  unfolding HSetStruct_def HSetString_def by (auto intro!: keeps_intros keeps_redis_write)

lemma keeps_HDelOne:
  "data_inv I \<Longrightarrow> (\<And>w. I w \<Longrightarrow> I (hdel t k w)) \<Longrightarrow> keeps I (HDelOne t k)"
  unfolding HDelOne_def by (rule keeps_redis_write)

lemma keeps_QPushStruct:
  "data_inv I \<Longrightarrow> (\<And>w. I w \<Longrightarrow> marshalable v \<Longrightarrow> I (lpush q v w)) \<Longrightarrow> keeps I (QPushStruct q v)"
  unfolding QPushStruct_def QPushString_def by (auto intro!: keeps_intros keeps_redis_write)

lemma QPop_alt:
  "QPop q = do {
     r \<leftarrow> next_outcome;
     l \<leftarrow> gets (\<lambda>w. w_list w q);
     (if r = LostRequest then ret () else modify (rpop q));
     ret (if r \<noteq> Done then Inl redis_failure else if l = [] then Inl redis_Nil else Inr (last l)) }"
  by (rule state_ext) (simp add: QPop_def rpop_def split: prod.splits)

lemma keeps_QPop:
  "data_inv I \<Longrightarrow> (\<And>w. I w \<Longrightarrow> I (rpop q w)) \<Longrightarrow> keeps I (QPop q)"
  unfolding QPop_alt by (intro keeps_intros keeps_modify) auto

end
