(* ===== verification/Scheduler.thy ===== *)
theory Scheduler
  imports RedisSpec Http
begin

text \<open>
  \<open>scheduler/scheduler.go\<close>: the job scheduler. It moves jobs from the SQS queue to the Redis
  list of pending jobs, assigns the job at its front to a worker on each timer tick, keeps the
  workers' load records, and handles the workers' registrations, heartbeats and job reports.

  The worker a job is sent to is outside the scheduler: what it answers to a request is the
  argument \<open>reply\<close>.
\<close>

definition max_missing_heartbeats_before_suspension :: int where
  "max_missing_heartbeats_before_suspension = 3"
definition max_missing_heartbeats_before_removal :: int where
  "max_missing_heartbeats_before_removal = 10"
definition ingest_bandwidth_threshold_kbps :: int where
  "ingest_bandwidth_threshold_kbps = 10"
definition sqs_poll_interval_multiplier :: int where "sqs_poll_interval_multiplier = 2"
definition check_worker_heartbeat_interval_multiplier :: int where
  "check_worker_heartbeat_interval_multiplier = 25"

datatype http_reply = BadUrl | NoReply | Reply int "rtext option"

section \<open>Records in Redis\<close>

definition sched_createUpdateJob :: "LiveJob \<Rightarrow> (world, string option) state" where
  "sched_createUpdateJob j = HSetStruct REDIS_KEY_ALLJOBS (lj_Id j) (TJob j)"

definition sched_getJobById :: "string \<Rightarrow> (world, LiveJob option) state" where
  "sched_getJobById jid = do {
     v \<leftarrow> HGet REDIS_KEY_ALLJOBS jid;
     ret (case v of Inl e \<Rightarrow> None | Inr t \<Rightarrow> unmarshal_job t) }"

definition createUpdateWorker :: "LiveWorker \<Rightarrow> (world, string option) state" where
  "createUpdateWorker w = HSetStruct REDIS_KEY_ALLWORKERS (lw_Id w) (TWorker w)"

definition getWorkerById :: "string \<Rightarrow> (world, LiveWorker option) state" where
  "getWorkerById wid = do {
     v \<leftarrow> HGet REDIS_KEY_ALLWORKERS wid;
     ret (case v of Inl e \<Rightarrow> None | Inr t \<Rightarrow> unmarshal_worker t) }"

definition createWorker :: "WorkerInfo \<Rightarrow> (world, string option \<times> string) state" where
  "createWorker wkr = do {
     uuid \<leftarrow> uuid_New;
     registered \<leftarrow> time_Now;
     heartbeat \<leftarrow> time_Now;
     let w = zero_LiveWorker\<lparr>lw_Id := uuid, Registered_at := registered, Info := wkr,
       lw_State := WORKER_STATE_IDLE, LastHeartbeatTime := heartbeat\<rparr>;
     e \<leftarrow> createUpdateWorker w;
     (if e \<noteq> None then ret (e, [])
      else do {
        w2 \<leftarrow> getWorkerById (lw_Id w);
        case w2 of None \<Rightarrow> ret (e, []) | Some w2 \<Rightarrow> ret (None, lw_Id w2) }) }"

definition removeWorker :: "string \<Rightarrow> (world, string option \<times> string) state" where
  "removeWorker wid = do { err \<leftarrow> HDelOne REDIS_KEY_ALLWORKERS wid; ret (err, wid) }"

definition getAllWorkerIds :: "(world, string + string list) state" where
  "getAllWorkerIds = HKeys REDIS_KEY_ALLWORKERS"

text \<open>An error of HKEYS is only logged: the loop then runs over no worker.\<close>

definition getAllWorkers :: "(world, string option \<times> rtext list) state" where
  "getAllWorkers = do {
     r \<leftarrow> HKeys REDIS_KEY_ALLWORKERS;
     collect (case r of Inl e \<Rightarrow> [] | Inr wids \<Rightarrow> wids) (\<lambda>wid. do {
       w \<leftarrow> HGet REDIS_KEY_ALLWORKERS wid;
       ret (case w of Inl e \<Rightarrow> Inl e | Inr t \<Rightarrow> Inr [t]) }) [] }"

definition getAllAvailableWorkers :: "(world, string option \<times> LiveWorker list) state" where
  "getAllAvailableWorkers = do {
     r \<leftarrow> HKeys REDIS_KEY_ALLWORKERS;
     collect (case r of Inl e \<Rightarrow> [] | Inr wids \<Rightarrow> wids) (\<lambda>wid. do {
       w \<leftarrow> HGet REDIS_KEY_ALLWORKERS wid;
       ret (case w of
           Inl e \<Rightarrow> Inl e
         | Inr t \<Rightarrow> (case unmarshal_worker t of
               None \<Rightarrow> Inl json_failure
             | Some worker \<Rightarrow>
                 Inr (if lw_State worker = WORKER_STATE_IDLE \<or> lw_State worker = WORKER_STATE_LOADED
                      then [worker] else []))) }) [] }"

definition updateNumWorkers :: "int \<Rightarrow> (world, string option) state" where
  "updateNumWorkers n = SetKVStruct REDIS_KEY_NUMWORKERS (TInt n)"

definition getNumWorkers :: "(world, int) state" where
  "getNumWorkers = do {
     n \<leftarrow> GetKV REDIS_KEY_NUMWORKERS;
     ret (case n of
         Inl e \<Rightarrow> -1
       | Inr t \<Rightarrow> (case t of
             TInt i \<Rightarrow> i
           | TBad s \<Rightarrow> (case parse_int s of None \<Rightarrow> -1 | Some i \<Rightarrow> i)
           | _ \<Rightarrow> -1)) }"

section \<open>The pending-job queue\<close>

definition bufferJob :: "LiveJob \<Rightarrow> (world, string option) state" where
  "bufferJob j = QPushStruct REDIS_KEY_SCHEDULER_QUEUED_JOBS (TJob j)"

definition popBufferedJob :: "(world, string + rtext) state" where
  "popBufferedJob = QPop REDIS_KEY_SCHEDULER_QUEUED_JOBS"

definition getJobBufferFront :: "(world, (string + rtext) option) state" where
  "getJobBufferFront = QFront REDIS_KEY_SCHEDULER_QUEUED_JOBS"

definition getBufferedJobCount :: "(world, int) state" where
  "getBufferedJobCount = do {
     (err, count) \<leftarrow> QLen REDIS_KEY_SCHEDULER_QUEUED_JOBS;
     ret count }"

section \<open>Assignment\<close>

definition randomAssign :: "LiveJob \<Rightarrow> (world, string option) state" where
  "randomAssign j = do {
     (err, workers) \<leftarrow> getAllAvailableWorkers;
     if err \<noteq> None then ret None
     else if length workers = 0 then ret None
     else do {
       rn \<leftarrow> rand_Intn (length workers);
       ret (Some (foldl (\<lambda>r (i, w). if i = rn then lw_Id w else r) [] (enumerate 0 workers))) } }"

definition assignWorker :: "LiveJob \<Rightarrow> (world, string option) state" where
  "assignWorker j = do {
     wid \<leftarrow> randomAssign j;
     case wid of None \<Rightarrow> ret None | Some wid \<Rightarrow> ret (Some wid) }"

section \<open>Worker load\<close>

definition estimateJobLoad :: "LiveJob \<Rightarrow> int \<times> int" where
  "estimateJobLoad j = (1000, 20000)"

text \<open>The empty string (\<open>None\<close>) when the load cannot be read, for whatever reason.\<close>

definition getWorkerLoadById :: "string \<Rightarrow> (world, rtext option) state" where
  "getWorkerLoadById wid = do {
     v \<leftarrow> HGet REDIS_KEY_WORKER_LOADS wid;
     ret (case v of Inl e \<Rightarrow> None | Inr t \<Rightarrow> Some t) }"

definition createUpdateWorkerLoad :: "string \<Rightarrow> WorkerLoad \<Rightarrow> (world, string option) state" where
  "createUpdateWorkerLoad wid load = HSetStruct REDIS_KEY_WORKER_LOADS wid (TLoad load)"

definition add_load :: "string \<Rightarrow> JobLoad \<Rightarrow> WorkerLoad \<Rightarrow> WorkerLoad" where
  "add_load wid j_load w_load =
     w_load\<lparr>wl_Id := wid,
       CpuLoad := wrap64 (CpuLoad w_load + jl_CpuLoad j_load),
       BandwidthLoad := wrap64 (BandwidthLoad w_load + jl_BandwidthLoad j_load),
       Jobs := Jobs w_load @ [j_load]\<rparr>"

definition addNewJobLoad :: "LiveWorker \<Rightarrow> LiveJob \<Rightarrow> (world, string option) state" where
  "addNewJobLoad w j = do {
     v \<leftarrow> getWorkerLoadById (lw_Id w);
     case (case v of None \<Rightarrow> Some zero_WorkerLoad | Some t \<Rightarrow> unmarshal_load t) of
       None \<Rightarrow> ret (Some json_failure)
     | Some w_load \<Rightarrow> do {
         let (cpu, bandwidth) = estimateJobLoad j;
         let j_load = \<lparr>jl_Id = lj_Id j, jl_CpuLoad = cpu, jl_BandwidthLoad = bandwidth\<rparr>;
         createUpdateWorkerLoad (lw_Id w) (add_load (lw_Id w) j_load w_load);
         createUpdateWorker (w\<lparr>lw_State := WORKER_STATE_LOADED\<rparr>) } }"

text \<open>The first load entry of a job, found by the source's loop.\<close>

fun find_job_load :: "string \<Rightarrow> JobLoad list \<Rightarrow> nat option" where
  "find_job_load jid [] = None"
| "find_job_load jid (j # js) =
     (if jl_Id j = jid then Some 0 else map_option Suc (find_job_load jid js))"

definition drop_load :: "nat \<Rightarrow> WorkerLoad \<Rightarrow> WorkerLoad" where
  "drop_load i w_load =
     (let j_load = Jobs w_load ! i in
      w_load\<lparr>CpuLoad := wrap64 (CpuLoad w_load - jl_CpuLoad j_load),
        BandwidthLoad := wrap64 (BandwidthLoad w_load - jl_BandwidthLoad j_load),
        Jobs := take i (Jobs w_load) @ drop (Suc i) (Jobs w_load)\<rparr>)"

definition updateWorkerLoad :: "string \<Rightarrow> string \<Rightarrow> (world, string option) state" where
  "updateWorkerLoad wid a_stopped_job_id = do {
     v \<leftarrow> getWorkerLoadById wid;
     case v of
       None \<Rightarrow> ret (Some ''WorkerNotFound'')
     | Some t \<Rightarrow>
       (case unmarshal_load t of
          None \<Rightarrow> ret (Some json_failure)
        | Some w_load \<Rightarrow>
          (case find_job_load a_stopped_job_id (Jobs w_load) of
             None \<Rightarrow> ret (Some ''JobLoadNotFound'')
           | Some i \<Rightarrow> do {
               createUpdateWorkerLoad wid (drop_load i w_load);
               ret None })) }"

section \<open>Sending a job to a worker\<close>

definition resetJobStats :: "LiveJob \<Rightarrow> LiveJob" where
  "resetJobStats j = j\<lparr>lj_Ingress_bandwidth_kbps := 0, lj_Transcoding_cpu_utilization := []\<rparr>"

text \<open>The job record written once a worker has confirmed a stop.\<close>

definition stopped_job :: "LiveJob \<Rightarrow> LiveJob" where
  "stopped_job j =
     (resetJobStats (j\<lparr>lj_State := JOB_STATE_STOPPED\<rparr>))\<lparr>Assigned_worker_id := [],
        RtmpIngestUrl := [], Stop := False\<rparr>"

definition worker_url :: "LiveWorker \<Rightarrow> string" where
  "worker_url w = ''http://'' @ ServerIp (Info w) @ '':'' @ ServerPort (Info w) @ ''/'' @ ''jobs''"

text \<open>
  The request for a job: POST for a job to create or resume, PUT for one to stop. A job that is
  only marked \<open>Delete\<close> has no request, and sending it dereferences a nil pointer.
\<close>

definition worker_request :: "LiveWorker \<Rightarrow> LiveJob \<Rightarrow> wreq option" where
  "worker_request w j =
     (let body = (if marshalable (TJob j) then Some j else None) in
      if \<not> (Stop j \<or> Delete j) then
        Some \<lparr>rq_method = ''POST'', rq_url = worker_url w, rq_job = body\<rparr>
      else if Stop j then
        Some \<lparr>rq_method = ''PUT'', rq_url = worker_url w @ ''/'' @ lj_Id j @ ''/stop'', rq_job = body\<rparr>
      else None)"

text \<open>Sending logs the request in the world, unless its URL does not parse.\<close>

definition http_Do :: "(wreq \<Rightarrow> http_reply) \<Rightarrow> wreq \<Rightarrow> (world, http_reply) state" where
  "http_Do reply rq = do {
     (if reply rq = BadUrl then ret () else modify (\<lambda>w. w\<lparr>w_sent := w_sent w @ [rq]\<rparr>));
     ret (reply rq) }"

text \<open>The job record written once a worker has confirmed a launch: what the worker returned.\<close>

definition launched_job :: "string \<Rightarrow> rtext \<Rightarrow> LiveJob" where
  "launched_job wid body =
     (case unmarshal_job body of None \<Rightarrow> zero_LiveJob | Some j2 \<Rightarrow> j2)
       \<lparr>Assigned_worker_id := wid, lj_State := JOB_STATE_RUNNING\<rparr>"

text \<open>\<open>sendJobToWorker\<close>: \<open>None\<close> is a panic, \<open>Some e\<close> the returned error.\<close>

definition sendJobToWorker ::
    "(wreq \<Rightarrow> http_reply) \<Rightarrow> LiveJob \<Rightarrow> string \<Rightarrow> (world, string option option) state" where
  "sendJobToWorker reply j wid = do {
     worker \<leftarrow> getWorkerById wid;
     case worker of
       None \<Rightarrow> ret (Some (Some ''WorkerNotFound''))
     | Some worker \<Rightarrow>
       (case worker_request worker j of
          None \<Rightarrow> ret None
        | Some rq \<Rightarrow> do {
            resp \<leftarrow> http_Do reply rq;
            case resp of
              BadUrl \<Rightarrow> ret (Some (Some ''bad url''))
            | NoReply \<Rightarrow> ret (Some (Some ''no reply''))
            | Reply status body \<Rightarrow>
                if \<not> (Stop j \<or> Delete j) \<and> status \<noteq> 201 then
                  ret (Some (Some ''WorkerJobExecutionError''))
                else if Stop j \<and> status \<noteq> 200 then
                  ret (Some (Some (if status = 404 then ''jobNotFound'' else ''WorkerJobExecutionError'')))
                else if \<not> (Stop j \<or> Delete j) then
                  (case body of
                     None \<Rightarrow> ret (Some (Some ''body read failure''))
                   | Some b \<Rightarrow> do {
                       let j2 = launched_job wid b;
                       sched_createUpdateJob j2;
                       e \<leftarrow> addNewJobLoad worker j2;
                       ret (Some e) })
                else do {
                  sched_createUpdateJob (stopped_job j);
                  ret (Some None) } }) }"

text \<open>
  Every error of \<open>sendJobToWorker\<close> that is not \<open>jobNotFound\<close> puts a job to be created back; a
  stop is put back on every error.
\<close>

definition schedule_start :: "(wreq \<Rightarrow> http_reply) \<Rightarrow> LiveJob \<Rightarrow> (world, unit option) state" where
  "schedule_start reply j = do {
     wid \<leftarrow> assignWorker j;
     case wid of
       None \<Rightarrow> do { bufferJob j; ret (Some ()) }
     | Some assigned_worker_id \<Rightarrow> do {
         w \<leftarrow> getWorkerById assigned_worker_id;
         case w of
           None \<Rightarrow> do { bufferJob j; ret (Some ()) }
         | Some w \<Rightarrow> do {
             v \<leftarrow> getWorkerLoadById assigned_worker_id;
             case (case v of None \<Rightarrow> Some zero_WorkerLoad | Some t \<Rightarrow> unmarshal_load t) of
               None \<Rightarrow> do { bufferJob j; ret (Some ()) }
             | Some w_load \<Rightarrow>
                 if CpuLoad w_load \<ge> CpuCapacity (Info w) then
                   do { bufferJob j; ret (Some ()) }
                 else if BandwidthLoad w_load \<ge> BandwidthCapacity (Info w) then
                   do { bufferJob j; ret (Some ()) }
                 else do {
                   err \<leftarrow> sendJobToWorker reply j assigned_worker_id;
                   case err of
                     None \<Rightarrow> ret None
                   | Some None \<Rightarrow> ret (Some ())
                   | Some (Some e) \<Rightarrow>
                       if e \<noteq> ''jobNotFound'' then do { bufferJob j; ret (Some ()) }
                       else ret (Some ()) } } } }"

definition schedule_stop :: "(wreq \<Rightarrow> http_reply) \<Rightarrow> LiveJob \<Rightarrow> (world, unit option) state" where
  "schedule_stop reply j =
     (if Assigned_worker_id j = [] then ret (Some ())
      else do {
        w \<leftarrow> getWorkerById (Assigned_worker_id j);
        case w of
          None \<Rightarrow> ret (Some ())
        | Some _ \<Rightarrow> do {
            err \<leftarrow> sendJobToWorker reply j (Assigned_worker_id j);
            case err of
              None \<Rightarrow> ret None
            | Some None \<Rightarrow> ret (Some ())
            | Some (Some e) \<Rightarrow> do { bufferJob j; ret (Some ()) } } })"

text \<open>One firing of the scheduling timer; \<open>None\<close> is a panic.\<close>

definition scheduleOneJob :: "(wreq \<Rightarrow> http_reply) \<Rightarrow> (world, unit option) state" where
  "scheduleOneJob reply = do {
     count \<leftarrow> getBufferedJobCount;
     if count \<le> 0 then ret (Some ())
     else do {
       e \<leftarrow> getJobBufferFront;
       case e of
         None \<Rightarrow> ret None
       | Some (Inl err) \<Rightarrow> ret (Some ())
       | Some (Inr t) \<Rightarrow>
         (case unmarshal_job t of
            None \<Rightarrow> ret (Some ())
          | Some j \<Rightarrow> do {
              popBufferedJob;
              if \<not> (Stop j \<or> Delete j) then schedule_start reply j
              else if Stop j then schedule_stop reply j
              else ret (Some ()) }) } }"

section \<open>Polling the SQS queue\<close>

text \<open>
  Every SQS operation first asks for the queue's URL; each of the two calls may fail. A receive
  yields at most one message, which stays in the queue until it is deleted.
\<close>

definition sqs_call :: "(world \<Rightarrow> world) \<Rightarrow> (world, bool) state" where
  "sqs_call f = do {
     u \<leftarrow> next_outcome;
     if u \<noteq> Done then ret False
     else do {
       r \<leftarrow> next_outcome;
       (if r = LostRequest then ret () else modify f);
       ret (r = Done) } }"

definition ReceiveMsg :: "(world, string + rtext list) state" where
  "ReceiveMsg = do {
     ok \<leftarrow> sqs_call (\<lambda>w. w);
     q \<leftarrow> gets w_sqs;
     ret (if ok then Inr (take 1 q) else Inl ''sqs failure'') }"

definition DeleteMsg :: "(world, bool) state" where
  "DeleteMsg = sqs_call (\<lambda>w. w\<lparr>w_sqs := tl (w_sqs w)\<rparr>)"

definition SendMsg :: "rtext \<Rightarrow> (world, bool) state" where
  "SendMsg data = sqs_call (\<lambda>w. w\<lparr>w_sqs := w_sqs w @ [data]\<rparr>)"

definition receive_job :: "LiveJob \<Rightarrow> (world, unit) state" where
  "receive_job job =
     (if \<not> Stop job then do {
        now \<leftarrow> time_Now;
        let job = job\<lparr>Time_received_by_scheduler := now\<rparr>;
        sched_createUpdateJob job;
        bufferJob job;
        ret () }
      else do { bufferJob job; ret () })"

fun poll_messages :: "rtext list \<Rightarrow> (world, string option) state" where
  "poll_messages [] = ret None"
| "poll_messages (m # ms) =
     (case unmarshal_job m of
        None \<Rightarrow> ret (Some json_failure)
      | Some job \<Rightarrow> do { receive_job job; DeleteMsg; poll_messages ms })"

definition pollJobQueue :: "(world, string option) state" where
  "pollJobQueue = do {
     msgs \<leftarrow> ReceiveMsg;
     case msgs of Inl e \<Rightarrow> ret (Some e) | Inr ms \<Rightarrow> poll_messages ms }"

section \<open>Heartbeats and removal of workers\<close>

definition stop_load_job :: "JobLoad \<Rightarrow> (world, unit) state" where
  "stop_load_job j_load = do {
     j \<leftarrow> sched_getJobById (jl_Id j_load);
     case j of
       None \<Rightarrow> ret ()
     | Some j \<Rightarrow> do {
         sched_createUpdateJob (resetJobStats (j\<lparr>lj_State := JOB_STATE_STOPPED\<rparr>));
         ret () } }"

definition stopWorkerJobs :: "string \<Rightarrow> (world, string option) state" where
  "stopWorkerJobs wid = do {
     w \<leftarrow> HGet REDIS_KEY_WORKER_LOADS wid;
     case w of
       Inl e \<Rightarrow> ret None
     | Inr t \<Rightarrow> (case unmarshal_load t of
           None \<Rightarrow> ret (Some json_failure)
         | Some w_load \<Rightarrow> do { for_each (Jobs w_load) stop_load_job; ret None }) }"

definition heartbeat_interval :: "LiveWorker \<Rightarrow> int" where
  "heartbeat_interval w =
     (case parse_duration (HeartbeatInterval (Info w)) of None \<Rightarrow> 0 | Some d \<Rightarrow> d)"

definition suspension_due :: "go_time \<Rightarrow> LiveWorker \<Rightarrow> bool" where
  "suspension_due now w =
     (UnixMilli (LastHeartbeatTime w) \<noteq> 0 \<and>
      UnixMilli now - UnixMilli (LastHeartbeatTime w) >
        wrap64 (wrap64 (max_missing_heartbeats_before_suspension * heartbeat_interval w) * 1000))"

definition removal_due :: "go_time \<Rightarrow> LiveWorker \<Rightarrow> bool" where
  "removal_due now w =
     (UnixMilli now - UnixMilli (LastHeartbeatTime w) >
        quot (wrap64 (max_missing_heartbeats_before_removal * heartbeat_interval w)) 1000000)"

text \<open>
  One worker's check. The suspended state is set on the loop's local copy of the record, which
  nothing writes back; the model returns that copy.
\<close>

definition check_one_worker :: "LiveWorker \<Rightarrow> (world, LiveWorker) state" where
  "check_one_worker w = do {
     now \<leftarrow> time_Now;
     let w = (if suspension_due now w then w\<lparr>lw_State := WORKER_STATE_NOTAVAILABLE\<rparr> else w);
     (if removal_due now w then do {
        stopWorkerJobs (lw_Id w);
        (e, wid) \<leftarrow> removeWorker (lw_Id w);
        ret (if e \<noteq> None then w\<lparr>lw_State := WORKER_STATE_NOTAVAILABLE\<rparr> else w) }
      else ret w) }"

fun check_workers :: "rtext list \<Rightarrow> (world, string option) state" where
  "check_workers [] = ret None"
| "check_workers (e # es) =
     (case unmarshal_worker e of
        None \<Rightarrow> ret (Some json_failure)
      | Some w \<Rightarrow> do { check_one_worker w; check_workers es })"

definition check_worker_heartbeat :: "(world, string option) state" where
  "check_worker_heartbeat = do {
     (err, workers) \<leftarrow> getAllWorkers;
     case err of Some e \<Rightarrow> ret (Some e) | None \<Rightarrow> check_workers workers }"

end
