(* ===== verification/SchedulerServer.thy ===== *)
theory SchedulerServer
  imports Scheduler
begin

text \<open>
  The rest of \<open>scheduler/scheduler.go\<close>: the request handler through which workers register,
  send heartbeats and report on their jobs, and the body of the timer loop of \<open>main\<close>.
\<close>

definition workersEndpoint :: string where "workersEndpoint = ''workers''"
definition heartbeatEndpoint :: string where "heartbeatEndpoint = ''heartbeat''"
definition jobStatusEndpoint :: string where "jobStatusEndpoint = ''jobstatus''"

definition not_allowed :: "string \<Rightarrow> string \<Rightarrow> string" where
  "not_allowed meth path = ''Method = '' @ meth @ '' is not allowed to '' @ path"

section \<open>Job reports\<close>

definition report_stopped_job :: "string \<Rightarrow> string \<Rightarrow> (world, unit) state" where
  "report_stopped_job worker_id jid = do {
     j \<leftarrow> sched_getJobById jid;
     (case j of
        None \<Rightarrow> ret ()
      | Some j \<Rightarrow> do {
          sched_createUpdateJob (resetJobStats (j\<lparr>lj_State := JOB_STATE_STOPPED\<rparr>));
          ret () });
     updateWorkerLoad worker_id jid;
     ret () }"

definition input_info_url :: "LiveJob \<Rightarrow> string" where
  "input_info_url j = ''https://'' @ Bucket (S3_output (Output (Spec j))) @
     ''.s3.amazonaws.com/output_'' @ lj_Id j @ ''/'' @ Input_json_file_name"

text \<open>
  The record a stats report makes of a job, one step of the code after the other; \<open>t\<close> is a
  reading of the clock in milliseconds, and each step takes its own.
\<close>

definition job_with_stats :: "LiveJob \<Rightarrow> LiveJobStats \<Rightarrow> LiveJob" where
  "job_with_stats j st =
     j\<lparr>lj_State := (if st_Ingress_bandwidth_kbps st > ingest_bandwidth_threshold_kbps
         then JOB_STATE_STREAMING else JOB_STATE_RUNNING),
       lj_Ingress_bandwidth_kbps := st_Ingress_bandwidth_kbps st,
       lj_Transcoding_cpu_utilization := st_Transcoding_cpu_utilization st\<rparr>"

definition add_bytes :: "int \<Rightarrow> LiveJob \<Rightarrow> LiveJob" where
  "add_bytes t j = j\<lparr>Total_bytes_ingested := wrap64 (Total_bytes_ingested j +
     quot (wrap64 (wrap64 (t - Time_last_worker_report_ms j) * lj_Ingress_bandwidth_kbps j)) 8)\<rparr>"

definition set_up_seconds :: "int \<Rightarrow> LiveJob \<Rightarrow> LiveJob" where
  "set_up_seconds t j =
     j\<lparr>Total_up_seconds := quot (wrap64 (t - UnixMilli (Time_created j))) 1000\<rparr>"

definition add_active_seconds :: "int \<Rightarrow> LiveJob \<Rightarrow> LiveJob" where
  "add_active_seconds t j =
     j\<lparr>Total_active_seconds := wrap64 (Total_active_seconds j +
         quot (wrap64 (t - Time_last_worker_report_ms j)) 1000),
       Input_info_url := input_info_url j\<rparr>"

definition now_ms :: "(world, int) state" where
  "now_ms = do { t \<leftarrow> time_Now; ret (UnixMilli t) }"

definition report_job_stats :: "LiveJobStats \<Rightarrow> (world, unit) state" where
  "report_job_stats st = do {
     j \<leftarrow> sched_getJobById (st_Id st);
     case j of
       None \<Rightarrow> ret ()
     | Some j0 \<Rightarrow> do {
         let j = job_with_stats j0 st;
         j \<leftarrow> (if Time_last_worker_report_ms j > 0
               then do { t1 \<leftarrow> now_ms; ret (add_bytes t1 j) } else ret j);
         t2 \<leftarrow> now_ms;
         let j = set_up_seconds t2 j;
         j \<leftarrow> (if lj_Ingress_bandwidth_kbps j > ingest_bandwidth_threshold_kbps
                  \<and> Time_last_worker_report_ms j > 0
               then do { t3 \<leftarrow> now_ms; ret (add_active_seconds t3 j) } else ret j);
         t4 \<leftarrow> now_ms;
         sched_createUpdateJob (j\<lparr>Time_last_worker_report_ms := t4\<rparr>);
         ret () } }"

definition handle_report :: "WorkerJobReport \<Rightarrow> (world, unit) state" where
  "handle_report report = do {
     for_each (StoppedJobs report) (report_stopped_job (WorkerId report));
     for_each (JobStatsReport report) report_job_stats }"

section \<open>The request handler\<close>

definition internal_error :: "wact list" where
  "internal_error = http_Error (error_page ''500 internal server error'' '' '' []) 500"

definition bad_request :: "string \<Rightarrow> wact list" where
  "bad_request res = http_Error (error_page ''400 bad request'' '' '' res) 400"

definition method_not_allowed :: "http_request \<Rightarrow> wact list" where
  "method_not_allowed r = http_Error
     (error_page ''405 method not allowed'' '' '' (not_allowed (r_Method r) (r_Path r))) 405"

definition register_worker :: "http_body \<Rightarrow> (world, wact list) state" where
  "register_worker body =
     (if body = NoBody then ret (bad_request ''Error: Register worker without worker specification'')
      else case decode_worker_info body of
        None \<Rightarrow> ret (bad_request ''Failed to decode worker request'')
      | Some wkr \<Rightarrow> do {
          (e1, wid) \<leftarrow> createWorker wkr;
          if e1 \<noteq> None then ret internal_error
          else do {
            worker \<leftarrow> getWorkerById wid;
            ret (case worker of
                None \<Rightarrow> internal_error
              | Some worker \<Rightarrow> [WriteHeader 201, Write (CWorker worker)]) } })"

definition get_workers :: "(world, wact list) state" where
  "get_workers = do {
     (err, workers) \<leftarrow> getAllWorkers;
     ret (WriteHeader 200 # (if err \<noteq> None then internal_error else [Write (CRaw workers)])) }"

definition get_worker :: "string \<Rightarrow> (world, wact list) state" where
  "get_worker wid = do {
     worker \<leftarrow> getWorkerById wid;
     ret (case worker of
         Some worker \<Rightarrow> [WriteHeader 200, Write (CWorker worker)]
       | None \<Rightarrow> http_Error (''Non-existent worker id: '' @ wid) 404) }"

definition handle_heartbeat :: "http_body \<Rightarrow> (world, wact list) state" where
  "handle_heartbeat body =
     (if body = NoBody then ret (bad_request ''Error: bad heartbeat received'')
      else case decode_heartbeat body of
        None \<Rightarrow> ret (bad_request ''Failed to decode worker heartbeat'')
      | Some hb \<Rightarrow> do {
          worker \<leftarrow> getWorkerById (Worker_id hb);
          case worker of
            None \<Rightarrow> ret internal_error
          | Some worker \<Rightarrow> do {
              createUpdateWorker (worker\<lparr>LastHeartbeatTime := hb_LastHeartbeatTime hb\<rparr>);
              ret [WriteHeader 200, Write (CHeartbeat hb)] } })"

definition handle_jobstatus :: "http_body \<Rightarrow> (world, wact list) state" where
  "handle_jobstatus body =
     (if body = NoBody then ret (bad_request ''Error: bad job status report received'')
      else case decode_report body of
        None \<Rightarrow> ret (bad_request ''Failed to decode worker job report'')
      | Some report \<Rightarrow> do { handle_report report; ret [WriteHeader 200] })"

text \<open>\<open>main_server_handler\<close>; \<open>None\<close> is a panic of the handler.\<close>

definition sched_main_server_handler :: "http_request \<Rightarrow> (world, wact list option) state" where
  "sched_main_server_handler r =
     (case UrlLastPart (r_Path r) of
        None \<Rightarrow> ret None
      | Some lastPart \<Rightarrow>
          if str_contains (r_Path r) workersEndpoint then
            if \<not> (r_Method r = ''POST'' \<or> r_Method r = ''GET'') then
              ret (Some (method_not_allowed r))
            else if r_Method r = ''POST'' \<and> lastPart = workersEndpoint then do {
              acts \<leftarrow> register_worker (r_Body r);
              ret (Some acts) }
            else if r_Method r = ''GET'' then
              if lastPart = workersEndpoint then do { acts \<leftarrow> get_workers; ret (Some acts) }
              else do { acts \<leftarrow> get_worker lastPart; ret (Some acts) }
            else ret (Some [])
          else if str_contains (r_Path r) heartbeatEndpoint then
            if r_Method r \<noteq> ''POST'' then
              ret (Some (method_not_allowed r))
            else do { acts \<leftarrow> handle_heartbeat (r_Body r); ret (Some acts) }
          else if str_contains (r_Path r) jobStatusEndpoint then
            if r_Method r \<noteq> ''POST'' then
              ret (Some (method_not_allowed r))
            else do { acts \<leftarrow> handle_jobstatus (r_Body r); ret (Some acts) }
          else ret (Some []))"

section \<open>The timer loop\<close>

text \<open>
  One firing of the ticker of \<open>main\<close>: the two counters count firings since the last poll of
  SQS and the last heartbeat check. A panic in \<open>scheduleOneJob\<close> ends the process (\<open>None\<close>).
\<close>

record tick_counters =
  sqs_poll_timer_counter :: int
  worker_heartbeat_timer_counter :: int

definition poll_tick :: "tick_counters \<Rightarrow> (world, tick_counters) state" where
  "poll_tick c = do {
     let n = sqs_poll_timer_counter c + 1;
     (if n = sqs_poll_interval_multiplier then do { pollJobQueue; ret () } else ret ());
     ret (c\<lparr>sqs_poll_timer_counter := (if n = sqs_poll_interval_multiplier then 0 else n)\<rparr>) }"

definition heartbeat_tick :: "tick_counters \<Rightarrow> (world, tick_counters) state" where
  "heartbeat_tick c = do {
     let n = worker_heartbeat_timer_counter c + 1;
     (if n = check_worker_heartbeat_interval_multiplier
      then do { check_worker_heartbeat; ret () } else ret ());
     ret (c\<lparr>worker_heartbeat_timer_counter :=
       (if n = check_worker_heartbeat_interval_multiplier then 0 else n)\<rparr>) }"

definition sched_tick ::
    "(wreq \<Rightarrow> http_reply) \<Rightarrow> tick_counters \<Rightarrow> (world, tick_counters option) state" where
  "sched_tick reply c = do {
     r \<leftarrow> scheduleOneJob reply;
     case r of
       None \<Rightarrow> ret None
     | Some _ \<Rightarrow> do { c \<leftarrow> poll_tick c; c \<leftarrow> heartbeat_tick c; ret (Some c) } }"

fun sched_ticks ::
    "(wreq \<Rightarrow> http_reply) \<Rightarrow> nat \<Rightarrow> tick_counters \<Rightarrow> (world, tick_counters option) state" where
  "sched_ticks reply 0 c = ret (Some c)"
| "sched_ticks reply (Suc n) c = do {
     r \<leftarrow> sched_tick reply c;
     case r of None \<Rightarrow> ret None | Some c \<Rightarrow> sched_ticks reply n c }"

end
