(* ===== verification/SchedulerSpec.thy ===== *)
theory SchedulerSpec
  imports SchedulerServer
begin

text \<open>
  What the scheduler keeps true of the store, whatever calls fail: the records are of the right
  type and stored under their own ids, the load of a worker is the sum of the loads of its jobs,
  and the queue of pending jobs holds job records only.
\<close>

section \<open>The store invariant\<close>

lemma in_set_tl: "x \<in> set (tl xs) \<Longrightarrow> x \<in> set xs"
  by (cases xs) auto

definition job_entry :: "string \<Rightarrow> rtext \<Rightarrow> bool" where
  "job_entry k t \<longleftrightarrow> (\<exists>j. t = TJob j \<and> lj_Id j = k \<and> json_job j)"

definition worker_entry :: "string \<Rightarrow> rtext \<Rightarrow> bool" where
  "worker_entry k t \<longleftrightarrow> (\<exists>w. t = TWorker w \<and> lw_Id w = k \<and> marshalable (TWorker w))"

definition load_ok :: "WorkerLoad \<Rightarrow> bool" where
  "load_ok l \<longleftrightarrow>
     CpuLoad l = wrap64 (\<Sum>x\<leftarrow>Jobs l. jl_CpuLoad x) \<and>
     BandwidthLoad l = wrap64 (\<Sum>x\<leftarrow>Jobs l. jl_BandwidthLoad x) \<and>
     (\<forall>x \<in> set (Jobs l). jl_CpuLoad x = 1000 \<and> jl_BandwidthLoad x = 20000)"

definition load_entry :: "string \<Rightarrow> rtext \<Rightarrow> bool" where
  "load_entry k t \<longleftrightarrow> (\<exists>l. t = TLoad l \<and> wl_Id l = k \<and> load_ok l)"

definition queued :: "rtext \<Rightarrow> bool" where
  "queued t \<longleftrightarrow> (\<exists>j. t = TJob j \<and> json_job j)"

definition store_inv :: "world \<Rightarrow> bool" where
  "store_inv w \<longleftrightarrow>
     tbl.entries_ok REDIS_KEY_ALLJOBS job_entry w \<and>
     tbl.entries_ok REDIS_KEY_ALLWORKERS worker_entry w \<and>
     tbl.entries_ok REDIS_KEY_WORKER_LOADS load_entry w \<and>
     list_all queued (queue_contents REDIS_KEY_SCHEDULER_QUEUED_JOBS w)"

lemma keys_distinct [simp]:
  "REDIS_KEY_ALLJOBS \<noteq> REDIS_KEY_ALLWORKERS" "REDIS_KEY_ALLWORKERS \<noteq> REDIS_KEY_ALLJOBS"
  "REDIS_KEY_ALLJOBS \<noteq> REDIS_KEY_WORKER_LOADS" "REDIS_KEY_WORKER_LOADS \<noteq> REDIS_KEY_ALLJOBS"
  "REDIS_KEY_ALLWORKERS \<noteq> REDIS_KEY_WORKER_LOADS" "REDIS_KEY_WORKER_LOADS \<noteq> REDIS_KEY_ALLWORKERS"
  by (simp_all add: redis_keys)

lemma entries_ok_frame [simp]:
  "t \<noteq> t' \<Longrightarrow> tbl.entries_ok t P (hput t' k v w) = tbl.entries_ok t P w"
  "t \<noteq> t' \<Longrightarrow> tbl.entries_ok t P (hdel t' k w) = tbl.entries_ok t P w"
  "tbl.entries_ok t P (lpush q v w) = tbl.entries_ok t P w"
  "tbl.entries_ok t P (rpop q w) = tbl.entries_ok t P w"
  by (simp_all add: tbl.entries_ok_def)

lemma store_inv_data [simp]: "data_inv store_inv"
  by (simp add: data_inv_def store_inv_def tbl.entries_ok_def)

lemma store_inv_frame [simp]:
  "store_inv (w\<lparr>w_sent := x\<rparr>) = store_inv w" "store_inv (w\<lparr>w_sqs := y\<rparr>) = store_inv w"
  "store_inv (w\<lparr>w_var := z\<rparr>) = store_inv w" "store_inv (w\<lparr>w_faults := f\<rparr>) = store_inv w"
  by (simp_all add: store_inv_def tbl.entries_ok_def)

lemma store_inv_put_job:
  "store_inv w \<Longrightarrow> job_entry k v \<Longrightarrow> store_inv (hput REDIS_KEY_ALLJOBS k v w)"
  by (simp add: store_inv_def tbl.entries_ok_put)

lemma store_inv_put_worker:
  "store_inv w \<Longrightarrow> worker_entry k v \<Longrightarrow> store_inv (hput REDIS_KEY_ALLWORKERS k v w)"
  by (simp add: store_inv_def tbl.entries_ok_put)

lemma store_inv_put_load:
  "store_inv w \<Longrightarrow> load_entry k v \<Longrightarrow> store_inv (hput REDIS_KEY_WORKER_LOADS k v w)"
  by (simp add: store_inv_def tbl.entries_ok_put)

lemma store_inv_del_worker: "store_inv w \<Longrightarrow> store_inv (hdel REDIS_KEY_ALLWORKERS k w)"
  by (simp add: store_inv_def tbl.entries_ok_del)

lemma store_inv_push: "store_inv w \<Longrightarrow> queued t \<Longrightarrow>
    store_inv (lpush REDIS_KEY_SCHEDULER_QUEUED_JOBS t w)"
  by (simp add: store_inv_def)

lemma store_inv_pop: "store_inv w \<Longrightarrow> store_inv (rpop REDIS_KEY_SCHEDULER_QUEUED_JOBS w)"
  by (auto simp: store_inv_def list_all_iff dest: in_set_tl)

lemma store_inv_jobD:
  "store_inv w \<Longrightarrow> hlookup REDIS_KEY_ALLJOBS w k = Some t \<Longrightarrow> job_entry k t"
  by (auto simp: store_inv_def dest: tbl.entries_okD)

lemma store_inv_workerD:
  "store_inv w \<Longrightarrow> hlookup REDIS_KEY_ALLWORKERS w k = Some t \<Longrightarrow> worker_entry k t"
  by (auto simp: store_inv_def dest: tbl.entries_okD)

lemma store_inv_loadD:
  "store_inv w \<Longrightarrow> hlookup REDIS_KEY_WORKER_LOADS w k = Some t \<Longrightarrow> load_entry k t"
  by (auto simp: store_inv_def dest: tbl.entries_okD)

section \<open>The loads\<close>

lemma wrap64_add_left [simp]: "wrap64 (wrap64 a + b) = wrap64 (a + b)"
  by (simp add: wrap64_def algebra_simps mod_simps)

lemma wrap64_diff_left [simp]: "wrap64 (wrap64 a - b) = wrap64 (a - b)"
  by (simp add: wrap64_def algebra_simps mod_simps)

lemma wrap64_zero [simp]: "wrap64 0 = 0"
  by simp

lemma load_ok_zero [simp]: "load_ok zero_WorkerLoad"
  by (simp add: load_ok_def)

lemma load_ok_add:
  "load_ok l \<Longrightarrow> load_ok (add_load wid \<lparr>jl_Id = i, jl_CpuLoad = 1000, jl_BandwidthLoad = 20000\<rparr> l)"
  by (simp add: load_ok_def add_load_def)

lemma wl_Id_add [simp]: "wl_Id (add_load wid x l) = wid"
  by (simp add: add_load_def)

lemma wl_Id_drop [simp]: "wl_Id (drop_load i l) = wl_Id l"
  by (simp add: drop_load_def Let_def)

lemma find_job_load_SomeD:
  "find_job_load jid xs = Some i \<Longrightarrow>
     i < length xs \<and> jl_Id (xs ! i) = jid \<and> (\<forall>k < i. jl_Id (xs ! k) \<noteq> jid)"
proof (induction jid xs arbitrary: i rule: find_job_load.induct)
  case (2 jid x xs)
  show ?case
  proof (cases "jl_Id x = jid")
    case True
    with 2 show ?thesis by simp
  next
    case False
    with 2 show ?thesis by (auto simp: less_Suc_eq_0_disj) blast
  qed
qed simp

lemma find_job_load_None_iff: "find_job_load jid xs = None \<longleftrightarrow> jid \<notin> jl_Id ` set xs"
  by (induction jid xs rule: find_job_load.induct) auto

lemma load_ok_drop:
  assumes "load_ok l" "i < length (Jobs l)"
  shows "load_ok (drop_load i l)"
  using assms sum_list_remove_nth [of i "map jl_CpuLoad (Jobs l)"]
    sum_list_remove_nth [of i "map jl_BandwidthLoad (Jobs l)"]
  by (auto simp: load_ok_def drop_load_def Let_def take_map drop_map
    dest: in_set_takeD in_set_dropD)

section \<open>Every operation keeps the invariant\<close>

lemma keeps_sched_createUpdateJob [keeps_intros]: "keeps store_inv (sched_createUpdateJob j)"
  unfolding sched_createUpdateJob_def
  by (rule keeps_HSetStruct) (auto intro!: store_inv_put_job simp: job_entry_def)

lemma keeps_createUpdateWorker [keeps_intros]: "keeps store_inv (createUpdateWorker w)"
  unfolding createUpdateWorker_def
  by (rule keeps_HSetStruct) (auto intro!: store_inv_put_worker simp: worker_entry_def)

lemma keeps_bufferJob [keeps_intros]: "keeps store_inv (bufferJob j)"
  unfolding bufferJob_def
  by (rule keeps_QPushStruct) (auto intro!: store_inv_push simp: queued_def)

lemma keeps_popBufferedJob [keeps_intros]: "keeps store_inv popBufferedJob"
  unfolding popBufferedJob_def by (rule keeps_QPop) (simp_all add: store_inv_pop)

lemma keeps_removeWorker [keeps_intros]: "keeps store_inv (removeWorker wid)"
  unfolding removeWorker_def
  by (intro keeps_intros keeps_HDelOne) (simp_all add: store_inv_del_worker)

lemma keeps_createUpdateWorkerLoad:
  "load_entry wid (TLoad l) \<Longrightarrow> keeps store_inv (createUpdateWorkerLoad wid l)"
  unfolding createUpdateWorkerLoad_def by (rule keeps_HSetStruct) (auto intro!: store_inv_put_load)

text \<open>What reading a load yields when the invariant holds.\<close>

lemma valid_getWorkerLoadById:
  "valid store_inv (getWorkerLoadById wid)
     (\<lambda>v w. store_inv w \<and> (\<forall>t. v = Some t \<longrightarrow> load_entry wid t))"
proof (rule validI)
  fix w assume inv: "store_inv w"
  let ?w' = "exec_state (getWorkerLoadById wid) w"
  have "keeps store_inv (getWorkerLoadById wid)"
    unfolding getWorkerLoadById_def by (intro keeps_intros store_inv_data)
  with inv have "store_inv ?w'" by (rule keepsD [rotated])
  moreover have "result (getWorkerLoadById wid) w = Some t \<Longrightarrow> load_entry wid t" for t
    using inv by (auto simp: getWorkerLoadById_def HGet_def redis_read_def next_outcome_def
        split: list.splits if_splits option.splits prod.splits sum.splits
        dest!: store_inv_loadD [of _ wid])
  ultimately show "store_inv ?w' \<and> (\<forall>t. result (getWorkerLoadById wid) w = Some t \<longrightarrow> load_entry wid t)"
    by blast
qed

lemma keeps_addNewJobLoad [keeps_intros]: "keeps store_inv (addNewJobLoad w j)"
  unfolding addNewJobLoad_def
  by (rule keeps_bind_res [OF valid_getWorkerLoadById])
    (auto simp: load_entry_def estimateJobLoad_def Let_def load_ok_add split: option.splits
      intro!: keeps_intros keeps_createUpdateWorkerLoad)

lemma keeps_updateWorkerLoad [keeps_intros]: "keeps store_inv (updateWorkerLoad wid jid)"
  unfolding updateWorkerLoad_def
  by (rule keeps_bind_res [OF valid_getWorkerLoadById])
    (auto simp: load_entry_def split: option.splits dest: find_job_load_SomeD
      intro!: keeps_intros keeps_createUpdateWorkerLoad load_ok_drop)

lemma keeps_http_Do [keeps_intros]: "keeps store_inv (http_Do reply rq)"
  unfolding http_Do_def by (intro keeps_intros keeps_modify) auto

lemma keeps_getWorkerById [keeps_intros]: "keeps store_inv (getWorkerById wid)"
  unfolding getWorkerById_def by (intro keeps_intros store_inv_data)

lemma keeps_sched_getJobById [keeps_intros]: "keeps store_inv (sched_getJobById jid)"
  unfolding sched_getJobById_def by (intro keeps_intros store_inv_data)

lemma keeps_getWorkerLoadById [keeps_intros]: "keeps store_inv (getWorkerLoadById wid)"
  unfolding getWorkerLoadById_def by (intro keeps_intros store_inv_data)

lemma keeps_getAllWorkers [keeps_intros]: "keeps store_inv getAllWorkers"
  unfolding getAllWorkers_def by (intro keeps_intros store_inv_data)

lemma keeps_getAllAvailableWorkers [keeps_intros]: "keeps store_inv getAllAvailableWorkers"
  unfolding getAllAvailableWorkers_def by (intro keeps_intros store_inv_data)

lemma keeps_assignWorker [keeps_intros]: "keeps store_inv (assignWorker j)"
  unfolding assignWorker_def randomAssign_def by (intro keeps_intros store_inv_data)

lemma keeps_case_reply [keeps_intros]:
  "(r = BadUrl \<Longrightarrow> keeps I f) \<Longrightarrow> (r = NoReply \<Longrightarrow> keeps I g) \<Longrightarrow>
    (\<And>s b. r = Reply s b \<Longrightarrow> keeps I (h s b)) \<Longrightarrow>
    keeps I (case r of BadUrl \<Rightarrow> f | NoReply \<Rightarrow> g | Reply s b \<Rightarrow> h s b)"
  by (cases r) auto

lemma keeps_sendJobToWorker [keeps_intros]: "keeps store_inv (sendJobToWorker reply j wid)"
  unfolding sendJobToWorker_def Let_def by (intro keeps_intros)

lemma keeps_schedule_start [keeps_intros]: "keeps store_inv (schedule_start reply j)"
  unfolding schedule_start_def by (intro keeps_intros)

lemma keeps_schedule_stop [keeps_intros]: "keeps store_inv (schedule_stop reply j)"
  unfolding schedule_stop_def by (intro keeps_intros)

lemma keeps_scheduleOneJob [keeps_intros]: "keeps store_inv (scheduleOneJob reply)"
  unfolding scheduleOneJob_def getBufferedJobCount_def getJobBufferFront_def
  by (intro keeps_intros store_inv_data)

lemma keeps_sqs_call [keeps_intros]:
  "(\<And>w. store_inv w \<Longrightarrow> store_inv (f w)) \<Longrightarrow> keeps store_inv (sqs_call f)"
  unfolding sqs_call_def by (intro keeps_intros keeps_modify store_inv_data)

lemma keeps_poll_messages [keeps_intros]: "keeps store_inv (poll_messages ms)"
  by (induction ms)
    (auto simp: receive_job_def DeleteMsg_def Let_def intro!: keeps_intros split: option.splits)

lemma keeps_pollJobQueue [keeps_intros]: "keeps store_inv pollJobQueue"
  unfolding pollJobQueue_def ReceiveMsg_def by (intro keeps_intros)

lemma keeps_stopWorkerJobs [keeps_intros]: "keeps store_inv (stopWorkerJobs wid)"
  unfolding stopWorkerJobs_def stop_load_job_def by (intro keeps_intros store_inv_data)

lemma keeps_check_one_worker [keeps_intros]: "keeps store_inv (check_one_worker wk)"
  unfolding check_one_worker_def Let_def by (intro keeps_intros store_inv_data)

lemma keeps_check_workers [keeps_intros]: "keeps store_inv (check_workers ts)"
  by (induction ts) (auto intro!: keeps_intros split: option.splits)

lemma keeps_check_worker_heartbeat [keeps_intros]: "keeps store_inv check_worker_heartbeat"
  unfolding check_worker_heartbeat_def by (intro keeps_intros)

lemma keeps_sched_tick [keeps_intros]: "keeps store_inv (sched_tick reply c)"
  unfolding sched_tick_def poll_tick_def heartbeat_tick_def Let_def by (intro keeps_intros)

lemma keeps_sched_ticks: "keeps store_inv (sched_ticks reply n c)"
  by (induction n arbitrary: c) (auto intro!: keeps_intros)

lemma keeps_createWorker [keeps_intros]: "keeps store_inv (createWorker i)"
  unfolding createWorker_def Let_def by (intro keeps_intros store_inv_data)

lemma keeps_report_job_stats [keeps_intros]: "keeps store_inv (report_job_stats st)"
  unfolding report_job_stats_def Let_def now_ms_def by (intro keeps_intros store_inv_data)

lemma keeps_handle_report [keeps_intros]: "keeps store_inv (handle_report r)"
  unfolding handle_report_def report_stopped_job_def by (intro keeps_intros)

lemma keeps_sched_handler [keeps_intros]: "keeps store_inv (sched_main_server_handler r)"
  unfolding sched_main_server_handler_def register_worker_def get_workers_def get_worker_def
    handle_heartbeat_def handle_jobstatus_def
  by (intro keeps_intros)

end
