(* ===== verification/SchedulerRuns.thy ===== *)
theory SchedulerRuns
  imports SchedulerSpec
begin

text \<open>
  How the scheduler's operations run when no call fails: each operation's result and final
  state as a rewrite rule (\<open>run_simps\<close>), up to the whole of \<open>scheduleOneJob\<close>.
\<close>

section \<open>Single operations\<close>

definition put_job :: "LiveJob \<Rightarrow> world \<Rightarrow> world" where
  "put_job j w = (if json_job j then hput REDIS_KEY_ALLJOBS (lj_Id j) (TJob j) w else w)"

definition push_job :: "LiveJob \<Rightarrow> world \<Rightarrow> world" where
  "push_job j w = (if json_job j then lpush REDIS_KEY_SCHEDULER_QUEUED_JOBS (TJob j) w else w)"

lemma quiet_put_job [simp]: "quiet (put_job j w) = quiet w" "quiet (push_job j w) = quiet w"
  by (simp_all add: put_job_def push_job_def)

lemma hlookup_put_job [simp]:
  "t \<noteq> REDIS_KEY_ALLJOBS \<Longrightarrow> hlookup t (put_job j w) = hlookup t w"
  "hlookup t (push_job j w) = hlookup t w"
  by (simp_all add: put_job_def push_job_def)

lemma queue_put_job [simp]: "queue_contents q (put_job j w) = queue_contents q w"
  by (simp add: put_job_def)

lemma queue_push_job [simp]:
  "json_job j \<Longrightarrow> queue_contents REDIS_KEY_SCHEDULER_QUEUED_JOBS (push_job j w) =
     queue_contents REDIS_KEY_SCHEDULER_QUEUED_JOBS w @ [TJob j]"
  by (simp add: push_job_def)

lemma w_sent_put_job [simp]: "w_sent (put_job j w) = w_sent w" "w_sent (push_job j w) = w_sent w"
  by (simp_all add: put_job_def push_job_def)

lemma run_sched_createUpdateJob [run_simps]:
  "quiet w \<Longrightarrow> run_state (sched_createUpdateJob j) w =
     (if json_job j then None else Some json_failure, put_job j w)"
  by (simp add: sched_createUpdateJob_def run_HSetStruct put_job_def)

lemma run_bufferJob [run_simps]:
  "quiet w \<Longrightarrow> run_state (bufferJob j) w =
     (if json_job j then None else Some json_failure, push_job j w)"
  by (simp add: bufferJob_def run_QPushStruct push_job_def)

lemma run_popBufferedJob [run_simps]:
  "quiet w \<Longrightarrow> run_state popBufferedJob w =
     (case queue_front REDIS_KEY_SCHEDULER_QUEUED_JOBS w of None \<Rightarrow> Inl redis_Nil | Some x \<Rightarrow> Inr x,
      rpop REDIS_KEY_SCHEDULER_QUEUED_JOBS w)"
  by (simp add: popBufferedJob_def run_QPop)

lemma run_sched_getJobById [run_simps]:
  "quiet w \<Longrightarrow> run_state (sched_getJobById k) w =
     (case hlookup REDIS_KEY_ALLJOBS w k of None \<Rightarrow> None | Some t \<Rightarrow> unmarshal_job t, w)"
  by (simp add: sched_getJobById_def run_HGet split: option.splits)

lemma run_getWorkerById [run_simps]:
  "quiet w \<Longrightarrow> run_state (getWorkerById k) w =
     (case hlookup REDIS_KEY_ALLWORKERS w k of None \<Rightarrow> None | Some t \<Rightarrow> unmarshal_worker t, w)"
  by (simp add: getWorkerById_def run_HGet split: option.splits)

lemma run_getWorkerLoadById [run_simps]:
  "quiet w \<Longrightarrow> run_state (getWorkerLoadById k) w = (hlookup REDIS_KEY_WORKER_LOADS w k, w)"
  by (simp add: getWorkerLoadById_def run_HGet split: option.splits)

lemma run_createUpdateWorker [run_simps]:
  "quiet w \<Longrightarrow> run_state (createUpdateWorker wk) w =
     (if marshalable (TWorker wk)
      then (None, hput REDIS_KEY_ALLWORKERS (lw_Id wk) (TWorker wk) w)
      else (Some json_failure, w))"
  by (simp add: createUpdateWorker_def run_HSetStruct)

lemma run_createUpdateWorkerLoad [run_simps]:
  "quiet w \<Longrightarrow> run_state (createUpdateWorkerLoad k l) w =
     (None, hput REDIS_KEY_WORKER_LOADS k (TLoad l) w)"
  by (simp add: createUpdateWorkerLoad_def run_HSetStruct)

section \<open>Choosing a worker\<close>

text \<open>The registered workers, and those a job may be given to, in the table's order.\<close>

definition workers_of :: "world \<Rightarrow> LiveWorker list" where
  "workers_of w = map (\<lambda>k. the (unmarshal_worker (the (hlookup REDIS_KEY_ALLWORKERS w k))))
     (map fst (w_hash w REDIS_KEY_ALLWORKERS))"

definition worker_available :: "LiveWorker \<Rightarrow> bool" where
  "worker_available wk \<longleftrightarrow> lw_State wk = WORKER_STATE_IDLE \<or> lw_State wk = WORKER_STATE_LOADED"

definition available :: "world \<Rightarrow> LiveWorker list" where
  "available w = filter worker_available (workers_of w)"

lemma workers_of_entry:
  assumes "store_inv w" "a \<in> set (workers_of w)"
  shows "hlookup REDIS_KEY_ALLWORKERS w (lw_Id a) = Some (TWorker a)"
proof -
  obtain k where k: "k \<in> set (map fst (w_hash w REDIS_KEY_ALLWORKERS))"
    and a: "a = the (unmarshal_worker (the (hlookup REDIS_KEY_ALLWORKERS w k)))"
    using assms(2) unfolding workers_of_def by auto
  then obtain t where t: "hlookup REDIS_KEY_ALLWORKERS w k = Some t"
    using hlookup_keys [of k w REDIS_KEY_ALLWORKERS] by auto
  with store_inv_workerD [OF assms(1)] have "worker_entry k t" by blast
  with a t show ?thesis by (auto simp: worker_entry_def)
qed

lemma available_entry:
  "store_inv w \<Longrightarrow> a \<in> set (available w) \<Longrightarrow>
     hlookup REDIS_KEY_ALLWORKERS w (lw_Id a) = Some (TWorker a)"
  by (auto simp: available_def intro: workers_of_entry)

lemma run_available_loop:
  assumes "quiet w" "store_inv w"
    and "set ks \<subseteq> set (map fst (w_hash w REDIS_KEY_ALLWORKERS))"
  shows "run_state (collect ks (\<lambda>wid. do {
       x \<leftarrow> HGet REDIS_KEY_ALLWORKERS wid;
       ret (case x of
           Inl e \<Rightarrow> Inl e
         | Inr t \<Rightarrow> (case unmarshal_worker t of
               None \<Rightarrow> Inl json_failure
             | Some worker \<Rightarrow>
                 Inr (if lw_State worker = WORKER_STATE_IDLE \<or> lw_State worker = WORKER_STATE_LOADED
                      then [worker] else []))) }) acc) w
    = ((None, acc @ filter worker_available
         (map (\<lambda>k. the (unmarshal_worker (the (hlookup REDIS_KEY_ALLWORKERS w k)))) ks)), w)"
  using assms(3)
proof (induction ks arbitrary: acc)
  case (Cons k ks)
  then obtain t where t: "hlookup REDIS_KEY_ALLWORKERS w k = Some t"
    using hlookup_keys [of k w REDIS_KEY_ALLWORKERS] by auto
  with store_inv_workerD [OF assms(2)] obtain a where "t = TWorker a"
    by (auto simp: worker_entry_def)
  with Cons t show ?case by (auto simp: run_HGet assms(1) worker_available_def)
qed simp

lemma run_getAllAvailableWorkers [run_simps]:
  assumes "quiet w" "store_inv w"
  shows "run_state getAllAvailableWorkers w = ((None, available w), w)"
  using run_available_loop [OF assms, of "map fst (w_hash w REDIS_KEY_ALLWORKERS)" "[]"] assms
  by (simp add: getAllAvailableWorkers_def run_HKeys available_def workers_of_def)

lemma foldl_pick:
  "foldl (\<lambda>r (i, x). if i = n then f x else r) z (enumerate m xs) =
     (if m \<le> n \<and> n - m < length xs then f (xs ! (n - m)) else z)"
proof (induction xs arbitrary: m z)
  case (Cons x xs)
  show ?case
  proof (cases "m = n")
    case False
    then show ?thesis using Cons by (auto simp: nth_Cons' Suc_diff_le)
  qed (use Cons in simp)
qed simp

definition drawn :: "nat \<Rightarrow> world \<Rightarrow> nat" where
  "drawn n w = (case w_draws w of [] \<Rightarrow> 0 | d # ds \<Rightarrow> d mod n)"

definition chosen :: "world \<Rightarrow> LiveWorker" where
  "chosen w = available w ! drawn (length (available w)) w"

definition next_draw :: "world \<Rightarrow> world" where
  "next_draw w = w\<lparr>w_draws := tl (w_draws w)\<rparr>"

lemma next_draw_frame [simp]:
  "quiet (next_draw w) = quiet w" "hlookup t (next_draw w) = hlookup t w"
  "queue_contents q (next_draw w) = queue_contents q w" "w_sent (next_draw w) = w_sent w"
  by (simp_all add: next_draw_def)

lemma drawn_less: "0 < n \<Longrightarrow> drawn n w < n"
  by (simp add: drawn_def split: list.splits)

lemma chosen_available: "available w \<noteq> [] \<Longrightarrow> chosen w \<in> set (available w)"
  by (simp add: chosen_def drawn_less)

lemma run_rand_Intn: "run_state (rand_Intn n) w = (drawn n w, next_draw w)"
  by (cases "w_draws w") (simp_all add: rand_Intn_def drawn_def next_draw_def)

lemma run_assignWorker [run_simps]:
  assumes "quiet w" "store_inv w"
  shows "run_state (assignWorker j) w =
     (if available w = [] then (None, w) else (Some (lw_Id (chosen w)), next_draw w))"
  using drawn_less [of "length (available w)" w] assms
  by (simp add: assignWorker_def randomAssign_def run_getAllAvailableWorkers run_rand_Intn
      foldl_pick chosen_def)

section \<open>Sending a job\<close>

definition sent :: "wreq \<Rightarrow> world \<Rightarrow> world" where
  "sent rq w = w\<lparr>w_sent := w_sent w @ [rq]\<rparr>"

lemma sent_frame [simp]:
  "quiet (sent rq w) = quiet w" "hlookup t (sent rq w) = hlookup t w"
  "queue_contents q (sent rq w) = queue_contents q w" "w_sent (sent rq w) = w_sent w @ [rq]"
  by (simp_all add: sent_def)

lemma run_http_Do [run_simps]:
  "run_state (http_Do reply rq) w = (reply rq, if reply rq = BadUrl then w else sent rq w)"
  by (simp add: http_Do_def sent_def)

definition start_request :: "LiveWorker \<Rightarrow> LiveJob \<Rightarrow> wreq" where
  "start_request wk j = \<lparr>rq_method = ''POST'', rq_url = worker_url wk,
     rq_job = (if json_job j then Some j else None)\<rparr>"

definition stop_request :: "LiveWorker \<Rightarrow> LiveJob \<Rightarrow> wreq" where
  "stop_request wk j = \<lparr>rq_method = ''PUT'', rq_url = worker_url wk @ ''/'' @ lj_Id j @ ''/stop'',
     rq_job = (if json_job j then Some j else None)\<rparr>"

lemma worker_request_start [simp]:
  "\<not> Stop j \<Longrightarrow> \<not> Delete j \<Longrightarrow> worker_request wk j = Some (start_request wk j)"
  by (simp add: worker_request_def start_request_def)

lemma worker_request_stop [simp]: "Stop j \<Longrightarrow> worker_request wk j = Some (stop_request wk j)"
  by (simp add: worker_request_def stop_request_def)

text \<open>The load a worker has in the store: the zero load when there is no record.\<close>

definition stored_load :: "string \<Rightarrow> world \<Rightarrow> WorkerLoad" where
  "stored_load wid w = (case hlookup REDIS_KEY_WORKER_LOADS w wid of
     Some (TLoad l) \<Rightarrow> l | _ \<Rightarrow> zero_WorkerLoad)"

lemma stored_load_ok [simp]: "store_inv w \<Longrightarrow> load_ok (stored_load wid w)"
  by (auto simp: stored_load_def load_entry_def dest!: store_inv_loadD split: option.splits)

lemma read_load:
  "store_inv w \<Longrightarrow>
     (case hlookup REDIS_KEY_WORKER_LOADS w wid of
        None \<Rightarrow> Some zero_WorkerLoad | Some t \<Rightarrow> unmarshal_load t) = Some (stored_load wid w)"
  by (auto simp: stored_load_def load_entry_def dest!: store_inv_loadD split: option.splits)

lemma stored_load_frame [simp]:
  "stored_load k (sent rq w) = stored_load k w" "stored_load k (next_draw w) = stored_load k w"
  "stored_load k (put_job j w) = stored_load k w" "stored_load k (push_job j w) = stored_load k w"
  "stored_load k (rpop q w) = stored_load k w"
  "stored_load k (hput REDIS_KEY_ALLWORKERS x v w) = stored_load k w"
  by (simp_all add: stored_load_def)

lemma stored_load_put [simp]:
  "stored_load k (hput REDIS_KEY_WORKER_LOADS k' (TLoad l) w) = (if k = k' then l else stored_load k w)"
  by (simp add: stored_load_def hlookup_hput)

definition job_load :: "string \<Rightarrow> JobLoad" where
  "job_load jid = \<lparr>jl_Id = jid, jl_CpuLoad = 1000, jl_BandwidthLoad = 20000\<rparr>"

text \<open>The store after the load of a new job has been added to its worker.\<close>

definition loaded :: "LiveWorker \<Rightarrow> LiveJob \<Rightarrow> world \<Rightarrow> world" where
  "loaded wk j w =
     hput REDIS_KEY_ALLWORKERS (lw_Id wk) (TWorker (wk\<lparr>lw_State := WORKER_STATE_LOADED\<rparr>))
       (hput REDIS_KEY_WORKER_LOADS (lw_Id wk)
         (TLoad (add_load (lw_Id wk) (job_load (lj_Id j)) (stored_load (lw_Id wk) w))) w)"

lemma run_addNewJobLoad [run_simps]:
  assumes "quiet w" "store_inv w" "marshalable (TWorker wk)"
  shows "run_state (addNewJobLoad wk j) w = (None, loaded wk j w)"
  using assms read_load [OF assms(2), of "lw_Id wk"]
  by (simp add: addNewJobLoad_def run_getWorkerLoadById run_createUpdateWorkerLoad
      run_createUpdateWorker estimateJobLoad_def loaded_def job_load_def)

lemma store_inv_sent [simp]: "store_inv (sent rq w) = store_inv w"
  by (simp add: sent_def)

lemma store_inv_put [simp]: "store_inv w \<Longrightarrow> store_inv (put_job j w)"
  by (simp add: put_job_def store_inv_put_job job_entry_def)

lemma store_inv_next_draw [simp]: "store_inv (next_draw w) = store_inv w"
  using store_inv_data by (simp add: data_inv_def next_draw_def)

text \<open>A start request that the worker confirms, refuses, or does not get.\<close>

lemma run_sendJobToWorker_start:
  assumes "quiet w" "store_inv w" "\<not> Stop j" "\<not> Delete j"
    and wk: "hlookup REDIS_KEY_ALLWORKERS w wid = Some (TWorker wk)"
  shows "run_state (sendJobToWorker reply j wid) w =
     (case reply (start_request wk j) of
        BadUrl \<Rightarrow> (Some (Some ''bad url''), w)
      | NoReply \<Rightarrow> (Some (Some ''no reply''), sent (start_request wk j) w)
      | Reply status body \<Rightarrow>
          if status \<noteq> 201 then
            (Some (Some ''WorkerJobExecutionError''), sent (start_request wk j) w)
          else case body of
            None \<Rightarrow> (Some (Some ''body read failure''), sent (start_request wk j) w)
          | Some b \<Rightarrow> (Some None, loaded wk (launched_job wid b)
              (put_job (launched_job wid b) (sent (start_request wk j) w))))"
proof -
  have "marshalable (TWorker wk)" "lw_Id wk = wid"
    using store_inv_workerD [OF assms(2) wk] by (auto simp: worker_entry_def)
  with assms show ?thesis
    by (simp add: sendJobToWorker_def run_simps Let_def split: http_reply.splits option.splits)
qed

lemma run_sendJobToWorker_stop:
  assumes "quiet w" "store_inv w" "Stop j"
    and wk: "hlookup REDIS_KEY_ALLWORKERS w wid = Some (TWorker wk)"
  shows "run_state (sendJobToWorker reply j wid) w =
     (case reply (stop_request wk j) of
        BadUrl \<Rightarrow> (Some (Some ''bad url''), w)
      | NoReply \<Rightarrow> (Some (Some ''no reply''), sent (stop_request wk j) w)
      | Reply status body \<Rightarrow>
          if status \<noteq> 200 then
            (Some (Some (if status = 404 then ''jobNotFound'' else ''WorkerJobExecutionError'')),
             sent (stop_request wk j) w)
          else (Some None, put_job (stopped_job j) (sent (stop_request wk j) w)))"
  using assms by (simp add: sendJobToWorker_def run_simps split: http_reply.splits)

section \<open>Scheduling one job\<close>

text \<open>What the timer reads of the queue: the pending jobs, first come first.\<close>

definition pending :: "world \<Rightarrow> LiveJob list" where
  "pending w = map (\<lambda>t. the (unmarshal_job t)) (queue_contents REDIS_KEY_SCHEDULER_QUEUED_JOBS w)"

lemma pending_frame [simp]:
  "pending (hput t k v w) = pending w" "pending (next_draw w) = pending w"
  "pending (sent rq w) = pending w" "pending (put_job j w) = pending w"
  "pending (loaded wk j w) = pending w"
  by (simp_all add: pending_def loaded_def)

lemma pending_push [simp]: "json_job j \<Longrightarrow> pending (push_job j w) = pending w @ [j]"
  by (simp add: pending_def)

lemma pending_rpop [simp]: "pending (rpop REDIS_KEY_SCHEDULER_QUEUED_JOBS w) = tl (pending w)"
  by (simp add: pending_def map_tl)

lemma pending_json: "store_inv w \<Longrightarrow> j \<in> set (pending w) \<Longrightarrow> json_job j"
  by (auto simp: store_inv_def pending_def list_all_iff queued_def)

lemma pending_Nil:
  "pending w = [] \<longleftrightarrow> queue_contents REDIS_KEY_SCHEDULER_QUEUED_JOBS w = []"
  by (simp add: pending_def)

lemma pending_front:
  assumes "store_inv w" "pending w = j # js"
  shows "queue_front REDIS_KEY_SCHEDULER_QUEUED_JOBS w = Some (TJob j)"
proof -
  obtain t ts where q: "queue_contents REDIS_KEY_SCHEDULER_QUEUED_JOBS w = t # ts"
    and j: "j = the (unmarshal_job t)"
    using assms(2) by (auto simp: pending_def)
  from q assms(1) have "queued t" by (simp add: store_inv_def)
  with j q rq.front_Cons show ?thesis by (auto simp: queued_def)
qed

definition fits :: "LiveWorker \<Rightarrow> WorkerLoad \<Rightarrow> bool" where
  "fits wk l \<longleftrightarrow> CpuLoad l < CpuCapacity (Info wk) \<and> BandwidthLoad l < BandwidthCapacity (Info wk)"

definition confirmed :: "int \<Rightarrow> http_reply \<Rightarrow> rtext option" where
  "confirmed code r = (case r of Reply s (Some b) \<Rightarrow> if s = code then Some b else None | _ \<Rightarrow> None)"

text \<open>The store after a request has been tried: a request whose URL does not parse is not sent.\<close>

definition tried :: "(wreq \<Rightarrow> http_reply) \<Rightarrow> wreq \<Rightarrow> world \<Rightarrow> world" where
  "tried reply rq w = (if reply rq = BadUrl then w else sent rq w)"

lemma tried_frame [simp]:
  "quiet (tried reply rq w) = quiet w" "hlookup t (tried reply rq w) = hlookup t w"
  "queue_contents q (tried reply rq w) = queue_contents q w" "pending (tried reply rq w) = pending w"
  "stored_load k (tried reply rq w) = stored_load k w"
  by (simp_all add: tried_def)

definition after_start :: "(wreq \<Rightarrow> http_reply) \<Rightarrow> LiveJob \<Rightarrow> world \<Rightarrow> world" where
  "after_start reply j w =
     (if available w = [] then push_job j w
      else if \<not> fits (chosen w) (stored_load (lw_Id (chosen w)) w) then push_job j (next_draw w)
      else
        (let wk = chosen w; rq = start_request wk j; w1 = tried reply rq (next_draw w) in
         case confirmed 201 (reply rq) of
           None \<Rightarrow> push_job j w1
         | Some b \<Rightarrow> loaded wk (launched_job (lw_Id wk) b) (put_job (launched_job (lw_Id wk) b) w1)))"

lemma run_schedule_start [run_simps]:
  assumes "quiet w" "store_inv w" "\<not> Stop j" "\<not> Delete j"
  shows "run_state (schedule_start reply j) w = (Some (), after_start reply j w)"
proof (cases "available w = []")
  case True
  with assms show ?thesis by (simp add: schedule_start_def run_simps after_start_def)
next
  case False
  let ?wk = "chosen w" and ?w1 = "next_draw w"
  have wk: "hlookup REDIS_KEY_ALLWORKERS ?w1 (lw_Id ?wk) = Some (TWorker ?wk)"
    using available_entry [OF assms(2) chosen_available [OF False]] by simp
  have load: "(case hlookup REDIS_KEY_WORKER_LOADS w (lw_Id ?wk) of
      None \<Rightarrow> Some zero_WorkerLoad | Some t \<Rightarrow> unmarshal_load t) = Some (stored_load (lw_Id ?wk) w)"
    using read_load [OF assms(2)] by simp
  have q: "quiet ?w1" "store_inv ?w1" using assms by simp_all
  note send = run_sendJobToWorker_start [OF q assms(3,4) wk, of reply]
  show ?thesis
    using False assms wk load
    by (cases "reply (start_request ?wk j)")
      (auto simp: schedule_start_def run_simps send after_start_def fits_def confirmed_def tried_def
        Let_def not_less split: option.splits)
qed

definition after_stop :: "(wreq \<Rightarrow> http_reply) \<Rightarrow> LiveJob \<Rightarrow> world \<Rightarrow> world" where
  "after_stop reply j w =
     (if Assigned_worker_id j = [] then w
      else case hlookup REDIS_KEY_ALLWORKERS w (Assigned_worker_id j) of
          Some (TWorker wk) \<Rightarrow>
            (let rq = stop_request wk j; w1 = tried reply rq w in
             case reply rq of
               Reply status _ \<Rightarrow> if status = 200 then put_job (stopped_job j) w1 else push_job j w1
             | _ \<Rightarrow> push_job j w1)
        | _ \<Rightarrow> w)"

lemma run_schedule_stop [run_simps]:
  assumes "quiet w" "store_inv w" "Stop j"
  shows "run_state (schedule_stop reply j) w = (Some (), after_stop reply j w)"
proof (cases "hlookup REDIS_KEY_ALLWORKERS w (Assigned_worker_id j)")
  case None
  with assms show ?thesis by (simp add: schedule_stop_def run_simps after_stop_def)
next
  case (Some t)
  with store_inv_workerD [OF assms(2)] obtain wk where "t = TWorker wk"
    by (auto simp: worker_entry_def)
  with Some assms show ?thesis
    by (cases "reply (stop_request wk j)")
      (auto simp: schedule_stop_def run_simps run_sendJobToWorker_stop after_stop_def tried_def Let_def)
qed

text \<open>One firing of the scheduling timer.\<close>

definition after_schedule :: "(wreq \<Rightarrow> http_reply) \<Rightarrow> world \<Rightarrow> world" where
  "after_schedule reply w =
     (case pending w of
        [] \<Rightarrow> w
      | j # _ \<Rightarrow>
        (let w1 = rpop REDIS_KEY_SCHEDULER_QUEUED_JOBS w in
         if Stop j then after_stop reply j w1
         else if Delete j then w1
         else after_start reply j w1))"

lemma run_scheduleOneJob [run_simps]:
  assumes "quiet w" "store_inv w"
  shows "run_state (scheduleOneJob reply) w = (Some (), after_schedule reply w)"
proof (cases "pending w")
  case Nil
  then have "queue_contents REDIS_KEY_SCHEDULER_QUEUED_JOBS w = []" by (simp add: pending_Nil)
  with Nil assms show ?thesis
    by (simp add: scheduleOneJob_def getBufferedJobCount_def run_simps after_schedule_def)
next
  case (Cons j js)
  have front: "queue_front REDIS_KEY_SCHEDULER_QUEUED_JOBS w = Some (TJob j)"
    by (rule pending_front [OF assms(2) Cons])
  have "queue_contents REDIS_KEY_SCHEDULER_QUEUED_JOBS w \<noteq> []"
    using front rq.front_None_iff [of REDIS_KEY_SCHEDULER_QUEUED_JOBS w] by auto
  moreover have "store_inv (rpop REDIS_KEY_SCHEDULER_QUEUED_JOBS w)"
    by (rule store_inv_pop [OF assms(2)])
  ultimately show ?thesis
    using Cons front assms
    by (auto simp: scheduleOneJob_def getBufferedJobCount_def getJobBufferFront_def run_simps
        after_schedule_def Let_def)
qed

end
