(* ===== verification/Utils.thy ===== *)
theory Utils
  imports JobTypes
begin

text \<open>
  \<open>utils/utils.go\<close>: bitrate strings and file names. A run-time panic (an index or slice out of
  range) is \<open>None\<close>; a returned error is \<open>Inl\<close>.
\<close>

datatype bitrate_error = Invalid_bitrate_string | ParseFloat_error

definition BitrateString2Float64 :: "string \<Rightarrow> (bitrate_error + go_float) option" where
  "BitrateString2Float64 bs =
     (if bs = [] then None
      else if \<not> (last bs = CHR ''k'' \<or> last bs = CHR ''K'') then Some (Inl Invalid_bitrate_string)
      else case parse_float (butlast bs) of
          None \<Rightarrow> Some (Inl ParseFloat_error)
        | Some b \<Rightarrow> Some (Inr (fmul b (Fin 1000))))"

text \<open>\<open>path.Split\<close>'s file part: what follows the last slash.\<close>

definition Get_path_filename :: "string \<Rightarrow> string" where
  "Get_path_filename p =
     (case last_index_of p ''/'' of None \<Rightarrow> p | Some n \<Rightarrow> drop (Suc n) p)"

definition Change_file_extension :: "string \<Rightarrow> string \<Rightarrow> string option" where
  "Change_file_extension p new_extension =
     map_option (\<lambda>base. base @ new_extension) (slice_to p (str_last_index p ''.''))"

lemma BitrateString2Float64_panic: "BitrateString2Float64 bs = None \<longleftrightarrow> bs = []"
  by (auto simp: BitrateString2Float64_def split: option.splits)

lemma BitrateString2Float64_ok:
  "BitrateString2Float64 bs = Some (Inr r) \<Longrightarrow>
     \<exists>n u b. bs = n @ [u] \<and> (u = CHR ''k'' \<or> u = CHR ''K'') \<and> parse_float n = Some b \<and>
       r = fmul b (Fin 1000)"
  by (auto simp: BitrateString2Float64_def split: if_splits option.splits)
    (metis append_butlast_last_id)+

lemma Change_file_extension_dot:
  assumes "CHR ''.'' \<notin> set ext"
  shows "Change_file_extension (base @ ''.'' @ ext) new = Some (base @ new)"
  using str_last_index_char [OF assms, of base] slice_to_append [of base "''.'' @ ext"]
  by (simp add: Change_file_extension_def)

lemma Change_file_extension_panic:
  "Change_file_extension p new = None \<longleftrightarrow> CHR ''.'' \<notin> set p"
proof -
  have "last_index_of p ''.'' = Some n \<Longrightarrow> n \<le> length p" for n
    using last_index_of_SomeD by blast
  then show ?thesis
    by (cases "last_index_of p ''.''")
      (auto simp: Change_file_extension_def slice_to_def slice_None_iff str_last_index_def
        go_int_of_index_def last_index_of_char_None [symmetric] map_option_is_None)
qed

lemma Get_path_filename_slash:
  "CHR ''/'' \<notin> set name \<Longrightarrow> Get_path_filename (dir @ ''/'' @ name) = name"
  using last_index_of_char_append [of "CHR ''/''" name dir]
  by (simp add: Get_path_filename_def)

end
