(* ===== verification/Validator.thy ===== *)
theory Validator
  imports Utils
begin

text \<open>
  \<open>job/validator.go\<close>: the validation of a job request. \<open>Validate\<close> normalises the request in
  place, collects warnings and stops at the first error; the model returns the error (if any),
  the warnings gathered so far and the request as the code leaves it. \<open>None\<close> is a run-time
  panic, which the code reaches when it slices an empty rate string.
\<close>

section \<open>Limits and valid values\<close>

definition valid_stream_type_values :: "string list" where
  "valid_stream_type_values = [''hls'', ''dash'']"
definition valid_segment_format_values :: "string list" where
  "valid_segment_format_values = [''fmp4'']"
definition valid_video_codec_values :: "string list" where
  "valid_video_codec_values = [''h264'', ''h265'', ''av1'']"
definition valid_detection_codec_values :: "string list" where
  "valid_detection_codec_values = [''h264'', ''h265'']"
definition valid_audio_codec_values :: "string list" where
  "valid_audio_codec_values = [''aac'', ''mp3'']"
definition valid_bitrate_units :: "string list" where
  "valid_bitrate_units = [''k'', ''K'']"
definition valid_h26x_presets :: "string list" where
  "valid_h26x_presets = [''placebo'', ''veryslow'', ''slower'', ''slow'', ''medium'', ''fast'',
     ''faster'', ''veryfast'', ''superfast'', ''ultrafast'']"

lemmas valid_values = valid_stream_type_values_def valid_segment_format_values_def
  valid_video_codec_values_def valid_detection_codec_values_def valid_audio_codec_values_def
  valid_bitrate_units_def valid_h26x_presets_def

definition max_fragment_duration :: int where "max_fragment_duration = 10"
definition max_segment_duration :: int where "max_segment_duration = 30"
definition max_time_shift_buffer_depth :: int where "max_time_shift_buffer_depth = 14400"
definition max_video_outputs :: nat where "max_video_outputs = 10"
definition max_audio_outputs :: nat where "max_audio_outputs = 5"
definition max_video_framerate :: rat where "max_video_framerate = 60"
definition min_video_framerate :: rat where "min_video_framerate = 0"
definition max_video_resolution_height :: int where "max_video_resolution_height = 1080"
definition max_video_resolution_width :: int where "max_video_resolution_width = 1920"
definition max_video_output_bitrate :: rat where "max_video_output_bitrate = 10000"
definition max_audio_output_bitrate :: int where "max_audio_output_bitrate = 256"
definition max_peak_to_average_bitrate_ratio :: rat where
  "max_peak_to_average_bitrate_ratio = 2"
definition max_buffersize_to_average_bitrate_ratio :: rat where
  "max_buffersize_to_average_bitrate_ratio = 2"
definition min_libsvtav1_preset :: int where "min_libsvtav1_preset = 12"
definition min_h26x_preset :: nat where "min_h26x_preset = 5"
definition min_h26x_crf :: int where "min_h26x_crf = 0"
definition practical_min_h26x_crf :: int where "practical_min_h26x_crf = 23"
definition max_h26x_crf :: int where "max_h26x_crf = 51"
definition min_av1_crf :: int where "min_av1_crf = 0"
definition practical_min_av1_crf :: int where "practical_min_av1_crf = 23"
definition max_av1_crf :: int where "max_av1_crf = 63"
definition min_h26x_threads :: int where "min_h26x_threads = 2"
definition min_av1_threads :: int where "min_av1_threads = 4"

lemmas limits = max_fragment_duration_def max_segment_duration_def
  max_time_shift_buffer_depth_def max_video_outputs_def max_audio_outputs_def
  max_video_framerate_def min_video_framerate_def max_video_resolution_height_def
  max_video_resolution_width_def max_video_output_bitrate_def max_audio_output_bitrate_def
  max_peak_to_average_bitrate_ratio_def max_buffersize_to_average_bitrate_ratio_def
  min_libsvtav1_preset_def min_h26x_preset_def min_h26x_crf_def practical_min_h26x_crf_def
  max_h26x_crf_def min_av1_crf_def practical_min_av1_crf_def max_av1_crf_def
  min_h26x_threads_def min_av1_threads_def

definition contains_string :: "string list \<Rightarrow> string \<Rightarrow> bool" where
  "contains_string a v = foldl (\<lambda>r e. if v = e then True else r) False a"

lemma contains_string_iff [simp]: "contains_string a v \<longleftrightarrow> v \<in> set a"
proof -
  have "foldl (\<lambda>r e. if v = e then True else r) b a \<longleftrightarrow> b \<or> v \<in> set a" for b
    by (induction a arbitrary: b) auto
  then show ?thesis by (simp add: contains_string_def)
qed

section \<open>Object detection is requested when any of its fields is set\<close>

text \<open>Go's \<open>==\<close> on the struct: every field equal, with \<open>float64\<close> equality.\<close>

definition detection_eq :: "ObjectDetectionConfig \<Rightarrow> ObjectDetectionConfig \<Rightarrow> bool" where
  "detection_eq d e \<longleftrightarrow>
     feq (Input_video_frame_rate d) (Input_video_frame_rate e) \<and>
     Input_video_resolution_height d = Input_video_resolution_height e \<and>
     Input_video_resolution_width d = Input_video_resolution_width e \<and>
     Input_video_bitrate d = Input_video_bitrate e \<and>
     Input_video_max_bitrate d = Input_video_max_bitrate e \<and>
     Input_video_buf_size d = Input_video_buf_size e \<and>
     Encode_codec d = Encode_codec e \<and>
     Encode_preset d = Encode_preset e \<and>
     Encode_crf d = Encode_crf e"

definition NeedObjectDetection :: "LiveJobSpec \<Rightarrow> bool" where
  "NeedObjectDetection j = (\<not> detection_eq (Detection (Output j)) zero_Detection)"

section \<open>The validation, part by part\<close>

text \<open>Segment format, durations and the time-shift buffer, defaulted and clamped in place.\<close>

definition normalize_output :: "LiveJobOutputSpec \<Rightarrow> LiveJobOutputSpec" where
  "normalize_output out =
     (let o1 = (if Segment_format out = [] \<or>
                   \<not> contains_string valid_segment_format_values (Segment_format out)
                then out\<lparr>Segment_format := ''fmp4''\<rparr> else out);
          o2 = (if Segment_duration o1 \<le> 0 \<or> Segment_duration o1 > max_segment_duration
                then o1\<lparr>Segment_duration := 4\<rparr> else o1);
          o3 = (if Fragment_duration o2 \<le> 0 \<or> Fragment_duration o2 > max_fragment_duration
                then o2\<lparr>Fragment_duration := 1\<rparr> else o2);
          o4 = (if Fragment_duration o3 > Segment_duration o3
                then o3\<lparr>Fragment_duration := Segment_duration o3\<rparr> else o3)
      in if Time_shift_buffer_depth o4 > max_time_shift_buffer_depth
         then o4\<lparr>Time_shift_buffer_depth := max_time_shift_buffer_depth\<rparr> else o4)"

definition validate_drm :: "DrmConfig \<Rightarrow> string option" where
  "validate_drm d =
     (if \<not> (Protection_system d = [] \<and> Protection_scheme d = []) then
        if Disable_clear_key d \<noteq> 0 then Some ''Disable_clear_key_must_be_false''
        else if \<not> (Protection_system d \<noteq> [] \<and> Protection_scheme d \<noteq> []) then
          Some ''protection_system_and_scheme_must_both_be_set''
        else if \<not> (Protection_system d = ''FairPlay'' \<or> Protection_system d = ''Fairplay'' \<or>
                   Protection_system d = ''fairplay'') then
          Some ''protection_system_must_be_FairPlay''
        else if \<not> (Protection_scheme d = ''cbcs'' \<or> Protection_scheme d = ''CBCS'' \<or>
                   Protection_scheme d = ''Cbcs'') then
          Some ''protection_scheme_must_be_cbcs''
        else None
      else None)"

text \<open>A missing detection parameter is a warning.\<close>

definition warn_if :: "bool \<Rightarrow> string \<Rightarrow> string list \<Rightarrow> string list" where
  "warn_if b w ws = (if b then ws @ [w] else ws)"

definition detection_warnings :: "ObjectDetectionConfig \<Rightarrow> string list \<Rightarrow> string list" where
  "detection_warnings d w =
     warn_if (Input_video_buf_size d = [])
       ''Missing object detection input video buf_size. Default value will be used.''
     (warn_if (Input_video_max_bitrate d = [])
       ''Missing object detection input video max_bitrate. Default value will be used.''
     (warn_if (Input_video_bitrate d = [])
       ''Missing object detection input video bitrate. Default value will be used.''
     (warn_if (Input_video_resolution_width d = 0)
       ''Missing object detection input video resolution width. Default value will be used.''
     (warn_if (Input_video_resolution_height d = 0)
       ''Missing object detection input video resolution height. Default value will be used.''
       w))))"

definition validate_detection ::
    "ObjectDetectionConfig \<Rightarrow> string option \<times> string list \<times> ObjectDetectionConfig" where
  "validate_detection d =
     (let rate = Input_video_frame_rate d;
          w1 = warn_if (feq rate (Fin 0))
            ''Missing object detection input frame rate. Default value will be used.'' []
      in if flt rate (Fin min_video_framerate) \<or> fgt rate (Fin max_video_framerate) then
           (Some ''detection_framerate_out_of_range'', w1, d)
         else let w2 = detection_warnings d w1 in
         if Encode_codec d = [] \<or> \<not> contains_string valid_detection_codec_values (Encode_codec d)
         then (Some ''bad_detection_video_codec'', w2, d)
         else if Encode_preset d = [] \<or> \<not> contains_string valid_h26x_presets (Encode_preset d)
         then (Some ''bad_detection_video_preset'', w2, d)
         else if Encode_crf d = 0 \<or> (Encode_crf d < min_h26x_crf \<or> Encode_crf d > max_h26x_crf)
         then (Some ''bad_detection_video_crf'', w2, d)
         else if Encode_crf d < practical_min_h26x_crf then
           (None, w2 @ [''- It's not recommended to use crf lower than '' @
              itoa practical_min_h26x_crf @ '' to perform object detection reencode''],
            d\<lparr>Encode_crf := practical_min_h26x_crf\<rparr>)
         else (None, w2, d))"

text \<open>
  A rate string such as \<open>365k\<close>: the number before its last character, that character being
  one of the valid units. \<open>None\<close> is the panic of slicing the empty string.
\<close>

definition rate_number :: "string \<Rightarrow> go_float option option" where
  "rate_number s = map_option parse_float (slice_to s (int (length s) - 1))"

definition rate_unit_ok :: "string \<Rightarrow> bool" where
  "rate_unit_ok s =
     (case slice_from s (int (length s) - 1) of
        None \<Rightarrow> False | Some u \<Rightarrow> contains_string valid_bitrate_units u)"

definition preset_index :: "string \<Rightarrow> nat option" where
  "preset_index p = find (\<lambda>i. p = valid_h26x_presets ! i) [0..<length valid_h26x_presets]"

text \<open>The encoder's preset, CRF and threads of one video output.\<close>

definition validate_encoder ::
    "LiveVideoOutputSpec \<Rightarrow> string list \<Rightarrow> string option \<times> string list" where
  "validate_encoder vo w =
     (if vo_Codec vo = ''av1'' then
        case parse_int (vo_Preset vo) of
          None \<Rightarrow> (Some ''bad_libsvtav1_preset'', w)
        | Some preset \<Rightarrow>
            let w1 = warn_if (preset < min_libsvtav1_preset)
                  ''- libsvtav1 presets lower than 12 will not be fast enough for real-time (live) encoding. '' w;
                w2 = warn_if (vo_Crf vo < practical_min_av1_crf)
                  (''- It's not recommended to use crf lower than '' @ itoa practical_min_av1_crf) w1
            in if vo_Crf vo < min_av1_crf \<or> vo_Crf vo > max_av1_crf then
                 (Some ''libsvtav1_crf_out_of_range'', w2)
               else (None, warn_if (vo_Threads vo < min_av1_threads)
                 (''- at least '' @ itoa min_av1_threads @ '' threads are needed for av1. '') w2)
      else if vo_Codec vo = ''h264'' \<or> vo_Codec vo = ''h265'' then
        case preset_index (vo_Preset vo) of
          None \<Rightarrow> (Some ''invalid_h264_encoder_preset'', w)
        | Some i \<Rightarrow>
            let w1 = warn_if (i < min_h26x_preset)
                  (''- libx264/libx265 presets lower than '' @ (valid_h26x_presets ! min_h26x_preset) @
                   '' will not be fast enough for real-time (live) encoding. '') w;
                w2 = warn_if (vo_Crf vo < practical_min_h26x_crf)
                  (''- It's not recommended to use crf lower than '' @ itoa practical_min_h26x_crf) w1
            in if vo_Crf vo < min_h26x_crf \<or> vo_Crf vo > max_h26x_crf then
                 (Some ''libsvtav1_crf_out_of_range'', w2)
               else (None, warn_if (vo_Threads vo < min_h26x_threads)
                 (''- at least '' @ itoa min_h26x_threads @ '' threads are needed for h26x. '') w2)
      else (None, w))"

text \<open>The peak rate and the buffer size, checked against twice the average rate \<open>bi\<close>.\<close>

definition validate_peak_rates ::
    "LiveVideoOutputSpec \<Rightarrow> go_float \<Rightarrow> string list \<Rightarrow> (string option \<times> string list) option" where
  "validate_peak_rates vo bi w =
     (case rate_number (vo_Max_bitrate vo) of
        None \<Rightarrow> None
      | Some None \<Rightarrow> Some (Some ''bad_video_max_bitrate'', w)
      | Some (Some mbi) \<Rightarrow>
        if \<not> rate_unit_ok (vo_Max_bitrate vo) then Some (Some ''bad_video_bitrate_unit'', w)
        else if flt mbi (Fin 0) then Some (Some ''negative_video_max_bitrate'', w)
        else let w1 = warn_if (fgt mbi (fmul bi (Fin max_peak_to_average_bitrate_ratio)))
                 ''- Video max_bitrate should not exceed twice of video average bitrate. '' w in
        (case rate_number (vo_Buf_size vo) of
           None \<Rightarrow> None
         | Some None \<Rightarrow> Some (Some ''bad_video_buffer_size'', w1)
         | Some (Some buf_i) \<Rightarrow>
           if \<not> rate_unit_ok (vo_Buf_size vo) then Some (Some ''bad_video_buffer_size_unit'', w1)
           else if flt buf_i (Fin 0) then Some (Some ''negative_video_buffer_size'', w1)
           else Some (None, warn_if
                  (fgt buf_i (fmul bi (Fin max_buffersize_to_average_bitrate_ratio)))
                  ''- Video buf_size cannot exceed twice of video average bitrate. '' w1)))"

definition validate_video_output ::
    "LiveVideoOutputSpec \<Rightarrow> string list \<Rightarrow> (string option \<times> string list) option" where
  "validate_video_output vo w =
     (if vo_Codec vo = [] \<or> \<not> contains_string valid_video_codec_values (vo_Codec vo) then
        Some (Some ''bad_video_codec'', w)
      else if flt (vo_Framerate vo) (Fin min_video_framerate) \<or>
              fgt (vo_Framerate vo) (Fin max_video_framerate) then
        Some (Some ''video_framerate_out_of_range'', w)
      else case BitrateString2Float64 (vo_Bitrate vo) of
        None \<Rightarrow> None
      | Some (Inl _) \<Rightarrow> Some (Some ''bad_video_output_bitrate'', w)
      | Some (Inr _) \<Rightarrow>
        if vo_Width vo \<le> 0 \<or> vo_Width vo > max_video_resolution_width then
          Some (Some ''bad_video_resolution_width'', w)
        else if vo_Height vo \<le> 0 \<or> vo_Height vo > max_video_resolution_height then
          Some (Some ''bad_video_resolution_height'', w)
        else (case rate_number (vo_Bitrate vo) of
          None \<Rightarrow> None
        | Some None \<Rightarrow> Some (Some ''bad_video_bitrate'', w)
        | Some (Some bi) \<Rightarrow>
          if \<not> rate_unit_ok (vo_Bitrate vo) then Some (Some ''bad_video_bitrate_unit'', w)
          else if flt bi (Fin 0) \<or> fgt bi (Fin max_video_output_bitrate) then
            Some (Some ''video_bitrate_out_of_range'', w)
          else (case validate_peak_rates vo bi w of
             None \<Rightarrow> None
           | Some (Some e, w1) \<Rightarrow> Some (Some e, w1)
           | Some (None, w1) \<Rightarrow> Some (validate_encoder vo w1))))"

definition validate_audio_output ::
    "LiveAudioOutputSpec \<Rightarrow> string list \<Rightarrow> (string option \<times> string list) option" where
  "validate_audio_output ao w =
     (if ao_Codec ao = [] \<or> \<not> contains_string valid_audio_codec_values (ao_Codec ao) then
        Some (Some ''bad_audio_codec'', w)
      else case rate_number (ao_Bitrate ao) of
          None \<Rightarrow> None
        | Some None \<Rightarrow> Some (Some ''bad_audio_bitrate'', w)
        | Some (Some bi) \<Rightarrow>
            if \<not> rate_unit_ok (ao_Bitrate ao) then Some (Some ''bad_audio_bitrate_unit'', w)
            else if flt bi (Fin 0) then Some (Some ''audio_bitrate_out_of_range'', w)
            else Some (None, warn_if (fgt bi (Fin (of_int max_audio_output_bitrate)))
              (''- Audio bitrate should not exceed '' @ itoa max_audio_output_bitrate @ ''kbps. '') w))"

text \<open>A loop over outputs: the first error or panic ends it.\<close>

fun validate_all ::
    "('a \<Rightarrow> string list \<Rightarrow> (string option \<times> string list) option) \<Rightarrow> 'a list \<Rightarrow> string list \<Rightarrow>
      (string option \<times> string list) option" where
  "validate_all check [] w = Some (None, w)"
| "validate_all check (x # xs) w =
     (case check x w of
        None \<Rightarrow> None
      | Some (Some e, w') \<Rightarrow> Some (Some e, w')
      | Some (None, w') \<Rightarrow> validate_all check xs w')"

definition validate_audio_outputs ::
    "LiveAudioOutputSpec list \<Rightarrow> string list \<Rightarrow> (string option \<times> string list) option" where
  "validate_audio_outputs aos w =
     (if aos = [] then Some (None, w @ [''- No audio outputs configured. ''])
      else if length aos > max_audio_outputs then Some (Some ''too_many_audio_outputs'', w)
      else validate_all validate_audio_output aos w)"

text \<open>The checks on the outputs, after the request has been normalised.\<close>

definition validate_outputs ::
    "LiveJobSpec \<Rightarrow> string list \<Rightarrow> (string option \<times> string list) option" where
  "validate_outputs j w =
     (if Bucket (S3_output (Output j)) = [] then Some (Some ''missing_output_bucket'', w)
      else if Video_outputs (Output j) = [] \<and> \<not> NeedObjectDetection j then
        Some (Some ''no_video_output'', w)
      else if length (Video_outputs (Output j)) > max_video_outputs then
        Some (Some ''too_many_video_outputs'', w)
      else case validate_all validate_video_output (Video_outputs (Output j)) w of
          None \<Rightarrow> None
        | Some (Some e, w1) \<Rightarrow> Some (Some e, w1)
        | Some (None, w1) \<Rightarrow> validate_audio_outputs (Audio_outputs (Output j)) w1)"

definition Validate :: "LiveJobSpec \<Rightarrow> (string option \<times> string list \<times> LiveJobSpec) option" where
  "Validate j =
     (if Stream_type (Output j) = [] \<or>
         \<not> contains_string valid_stream_type_values (Stream_type (Output j)) then
        Some (Some ''bad_stream_type'', [], j)
      else
        let j1 = j\<lparr>Output := normalize_output (Output j)\<rparr> in
        case validate_drm (Drm (Output j1)) of
          Some e \<Rightarrow> Some (Some e, [], j1)
        | None \<Rightarrow>
          (case (if NeedObjectDetection j1 then validate_detection (Detection (Output j1))
                 else (None, [], Detection (Output j1))) of
             (err, w, d) \<Rightarrow>
               let j2 = j1\<lparr>Output := (Output j1)\<lparr>Detection := d\<rparr>\<rparr> in
               (case err of
                  Some e \<Rightarrow> Some (Some e, w, j2)
                | None \<Rightarrow> map_option (\<lambda>(e, w'). (e, w', j2)) (validate_outputs j2 w))))"

end
