(* ===== verification/ValidatorSpec.thy ===== *)
theory ValidatorSpec
  imports Validator
begin

text \<open>
  What validation promises: the requests it accepts, stated field by field (\<open>request_ok\<close>), and
  the normal form it leaves (\<open>normal_form\<close>). The lemmas show that each part of the code
  passes exactly when its part of the specification holds; the properties put them together.
\<close>

section \<open>The specification\<close>

text \<open>A check passes when it neither panics nor reports an error.\<close>

definition passes :: "('e option \<times> 'w) option \<Rightarrow> bool" where
  "passes r = (case r of Some (None, _) \<Rightarrow> True | _ \<Rightarrow> False)"

definition drm_ok :: "DrmConfig \<Rightarrow> bool" where
  "drm_ok d \<longleftrightarrow>
     (Protection_system d = [] \<and> Protection_scheme d = []) \<or>
     (Disable_clear_key d = 0 \<and>
      Protection_system d \<in> {''FairPlay'', ''Fairplay'', ''fairplay''} \<and>
      Protection_scheme d \<in> {''cbcs'', ''CBCS'', ''Cbcs''})"

text \<open>Not below \<open>lo\<close> and not above \<open>hi\<close>; \<open>NaN\<close> passes, as it does in the code.\<close>

definition not_outside :: "rat \<Rightarrow> rat \<Rightarrow> go_float \<Rightarrow> bool" where
  "not_outside lo hi x \<longleftrightarrow> \<not> flt x (Fin lo) \<and> \<not> fgt x (Fin hi)"

definition detection_ok :: "ObjectDetectionConfig \<Rightarrow> bool" where
  "detection_ok d \<longleftrightarrow>
     not_outside 0 60 (Input_video_frame_rate d) \<and>
     Encode_codec d \<in> {''h264'', ''h265''} \<and>
     Encode_preset d \<in> set valid_h26x_presets \<and>
     1 \<le> Encode_crf d \<and> Encode_crf d \<le> 51"

text \<open>A rate: a number accepted by \<open>P\<close> followed by \<open>k\<close> or \<open>K\<close>.\<close>

definition rate_ok :: "(go_float \<Rightarrow> bool) \<Rightarrow> string \<Rightarrow> bool" where
  "rate_ok P s \<longleftrightarrow>
     s \<noteq> [] \<and> last s \<in> {CHR ''k'', CHR ''K''} \<and>
     (case parse_float (butlast s) of None \<Rightarrow> False | Some b \<Rightarrow> P b)"

definition encoder_ok :: "LiveVideoOutputSpec \<Rightarrow> bool" where
  "encoder_ok vo \<longleftrightarrow>
     (if vo_Codec vo = ''av1''
      then parse_int (vo_Preset vo) \<noteq> None \<and> 0 \<le> vo_Crf vo \<and> vo_Crf vo \<le> 63
      else vo_Preset vo \<in> set valid_h26x_presets \<and> 0 \<le> vo_Crf vo \<and> vo_Crf vo \<le> 51)"

definition video_ok :: "LiveVideoOutputSpec \<Rightarrow> bool" where
  "video_ok vo \<longleftrightarrow>
     vo_Codec vo \<in> {''h264'', ''h265'', ''av1''} \<and>
     not_outside 0 60 (vo_Framerate vo) \<and>
     0 < vo_Width vo \<and> vo_Width vo \<le> 1920 \<and> 0 < vo_Height vo \<and> vo_Height vo \<le> 1080 \<and>
     rate_ok (not_outside 0 10000) (vo_Bitrate vo) \<and>
     rate_ok (\<lambda>b. \<not> flt b (Fin 0)) (vo_Max_bitrate vo) \<and>
     rate_ok (\<lambda>b. \<not> flt b (Fin 0)) (vo_Buf_size vo) \<and>
     encoder_ok vo"

definition audio_ok :: "LiveAudioOutputSpec \<Rightarrow> bool" where
  "audio_ok ao \<longleftrightarrow>
     ao_Codec ao \<in> {''aac'', ''mp3''} \<and> rate_ok (\<lambda>b. \<not> flt b (Fin 0)) (ao_Bitrate ao)"

definition request_ok :: "LiveJobSpec \<Rightarrow> bool" where
  "request_ok j \<longleftrightarrow>
     Stream_type (Output j) \<in> {''hls'', ''dash''} \<and>
     drm_ok (Drm (Output j)) \<and>
     (NeedObjectDetection j \<longrightarrow> detection_ok (Detection (Output j))) \<and>
     Bucket (S3_output (Output j)) \<noteq> [] \<and>
     (Video_outputs (Output j) \<noteq> [] \<or> NeedObjectDetection j) \<and>
     length (Video_outputs (Output j)) \<le> 10 \<and> list_all video_ok (Video_outputs (Output j)) \<and>
     length (Audio_outputs (Output j)) \<le> 5 \<and> list_all audio_ok (Audio_outputs (Output j))"

definition normal_segment_duration :: "int \<Rightarrow> int" where
  "normal_segment_duration d = (if 1 \<le> d \<and> d \<le> 30 then d else 4)"

definition normal_fragment_duration :: "int \<Rightarrow> int \<Rightarrow> int" where
  "normal_fragment_duration f seg = min (if 1 \<le> f \<and> f \<le> 10 then f else 1) seg"

definition normal_output :: "LiveJobOutputSpec \<Rightarrow> LiveJobOutputSpec" where
  "normal_output out =
     (let seg = normal_segment_duration (Segment_duration out) in
      out\<lparr>Segment_format := ''fmp4'', Segment_duration := seg,
          Fragment_duration := normal_fragment_duration (Fragment_duration out) seg,
          Time_shift_buffer_depth := min (Time_shift_buffer_depth out) 14400\<rparr>)"

definition normal_form :: "LiveJobSpec \<Rightarrow> LiveJobSpec" where
  "normal_form j =
     (let out = normal_output (Output j); d = Detection out in
      j\<lparr>Output := out\<lparr>Detection :=
          (if NeedObjectDetection j then d\<lparr>Encode_crf := max (Encode_crf d) 23\<rparr> else d)\<rparr>\<rparr>)"

section \<open>Each part of the code passes exactly when its specification holds\<close>

lemma passes_simps [simp]:
  "\<not> passes None" "\<not> passes (Some (Some e, w))" "passes (Some (None, w))"
  by (simp_all add: passes_def)

lemma passes_iff: "passes r \<longleftrightarrow> (\<exists>w. r = Some (None, w))"
  by (auto simp: passes_def split: option.splits prod.splits)

lemma normalize_output_normal: "normalize_output out = normal_output out"
  by (cases out) (simp add: normalize_output_def normal_output_def normal_segment_duration_def
      normal_fragment_duration_def limits valid_values Let_def)

lemma NeedObjectDetection_normalize [simp]:
  "NeedObjectDetection (j\<lparr>Output := normal_output (Output j)\<rparr>) = NeedObjectDetection j"
  by (simp add: NeedObjectDetection_def normal_output_def Let_def)

lemma normal_output_frame [simp]:
  "Drm (normal_output out) = Drm out" "Detection (normal_output out) = Detection out"
  "S3_output (normal_output out) = S3_output out" "Stream_type (normal_output out) = Stream_type out"
  "Video_outputs (normal_output out) = Video_outputs out"
  "Audio_outputs (normal_output out) = Audio_outputs out"
  by (simp_all add: normal_output_def Let_def)

lemma validate_drm_iff: "validate_drm d = None \<longleftrightarrow> drm_ok d"
  by (auto simp: validate_drm_def drm_ok_def)

lemma validate_detection_ok:
  assumes "detection_ok d"
  shows "\<exists>w. validate_detection d = (None, w, d\<lparr>Encode_crf := max (Encode_crf d) 23\<rparr>)"
  using assms
  by (auto simp: validate_detection_def detection_ok_def not_outside_def limits valid_values
      Let_def max_def)

lemma validate_detection_error:
  assumes "\<not> detection_ok d"
  shows "\<exists>e w. validate_detection d = (Some e, w, d)"
  using assms
  by (auto simp: validate_detection_def detection_ok_def not_outside_def limits valid_values
      Let_def)

lemma rate_number_empty [simp]: "rate_number [] = None"
  by (simp add: rate_number_def slice_to_def slice_def)

lemma rate_number_nonempty [simp]:
  "s \<noteq> [] \<Longrightarrow> rate_number s = Some (parse_float (butlast s))"
proof -
  assume "s \<noteq> []"
  then obtain t c where "s = t @ [c]" by (metis append_butlast_last_id)
  moreover have "slice_to (t @ [c]) (int (length t)) = Some t"
    by (rule slice_to_append)
  ultimately show ?thesis by (simp add: rate_number_def)
qed

lemma rate_unit_ok_iff [simp]:
  "s \<noteq> [] \<Longrightarrow> rate_unit_ok s \<longleftrightarrow> last s = CHR ''k'' \<or> last s = CHR ''K''"
proof -
  assume "s \<noteq> []"
  then obtain t c where "s = t @ [c]" by (metis append_butlast_last_id)
  moreover have "slice_from (t @ [c]) (int (length t)) = Some [c]"
    using slice_from_append [of t "[c]"] by simp
  ultimately show ?thesis by (simp add: rate_unit_ok_def valid_values)
qed

lemma preset_index_iff: "preset_index p \<noteq> None \<longleftrightarrow> p \<in> set valid_h26x_presets"
  by (auto simp: preset_index_def find_None_iff in_set_conv_nth)

lemma validate_encoder_iff:
  assumes "vo_Codec vo \<in> {''h264'', ''h265'', ''av1''}"
  shows "fst (validate_encoder vo w) = None \<longleftrightarrow> encoder_ok vo"
proof (cases "vo_Codec vo = ''av1''")
  case True
  then show ?thesis
    by (auto simp: validate_encoder_def encoder_ok_def limits Let_def split: option.splits)
next
  case False
  with assms have c: "vo_Codec vo = ''h264'' \<or> vo_Codec vo = ''h265''" by auto
  show ?thesis
  proof (cases "preset_index (vo_Preset vo)")
    case None
    with preset_index_iff [of "vo_Preset vo"] c show ?thesis
      by (auto simp: validate_encoder_def encoder_ok_def)
  next
    case (Some i)
    with preset_index_iff [of "vo_Preset vo"] c show ?thesis
      by (auto simp: validate_encoder_def encoder_ok_def limits Let_def)
  qed
qed

lemma validate_peak_rates_iff:
  "passes (validate_peak_rates vo bi w) \<longleftrightarrow>
     rate_ok (\<lambda>b. \<not> flt b (Fin 0)) (vo_Max_bitrate vo) \<and>
     rate_ok (\<lambda>b. \<not> flt b (Fin 0)) (vo_Buf_size vo)"
  by (cases "vo_Max_bitrate vo = []"; cases "vo_Buf_size vo = []")
    (auto simp: validate_peak_rates_def rate_ok_def Let_def split: option.splits)

lemma BitrateString2Float64_rate_ok:
  "rate_ok P s \<Longrightarrow> \<exists>r. BitrateString2Float64 s = Some (Inr r)"
  by (auto simp: rate_ok_def BitrateString2Float64_def split: option.splits)

lemma BitrateString2Float64_rate_ok_conv:
  "BitrateString2Float64 s = Some (Inr r) \<Longrightarrow>
     s \<noteq> [] \<and> last s \<in> {CHR ''k'', CHR ''K''} \<and> parse_float (butlast s) \<noteq> None"
  by (auto simp: BitrateString2Float64_def split: option.splits if_splits)

lemma passes_video_tail:
  "passes (case r of None \<Rightarrow> None | Some (Some e, w1) \<Rightarrow> Some (Some e, w1)
     | Some (None, w1) \<Rightarrow> Some (f w1)) \<longleftrightarrow>
     (\<exists>w1. r = Some (None, w1) \<and> fst (f w1) = None)"
  by (cases r) (auto simp: passes_def split: option.splits prod.splits)

lemma validate_video_output_iff: "passes (validate_video_output vo w) \<longleftrightarrow> video_ok vo"
proof (cases "vo_Codec vo \<in> {''h264'', ''h265'', ''av1''} \<and> not_outside 0 60 (vo_Framerate vo)")
  case False
  then show ?thesis
    by (auto simp: validate_video_output_def video_ok_def not_outside_def limits valid_values)
next
  case c: True
  show ?thesis
  proof (cases "\<exists>r. BitrateString2Float64 (vo_Bitrate vo) = Some (Inr r)")
    case False
    then have "\<not> rate_ok (not_outside 0 10000) (vo_Bitrate vo)"
      using BitrateString2Float64_rate_ok by blast
    moreover have "\<not> passes (validate_video_output vo w)"
      using c False
      by (auto simp: validate_video_output_def not_outside_def limits valid_values
          split: option.splits sum.splits)
    ultimately show ?thesis by (simp add: video_ok_def)
  next
    case True
    then obtain r where r: "BitrateString2Float64 (vo_Bitrate vo) = Some (Inr r)" by blast
    then obtain bi where bi: "vo_Bitrate vo \<noteq> []" "last (vo_Bitrate vo) \<in> {CHR ''k'', CHR ''K''}"
        "parse_float (butlast (vo_Bitrate vo)) = Some bi"
      using BitrateString2Float64_rate_ok_conv by blast
    have "passes (validate_video_output vo w) \<longleftrightarrow>
        0 < vo_Width vo \<and> vo_Width vo \<le> 1920 \<and> 0 < vo_Height vo \<and> vo_Height vo \<le> 1080 \<and>
        not_outside 0 10000 bi \<and>
        (\<exists>w1. validate_peak_rates vo bi w = Some (None, w1) \<and>
              fst (validate_encoder vo w1) = None)"
      using c r bi
      by (auto simp: validate_video_output_def not_outside_def limits valid_values
          passes_video_tail)
    also have "(\<exists>w1. validate_peak_rates vo bi w = Some (None, w1) \<and>
              fst (validate_encoder vo w1) = None) \<longleftrightarrow>
        passes (validate_peak_rates vo bi w) \<and> encoder_ok vo"
      using c by (auto simp: passes_iff validate_encoder_iff)
    finally show ?thesis
      using c bi by (auto simp: video_ok_def validate_peak_rates_iff rate_ok_def)
  qed
qed

lemma validate_audio_output_iff: "passes (validate_audio_output ao w) \<longleftrightarrow> audio_ok ao"
  by (cases "ao_Bitrate ao = []")
    (auto simp: validate_audio_output_def audio_ok_def rate_ok_def valid_values
      split: option.splits)

lemma validate_all_iff:
  assumes "\<And>x w. passes (check x w) \<longleftrightarrow> ok x"
  shows "passes (validate_all check xs w) \<longleftrightarrow> list_all ok xs"
proof (induction xs arbitrary: w)
  case (Cons x xs)
  show ?case
  proof (cases "passes (check x w)")
    case True
    then obtain w' where "check x w = Some (None, w')" by (auto simp: passes_iff)
    with True Cons assms [of x w] show ?thesis by simp
  next
    case False
    with assms [of x w] show ?thesis
      by (auto simp: passes_def split: option.splits prod.splits)
  qed
qed simp

lemma validate_audio_outputs_iff:
  "passes (validate_audio_outputs aos w) \<longleftrightarrow> length aos \<le> 5 \<and> list_all audio_ok aos"
  using validate_all_iff [of validate_audio_output audio_ok, OF validate_audio_output_iff]
  by (auto simp: validate_audio_outputs_def limits)

lemma passes_then:
  "passes (case r of None \<Rightarrow> None | Some (Some e, w1) \<Rightarrow> Some (Some e, w1)
     | Some (None, w1) \<Rightarrow> f w1) \<longleftrightarrow> (\<exists>w1. r = Some (None, w1) \<and> passes (f w1))"
  by (cases r) (auto split: option.splits prod.splits)

lemma validate_outputs_iff:
  "passes (validate_outputs j w) \<longleftrightarrow>
     Bucket (S3_output (Output j)) \<noteq> [] \<and>
     (Video_outputs (Output j) \<noteq> [] \<or> NeedObjectDetection j) \<and>
     length (Video_outputs (Output j)) \<le> 10 \<and> list_all video_ok (Video_outputs (Output j)) \<and>
     length (Audio_outputs (Output j)) \<le> 5 \<and> list_all audio_ok (Audio_outputs (Output j))"
proof -
  have "(\<exists>w1. validate_all validate_video_output (Video_outputs (Output j)) w = Some (None, w1))
      \<longleftrightarrow> list_all video_ok (Video_outputs (Output j))"
    using validate_all_iff [of validate_video_output video_ok, OF validate_video_output_iff]
    by (metis passes_iff)
  then show ?thesis
    by (auto simp: validate_outputs_def passes_then validate_audio_outputs_iff limits)
qed

section \<open>The whole validation\<close>

definition header_ok :: "LiveJobSpec \<Rightarrow> bool" where
  "header_ok j \<longleftrightarrow> Stream_type (Output j) \<in> {''hls'', ''dash''} \<and> drm_ok (Drm (Output j)) \<and>
     (NeedObjectDetection j \<longrightarrow> detection_ok (Detection (Output j)))"

lemma Detection_same: "Detection out = d \<Longrightarrow> out\<lparr>Detection := d\<rparr> = out"
  by (cases out) simp

lemma normal_form_simps [simp]:
  "NeedObjectDetection (normal_form j) = NeedObjectDetection j"
  "S3_output (Output (normal_form j)) = S3_output (Output j)"
  "Stream_type (Output (normal_form j)) = Stream_type (Output j)"
  "Drm (Output (normal_form j)) = Drm (Output j)"
  "Video_outputs (Output (normal_form j)) = Video_outputs (Output j)"
  "Audio_outputs (Output (normal_form j)) = Audio_outputs (Output j)"
  by (auto simp: normal_form_def NeedObjectDetection_def Let_def detection_eq_def
      zero_Detection_def)

text \<open>A request with a bad header is rejected before its outputs are looked at.\<close>

lemma Validate_bad_header:
  assumes "\<not> header_ok j"
  shows "\<exists>e w j'. Validate j = Some (Some e, w, j')"
proof (cases "Stream_type (Output j) \<in> {''hls'', ''dash''} \<and> drm_ok (Drm (Output j))")
  case False
  then show ?thesis
    using validate_drm_iff [of "Drm (Output j)"]
    by (auto simp: Validate_def valid_values normalize_output_normal Let_def split: option.splits)
next
  case True
  with assms have n: "NeedObjectDetection j" and d: "\<not> detection_ok (Detection (Output j))"
    by (auto simp: header_ok_def)
  from True have "validate_drm (Drm (Output j)) = None" by (simp add: validate_drm_iff)
  with True n validate_detection_error [OF d] show ?thesis
    by (auto simp: Validate_def valid_values normalize_output_normal Let_def)
qed

text \<open>A request with a good header is normalised and its outputs are checked.\<close>

lemma Validate_good_header:
  assumes "header_ok j"
  shows "\<exists>w. Validate j =
    map_option (\<lambda>(e, w'). (e, w', normal_form j)) (validate_outputs (normal_form j) w)"
proof -
  from assms have h: "Stream_type (Output j) = ''hls'' \<or> Stream_type (Output j) = ''dash''"
      "validate_drm (Drm (Output j)) = None"
    by (auto simp: header_ok_def validate_drm_iff)
  show ?thesis
  proof (cases "NeedObjectDetection j")
    case False
    then have "normal_form j = j\<lparr>Output := normal_output (Output j)\<rparr>"
      by (simp add: normal_form_def Let_def Detection_same)
    with h False show ?thesis
      by (auto simp: Validate_def valid_values normalize_output_normal Let_def Detection_same)
  next
    case True
    with assms obtain w where "validate_detection (Detection (Output j)) =
        (None, w, (Detection (Output j))\<lparr>Encode_crf := max (Encode_crf (Detection (Output j))) 23\<rparr>)"
      using validate_detection_ok by (auto simp: header_ok_def)
    with h True show ?thesis
      by (auto simp: Validate_def valid_values normalize_output_normal Let_def normal_form_def)
  qed
qed

lemma request_ok_header:
  "request_ok j \<longleftrightarrow> header_ok j \<and> passes (validate_outputs (normal_form j) w)"
  by (auto simp: request_ok_def header_ok_def validate_outputs_iff)

section \<open>Panics\<close>

text \<open>The rate strings the loops slice without a length check.\<close>

definition has_empty_rate :: "LiveJobSpec \<Rightarrow> bool" where
  "has_empty_rate j \<longleftrightarrow>
     list_ex (\<lambda>vo. vo_Bitrate vo = [] \<or> vo_Max_bitrate vo = [] \<or> vo_Buf_size vo = [])
       (Video_outputs (Output j)) \<or>
     list_ex (\<lambda>ao. ao_Bitrate ao = []) (Audio_outputs (Output j))"

lemma validate_all_panic:
  assumes "validate_all check xs w = None"
  shows "\<exists>x \<in> set xs. \<exists>w. check x w = None"
  using assms
proof (induction xs arbitrary: w)
  case (Cons x xs)
  then show ?case
    by (auto split: option.splits prod.splits)
qed simp

lemma validate_peak_rates_panic:
  "validate_peak_rates vo bi w = None \<Longrightarrow> vo_Max_bitrate vo = [] \<or> vo_Buf_size vo = []"
  by (cases "vo_Max_bitrate vo = []"; cases "vo_Buf_size vo = []")
    (auto simp: validate_peak_rates_def Let_def split: option.splits if_splits)

lemma validate_video_output_panic:
  "validate_video_output vo w = None \<Longrightarrow>
     vo_Bitrate vo = [] \<or> vo_Max_bitrate vo = [] \<or> vo_Buf_size vo = []"
  using BitrateString2Float64_panic [of "vo_Bitrate vo"]
    validate_peak_rates_panic [of vo _ w]
  by (cases "vo_Bitrate vo = []")
    (auto simp: validate_video_output_def split: option.splits sum.splits if_splits)

lemma validate_audio_output_panic: "validate_audio_output ao w = None \<Longrightarrow> ao_Bitrate ao = []"
  by (cases "ao_Bitrate ao = []")
    (auto simp: validate_audio_output_def split: option.splits if_splits)

lemma validate_outputs_panic: "validate_outputs j w = None \<Longrightarrow> has_empty_rate j"
  by (auto simp: validate_outputs_def has_empty_rate_def validate_audio_outputs_def list_ex_iff
      split: option.splits if_splits
      dest!: validate_all_panic validate_video_output_panic validate_audio_output_panic)

lemma validate_video_output_no_peak:
  assumes "video_ok vo"
  shows "validate_video_output (vo\<lparr>vo_Max_bitrate := []\<rparr>) w = None"
proof -
  from assms obtain r bi where "BitrateString2Float64 (vo_Bitrate vo) = Some (Inr r)"
      "vo_Bitrate vo \<noteq> []" "last (vo_Bitrate vo) = CHR ''k'' \<or> last (vo_Bitrate vo) = CHR ''K''"
      "parse_float (butlast (vo_Bitrate vo)) = Some bi" "not_outside 0 10000 bi"
    using BitrateString2Float64_rate_ok [of "not_outside 0 10000" "vo_Bitrate vo"]
    by (auto simp: video_ok_def rate_ok_def split: option.splits)
  with assms show ?thesis
    by (auto simp: validate_video_output_def video_ok_def valid_values limits not_outside_def
        validate_peak_rates_def)
qed

section \<open>Acceptance\<close>

lemma accepted_iff:
  "(\<exists>w. Validate j = Some (None, w, j')) \<longleftrightarrow> request_ok j \<and> j' = normal_form j"
proof (cases "header_ok j")
  case False
  then show ?thesis
    using Validate_bad_header [OF False] request_ok_header [of j "[]"] by auto
next
  case True
  obtain w where "Validate j =
      map_option (\<lambda>(e, w'). (e, w', normal_form j)) (validate_outputs (normal_form j) w)"
    using Validate_good_header [OF True] by blast
  then show ?thesis
    using True request_ok_header [of j w] by (auto simp: passes_iff)
qed

lemma request_ok_normal_form: "request_ok j \<Longrightarrow> request_ok (normal_form j)"
proof -
  assume "request_ok j"
  moreover have "detection_ok (Detection (Output (normal_form j)))"
    if "NeedObjectDetection j" "detection_ok (Detection (Output j))"
    using that by (auto simp: normal_form_def detection_ok_def Let_def max_def)
  ultimately show ?thesis by (auto simp: request_ok_def)
qed

lemma normal_form_idem [simp]: "normal_form (normal_form j) = normal_form j"
proof -
  have "normal_output (normal_output out) = normal_output out" for out
    by (cases out) (auto simp: normal_output_def Let_def normal_segment_duration_def
        normal_fragment_duration_def)
  moreover have "normal_output (out\<lparr>Detection := d\<rparr>) = (normal_output out)\<lparr>Detection := d\<rparr>" for out d
    by (simp add: normal_output_def Let_def)
  moreover have "NeedObjectDetection (normal_form j) = NeedObjectDetection j" by simp
  ultimately show ?thesis
    by (simp add: normal_form_def [of "normal_form j"]) (simp add: normal_form_def Let_def)
qed

section \<open>Properties\<close>

text \<open>
  The request of \<^verbatim>\<open>specs/sample_live_job.json\<close>, as the API server decodes it: two h264
  renditions and one aac rendition, DRM and HLS.
\<close>

definition sample_video :: "int \<Rightarrow> int \<Rightarrow> string \<Rightarrow> string \<Rightarrow> LiveVideoOutputSpec" where
  "sample_video width height bitrate peak = \<lparr>vo_Codec = ''h264'', vo_Framerate = Fin 25,
     vo_Width = width, vo_Height = height, vo_Bitrate = bitrate, vo_Max_bitrate = peak,
     vo_Buf_size = peak, vo_Preset = ''faster'', vo_Crf = 27, vo_Threads = 2\<rparr>"

definition sample_job :: LiveJobSpec where
  "sample_job = zero_Spec\<lparr>Output := (Output zero_Spec)\<lparr>
     Stream_type := ''hls'', Segment_format := ''fmp4'', Fragment_duration := 1,
     Segment_duration := 4, Low_latency_mode := 0, Time_shift_buffer_depth := 120,
     Drm := \<lparr>Disable_clear_key = 0, Protection_system = ''FairPlay'',
       Protection_scheme = ''cbcs''\<rparr>,
     S3_output := \<lparr>Bucket = ''bzhang-test-bucket-public''\<rparr>,
     Video_outputs := [sample_video 640 360 ''365k'' ''500k'', sample_video 768 432 ''550k'' ''750k''],
     Audio_outputs := [\<lparr>ao_Codec = ''aac'', ao_Bitrate = ''128k''\<rparr>]\<rparr>\<rparr>"

lemma sample_job_accepted: "Validate sample_job = Some (None, [], sample_job)"
  by code_simp


text \<open>C15: validating an accepted request again accepts it and changes nothing.\<close>

theorem Validate_idempotent:
  assumes "Validate j = Some (None, w, j')"
  shows "\<exists>w'. Validate j' = Some (None, w', j')"
proof -
  have "(\<exists>w. Validate j = Some (None, w, j'))" using assms by blast
  then have j: "request_ok j" "j' = normal_form j"
    using accepted_iff by blast+
  then have "request_ok (normal_form j)" by (simp add: request_ok_normal_form)
  moreover have "normal_form (normal_form j) = normal_form j" by (rule normal_form_idem)
  ultimately show ?thesis using j accepted_iff by metis
qed

theorem Validate_idempotent_witness: "\<exists>w'. Validate sample_job = Some (None, w', sample_job)"
  by (rule Validate_idempotent [OF sample_job_accepted])

text \<open>C17: an accepted request has a fragment no longer than its segment, both in range, the
  fmp4 format and a time-shift buffer of at most four hours.\<close>

theorem Validate_durations:
  assumes "Validate j = Some (None, w, j')"
  shows "1 \<le> Fragment_duration (Output j')
    \<and> Fragment_duration (Output j') \<le> Segment_duration (Output j')
    \<and> Fragment_duration (Output j') \<le> 10 \<and> Segment_duration (Output j') \<le> 30
    \<and> Segment_format (Output j') = ''fmp4''
    \<and> Time_shift_buffer_depth (Output j') \<le> 14400"
proof -
  have "j' = normal_form j" using assms accepted_iff by blast
  then show ?thesis by (auto simp: normal_form_def normal_output_def normal_segment_duration_def
      normal_fragment_duration_def Let_def min_def)
qed

theorem Validate_durations_witness:
  "Fragment_duration (Output sample_job) \<le> Segment_duration (Output sample_job)"
  using Validate_durations [OF sample_job_accepted] by simp

text \<open>C16: validation panics only on a request that leaves some rate string empty; every other
  request gets a verdict.\<close>

theorem Validate_no_panic:
  assumes "\<not> has_empty_rate j"
  shows "Validate j \<noteq> None"
proof
  assume n: "Validate j = None"
  have h: "header_ok j" using Validate_bad_header [of j] n by auto
  then obtain w where "validate_outputs (normal_form j) w = None"
    using Validate_good_header [OF h] n by auto
  then have "has_empty_rate (normal_form j)" by (rule validate_outputs_panic)
  with assms show False by (simp add: has_empty_rate_def)
qed

theorem Validate_no_panic_witness: "Validate sample_job \<noteq> None"
  by (rule Validate_no_panic) (simp add: has_empty_rate_def sample_job_def sample_video_def)

text \<open>
  A request whose first rendition is fine but omits its \<open>Max_bitrate\<close> makes the
  validation panic instead of being rejected.\<close>

theorem Validate_missing_max_bitrate_panics:
  assumes "header_ok j" "Bucket (S3_output (Output j)) \<noteq> []"
    and "Video_outputs (Output j) = vo\<lparr>vo_Max_bitrate := []\<rparr> # vos" "length vos < 10"
    and "video_ok vo"
  shows "Validate j = None"
proof -
  have "validate_video_output (vo\<lparr>vo_Max_bitrate := []\<rparr>) w = None" for w
    using assms(5) by (rule validate_video_output_no_peak)
  then have "validate_outputs (normal_form j) w = None" for w
    using assms(2-4) by (simp add: validate_outputs_def limits)
  then show ?thesis using Validate_good_header [OF assms(1)] by auto
qed

theorem Validate_missing_max_bitrate_panics_witness:
  "Validate (sample_job\<lparr>Output := (Output sample_job)\<lparr>Video_outputs :=
     [(sample_video 640 360 ''365k'' ''500k'')\<lparr>vo_Max_bitrate := []\<rparr>]\<rparr>\<rparr>) = None"
proof (rule Validate_missing_max_bitrate_panics
    [where vo = "sample_video 640 360 ''365k'' ''500k''" and vos = "[]"])
  show "video_ok (sample_video 640 360 ''365k'' ''500k'')" by code_simp
qed (simp_all add: sample_job_def header_ok_def drm_ok_def NeedObjectDetection_def zero_Spec_def
      detection_eq_def zero_Detection_def)

text \<open>
  The rate check lets \<open>NaN\<close> through: any acceptable rendition stays acceptable when
  its \<open>Bitrate\<close> is replaced by \<open>nank\<close>.\<close>

theorem validate_video_output_accepts_nan:
  assumes "\<exists>w'. validate_video_output vo w = Some (None, w')"
  shows "\<exists>w'. validate_video_output (vo\<lparr>vo_Bitrate := ''nank''\<rparr>) w = Some (None, w')"
proof -
  have "video_ok vo" using assms validate_video_output_iff passes_iff by metis
  then have "video_ok (vo\<lparr>vo_Bitrate := ''nank''\<rparr>)"
    by (simp add: video_ok_def rate_ok_def not_outside_def encoder_ok_def)
  then show ?thesis using validate_video_output_iff passes_iff by metis
qed

theorem validate_video_output_accepts_nan_witness:
  "\<exists>w'. validate_video_output ((sample_video 640 360 ''365k'' ''500k'')\<lparr>vo_Bitrate := ''nank''\<rparr>) []
     = Some (None, w')"
proof (rule validate_video_output_accepts_nan)
  show "\<exists>w'. validate_video_output (sample_video 640 360 ''365k'' ''500k'') [] = Some (None, w')"
    by (rule exI [where x = "[]"]) code_simp
qed

end
