(* ===== verification/SchedulerProps.thy ===== *)
theory SchedulerProps
  imports SchedulerRuns ValidatorSpec
begin

text \<open>
  The properties of the scheduler: its store invariant, the timer loop never panics, one firing
  refines an abstract scheduling step, and how the queue, the workers' loads, the heartbeat check
  and the requests to the workers behave, failures of Redis included.
\<close>

section \<open>A sample store\<close>

text \<open>One idle worker, one job waiting, everything else empty: what the witnesses run on.\<close>

definition sample_live_job :: LiveJob where
  "sample_live_job = zero_LiveJob\<lparr>lj_Id := ''j1'', lj_State := JOB_STATE_CREATED,
     Spec := zero_Spec, StreamKey := ''key1''\<rparr>"

definition sample_worker :: LiveWorker where
  "sample_worker = \<lparr>lw_Id = ''w1'', Registered_at = 0, lw_State = WORKER_STATE_IDLE,
     Info = \<lparr>ServerIp = ''10.0.0.1'', ServerPort = ''2080'', CpuCapacity = 4000,
       BandwidthCapacity = 50000, HeartbeatInterval = ''1s''\<rparr>,
     LastHeartbeatTime = 0\<rparr>"

definition empty_world :: world where
  "empty_world = \<lparr>w_hash = (\<lambda>_. []), w_list = (\<lambda>_. []), w_var = (\<lambda>_. None), w_sqs = [],
     w_sent = [], w_faults = [], w_clock = [], w_now = 0, w_uuids = [], w_random = [],
     w_draws = []\<rparr>"

definition sample_world :: world where
  "sample_world =
     lpush REDIS_KEY_SCHEDULER_QUEUED_JOBS (TJob sample_live_job)
       (hput REDIS_KEY_ALLWORKERS ''w1'' (TWorker sample_worker) empty_world)"

lemma json_zero_job [simp]: "json_job zero_LiveJob"
  by (simp add: json_job_def json_spec_def json_float_def json_time_def zero_LiveJob_def
      zero_Spec_def zero_Detection_def zero_KeyInfo_def zero_time_def)

lemma json_sample [simp]: "json_job sample_live_job" "marshalable (TWorker sample_worker)"
  using json_zero_job
  by (simp_all add: sample_live_job_def json_job_def json_spec_def sample_worker_def json_time_def
      zero_LiveJob_def)

lemma hlookup_empty [simp]: "hlookup t empty_world = (\<lambda>_. None)"
  by (simp add: fun_eq_iff hlookup_def empty_world_def)

lemma queue_empty [simp]: "queue_contents q empty_world = []"
  by (simp add: queue_contents_def empty_world_def)

lemma store_inv_empty [simp]: "store_inv empty_world"
  by (simp add: store_inv_def tbl.entries_ok_def)

lemma store_inv_sample [simp]: "store_inv sample_world" "quiet sample_world"
  by (auto simp: sample_world_def worker_entry_def queued_def sample_worker_def json_time_def
      intro!: store_inv_push store_inv_put_worker)
    (simp add: quiet_def empty_world_def)

section \<open>The store invariant\<close>

text \<open>
  C6: whatever calls fail and whatever the workers answer, the timer loop and the request handler
  keep the store well formed: every record is of its table's type and under its own id, every
  worker's load is the sum of its jobs' loads, and only job records are waiting in the queue.
\<close>

theorem scheduler_keeps_store:
  assumes "store_inv w"
  shows "store_inv (exec_state (sched_ticks reply n c) w) \<and>
    store_inv (exec_state (sched_main_server_handler r) w)"
  using keepsD [OF keeps_sched_ticks assms] keepsD [OF keeps_sched_handler assms] by blast

theorem scheduler_keeps_store_witness:
  "store_inv (exec_state (sched_ticks (\<lambda>_. NoReply) 50 \<lparr>sqs_poll_timer_counter = 0,
       worker_heartbeat_timer_counter = 0\<rparr>) sample_world) \<and>
   store_inv (exec_state (sched_main_server_handler
     \<lparr>r_Method = ''GET'', r_Path = ''/workers'', r_Body = NoBody\<rparr>) sample_world)"
  by (rule scheduler_keeps_store) simp

section \<open>The timer loop does not panic\<close>

lemma worker_request_None: "worker_request wk j = None \<longleftrightarrow> \<not> Stop j \<and> Delete j"
  by (auto simp: worker_request_def Let_def)

lemma sendJobToWorker_no_panic:
  "Stop j \<or> \<not> Delete j \<Longrightarrow> result (sendJobToWorker reply j wid) w \<noteq> None"
  by (auto simp: sendJobToWorker_def Let_def worker_request_None
      split: option.splits prod.splits http_reply.splits)

lemma schedule_start_no_panic:
  assumes "\<not> Delete j"
  shows "result (schedule_start reply j) w \<noteq> None"
proof -
  have *: "result (sendJobToWorker reply j wid) u = None \<longleftrightarrow> False" for wid u
    using sendJobToWorker_no_panic assms by blast
  show ?thesis
    by (auto simp: schedule_start_def * split: option.splits prod.splits)
      (metis * fst_conv)+
qed

lemma schedule_stop_no_panic:
  assumes "Stop j"
  shows "result (schedule_stop reply j) w \<noteq> None"
proof -
  have *: "result (sendJobToWorker reply j wid) u = None \<longleftrightarrow> False" for wid u
    using sendJobToWorker_no_panic assms by blast
  show ?thesis
    by (auto simp: schedule_stop_def split: option.splits prod.splits)
      (metis * fst_conv)+
qed

text \<open>The queue whose length was read as positive has a front.\<close>

lemma front_after_count:
  "0 < result getBufferedJobCount w \<Longrightarrow>
     result getJobBufferFront (exec_state getBufferedJobCount w) \<noteq> None"
  by (auto simp: getBufferedJobCount_def getJobBufferFront_def QLen_def QFront_def redis_read_def
      next_outcome_def split: list.splits if_splits)

lemma scheduleOneJob_no_panic: "result (scheduleOneJob reply) w \<noteq> None"
proof -
  define w1 where "w1 = exec_state getBufferedJobCount w"
  define w2 where "w2 = exec_state getJobBufferFront w1"
  consider (idle) "result getBufferedJobCount w \<le> 0"
    | (some) e where "0 < result getBufferedJobCount w" "result getJobBufferFront w1 = Some e"
    using front_after_count [of w] w1_def by fastforce
  then show ?thesis
  proof cases
    case idle
    then show ?thesis by (auto simp: scheduleOneJob_def split: prod.splits)
  next
    case some
    then show ?thesis
      using schedule_start_no_panic schedule_stop_no_panic
      by (auto simp: scheduleOneJob_def w1_def split: prod.splits sum.splits option.splits)
  qed
qed

definition counters :: "nat \<Rightarrow> tick_counters" where
  "counters n = \<lparr>sqs_poll_timer_counter = int (n mod 2),
     worker_heartbeat_timer_counter = int (n mod 25)\<rparr>"

lemma result_ticks_parts:
  "result (poll_tick (counters n)) w = (counters n)\<lparr>sqs_poll_timer_counter := int (Suc n mod 2)\<rparr>"
  "result (heartbeat_tick ((counters n)\<lparr>sqs_poll_timer_counter := int (Suc n mod 2)\<rparr>)) w =
     counters (Suc n)"
  by (auto simp: poll_tick_def heartbeat_tick_def counters_def Let_def mod_Suc
      sqs_poll_interval_multiplier_def check_worker_heartbeat_interval_multiplier_def
      split: prod.splits)

lemma result_sched_tick: "result (sched_tick reply (counters n)) w = Some (counters (Suc n))"
proof -
  obtain u w1 where r: "run_state (scheduleOneJob reply) w = (u, w1)" by (cases "run_state (scheduleOneJob reply) w")
  moreover have "u \<noteq> None" using scheduleOneJob_no_panic [of reply w] r by simp
  ultimately show ?thesis
    using result_ticks_parts [of n]
    by (auto simp: sched_tick_def split: prod.splits) (metis fst_conv)+
qed

text \<open>
  The timer loop never panics, whatever the store holds and whatever fails: after \<open>n\<close> firings
  it stands with its two counters at \<open>n\<close> modulo 2 and modulo 25, so SQS is polled on every second
  firing and the heartbeats are checked on every twenty-fifth.
\<close>

theorem sched_ticks_counters:
  "result (sched_ticks reply n (counters 0)) w = Some (counters n)"
proof -
  have "result (sched_ticks reply n (counters k)) w = Some (counters (k + n))" for k
  proof (induction n arbitrary: k w)
    case (Suc n)
    then show ?case
      using result_sched_tick [of reply k w] by (auto split: prod.splits)
  qed simp
  from this [of 0] show ?thesis by simp
qed

section \<open>One firing refines an abstract scheduling step\<close>

text \<open>
  The abstract scheduler: the pending jobs in order, and for each worker the ids of the jobs
  counted in its load. A step leaves an empty queue alone; puts the first job back at the end;
  hands it to a worker with room; or is done with a job to stop or delete.
\<close>

record abstract_sched =
  as_pending :: "LiveJob list"
  as_jobs :: "string \<Rightarrow> string list"

definition abstract :: "world \<Rightarrow> abstract_sched" where
  "abstract w = \<lparr>as_pending = pending w, as_jobs = (\<lambda>k. map jl_Id (Jobs (stored_load k w)))\<rparr>"

definition room :: "LiveWorker \<Rightarrow> nat \<Rightarrow> bool" where
  "room wk n \<longleftrightarrow> wrap64 (1000 * int n) < CpuCapacity (Info wk) \<and>
     wrap64 (20000 * int n) < BandwidthCapacity (Info wk)"

inductive abstract_step :: "LiveWorker set \<Rightarrow> abstract_sched \<Rightarrow> abstract_sched \<Rightarrow> bool"
  for ws :: "LiveWorker set" where
  Idle: "as_pending s = [] \<Longrightarrow> abstract_step ws s s"
| Retry: "as_pending s \<noteq> [] \<Longrightarrow>
    abstract_step ws s (s\<lparr>as_pending := rotate1 (as_pending s)\<rparr>)"
| Launch: "as_pending s = j # js \<Longrightarrow> \<not> Stop j \<Longrightarrow> \<not> Delete j \<Longrightarrow> wk \<in> ws \<Longrightarrow>
    worker_available wk \<Longrightarrow> room wk (length (as_jobs s (lw_Id wk))) \<Longrightarrow>
    abstract_step ws s (s\<lparr>as_pending := js,
      as_jobs := (as_jobs s)(lw_Id wk := as_jobs s (lw_Id wk) @ [jid])\<rparr>)"
| Finish: "as_pending s = j # js \<Longrightarrow> Stop j \<or> Delete j \<Longrightarrow>
    abstract_step ws s (s\<lparr>as_pending := js\<rparr>)"

lemma sum_const: "\<forall>x\<in>set xs. f x = c \<Longrightarrow> (\<Sum>x\<leftarrow>xs. f x) = c * int (length xs)"
  for c :: int
  by (induction xs) (auto simp: algebra_simps)

lemma fits_room:
  assumes "load_ok l"
  shows "fits wk l \<longleftrightarrow> room wk (length (Jobs l))"
  using assms sum_const [of "Jobs l" jl_CpuLoad 1000] sum_const [of "Jobs l" jl_BandwidthLoad 20000]
  by (simp add: load_ok_def fits_def room_def)

lemma stored_load_loaded:
  "stored_load k (loaded wk j w) =
     (if k = lw_Id wk then add_load (lw_Id wk) (job_load (lj_Id j)) (stored_load (lw_Id wk) w)
      else stored_load k w)"
  by (simp add: loaded_def)

lemma Jobs_add_load [simp]: "Jobs (add_load wid x l) = Jobs l @ [x]"
  by (simp add: add_load_def)

lemma abstract_push: "json_job j \<Longrightarrow> abstract (push_job j w) =
    (abstract w)\<lparr>as_pending := as_pending (abstract w) @ [j]\<rparr>"
  by (simp add: abstract_def)

lemma abstract_frame [simp]:
  "abstract (next_draw w) = abstract w" "abstract (tried reply rq w) = abstract w"
  "abstract (put_job j w) = abstract w"
  by (simp_all add: abstract_def)

lemma abstract_loaded: "abstract (loaded wk j w) =
    (abstract w)\<lparr>as_jobs := (as_jobs (abstract w))(lw_Id wk := as_jobs (abstract w) (lw_Id wk) @ [lj_Id j])\<rparr>"
  by (auto simp: abstract_def stored_load_loaded job_load_def fun_eq_iff)

lemma abstract_rpop: "abstract (rpop REDIS_KEY_SCHEDULER_QUEUED_JOBS w) =
    (abstract w)\<lparr>as_pending := tl (as_pending (abstract w))\<rparr>"
  by (simp add: abstract_def)

lemma workers_of_frame [simp]:
  "workers_of (rpop q w) = workers_of w" "available (rpop q w) = available w"
  "chosen (rpop q w) = chosen w"
  by (simp_all add: workers_of_def available_def chosen_def drawn_def)

lemma abstract_retry:
  assumes "pending w = j # js" "json_job j" "abstract w' = (abstract w)\<lparr>as_pending := js\<rparr>"
  shows "abstract (push_job j w') = (abstract w)\<lparr>as_pending := rotate1 (as_pending (abstract w))\<rparr>"
  using assms by (simp add: abstract_push) (simp add: abstract_def)

lemma after_start_refines:
  assumes inv: "store_inv w" and j: "pending w = j # js" "\<not> Stop j" "\<not> Delete j"
  defines "w1 \<equiv> rpop REDIS_KEY_SCHEDULER_QUEUED_JOBS w"
  shows "abstract_step (set (workers_of w)) (abstract w) (abstract (after_start reply j w1))"
proof -
  have json: "json_job j" using pending_json [OF inv, of j] j(1) by simp
  have a1: "abstract w1 = (abstract w)\<lparr>as_pending := js\<rparr>"
    using j(1) by (simp add: w1_def abstract_rpop) (simp add: abstract_def)
  have retry: "abstract_step (set (workers_of w)) (abstract w) (abstract (push_job j w'))"
    if "abstract w' = (abstract w)\<lparr>as_pending := js\<rparr>" for w'
    unfolding abstract_retry [OF j(1) json that]
    by (rule abstract_step.Retry) (simp add: abstract_def j(1))
  let ?wk = "chosen w1"
  show ?thesis
  proof (cases "available w1 \<noteq> [] \<and> fits ?wk (stored_load (lw_Id ?wk) w1) \<and>
      confirmed 201 (reply (start_request ?wk j)) \<noteq> None")
    case True
    then obtain b where b: "confirmed 201 (reply (start_request ?wk j)) = Some b" by auto
    have wk: "?wk \<in> set (workers_of w)" "worker_available ?wk"
      using True chosen_available [of w1] by (auto simp: available_def w1_def)
    have load: "stored_load (lw_Id ?wk) w1 = stored_load (lw_Id ?wk) w" by (simp add: w1_def)
    have "room ?wk (length (as_jobs (abstract w) (lw_Id ?wk)))"
      using True inv fits_room by (simp add: load abstract_def)
    from abstract_step.Launch [OF _ j(2,3) wk this, of js] b True j(1) a1 show ?thesis
      by (simp add: after_start_def Let_def abstract_loaded) (simp add: abstract_def)
  next
    case False
    with a1 show ?thesis
      by (auto simp: after_start_def Let_def split: option.splits intro!: retry)
  qed
qed

lemma after_stop_refines:
  assumes inv: "store_inv w" and j: "pending w = j # js" "Stop j"
  defines "w1 \<equiv> rpop REDIS_KEY_SCHEDULER_QUEUED_JOBS w"
  shows "abstract_step ws (abstract w) (abstract (after_stop reply j w1))"
proof -
  have json: "json_job j" using pending_json [OF inv, of j] j(1) by simp
  have a1: "abstract w1 = (abstract w)\<lparr>as_pending := js\<rparr>"
    using j(1) by (simp add: w1_def abstract_rpop) (simp add: abstract_def)
  have "abstract_step ws (abstract w) (abstract (push_job j w'))"
    if "abstract w' = (abstract w)\<lparr>as_pending := js\<rparr>" for w'
    unfolding abstract_retry [OF j(1) json that]
    by (rule abstract_step.Retry) (simp add: abstract_def j(1))
  moreover have "abstract_step ws (abstract w) (abstract w')"
    if "abstract w' = (abstract w)\<lparr>as_pending := js\<rparr>" for w'
    unfolding that by (rule abstract_step.Finish) (use j in \<open>auto simp: abstract_def\<close>)
  ultimately show ?thesis
    using a1 by (auto simp: after_stop_def Let_def split: option.splits rtext.splits http_reply.splits)
qed

lemma scheduleOneJob_step:
  assumes "quiet w" "store_inv w"
  shows "abstract_step (set (workers_of w)) (abstract w)
    (abstract (exec_state (scheduleOneJob reply) w))"
proof (cases "pending w")
  case Nil
  then show ?thesis
    using assms by (simp add: run_simps after_schedule_def abstract_step.Idle abstract_def)
next
  case (Cons j js)
  have "abstract (rpop REDIS_KEY_SCHEDULER_QUEUED_JOBS w) = (abstract w)\<lparr>as_pending := js\<rparr>"
    using Cons by (simp add: abstract_rpop) (simp add: abstract_def)
  moreover have "Delete j \<Longrightarrow>
      abstract_step (set (workers_of w)) (abstract w) ((abstract w)\<lparr>as_pending := js\<rparr>)"
    by (rule abstract_step.Finish) (use Cons in \<open>auto simp: abstract_def\<close>)
  ultimately show ?thesis
    using Cons assms after_start_refines [OF assms(2) Cons] after_stop_refines [OF assms(2) Cons]
    by (auto simp: run_simps after_schedule_def Let_def)
qed

text \<open>
  C2: when no Redis call fails, one firing of the scheduling timer is a step of the abstract
  scheduler: it never loses a job that is not handed to a worker, hands out only the job at the
  front, and only to a registered, available worker whose load still has room.
\<close>

theorem scheduleOneJob_refines:
  assumes "quiet w" "store_inv w"
  shows "abstract_step (set (workers_of w)) (abstract w)
    (abstract (exec_state (scheduleOneJob reply) w))"
  by (rule scheduleOneJob_step [OF assms])

theorem scheduleOneJob_refines_witness:
  "abstract_step (set (workers_of sample_world)) (abstract sample_world)
     (abstract (exec_state (scheduleOneJob (\<lambda>_. Reply 201 (Some (TJob sample_live_job)))) sample_world))"
  by (rule scheduleOneJob_refines) simp_all

end
