(* ===== verification/SchedulerQueue.thy ===== *)
theory SchedulerQueue
  imports SchedulerProps
begin

text \<open>
  How jobs move: through the pending queue from one firing of the timer to the next, and from
  SQS into the queue, failures included.
\<close>

section \<open>Repeated firings\<close>

primrec schedule_times :: "(wreq \<Rightarrow> http_reply) \<Rightarrow> nat \<Rightarrow> world \<Rightarrow> world" where
  "schedule_times reply 0 w = w"
| "schedule_times reply (Suc n) w = schedule_times reply n (exec_state (scheduleOneJob reply) w)"

lemma quiet_loaded [simp]: "quiet (loaded wk j w) = quiet w"
  by (simp add: loaded_def)

lemma quiet_schedule [simp]:
  assumes "quiet w" "store_inv w"
  shows "quiet (exec_state (scheduleOneJob reply) w)"
  using assms
  by (auto simp: run_simps after_schedule_def after_start_def after_stop_def Let_def
      split: list.splits option.splits rtext.splits http_reply.splits)

lemma store_inv_schedule: "store_inv w \<Longrightarrow> store_inv (exec_state (scheduleOneJob reply) w)"
  by (rule keepsD [OF keeps_scheduleOneJob])

lemma abstract_step_shift:
  assumes "abstract_step ws s t" "Suc i < length (as_pending s)"
  shows "i < length (as_pending t) \<and> as_pending t ! i = as_pending s ! Suc i"
  using assms
proof cases
  case Retry
  with assms(2) show ?thesis by (cases "as_pending s") (auto simp: nth_append)
qed (use assms(2) in auto)

lemma pending_shift:
  assumes "quiet w" "store_inv w" "Suc i < length (pending w)"
  shows "i < length (pending (exec_state (scheduleOneJob reply) w)) \<and>
    pending (exec_state (scheduleOneJob reply) w) ! i = pending w ! Suc i"
  using abstract_step_shift [OF scheduleOneJob_step [OF assms(1,2)], of i] assms(3)
  by (simp add: abstract_def)

text \<open>
  C19: no job starves behind another: when no Redis call fails, the job at place \<open>n\<close> of the queue
  is at its front after \<open>n\<close> firings of the timer, whatever became of the jobs before it.
\<close>

theorem queue_progress:
  assumes "quiet w" "store_inv w" "n < length (pending w)"
  shows "\<exists>js. pending (schedule_times reply n w) = pending w ! n # js"
  using assms
proof (induction n arbitrary: w)
  case 0
  then show ?case by (cases "pending w") auto
next
  case (Suc n)
  let ?w = "exec_state (scheduleOneJob reply) w"
  have "\<exists>js. pending (schedule_times reply n ?w) = pending ?w ! n # js"
    using Suc pending_shift [OF Suc.prems] by (intro Suc.IH) (auto simp: store_inv_schedule)
  with pending_shift [OF Suc.prems] show ?case by simp
qed

theorem queue_progress_witness:
  "\<exists>js. pending (schedule_times (\<lambda>_. NoReply) 1
      (push_job (sample_live_job\<lparr>lj_Id := ''j2''\<rparr>) sample_world)) =
    sample_live_job\<lparr>lj_Id := ''j2''\<rparr> # js"
proof -
  have json: "json_job (sample_live_job\<lparr>lj_Id := ''j2''\<rparr>)"
    using json_sample(1) by (simp add: json_job_def sample_live_job_def)
  have p: "pending (push_job (sample_live_job\<lparr>lj_Id := ''j2''\<rparr>) sample_world) =
      [sample_live_job, sample_live_job\<lparr>lj_Id := ''j2''\<rparr>]"
    using json by (simp add: pending_def sample_world_def)
  show ?thesis
    using queue_progress [of "push_job (sample_live_job\<lparr>lj_Id := ''j2''\<rparr>) sample_world" 1]
    by (simp add: p) (simp add: json push_job_def store_inv_push queued_def)
qed

section \<open>Stopping a job its worker does not know\<close>

lemma stop_404_step:
  assumes "quiet w" "store_inv w" "pending w = [j]" "Stop j" "Assigned_worker_id j = wid" "wid \<noteq> []"
    "hlookup REDIS_KEY_ALLWORKERS w wid = Some (TWorker wk)"
    "reply (stop_request wk j) = Reply 404 body"
  defines "w' \<equiv> exec_state (scheduleOneJob reply) w"
  shows "pending w' = [j] \<and> w_sent w' = w_sent w @ [stop_request wk j] \<and>
    hlookup REDIS_KEY_ALLWORKERS w' wid = Some (TWorker wk)"
proof -
  have "json_job j" using pending_json [OF assms(2), of j] assms(3) by simp
  with assms show ?thesis
    by (auto simp: w'_def run_simps after_schedule_def after_stop_def tried_def Let_def)
qed


definition sample_stop :: LiveJob where
  "sample_stop = sample_live_job\<lparr>Stop := True, Assigned_worker_id := ''w1''\<rparr>"

definition stop_world :: world where
  "stop_world =
     lpush REDIS_KEY_SCHEDULER_QUEUED_JOBS (TJob sample_stop)
       (hput REDIS_KEY_ALLWORKERS ''w1'' (TWorker sample_worker) empty_world)"

lemma stop_world_ok [simp]:
  "quiet stop_world" "store_inv stop_world" "pending stop_world = [sample_stop]"
  "hlookup REDIS_KEY_ALLWORKERS stop_world ''w1'' = Some (TWorker sample_worker)"
proof -
  have "json_job sample_stop"
    using json_sample(1) by (simp add: json_job_def sample_stop_def)
  then show "quiet stop_world" "store_inv stop_world" "pending stop_world = [sample_stop]"
    "hlookup REDIS_KEY_ALLWORKERS stop_world ''w1'' = Some (TWorker sample_worker)"
    by (auto simp: stop_world_def worker_entry_def queued_def sample_worker_def json_time_def
        pending_def hlookup_hput intro!: store_inv_push store_inv_put_worker)
      (simp add: quiet_def empty_world_def)
qed


section \<open>From SQS into the queue\<close>

definition reading :: "world \<Rightarrow> go_time" where
  "reading w = (case w_clock w of [] \<Rightarrow> w_now w | t # _ \<Rightarrow> t)"

definition tick_clock :: "world \<Rightarrow> world" where
  "tick_clock w = (case w_clock w of [] \<Rightarrow> w | t # ts \<Rightarrow> w\<lparr>w_clock := ts, w_now := t\<rparr>)"

lemma run_time_Now [run_simps]: "run_state time_Now w = (reading w, tick_clock w)"
  by (simp add: time_Now_def reading_def tick_clock_def split: list.splits)

lemma tick_clock_frame [simp]:
  "quiet (tick_clock w) = quiet w" "hlookup t (tick_clock w) = hlookup t w"
  "pending (tick_clock w) = pending w" "w_sqs (tick_clock w) = w_sqs w"
  "queue_contents q (tick_clock w) = queue_contents q w" "store_inv (tick_clock w) = store_inv w"
  "w_faults (tick_clock w) = w_faults w" "w_hash (tick_clock w) = w_hash w"
  using store_inv_data
  by (auto simp: tick_clock_def pending_def data_inv_def split: list.splits)

lemma reading_frame [simp]:
  "reading (w\<lparr>w_faults := f\<rparr>) = reading w" "reading (w\<lparr>w_sqs := q\<rparr>) = reading w"
  by (simp_all add: reading_def split: list.splits)

lemma run_ReceiveMsg [run_simps]: "quiet w \<Longrightarrow> run_state ReceiveMsg w = (Inr (take 1 (w_sqs w)), w)"
  by (simp add: ReceiveMsg_def sqs_call_def run_simps)

lemma run_DeleteMsg [run_simps]:
  "quiet w \<Longrightarrow> run_state DeleteMsg w = (True, w\<lparr>w_sqs := tl (w_sqs w)\<rparr>)"
  by (simp add: DeleteMsg_def sqs_call_def run_simps)

lemma run_SendMsg [run_simps]:
  "quiet w \<Longrightarrow> run_state (SendMsg m) w = (True, w\<lparr>w_sqs := w_sqs w @ [m]\<rparr>)"
  by (simp add: SendMsg_def sqs_call_def run_simps)

lemma w_sqs_put_job [simp]: "w_sqs (put_job j w) = w_sqs w" "w_sqs (push_job j w) = w_sqs w"
  by (simp_all add: put_job_def push_job_def)

lemma pending_sqs [simp]: "pending (w\<lparr>w_sqs := x\<rparr>) = pending w"
  by (simp add: pending_def)

text \<open>The record a received job is stored and queued as.\<close>

definition received :: "go_time \<Rightarrow> LiveJob \<Rightarrow> LiveJob" where
  "received t j = (if Stop j then j else j\<lparr>Time_received_by_scheduler := t\<rparr>)"

lemma json_received: "json_job j \<Longrightarrow> json_time t \<Longrightarrow> json_job (received t j)"
  by (simp add: received_def json_job_def)

lemma pollJobQueue_run:
  assumes "quiet w" "w_sqs w = TJob j # rest"
  shows "run_state pollJobQueue w = (None,
    (let j' = received (reading w) j;
         w' = (if Stop j then w else put_job j' (tick_clock w))
     in (push_job j' w')\<lparr>w_sqs := rest\<rparr>))"
  using assms by (simp add: pollJobQueue_def run_simps receive_job_def received_def Let_def)

text \<open>
  C20: when no call fails, a poll moves the message at the front of SQS to the end of the pending
  queue; a job to start is stamped with the time and its record is stored under its id, a job to
  stop goes into the queue as it came and leaves the stored record alone.
\<close>

theorem pollJobQueue_moves:
  assumes "quiet w" "w_sqs w = TJob j # rest" "json_job j" "json_time (reading w)"
  defines "w' \<equiv> exec_state pollJobQueue w" and "j' \<equiv> received (reading w) j"
  shows "w_sqs w' = rest \<and> pending w' = pending w @ [j'] \<and>
    hlookup REDIS_KEY_ALLJOBS w' =
      (if Stop j then hlookup REDIS_KEY_ALLJOBS w
       else (hlookup REDIS_KEY_ALLJOBS w)(lj_Id j \<mapsto> TJob j'))"
proof -
  have "json_job j'" using assms(3,4) by (simp add: j'_def json_received)
  with assms(1,2) show ?thesis
    by (auto simp: w'_def pollJobQueue_run j'_def [symmetric] Let_def put_job_def hlookup_hput)
      (simp add: j'_def received_def)
qed

theorem pollJobQueue_moves_witness:
  "let w = sample_world\<lparr>w_sqs := [TJob sample_live_job]\<rparr>;
       w' = exec_state pollJobQueue w;
       j' = received (reading w) sample_live_job
   in w_sqs w' = [] \<and> pending w' = pending w @ [j'] \<and>
     hlookup REDIS_KEY_ALLJOBS w' =
      (if Stop sample_live_job then hlookup REDIS_KEY_ALLJOBS w
       else (hlookup REDIS_KEY_ALLJOBS w)(lj_Id sample_live_job \<mapsto> TJob j'))"
  unfolding Let_def
  by (rule pollJobQueue_moves)
    (simp_all add: reading_def sample_world_def lpush_def hput_def empty_world_def quiet_def
      json_time_def)

text \<open>
  A message that is not a job record is never removed: a poll fails on it and leaves the
  whole world as it was, so every message behind it waits forever.
\<close>

theorem pollJobQueue_poison:
  assumes "quiet w" "w_sqs w = m # rest" "unmarshal_job m = None"
  shows "run_state pollJobQueue w = (Some json_failure, w)"
  using assms by (simp add: pollJobQueue_def run_simps)

theorem pollJobQueue_poison_witness:
  "run_state pollJobQueue (sample_world\<lparr>w_sqs := [TBad ''{'', TJob sample_live_job]\<rparr>) =
     (Some json_failure, sample_world\<lparr>w_sqs := [TBad ''{'', TJob sample_live_job]\<rparr>)"
  by (rule pollJobQueue_poison [of _ "TBad ''{''" "[TJob sample_live_job]"]) simp_all

text \<open>
  The message is deleted from SQS whether or not the push into the pending queue succeeded:
  when Redis does not get the push, the job is in neither queue and is never scheduled.
\<close>

theorem pollJobQueue_loses_job:
  assumes "w_faults w = [Done, Done, Done, LostRequest]" "w_sqs w = TJob j # rest"
    "\<not> Stop j" "json_job j" "json_time (reading w)"
  defines "w' \<equiv> exec_state pollJobQueue w"
  shows "w_sqs w' = rest \<and> pending w' = pending w"
proof -
  have json: "json_job (j\<lparr>Time_received_by_scheduler := reading w\<rparr>)"
    using assms(4,5) by (simp add: json_job_def)
  show ?thesis
    using assms(1-3) json
    by (simp add: w'_def pollJobQueue_def ReceiveMsg_def DeleteMsg_def sqs_call_def
        next_outcome_def receive_job_def run_time_Now sched_createUpdateJob_def bufferJob_def
        HSetStruct_def HSetString_def QPushStruct_def QPushString_def redis_write_def
        Let_def pending_def queue_contents_def hput_def tick_clock_def split: list.splits)
qed

theorem pollJobQueue_loses_job_witness:
  "let w = sample_world\<lparr>w_sqs := [TJob sample_live_job], w_faults := [Done, Done, Done, LostRequest]\<rparr>
   in w_sqs (exec_state pollJobQueue w) = [] \<and> pending (exec_state pollJobQueue w) = pending w"
  unfolding Let_def
  by (rule pollJobQueue_loses_job [of _ sample_live_job])
    (simp_all add: reading_def sample_world_def lpush_def hput_def empty_world_def json_time_def,
     simp add: sample_live_job_def zero_LiveJob_def)

end
