(* ===== verification/SchedulerLoad.thy ===== *)
theory SchedulerLoad
  imports SchedulerQueue
begin

text \<open>
  The workers' loads and heartbeats: how many jobs a worker is given, how a job's load is added
  and taken off, when a worker is removed, and what a failing Redis call does to the loads.
\<close>

lemma sample_world_sel [simp]:
  "hlookup REDIS_KEY_ALLWORKERS sample_world = [''w1'' \<mapsto> TWorker sample_worker]"
  "stored_load k sample_world = zero_WorkerLoad" "w_hash sample_world REDIS_KEY_WORKER_LOADS = []"
  by (auto simp: sample_world_def stored_load_def hlookup_def fun_eq_iff lpush_def hput_def
      empty_world_def)

section \<open>No worker is given more jobs than it has room for\<close>

definition job_count :: "string \<Rightarrow> world \<Rightarrow> nat" where
  "job_count k w = length (Jobs (stored_load k w))"

text \<open>
  A worker has room for its jobs when the load of all of them but the last is below its
  capacity: the scheduler compares before it adds.
\<close>

definition within_capacity :: "LiveWorker \<Rightarrow> nat \<Rightarrow> bool" where
  "within_capacity wk n \<longleftrightarrow> n = 0 \<or>
     (1000 * (int n - 1) < CpuCapacity (Info wk) \<and> 20000 * (int n - 1) < BandwidthCapacity (Info wk))"

definition small_capacity :: "LiveWorker \<Rightarrow> bool" where
  "small_capacity wk \<longleftrightarrow> CpuCapacity (Info wk) < 2 ^ 62 \<and> BandwidthCapacity (Info wk) < 2 ^ 62"

definition capacity_inv :: "world \<Rightarrow> bool" where
  "capacity_inv w \<longleftrightarrow> (\<forall>k wk. hlookup REDIS_KEY_ALLWORKERS w k = Some (TWorker wk) \<longrightarrow>
     small_capacity wk \<and> within_capacity wk (job_count k w))"

lemma capacity_inv_frame [simp]:
  "capacity_inv (push_job j w) = capacity_inv w" "capacity_inv (put_job j w) = capacity_inv w"
  "capacity_inv (next_draw w) = capacity_inv w" "capacity_inv (tried reply rq w) = capacity_inv w"
  "capacity_inv (rpop q w) = capacity_inv w"
  by (simp_all add: capacity_inv_def job_count_def)

lemma room_within:
  assumes "room wk n" "small_capacity wk" "within_capacity wk n"
  shows "within_capacity wk (Suc n)"
proof -
  have "1000 * int n < 2 ^ 62 + 1000" "20000 * int n < 2 ^ 62 + 20000"
    using assms(2,3) by (auto simp: within_capacity_def small_capacity_def)
  then have "wrap64 (1000 * int n) = 1000 * int n" "wrap64 (20000 * int n) = 20000 * int n"
    by simp_all
  with assms(1) show ?thesis by (simp add: room_def within_capacity_def)
qed

lemma capacity_inv_loaded:
  assumes "capacity_inv w" "hlookup REDIS_KEY_ALLWORKERS w (lw_Id wk) = Some (TWorker wk)"
    and room: "room wk (job_count (lw_Id wk) w)"
  shows "capacity_inv (loaded wk j w)"
  unfolding capacity_inv_def
proof (intro allI impI)
  fix k wk' assume k: "hlookup REDIS_KEY_ALLWORKERS (loaded wk j w) k = Some (TWorker wk')"
  have small: "small_capacity wk \<and> within_capacity wk (job_count (lw_Id wk) w)"
    using assms(1,2) by (simp add: capacity_inv_def)
  show "small_capacity wk' \<and> within_capacity wk' (job_count k (loaded wk j w))"
  proof (cases "k = lw_Id wk")
    case True
    with k have "wk' = wk\<lparr>lw_State := WORKER_STATE_LOADED\<rparr>" by (simp add: loaded_def hlookup_hput)
    with True small room_within [OF room] show ?thesis
      by (simp add: job_count_def stored_load_loaded small_capacity_def within_capacity_def)
  next
    case False
    with k assms(1) show ?thesis
      by (simp add: loaded_def hlookup_hput capacity_inv_def job_count_def)
  qed
qed

lemma capacity_inv_schedule:
  assumes "quiet w" "store_inv w" "capacity_inv w"
  shows "capacity_inv (exec_state (scheduleOneJob reply) w)"
proof -
  have stop: "capacity_inv (after_stop reply j u)" if "capacity_inv u" for j u
    using that by (auto simp: after_stop_def Let_def
        split: option.splits rtext.splits http_reply.splits)
  have start: "capacity_inv (after_start reply j u)"
    if "capacity_inv u" "store_inv u" for j u
  proof (cases "available u \<noteq> [] \<and> fits (chosen u) (stored_load (lw_Id (chosen u)) u)")
    case True
    then have wk: "hlookup REDIS_KEY_ALLWORKERS u (lw_Id (chosen u)) = Some (TWorker (chosen u))"
      using available_entry [OF that(2) chosen_available] by blast
    from True fits_room [OF stored_load_ok [OF that(2)]]
    have "room (chosen u) (job_count (lw_Id (chosen u)) u)" by (simp add: job_count_def)
    with wk that(1) True show ?thesis
      by (auto simp: after_start_def Let_def job_count_def split: option.splits
          intro!: capacity_inv_loaded)
  next
    case False
    with that show ?thesis by (auto simp: after_start_def)
  qed
  show ?thesis
    using assms stop start
    by (auto simp: run_simps after_schedule_def Let_def store_inv_pop split: list.splits)
qed

text \<open>
  C7: as long as no Redis call fails, however often the timer fires and whatever the workers
  answer, no worker is ever given a job when the load of the jobs it already has reaches its CPU
  or bandwidth capacity (capacities below \<open>2 ^ 62\<close>, so that the sums do not wrap).
\<close>

theorem capacity_respected:
  assumes "quiet w" "store_inv w" "capacity_inv w"
  shows "capacity_inv (schedule_times reply n w)"
  using assms
proof (induction n arbitrary: w)
  case (Suc n)
  then show ?case
    by (simp add: store_inv_schedule capacity_inv_schedule)
qed simp

theorem capacity_respected_witness:
  "capacity_inv (schedule_times (\<lambda>_. Reply 201 (Some (TJob sample_live_job))) 9 sample_world)"
  by (rule capacity_respected)
    (auto simp: capacity_inv_def job_count_def within_capacity_def small_capacity_def
      sample_worker_def)

section \<open>Adding a load and taking it off\<close>

lemma find_job_load_snoc:
  "i \<notin> jl_Id ` set xs \<Longrightarrow> jl_Id x = i \<Longrightarrow> find_job_load i (xs @ [x]) = Some (length xs)"
  by (induction xs) auto

lemma drop_add_load:
  assumes "load_ok l"
  shows "drop_load (length (Jobs l)) (add_load wid (job_load jid) l) = l\<lparr>wl_Id := wid\<rparr>"
proof -
  have "wrap64 (CpuLoad l) = CpuLoad l" "wrap64 (BandwidthLoad l) = BandwidthLoad l"
    using assms wrap64_add_left [of _ 0] by (metis load_ok_def add.right_neutral)+
  then show ?thesis
    by (cases l) (simp add: drop_load_def add_load_def job_load_def Let_def)
qed

text \<open>
  C21: taking a job's load off its worker undoes adding it: whatever the worker's load was, after
  a job it did not have is added and then reported stopped the load is the same again.
\<close>

theorem load_roundtrip:
  assumes "quiet w" "store_inv w" "marshalable (TWorker wk)"
    and "lj_Id j \<notin> jl_Id ` set (Jobs (stored_load (lw_Id wk) w))"
  shows "stored_load (lw_Id wk) (exec_state (do {
           addNewJobLoad wk j; updateWorkerLoad (lw_Id wk) (lj_Id j) }) w) =
    (stored_load (lw_Id wk) w)\<lparr>wl_Id := lw_Id wk\<rparr>"
proof -
  let ?l = "stored_load (lw_Id wk) w"
  let ?l1 = "add_load (lw_Id wk) (job_load (lj_Id j)) ?l"
  have "find_job_load (lj_Id j) (Jobs ?l1) = Some (length (Jobs ?l))"
    using assms(4) find_job_load_snoc by (simp add: job_load_def)
  moreover have "hlookup REDIS_KEY_WORKER_LOADS (loaded wk j w) (lw_Id wk) = Some (TLoad ?l1)"
    by (simp add: loaded_def hlookup_hput)
  ultimately show ?thesis
    using assms by (simp add: run_simps updateWorkerLoad_def drop_add_load)
qed

theorem load_roundtrip_witness:
  "stored_load (lw_Id sample_worker) (exec_state (do {
       addNewJobLoad sample_worker sample_live_job;
       updateWorkerLoad (lw_Id sample_worker) (lj_Id sample_live_job) }) sample_world) =
   (stored_load (lw_Id sample_worker) sample_world)\<lparr>wl_Id := lw_Id sample_worker\<rparr>"
  by (rule load_roundtrip) (simp_all, simp add: sample_worker_def json_time_def)

section \<open>What a failing call does to the loads\<close>

text \<open>
  A load that cannot be read counts as no load: when the read of a worker's load fails while
  a new job is added, the record is overwritten with the new job as the only one.
\<close>

theorem addNewJobLoad_forgets:
  assumes "w_faults w = [LostRequest]" "marshalable (TWorker wk)"
  shows "stored_load (lw_Id wk) (exec_state (addNewJobLoad wk j) w) =
    add_load (lw_Id wk) (job_load (lj_Id j)) zero_WorkerLoad"
  using assms
  by (simp add: addNewJobLoad_def getWorkerLoadById_def HGet_def redis_read_def next_outcome_def
      estimateJobLoad_def createUpdateWorkerLoad_def createUpdateWorker_def HSetStruct_def
      HSetString_def redis_write_def stored_load_def hlookup_def hput_def job_load_def)

theorem addNewJobLoad_forgets_witness:
  "stored_load (lw_Id sample_worker)
     (exec_state (addNewJobLoad sample_worker sample_live_job) (sample_world\<lparr>w_faults := [LostRequest]\<rparr>)) =
   add_load (lw_Id sample_worker) (job_load (lj_Id sample_live_job)) zero_WorkerLoad"
  by (rule addNewJobLoad_forgets) (simp_all add: sample_worker_def json_time_def)

section \<open>Heartbeats\<close>

text \<open>The store after the jobs of a removed worker have been marked stopped.\<close>

definition mark_stopped :: "JobLoad \<Rightarrow> world \<Rightarrow> world" where
  "mark_stopped x w = (case hlookup REDIS_KEY_ALLJOBS w (jl_Id x) of
     Some (TJob j) \<Rightarrow> put_job (resetJobStats (j\<lparr>lj_State := JOB_STATE_STOPPED\<rparr>)) w | _ \<Rightarrow> w)"

lemma mark_stopped_frame [simp]:
  "quiet (mark_stopped x w) = quiet w" "w_clock (mark_stopped x w) = w_clock w"
  "w_now (mark_stopped x w) = w_now w"
  "t \<noteq> REDIS_KEY_ALLJOBS \<Longrightarrow> hlookup t (mark_stopped x w) = hlookup t w"
  by (auto simp: mark_stopped_def put_job_def split: option.splits rtext.splits)

lemma store_inv_mark_stopped: "store_inv w \<Longrightarrow> store_inv (mark_stopped x w)"
  by (auto simp: mark_stopped_def split: option.splits rtext.splits)

lemma run_stop_load_job:
  "quiet w \<Longrightarrow> store_inv w \<Longrightarrow> run_state (stop_load_job x) w = ((), mark_stopped x w)"
  by (auto simp: stop_load_job_def mark_stopped_def run_simps job_entry_def
      split: option.splits dest!: store_inv_jobD)

lemma run_stop_loop:
  "quiet w \<Longrightarrow> store_inv w \<Longrightarrow>
     run_state (for_each xs stop_load_job) w = ((), fold mark_stopped xs w)"
  by (induction xs arbitrary: w) (simp_all add: run_stop_load_job store_inv_mark_stopped)

lemma fold_mark_frame [simp]:
  "quiet (fold mark_stopped xs w) = quiet w" "w_clock (fold mark_stopped xs w) = w_clock w"
  "w_now (fold mark_stopped xs w) = w_now w"
  "t \<noteq> REDIS_KEY_ALLJOBS \<Longrightarrow> hlookup t (fold mark_stopped xs w) = hlookup t w"
  by (induction xs arbitrary: w) simp_all

lemma run_stopWorkerJobs [run_simps]:
  assumes "quiet w" "store_inv w"
  shows "run_state (stopWorkerJobs k) w = (None, fold mark_stopped (Jobs (stored_load k w)) w)"
proof (cases "hlookup REDIS_KEY_WORKER_LOADS w k")
  case None
  then show ?thesis using assms by (simp add: stopWorkerJobs_def run_simps stored_load_def)
next
  case (Some t)
  with store_inv_loadD [OF assms(2)] obtain l where "t = TLoad l" by (auto simp: load_entry_def)
  with Some show ?thesis
    using assms by (simp add: stopWorkerJobs_def run_simps stored_load_def run_stop_loop)
qed

text \<open>The store after one worker has been checked at a given time.\<close>

definition checked :: "LiveWorker \<Rightarrow> world \<Rightarrow> world" where
  "checked wk w = (if removal_due (w_now w) wk
     then hdel REDIS_KEY_ALLWORKERS (lw_Id wk)
       (fold mark_stopped (Jobs (stored_load (lw_Id wk) w)) w) else w)"

lemma hdel_clock [simp]: "w_clock (hdel t k w) = w_clock w" "w_now (hdel t k w) = w_now w"
  by (simp_all add: hdel_def)

lemma checked_frame [simp]:
  "quiet (checked wk w) = quiet w" "w_clock (checked wk w) = w_clock w" "w_now (checked wk w) = w_now w"
  by (simp_all add: checked_def hdel_clock)

lemma fold_mark_inv: "store_inv w \<Longrightarrow> store_inv (fold mark_stopped xs w)"
  by (induction xs arbitrary: w) (simp_all add: store_inv_mark_stopped)

lemma store_inv_checked: "store_inv w \<Longrightarrow> store_inv (checked wk w)"
  by (simp add: checked_def store_inv_del_worker fold_mark_inv)

lemma removal_due_state [simp]: "removal_due t (wk\<lparr>lw_State := s\<rparr>) = removal_due t wk"
  by (simp add: removal_due_def heartbeat_interval_def)

lemma run_check_one_worker:
  assumes "quiet w" "store_inv w" "w_clock w = []"
  shows "exec_state (check_one_worker wk) w = checked wk w"
  using assms
  by (simp add: check_one_worker_def run_time_Now reading_def tick_clock_def Let_def run_simps
      removeWorker_def checked_def)

lemma run_check_workers:
  assumes "quiet w" "store_inv w" "w_clock w = []"
  shows "exec_state (check_workers (map TWorker wks)) w = fold checked wks w"
  using assms
proof (induction wks arbitrary: w)
  case (Cons wk wks)
  then show ?case
    using run_check_one_worker [OF Cons.prems, of wk]
    by (cases "run_state (check_one_worker wk) w") (simp add: store_inv_checked)
qed simp

lemma run_getAllWorkers:
  assumes "quiet w" "store_inv w"
  shows "run_state getAllWorkers w = ((None, map TWorker (workers_of w)), w)"
proof -
  let ?ks = "map fst (w_hash w REDIS_KEY_ALLWORKERS)"
  have "the (hlookup REDIS_KEY_ALLWORKERS w k) =
      TWorker (the (unmarshal_worker (the (hlookup REDIS_KEY_ALLWORKERS w k))))" if "k \<in> set ?ks" for k
  proof -
    from that obtain t where t: "hlookup REDIS_KEY_ALLWORKERS w k = Some t"
      using hlookup_keys [of k w REDIS_KEY_ALLWORKERS] by auto
    from store_inv_workerD [OF assms(2) t] t show ?thesis by (auto simp: worker_entry_def)
  qed
  then have "map (\<lambda>k. the (hlookup REDIS_KEY_ALLWORKERS w k)) ?ks = map TWorker (workers_of w)"
    unfolding workers_of_def by simp
  with assms run_HGet_loop [OF assms(1), of ?ks REDIS_KEY_ALLWORKERS "[]"] hlookup_keys show ?thesis
    by (simp add: getAllWorkers_def run_simps)
qed

lemma hlookup_fold_checked:
  "hlookup REDIS_KEY_ALLWORKERS (fold checked wks w) k =
     (if \<exists>wk \<in> set wks. lw_Id wk = k \<and> removal_due (w_now w) wk then None
      else hlookup REDIS_KEY_ALLWORKERS w k)"
proof (induction wks arbitrary: w)
  case (Cons wk wks)
  have "hlookup REDIS_KEY_ALLWORKERS (checked wk w) k =
      (if lw_Id wk = k \<and> removal_due (w_now w) wk then None else hlookup REDIS_KEY_ALLWORKERS w k)"
    by (simp add: checked_def hlookup_hdel)
  then show ?case by (auto simp: Cons.IH)
qed simp



lemma parse_1s: "parse_duration ''1s'' = Some 1000000000"
  by code_simp

text \<open>
  With the interval of one second that the workers register with, the removal threshold is
  ten seconds, but the suspension threshold is three thousand million seconds: the interval is a
  number of nanoseconds, and is multiplied by a thousand instead of divided by a million.
\<close>

theorem heartbeat_thresholds:
  assumes "HeartbeatInterval (Info wk) = ''1s''"
    and "silence = UnixMilli now - UnixMilli (LastHeartbeatTime wk)"
  shows "removal_due now wk = (silence > 10000) \<and>
    suspension_due now wk =
      (UnixMilli (LastHeartbeatTime wk) \<noteq> 0 \<and> silence > 3000000000000)"
proof -
  have "heartbeat_interval wk = 1000000000"
    using assms(1) by (simp add: heartbeat_interval_def parse_1s)
  then show ?thesis
    by (simp add: removal_due_def suspension_due_def assms(2)
        max_missing_heartbeats_before_suspension_def max_missing_heartbeats_before_removal_def)
qed

theorem heartbeat_thresholds_witness:
  "removal_due 11000000000 sample_worker = ((11000 :: int) > 10000) \<and>
   suspension_due 11000000000 sample_worker =
     (UnixMilli (LastHeartbeatTime sample_worker) \<noteq> 0 \<and> (11000 :: int) > 3000000000000)"
  by (rule heartbeat_thresholds) (simp_all add: sample_worker_def UnixMilli_def)

section \<open>A launch whose bookkeeping fails\<close>

lemmas redis_calls = redis_read_def redis_write_def next_outcome_def QLen_def QFront_def QPop_def
  HKeys_def HGet_def HSetStruct_def HSetString_def QPushStruct_def QPushString_def hput_def
  hlookup_def lpush_def

lemmas launch_calls = scheduleOneJob_def getBufferedJobCount_def getJobBufferFront_def
  popBufferedJob_def schedule_start_def assignWorker_def randomAssign_def rand_Intn_def
  getAllAvailableWorkers_def getWorkerById_def getWorkerLoadById_def sendJobToWorker_def
  http_Do_def sched_createUpdateJob_def addNewJobLoad_def createUpdateWorkerLoad_def
  createUpdateWorker_def estimateJobLoad_def bufferJob_def

text \<open>
  When Redis fails on the very last write of a launch, the job that the worker has started
  and confirmed is put back in the queue as well, so that it will be launched a second time.
\<close>

theorem launch_twice:
  assumes "w = lpush REDIS_KEY_SCHEDULER_QUEUED_JOBS (TJob j)
       (hput REDIS_KEY_ALLWORKERS (lw_Id wk) (TWorker wk) empty_world)
       \<lparr>w_faults := replicate 11 Done @ [LostRequest]\<rparr>"
    and "json_job j" "\<not> Stop j" "\<not> Delete j" "worker_available wk" "fits wk zero_WorkerLoad"
    "marshalable (TWorker wk)" "reply (start_request wk j) = Reply 201 (Some (TJob b))" "json_job b"
  shows "w_sent (exec_state (scheduleOneJob reply) w) = [start_request wk j] \<and>
    map jl_Id (Jobs (stored_load (lw_Id wk) (exec_state (scheduleOneJob reply) w))) = [lj_Id b] \<and>
    pending (exec_state (scheduleOneJob reply) w) = [j]"
  using assms(2-) unfolding assms(1)
  by (simp add: redis_calls launch_calls empty_world_def worker_available_def fits_def not_le
      Let_def launched_job_def stored_load_def pending_def queue_contents_def add_load_def
      numeral_eq_Suc json_job_def redis_failure_def)

theorem launch_twice_witness:
  "let r = (\<lambda>_. Reply 201 (Some (TJob sample_live_job)));
       w = lpush REDIS_KEY_SCHEDULER_QUEUED_JOBS (TJob sample_live_job)
         (hput REDIS_KEY_ALLWORKERS (lw_Id sample_worker) (TWorker sample_worker) empty_world)
         \<lparr>w_faults := replicate 11 Done @ [LostRequest]\<rparr>
   in w_sent (exec_state (scheduleOneJob r) w) = [start_request sample_worker sample_live_job] \<and>
     map jl_Id (Jobs (stored_load (lw_Id sample_worker) (exec_state (scheduleOneJob r) w))) =
       [lj_Id sample_live_job] \<and>
     pending (exec_state (scheduleOneJob r) w) = [sample_live_job]"
  unfolding Let_def
  by (rule launch_twice [OF refl])
    (simp_all, simp_all add: sample_worker_def sample_live_job_def zero_LiveJob_def
      worker_available_def fits_def json_time_def)

section \<open>Job reports\<close>



section \<open>Registration\<close>

text \<open>
  A worker that registers while Redis answers gets the next fresh id, is stored idle with
  what it declared, and is what \<open>GET /workers/<id>\<close> then returns.
\<close>

theorem register_then_get:
  assumes "quiet w" "w_clock w = []" "w_uuids w = u # us" "json_time (w_now w)"
    and wk_def: "wk = \<lparr>lw_Id = u, Registered_at = w_now w, lw_State = WORKER_STATE_IDLE, Info = i,
      LastHeartbeatTime = w_now w\<rparr>"
  shows "result (do { a \<leftarrow> register_worker (BodyWorkerInfo i); b \<leftarrow> get_worker u; ret (a, b) }) w =
    ([WriteHeader 201, Write (CWorker wk)], [WriteHeader 200, Write (CWorker wk)])"
proof -
  have clock: "reading w = w_now w" "tick_clock w = w"
    using assms(2) by (simp_all add: reading_def tick_clock_def)
  have "run_state uuid_New w = (u, w\<lparr>w_uuids := us\<rparr>)"
    using assms(3) by (simp add: uuid_New_def)
  then show ?thesis
    using assms(1,4) clock assms(2)
    by (simp add: register_worker_def createWorker_def run_simps reading_def tick_clock_def
        get_worker_def wk_def hlookup_hput zero_LiveWorker_def Let_def)
qed

theorem register_then_get_witness:
  "let w = empty_world\<lparr>w_uuids := [''w7'']\<rparr>; i = Info sample_worker;
       wk = \<lparr>lw_Id = ''w7'', Registered_at = w_now w, lw_State = WORKER_STATE_IDLE, Info = i,
         LastHeartbeatTime = w_now w\<rparr>
   in result (do { a \<leftarrow> register_worker (BodyWorkerInfo i); b \<leftarrow> get_worker ''w7''; ret (a, b) }) w =
     ([WriteHeader 201, Write (CWorker wk)], [WriteHeader 200, Write (CWorker wk)])"
  unfolding Let_def
  by (rule register_then_get) (simp_all add: quiet_def empty_world_def json_time_def)

end
