(* ===== verification/KeyServer.thy ===== *)
theory KeyServer
  imports Http SchedulerLoad
begin

text \<open>
  \<open>drm_key_server/ezKey_server.go\<close>: the server that makes the clear keys of protected streams.
  The response headers it sets carry no state and are left out.
\<close>

definition key_endpoint :: string where "key_endpoint = ''keys''"

definition createUpdateDrmKey :: "KeyInfo \<Rightarrow> (world, string option) state" where
  "createUpdateDrmKey k = HSetStruct REDIS_KEY_DRM_KEYS (Key_id k) (TKey k)"

definition getKeyById :: "string \<Rightarrow> (world, KeyInfo option) state" where
  "getKeyById kid = do {
     v \<leftarrow> HGet REDIS_KEY_DRM_KEYS kid;
     ret (case v of Inl e \<Rightarrow> None | Inr t \<Rightarrow> unmarshal_key t) }"

text \<open>The error pages of this server and of the API server indent their second line by two.\<close>

definition error2 :: "string \<Rightarrow> int \<Rightarrow> string \<Rightarrow> wact list" where
  "error2 status code res = http_Error (error_page status ''  '' res) code"

text \<open>The result of storing the key is dropped: the response is 201 all the same.\<close>

definition create_key :: "http_body \<Rightarrow> (world, wact list) state" where
  "create_key body =
     (if body = NoBody then
        ret (error2 ''400 bad request'' 400 ''Error New DRM key request without body'')
      else case decode_key_request body of
        None \<Rightarrow> ret (error2 ''400 bad request'' 400 ''Failed to decode create key request'')
      | Some kr \<Rightarrow> do {
          r1 \<leftarrow> rand_Read16;
          r2 \<leftarrow> rand_Read16;
          now \<leftarrow> time_Now;
          case (Random_16bytes_as_string r1, Random_16bytes_as_string r2) of
            (Some kid, Some key) \<Rightarrow> do {
              let k = \<lparr>Key_id = kid, Key = key, ki_Content_id = ckr_Content_id kr,
                ki_Time_created = now\<rparr>;
              createUpdateDrmKey k;
              ret [WriteHeader 201, Write (CKeyResponse \<lparr>ckp_Key_id = Key_id k,
                ckp_Content_id = ki_Content_id k, ckp_Time_created = ki_Time_created k\<rparr>)] }
          | _ \<Rightarrow> ret (http_Error (error_page ''500 internal server error'' '' ''
              ''Error: Failed to create new DRM key.'') 500) })"

definition get_key :: "string \<Rightarrow> (world, wact list) state" where
  "get_key kid =
     (if kid = key_endpoint then
        ret (http_Error (error_page ''400 bad request'' '' ''
          ''Error: A valid key ID must be provided'') 400)
      else do {
        k \<leftarrow> getKeyById kid;
        ret (case k of
            Some k \<Rightarrow> [WriteHeader 200, Write (CKeyInfo k)]
          | None \<Rightarrow> http_Error (''Error: Non-existent key id: '' @ kid) 404) })"

definition key_main_server_handler :: "http_request \<Rightarrow> (world, wact list option) state" where
  "key_main_server_handler r =
     (if r_Method r = ''OPTIONS'' then ret (Some [])
      else case UrlLastPart (r_Path r) of
        None \<Rightarrow> ret None
      | Some lastPart \<Rightarrow>
          if str_contains (r_Path r) key_endpoint then
            if \<not> (r_Method r = ''GET'' \<or> r_Method r = ''POST'') then
              ret (Some (error2 ''405 method not allowed'' 405 (not_allowed (r_Method r) (r_Path r))))
            else if r_Method r = ''POST'' then do { acts \<leftarrow> create_key (r_Body r); ret (Some acts) }
            else do { acts \<leftarrow> get_key lastPart; ret (Some acts) }
          else ret (Some []))"

section \<open>Keys\<close>

lemma run_createUpdateDrmKey [run_simps]:
  "quiet w \<Longrightarrow> run_state (createUpdateDrmKey k) w =
     (if json_time (ki_Time_created k)
      then (None, hput REDIS_KEY_DRM_KEYS (Key_id k) (TKey k) w) else (Some json_failure, w))"
  by (simp add: createUpdateDrmKey_def run_HSetStruct)

lemma run_getKeyById [run_simps]:
  "quiet w \<Longrightarrow> run_state (getKeyById k) w =
     (case hlookup REDIS_KEY_DRM_KEYS w k of None \<Rightarrow> None | Some t \<Rightarrow> unmarshal_key t, w)"
  by (simp add: getKeyById_def run_HGet split: option.splits)

lemma hex_char_values:
  "0 \<le> d \<Longrightarrow> d < 16 \<Longrightarrow> hex_char d \<in> set ''0123456789abcdef''"
proof -
  assume "0 \<le> d" "d < 16"
  then have "d \<in> set [0..15]" by simp
  moreover have "list_all (\<lambda>d. hex_char d \<in> set ''0123456789abcdef'') [0..15]" by code_simp
  ultimately show ?thesis by (simp only: list_all_iff)
qed

lemma hex_bytes_digits: "set (concat (map hex_byte bs)) \<subseteq> set ''0123456789abcdef''"
proof -
  have "hex_char ((b mod 256) div 16) \<in> set ''0123456789abcdef''"
    "hex_char (b mod 16) \<in> set ''0123456789abcdef''" for b
    by (rule hex_char_values; presburger)+
  then show ?thesis by (auto simp: hex_byte_def)
qed

text \<open>What two reads of the random source and a clock reading make of a key request.\<close>

lemma run_rand_Read16:
  "w_random w = r # rs \<Longrightarrow> run_state rand_Read16 w = (r, w\<lparr>w_random := rs\<rparr>)"
  by (simp add: rand_Read16_def)

definition key_text :: "int list \<Rightarrow> string" where
  "key_text bs = concat (map hex_byte bs)"

lemma key_text_chars: "set (key_text bs) \<subseteq> set ''0123456789abcdef''"
  unfolding key_text_def by (rule hex_bytes_digits)

lemma key_text_path:
  "CHR ''/'' \<notin> set (key_text bs)" "key_text bs \<noteq> key_endpoint"
  using key_text_chars [of bs] by (auto simp: key_endpoint_def)

lemma key_text_nonempty: "bs \<noteq> [] \<Longrightarrow> key_text bs \<noteq> []"
  by (cases bs) (simp_all add: key_text_def hex_byte_def)

lemma run_create_key:
  assumes "w_random w = Some a # Some b # rs" "w_clock w = []"
    and "k = \<lparr>Key_id = key_text a, Key = key_text b, ki_Content_id = c, ki_Time_created = w_now w\<rparr>"
  shows "run_state (create_key (BodyKeyRequest \<lparr>ckr_Content_id = c\<rparr>)) w =
    ([WriteHeader 201, Write (CKeyResponse \<lparr>ckp_Key_id = key_text a, ckp_Content_id = c,
        ckp_Time_created = w_now w\<rparr>)],
     exec_state (createUpdateDrmKey k) (w\<lparr>w_random := rs\<rparr>))"
  using assms
  by (simp add: create_key_def rand_Read16_def time_Now_def Random_16bytes_as_string_def
      key_text_def Let_def split: prod.splits)

lemma key_handler_post:
  "run_state (key_main_server_handler \<lparr>r_Method = ''POST'', r_Path = ''/keys'', r_Body = body\<rparr>) w =
     map_prod Some id (run_state (create_key body) w)"
proof -
  have "UrlLastPart ''/keys'' = Some ''keys''" using UrlLastPart_plain [of "''keys''" "[]"] by simp
  moreover have "str_contains ''/keys'' ''keys''" using str_contains_self [of "''/''" "''keys''" "[]"] by simp
  ultimately show ?thesis
    by (simp add: key_main_server_handler_def key_endpoint_def map_prod_def split: prod.splits)
qed

lemma key_handler_get:
  assumes "bs \<noteq> []"
  shows "run_state (key_main_server_handler
      \<lparr>r_Method = ''GET'', r_Path = ''/keys/'' @ key_text bs, r_Body = NoBody\<rparr>) w =
    map_prod Some id (run_state (get_key (key_text bs)) w)"
proof -
  have "UrlLastPart (''/keys/'' @ key_text bs) = Some (key_text bs)"
    using UrlLastPart_plain [OF key_text_path(1) key_text_nonempty [OF assms], of "''/keys''"] by simp
  moreover have "str_contains (''/keys/'' @ key_text bs) ''keys''"
    using str_contains_self [of "''/''" "''keys''" "''/'' @ key_text bs"] by simp
  ultimately show ?thesis
    by (simp add: key_main_server_handler_def key_endpoint_def map_prod_def split: prod.splits)
qed

text \<open>
  C25: a key that the server creates while Redis answers is the key it returns under the id it
  answered with; the id is 32 lower-case hexadecimal digits.
\<close>

theorem key_roundtrip:
  assumes "quiet w" "w_clock w = []" "json_time (w_now w)" "w_random w = Some a # Some b # rs"
    and "length a = 16"
    and "resp = result (key_main_server_handler \<lparr>r_Method = ''POST'', r_Path = ''/keys'',
        r_Body = BodyKeyRequest \<lparr>ckr_Content_id = c\<rparr>\<rparr>) w"
    and "w' = exec_state (key_main_server_handler \<lparr>r_Method = ''POST'', r_Path = ''/keys'',
        r_Body = BodyKeyRequest \<lparr>ckr_Content_id = c\<rparr>\<rparr>) w"
  shows "\<exists>kid. length kid = 32 \<and> set kid \<subseteq> set ''0123456789abcdef'' \<and>
    resp = Some [WriteHeader 201, Write (CKeyResponse \<lparr>ckp_Key_id = kid, ckp_Content_id = c,
        ckp_Time_created = w_now w\<rparr>)] \<and>
    result (key_main_server_handler
      \<lparr>r_Method = ''GET'', r_Path = ''/keys/'' @ kid, r_Body = NoBody\<rparr>) w' =
    Some [WriteHeader 200, Write (CKeyInfo \<lparr>Key_id = kid, Key = key_text b, ki_Content_id = c,
        ki_Time_created = w_now w\<rparr>)]"
proof (intro exI conjI)
  let ?k = "\<lparr>Key_id = key_text a, Key = key_text b, ki_Content_id = c, ki_Time_created = w_now w\<rparr>"
  show "length (key_text a) = 32"
    using Random_16bytes_length [OF assms(5)] by (simp add: key_text_def Random_16bytes_as_string_def)
  show "set (key_text a) \<subseteq> set ''0123456789abcdef''" by (rule key_text_chars)
  note run = run_create_key [OF assms(4,2) refl, of c]
  show "resp = Some [WriteHeader 201, Write (CKeyResponse \<lparr>ckp_Key_id = key_text a,
      ckp_Content_id = c, ckp_Time_created = w_now w\<rparr>)]"
    by (simp add: assms(6) key_handler_post run)
  have "w' = hput REDIS_KEY_DRM_KEYS (key_text a) (TKey ?k) (w\<lparr>w_random := rs\<rparr>)"
    using assms(1,3) by (simp add: assms(7) key_handler_post run run_createUpdateDrmKey)
  moreover have "a \<noteq> []" using assms(5) by auto
  note get = key_handler_get [OF this, simplified]
  ultimately show "result (key_main_server_handler
      \<lparr>r_Method = ''GET'', r_Path = ''/keys/'' @ key_text a, r_Body = NoBody\<rparr>) w' =
    Some [WriteHeader 200, Write (CKeyInfo ?k)]"
    using assms(1) key_text_path(2) [of a]
    by (simp add: get get_key_def run_getKeyById hlookup_hput)
qed

definition key_world :: world where
  "key_world = empty_world\<lparr>w_random := [Some (replicate 16 0), Some [0..15]]\<rparr>"

theorem key_roundtrip_witness:
  "\<exists>kid. length kid = 32 \<and> set kid \<subseteq> set ''0123456789abcdef'' \<and>
    result (key_main_server_handler \<lparr>r_Method = ''POST'', r_Path = ''/keys'',
        r_Body = BodyKeyRequest \<lparr>ckr_Content_id = ''j1''\<rparr>\<rparr>) key_world =
      Some [WriteHeader 201, Write (CKeyResponse \<lparr>ckp_Key_id = kid, ckp_Content_id = ''j1'',
        ckp_Time_created = w_now key_world\<rparr>)] \<and>
    result (key_main_server_handler
        \<lparr>r_Method = ''GET'', r_Path = ''/keys/'' @ kid, r_Body = NoBody\<rparr>)
      (exec_state (key_main_server_handler \<lparr>r_Method = ''POST'', r_Path = ''/keys'',
        r_Body = BodyKeyRequest \<lparr>ckr_Content_id = ''j1''\<rparr>\<rparr>) key_world) =
    Some [WriteHeader 200, Write (CKeyInfo \<lparr>Key_id = kid, Key = key_text [0..15],
        ki_Content_id = ''j1'', ki_Time_created = w_now key_world\<rparr>)]"
  by (rule key_roundtrip [where a = "replicate 16 0" and rs = "[]"])
    (simp_all add: key_world_def empty_world_def quiet_def json_time_def)

text \<open>
  When Redis does not get the write, the server still answers 201 with a key id, and no key
  is stored under it.
\<close>

theorem key_created_but_lost:
  assumes "w_faults w = [LostRequest]" "w_clock w = []" "json_time (w_now w)"
    "w_random w = Some a # Some b # rs"
  shows "\<exists>kid. result (create_key (BodyKeyRequest \<lparr>ckr_Content_id = c\<rparr>)) w =
      [WriteHeader 201, Write (CKeyResponse \<lparr>ckp_Key_id = kid, ckp_Content_id = c,
        ckp_Time_created = w_now w\<rparr>)] \<and>
    hlookup REDIS_KEY_DRM_KEYS (exec_state (create_key (BodyKeyRequest \<lparr>ckr_Content_id = c\<rparr>)) w) =
      hlookup REDIS_KEY_DRM_KEYS w"
  using assms
  by (simp add: run_create_key [OF assms(4,2) refl] createUpdateDrmKey_def HSetStruct_def
      HSetString_def redis_write_def next_outcome_def)

theorem key_created_but_lost_witness:
  "\<exists>kid. result (create_key (BodyKeyRequest \<lparr>ckr_Content_id = ''j1''\<rparr>))
        (key_world\<lparr>w_faults := [LostRequest]\<rparr>) =
      [WriteHeader 201, Write (CKeyResponse \<lparr>ckp_Key_id = kid, ckp_Content_id = ''j1'',
        ckp_Time_created = w_now (key_world\<lparr>w_faults := [LostRequest]\<rparr>)\<rparr>)] \<and>
    hlookup REDIS_KEY_DRM_KEYS (exec_state (create_key (BodyKeyRequest \<lparr>ckr_Content_id = ''j1''\<rparr>))
        (key_world\<lparr>w_faults := [LostRequest]\<rparr>)) =
      hlookup REDIS_KEY_DRM_KEYS (key_world\<lparr>w_faults := [LostRequest]\<rparr>)"
  by (rule key_created_but_lost)
    (simp_all add: key_world_def empty_world_def json_time_def)

end
