(* ===== verification/ApiServer.thy ===== *)
theory ApiServer
  imports KeyServer Validator
begin

text \<open>
  \<open>api_server/api_server_main.go\<close>: the server of the clients' job requests. Outside it, and
  arguments of the model, are the DRM key server's answers, the growth of Go's slices, and what
  becomes of the demo's live feeder process (\<open>api_env\<close>).
\<close>

definition liveJobsEndpoint :: string where "liveJobsEndpoint = ''jobs''"

record api_env =
  env_grow :: "nat \<Rightarrow> nat"
  env_drm_post :: "string \<Rightarrow> CreateKeyResponse web_reply"
  env_drm_get :: "string \<Rightarrow> KeyInfo web_reply"
  env_feed_starts :: bool
  env_signal_ok :: bool

section \<open>DRM keys\<close>

definition createDrmKey :: "api_env \<Rightarrow> string \<Rightarrow> string + CreateKeyResponse" where
  "createDrmKey env jid =
     (case env_drm_post env jid of
        WebBadUrl \<Rightarrow> Inl ''StatusReportFailure_fail_to_post''
      | WebNoReply \<Rightarrow> Inl ''no reply''
      | WebReply status body \<Rightarrow>
          if status \<noteq> 201 then Inl ''StatusReportFailure_fail_to_read_key_server_response''
          else case body of
            None \<Rightarrow> Inl ''http_post_response_parsing_failure''
          | Some None \<Rightarrow> Inr \<lparr>ckp_Key_id = [], ckp_Content_id = [], ckp_Time_created = zero_time\<rparr>
          | Some (Some r) \<Rightarrow> Inr r)"

definition getDrmKey :: "api_env \<Rightarrow> string \<Rightarrow> string + KeyInfo" where
  "getDrmKey env key_id =
     (case env_drm_get env key_id of
        WebBadUrl \<Rightarrow> Inl ''StatusReportFailure_fail_to_get''
      | WebNoReply \<Rightarrow> Inl ''no reply''
      | WebReply status body \<Rightarrow>
          if status \<noteq> 200 then Inl ''StatusReportFailure_fail_to_read_key_server_response''
          else case body of
            None \<Rightarrow> Inl ''http_post_response_parsing_failure''
          | Some None \<Rightarrow> Inr zero_KeyInfo
          | Some (Some k) \<Rightarrow> Inr k)"

section \<open>Job records\<close>

definition assignJobInputStreamId :: "(world, string) state" where
  "assignJobInputStreamId = uuid_New"

definition api_createUpdateJob :: "LiveJob \<Rightarrow> (world, string option) state" where
  "api_createUpdateJob j = HSetStruct REDIS_KEY_ALLJOBS (lj_Id j) (TJob j)"

definition api_stopJob :: "LiveJob \<Rightarrow> (world, string option) state" where
  "api_stopJob j = HSetStruct REDIS_KEY_ALLJOBS (lj_Id j) (TJob (j\<lparr>Stop := True\<rparr>))"

definition resumeJob :: "LiveJob \<Rightarrow> (world, string option) state" where
  "resumeJob j = HSetStruct REDIS_KEY_ALLJOBS (lj_Id j) (TJob (j\<lparr>Stop := False\<rparr>))"

definition api_deleteJob :: "LiveJob \<Rightarrow> (world, string option) state" where
  "api_deleteJob j = HDelOne REDIS_KEY_ALLJOBS (lj_Id j)"

definition api_getJobById :: "string \<Rightarrow> (world, string + LiveJob) state" where
  "api_getJobById jid = do {
     v \<leftarrow> HGet REDIS_KEY_ALLJOBS jid;
     ret (case v of
         Inl e \<Rightarrow> Inl e
       | Inr t \<Rightarrow> (case unmarshal_job t of None \<Rightarrow> Inl json_failure | Some j \<Rightarrow> Inr j)) }"

definition playback_url :: "LiveJobSpec \<Rightarrow> string \<Rightarrow> string" where
  "playback_url j jid =
     (let base = ''https://'' @ Bucket (S3_output (Output j)) @ ''.s3.amazonaws.com/output_'' @ jid @ ''/''
      in if Stream_type (Output j) = ''dash'' then base @ DASH_MPD_FILE_NAME
         else if Stream_type (Output j) = ''hls'' then base @ HLS_MASTER_PLAYLIST_FILE_NAME
         else [])"

definition warning_text :: "string list \<Rightarrow> string" where
  "warning_text warnings = ''Warnings: '' @ concat warnings"

text \<open>The key of a protected job; on any failure the stream goes out unprotected.\<close>

definition job_key :: "api_env \<Rightarrow> LiveJobSpec \<Rightarrow> string \<Rightarrow> KeyInfo" where
  "job_key env j jid =
     (if Protection_system (Drm (Output j)) \<noteq> [] then
        (case createDrmKey env jid of
           Inl e \<Rightarrow> zero_KeyInfo
         | Inr resp \<Rightarrow> (case getDrmKey env (ckp_Key_id resp) of Inl e \<Rightarrow> zero_KeyInfo | Inr k \<Rightarrow> k))
      else zero_KeyInfo)"

text \<open>A job that cannot be read back is returned as it was made, without an error.\<close>

definition api_createJob ::
    "api_env \<Rightarrow> LiveJobSpec \<Rightarrow> string list \<Rightarrow> (world, string option \<times> LiveJob) state" where
  "api_createJob env j warnings = do {
     jid \<leftarrow> uuid_New;
     streamKey \<leftarrow> assignJobInputStreamId;
     now \<leftarrow> time_Now;
     let lj = zero_LiveJob\<lparr>lj_Id := jid, StreamKey := streamKey, Playback_url := playback_url j jid,
       Spec := j, Time_created := now, Stop := False, Delete := False,
       lj_State := JOB_STATE_CREATED, Job_validation_warnings := warning_text warnings,
       DrmEncryptionKeyInfo := job_key env j jid\<rparr>;
     e \<leftarrow> api_createUpdateJob lj;
     (if e \<noteq> None then ret (e, lj)
      else do {
        r \<leftarrow> api_getJobById (lj_Id lj);
        ret (None, case r of Inl err \<Rightarrow> lj | Inr j2 \<Rightarrow> j2) }) }"

section \<open>Listing the jobs\<close>

text \<open>
  \<open>getAllJobs\<close> decodes every record into one variable \<open>j\<close> and appends copies of it. A copy
  shares its \<open>Video_outputs\<close> and \<open>Audio_outputs\<close> arrays with \<open>j\<close>, and decoding a JSON array
  into a slice writes into the slice's array as far as its capacity reaches. The arrays are
  therefore an explicit store: a slice is the number of its array and a length, array 0 is that
  of a nil or an empty slice.
\<close>

record 'a arrays =
  cells :: "nat \<Rightarrow> 'a list"
  fresh :: nat

type_synonym go_slice = "nat \<times> nat"

definition no_arrays :: "'a arrays" where
  "no_arrays = \<lparr>cells = (\<lambda>_. []), fresh = 1\<rparr>"

definition grow_array :: "(nat \<Rightarrow> nat) \<Rightarrow> 'a \<Rightarrow> nat \<Rightarrow> nat \<Rightarrow> 'a arrays \<Rightarrow> nat \<times> 'a arrays" where
  "grow_array grow x i p h =
     (let c = length (cells h p); n = fresh h in
      (n, h\<lparr>cells := (cells h)(n := take i (cells h p) @ replicate (max (grow c) (Suc c) - i) x),
            fresh := Suc n\<rparr>))"

fun decode_elems :: "(nat \<Rightarrow> nat) \<Rightarrow> 'a list \<Rightarrow> nat \<Rightarrow> nat \<Rightarrow> 'a arrays \<Rightarrow> nat \<times> 'a arrays" where
  "decode_elems grow [] i p h = (p, h)"
| "decode_elems grow (x # xs) i p h =
     (let (q, g) = (if i < length (cells h p) then (p, h) else grow_array grow x i p h) in
      decode_elems grow xs (Suc i) q (g\<lparr>cells := (cells g)(q := (cells g q)[i := x])\<rparr>))"

definition decode_slice ::
    "(nat \<Rightarrow> nat) \<Rightarrow> 'a list \<Rightarrow> go_slice \<Rightarrow> 'a arrays \<Rightarrow> go_slice \<times> 'a arrays" where
  "decode_slice grow xs sl h =
     (if xs = [] then ((0, 0), h)
      else let (q, g) = decode_elems grow xs 0 (fst sl) h in ((q, length xs), g))"

definition read_slice :: "'a arrays \<Rightarrow> go_slice \<Rightarrow> 'a list" where
  "read_slice h sl = take (snd sl) (cells h (fst sl))"

text \<open>The variable \<open>j\<close>: its fields other than the two slices, the slices, and all arrays.\<close>

record job_var =
  jv_job :: LiveJob
  jv_video :: go_slice
  jv_audio :: go_slice

record job_arrays =
  ja_video :: "LiveVideoOutputSpec arrays"
  ja_audio :: "LiveAudioOutputSpec arrays"

definition unmarshal_into ::
    "(nat \<Rightarrow> nat) \<Rightarrow> rtext \<Rightarrow> job_var \<Rightarrow> job_arrays \<Rightarrow> (job_var \<times> job_arrays) option" where
  "unmarshal_into grow t v h =
     (case t of
        TJob j \<Rightarrow>
          (let (vs, hv) = decode_slice grow (Video_outputs (Output (Spec j))) (jv_video v) (ja_video h);
               (as, ha) = decode_slice grow (Audio_outputs (Output (Spec j))) (jv_audio v) (ja_audio h)
           in Some (\<lparr>jv_job = j, jv_video = vs, jv_audio = as\<rparr>, \<lparr>ja_video = hv, ja_audio = ha\<rparr>))
      | TWorker w \<Rightarrow>
          Some (v\<lparr>jv_job := (jv_job v)\<lparr>lj_Id := lw_Id w, lj_State := lw_State w\<rparr>\<rparr>, h)
      | TLoad l \<Rightarrow> Some (v\<lparr>jv_job := (jv_job v)\<lparr>lj_Id := wl_Id l\<rparr>\<rparr>, h)
      | TKey k \<Rightarrow> Some (v\<lparr>jv_job := (jv_job v)\<lparr>Time_created := ki_Time_created k\<rparr>\<rparr>, h)
      | TInt i \<Rightarrow> None
      | TBad s \<Rightarrow> None)"

text \<open>A copy as the response shows it, once all records have been decoded.\<close>

definition deref :: "job_arrays \<Rightarrow> job_var \<Rightarrow> LiveJob" where
  "deref h v =
     (let j = jv_job v; s = Spec j; out = Output s in
      j\<lparr>Spec := s\<lparr>Output := out\<lparr>Video_outputs := read_slice (ja_video h) (jv_video v),
          Audio_outputs := read_slice (ja_audio h) (jv_audio v)\<rparr>\<rparr>\<rparr>)"

fun decode_jobs ::
    "(nat \<Rightarrow> nat) \<Rightarrow> (LiveJob \<Rightarrow> bool) \<Rightarrow> rtext list \<Rightarrow> job_var \<Rightarrow> job_arrays \<Rightarrow> job_var list \<Rightarrow>
      (job_var list \<times> job_arrays) option" where
  "decode_jobs grow sel [] v h jobs = Some (jobs, h)"
| "decode_jobs grow sel (t # ts) v h jobs =
     (case unmarshal_into grow t v h of
        None \<Rightarrow> None
      | Some (v', h') \<Rightarrow>
          decode_jobs grow sel ts v' h' (if sel (jv_job v') then jobs @ [v'] else jobs))"

definition zero_job_var :: job_var where
  "zero_job_var = \<lparr>jv_job = zero_LiveJob, jv_video = (0, 0), jv_audio = (0, 0)\<rparr>"

definition list_jobs ::
    "(nat \<Rightarrow> nat) \<Rightarrow> (LiveJob \<Rightarrow> bool) \<Rightarrow> (world, string + LiveJob list) state" where
  "list_jobs grow sel = do {
     r \<leftarrow> HGetAll REDIS_KEY_ALLJOBS;
     ret (case r of
         Inl e \<Rightarrow> Inl e
       | Inr jobsString \<Rightarrow>
           (case decode_jobs grow sel jobsString zero_job_var
                   \<lparr>ja_video = no_arrays, ja_audio = no_arrays\<rparr> [] of
              None \<Rightarrow> Inl json_failure
            | Some (jobs, h) \<Rightarrow> Inr (map (deref h) jobs))) }"

definition getAllJobs :: "(nat \<Rightarrow> nat) \<Rightarrow> (world, string + LiveJob list) state" where
  "getAllJobs grow = list_jobs grow (\<lambda>j. True)"

definition getAllActiveJobs :: "(nat \<Rightarrow> nat) \<Rightarrow> (world, string + LiveJob list) state" where
  "getAllActiveJobs grow =
     list_jobs grow (\<lambda>j. lj_State j = JOB_STATE_RUNNING \<or> lj_State j = JOB_STATE_STREAMING)"

section \<open>The demo's live feeder\<close>

text \<open>
  The process-wide variables of the feeder: whether a feed was started, and the last command
  with whether its process exists. Stopping a command that never started dereferences a nil
  process (\<open>None\<close>).
\<close>

record feed =
  isLiveFeeding :: bool
  liveFeedCmd :: "(string \<times> bool) option"

definition start_ffmpeg_live_contribution :: "api_env \<Rightarrow> string \<Rightarrow> feed \<Rightarrow> feed" where
  "start_ffmpeg_live_contribution env url f =
     (if isLiveFeeding f then f
      else \<lparr>isLiveFeeding = env_feed_starts env, liveFeedCmd = Some (url, env_feed_starts env)\<rparr>)"

definition stop_ffmpeg_live_contribution :: "api_env \<Rightarrow> feed \<Rightarrow> feed option" where
  "stop_ffmpeg_live_contribution env f =
     (case liveFeedCmd f of
        None \<Rightarrow> Some f
      | Some (url, started) \<Rightarrow>
          if \<not> started then None
          else if env_signal_ok env then Some (f\<lparr>isLiveFeeding := False\<rparr>) else Some f)"

definition feed_handler :: "api_env \<Rightarrow> http_request \<Rightarrow> feed \<Rightarrow> (wact list \<times> feed) option" where
  "feed_handler env r f =
     (if \<not> (r_Method r = ''POST'' \<or> r_Method r = ''DELETE'') then
        Some (error2 ''405 method not allowed'' 405 (not_allowed (r_Method r) (r_Path r)), f)
      else if r_Method r = ''POST'' then
        (if r_Body r = NoBody then
           Some (error2 ''400 bad request'' 400 ''Error: Trying to create live feed without input'', f)
         else case decode_feed (r_Body r) of
             None \<Rightarrow> Some (error2 ''400 bad request'' 400 ''Failed to decode live feed spec'', f)
           | Some url \<Rightarrow> Some ([WriteHeader 201], start_ffmpeg_live_contribution env url f))
      else
        map_option (\<lambda>f'.
            ((if isLiveFeeding f then []
              else error2 ''400 bad request'' 400 ''Live feeder isn't running. Cannot stop!'')
             @ [WriteHeader 201], f'))
          (stop_ffmpeg_live_contribution env f))"

section \<open>The job requests\<close>

definition internal_error2 :: "wact list" where
  "internal_error2 = error2 ''500 internal server error'' 500 []"

fun numbered_warnings :: "nat \<Rightarrow> string list \<Rightarrow> string" where
  "numbered_warnings i [] = []"
| "numbered_warnings i (w # ws) = itoa (int i) @ '': '' @ w @ numbered_warnings (Suc i) ws"

text \<open>A new job: \<open>None\<close> when the validator panics.\<close>

definition create_job_request :: "api_env \<Rightarrow> LiveJobSpec \<Rightarrow> (world, wact list option) state" where
  "create_job_request env jspec =
     (case Validate jspec of
        None \<Rightarrow> ret None
      | Some (Some err, warnings, _) \<Rightarrow>
          ret (Some (http_Error (''400 bad request'' @ [CHR 0x0A] @ ''  '' @ ''Error: '' @ err @ ''.  '' @
            ''Warnings: '' @ numbered_warnings 0 warnings) 400))
      | Some (None, warnings, jspec) \<Rightarrow>
          if Api_test jspec = 1 then
            ret (Some [Write (CText (warning_text warnings @ [CHR 0x0A]))])
          else do {
            (e1, j) \<leftarrow> api_createJob env jspec warnings;
            if e1 \<noteq> None then ret (Some internal_error2)
            else if \<not> marshalable (TJob j) then ret (Some internal_error2)
            else do {
              ok \<leftarrow> SendMsg (TJob j);
              ret (Some (if \<not> ok then internal_error2 else [WriteHeader 201, Write (CJob j)])) } })"

definition post_job :: "api_env \<Rightarrow> http_body \<Rightarrow> (world, wact list option) state" where
  "post_job env body =
     (if body = NoBody then
        ret (Some (error2 ''400 bad request'' 400 ''Error New live job without job specification''))
      else case decode_spec body of
        None \<Rightarrow> ret (Some (error2 ''400 bad request'' 400 ''Failed to decode job request''))
      | Some jspec \<Rightarrow> create_job_request env jspec)"

definition hide_key :: "LiveJob \<Rightarrow> LiveJob" where
  "hide_key j = j\<lparr>DrmEncryptionKeyInfo := (DrmEncryptionKeyInfo j)
     \<lparr>Key := ''********************************''\<rparr>\<rparr>"

text \<open>The lists are answered with a 200 header before the store has been read.\<close>

definition list_reply :: "string + LiveJob list \<Rightarrow> wact list" where
  "list_reply r = WriteHeader 200 #
     (case r of Inl e \<Rightarrow> internal_error2 | Inr jobs \<Rightarrow> [Write (CJobs jobs)])"

definition get_job :: "api_env \<Rightarrow> string \<Rightarrow> (world, wact list) state" where
  "get_job env lastPart =
     (if lastPart = liveJobsEndpoint then do {
        r \<leftarrow> getAllJobs (env_grow env);
        ret (list_reply r) }
      else if lastPart = ''active'' then do {
        r \<leftarrow> getAllActiveJobs (env_grow env);
        ret (list_reply r) }
      else do {
        r \<leftarrow> api_getJobById lastPart;
        ret (case r of
            Inr j \<Rightarrow> [WriteHeader 200, Write (CJob (hide_key j))]
          | Inl e \<Rightarrow> http_Error (''Non-existent job id: '' @ lastPart) 404) })"

text \<open>The job id of \<open>/jobs/<id>/stop\<close> and \<open>/jobs/<id>/resume\<close>; \<open>None\<close> is a panic.\<close>

definition path_job_id :: "string \<Rightarrow> string \<Rightarrow> string option" where
  "path_job_id path verb =
     slice path (str_index path liveJobsEndpoint + int (length liveJobsEndpoint) + 1)
       (str_index path verb - 1)"

definition send_update ::
    "LiveJob \<Rightarrow> (LiveJob \<Rightarrow> (world, string option) state) \<Rightarrow> (world, wact list) state" where
  "send_update j store = do {
     e1 \<leftarrow> store j;
     if e1 \<noteq> None then ret (WriteHeader 202 # internal_error2)
     else if \<not> marshalable (TJob j) then ret (WriteHeader 202 # internal_error2)
     else do {
       ok \<leftarrow> SendMsg (TJob j);
       ret (WriteHeader 202 # (if ok then [] else internal_error2)) } }"

definition put_stop :: "string \<Rightarrow> (world, wact list) state" where
  "put_stop jid = do {
     r \<leftarrow> api_getJobById jid;
     case r of
       Inl e \<Rightarrow> ret (error2 ''404 not found'' 404 (''Cannot stop a non-existent job id = '' @ jid))
     | Inr j \<Rightarrow>
         if lj_State j = JOB_STATE_STOPPED then
           ret (error2 ''403 StatusForbidden'' 403 (''Trying to stop a already stopped job id: '' @ jid))
         else send_update (j\<lparr>Stop := True\<rparr>) api_stopJob }"

definition put_resume :: "string \<Rightarrow> (world, wact list) state" where
  "put_resume jid = do {
     r \<leftarrow> api_getJobById jid;
     case r of
       Inl e \<Rightarrow> ret (error2 ''404 not found'' 404 (''Trying to resume a non-existent job id: '' @ jid))
     | Inr j \<Rightarrow>
         if lj_State j = JOB_STATE_RUNNING \<or> lj_State j = JOB_STATE_STREAMING then
           ret (error2 ''403 StatusForbidden'' 403 (''Trying to resume an active job id: '' @ jid))
         else send_update (j\<lparr>Stop := False\<rparr>) resumeJob }"

definition put_job_request :: "string \<Rightarrow> string \<Rightarrow> (world, wact list option) state" where
  "put_job_request path lastPart =
     (if lastPart = liveJobsEndpoint then
        ret (Some (error2 ''403 StatusForbidden'' 403
          ''A job id must be provided when updating a job. ''))
      else if str_contains path ''stop'' then
        (case path_job_id path ''stop'' of
           None \<Rightarrow> ret None
         | Some jid \<Rightarrow> do { acts \<leftarrow> put_stop jid; ret (Some acts) })
      else if str_contains path ''resume'' then
        (case path_job_id path ''resume'' of
           None \<Rightarrow> ret None
         | Some jid \<Rightarrow> do { acts \<leftarrow> put_resume jid; ret (Some acts) })
      else ret (Some []))"

definition delete_job_request :: "string \<Rightarrow> (world, wact list) state" where
  "delete_job_request jid = do {
     r \<leftarrow> api_getJobById jid;
     case r of
       Inl e \<Rightarrow> ret (error2 ''404 not found'' 404 (''Cannot delete a non-existent job id = '' @ jid))
     | Inr j \<Rightarrow>
         if lj_State j \<noteq> JOB_STATE_STOPPED then
           ret (error2 ''403 forbidden'' 403
             ''Cannot delete a running job. Please stop the job first.'')
         else do {
           err \<leftarrow> api_deleteJob j;
           ret (case err of
               None \<Rightarrow> [WriteHeader 200, Write (CText (''Successfully deleted job '' @ jid))]
             | Some e \<Rightarrow> http_Error (''Failed to delete job '' @ jid @ ''. Error: '' @ e) 500) } }"

definition jobs_handler :: "api_env \<Rightarrow> http_request \<Rightarrow> string \<Rightarrow> (world, wact list option) state" where
  "jobs_handler env r lastPart =
     (if \<not> (r_Method r = ''POST'' \<or> r_Method r = ''GET'' \<or> r_Method r = ''PUT'' \<or> r_Method r = ''DELETE'') then
        ret (Some (error2 ''405 method not allowed'' 405 (not_allowed (r_Method r) (r_Path r))))
      else if r_Method r = ''POST'' \<and> lastPart \<noteq> liveJobsEndpoint then
        ret (Some (error2 ''400 bad request'' 400 (''POST to '' @ r_Path r @ ''is not allowed'')))
      else if r_Method r = ''POST'' then post_job env (r_Body r)
      else if r_Method r = ''GET'' then do { acts \<leftarrow> get_job env lastPart; ret (Some acts) }
      else if r_Method r = ''PUT'' then put_job_request (r_Path r) lastPart
      else do { acts \<leftarrow> delete_job_request lastPart; ret (Some acts) })"

text \<open>The whole handler, on the shared world and the feeder's variables.\<close>

definition api_main_server_handler ::
    "api_env \<Rightarrow> http_request \<Rightarrow> world \<times> feed \<Rightarrow> wact list option \<times> world \<times> feed" where
  "api_main_server_handler env r s =
     (if r_Method r = ''OPTIONS'' then (Some [], s)
      else case UrlLastPart (r_Path r) of
        None \<Rightarrow> (None, s)
      | Some lastPart \<Rightarrow>
          if str_contains (r_Path r) liveJobsEndpoint then
            (let (acts, w) = run_state (jobs_handler env r lastPart) (fst s) in (acts, w, snd s))
          else if str_contains (r_Path r) ''feed'' then
            (case feed_handler env r (snd s) of
               None \<Rightarrow> (None, s)
             | Some (acts, f) \<Rightarrow> (Some acts, fst s, f))
          else (Some [], s))"

end
