(* ===== verification/ApiSpec.thy ===== *)
theory ApiSpec
  imports ApiServer ValidatorSpec
begin

text \<open>
  The properties of the API server: what each request does to the job records and the SQS queue,
  with the guards and the failures of each branch, and what the list requests show.
\<close>

section \<open>Runs without failures\<close>

lemma run_api_createUpdateJob [run_simps]:
  "quiet w \<Longrightarrow> run_state (api_createUpdateJob j) w =
     (if json_job j then None else Some json_failure, put_job j w)"
  by (simp add: api_createUpdateJob_def run_HSetStruct put_job_def)

lemma run_api_stopJob [run_simps]:
  "quiet w \<Longrightarrow> run_state (api_stopJob j) w =
     (if json_job (j\<lparr>Stop := True\<rparr>) then None else Some json_failure, put_job (j\<lparr>Stop := True\<rparr>) w)"
  by (simp add: api_stopJob_def run_HSetStruct put_job_def)

lemma run_resumeJob [run_simps]:
  "quiet w \<Longrightarrow> run_state (resumeJob j) w =
     (if json_job (j\<lparr>Stop := False\<rparr>) then None else Some json_failure, put_job (j\<lparr>Stop := False\<rparr>) w)"
  by (simp add: resumeJob_def run_HSetStruct put_job_def)

lemma run_api_deleteJob [run_simps]:
  "quiet w \<Longrightarrow> run_state (api_deleteJob j) w = (None, hdel REDIS_KEY_ALLJOBS (lj_Id j) w)"
  by (simp add: api_deleteJob_def run_HDelOne)

lemma run_api_getJobById [run_simps]:
  "quiet w \<Longrightarrow> run_state (api_getJobById k) w =
     (case hlookup REDIS_KEY_ALLJOBS w k of
        None \<Rightarrow> Inl redis_Nil
      | Some t \<Rightarrow> (case unmarshal_job t of None \<Rightarrow> Inl json_failure | Some j \<Rightarrow> Inr j), w)"
  by (simp add: api_getJobById_def run_HGet split: option.splits)

lemma json_job_Stop [simp]: "json_job (j\<lparr>Stop := b\<rparr>) = json_job j"
  by (simp add: json_job_def)

lemma hlookup_put_own [simp]:
  "json_job j \<Longrightarrow> hlookup REDIS_KEY_ALLJOBS (put_job j w) = (hlookup REDIS_KEY_ALLJOBS w)(lj_Id j \<mapsto> TJob j)"
  by (simp add: put_job_def hlookup_hput)

section \<open>New jobs\<close>

text \<open>The record of a new job.\<close>

definition new_job ::
    "api_env \<Rightarrow> LiveJobSpec \<Rightarrow> string list \<Rightarrow> string \<Rightarrow> string \<Rightarrow> go_time \<Rightarrow> LiveJob" where
  "new_job env j warnings jid key now =
     zero_LiveJob\<lparr>lj_Id := jid, StreamKey := key, Playback_url := playback_url j jid, Spec := j,
       Time_created := now, lj_State := JOB_STATE_CREATED,
       Job_validation_warnings := warning_text warnings,
       DrmEncryptionKeyInfo := job_key env j jid\<rparr>"

lemma new_job_sel [simp]:
  "lj_Id (new_job env j ws jid key now) = jid" "Spec (new_job env j ws jid key now) = j"
  "lj_State (new_job env j ws jid key now) = JOB_STATE_CREATED"
  "Stop (new_job env j ws jid key now) = False" "Delete (new_job env j ws jid key now) = False"
  "Assigned_worker_id (new_job env j ws jid key now) = []"
  by (simp_all add: new_job_def zero_LiveJob_def)

lemma json_new_job:
  "json_spec j \<Longrightarrow> json_time now \<Longrightarrow> json_time (ki_Time_created (job_key env j jid)) \<Longrightarrow>
     json_job (new_job env j ws jid key now)"
  by (simp add: json_job_def new_job_def zero_LiveJob_def zero_time_def json_time_def)

lemma run_api_createJob:
  assumes "quiet w" "w_clock w = []" "w_uuids w = jid # key # us" "json_spec j"
    "json_time (w_now w)" "json_time (ki_Time_created (job_key env j jid))"
  shows "run_state (api_createJob env j ws) w =
    ((None, new_job env j ws jid key (w_now w)),
     put_job (new_job env j ws jid key (w_now w)) (w\<lparr>w_uuids := us\<rparr>))"
proof -
  have same: "zero_LiveJob\<lparr>lj_Id := jid, StreamKey := key, Playback_url := playback_url j jid,
       Spec := j, Time_created := w_now w, Stop := False, Delete := False,
       lj_State := JOB_STATE_CREATED, Job_validation_warnings := warning_text ws,
       DrmEncryptionKeyInfo := job_key env j jid\<rparr> = new_job env j ws jid key (w_now w)"
    by (simp add: new_job_def zero_LiveJob_def)
  have "json_job (new_job env j ws jid key (w_now w))" using assms by (intro json_new_job)
  moreover have "reading w' = w_now w \<and> tick_clock w' = w'" if "w' = w\<lparr>w_uuids := us\<rparr>" for w'
    using assms(2) that by (simp add: reading_def tick_clock_def)
  ultimately show ?thesis
    using assms(1,3)
    by (simp add: api_createJob_def assignJobInputStreamId_def uuid_New_def Let_def same run_simps)
qed

lemma create_job_run:
  assumes "quiet w" "w_clock w = []" "w_uuids w = jid # key # us"
    and "Validate jspec = Some (None, ws, j)" "Api_test j \<noteq> 1" "json_spec j"
    and "json_time (w_now w)" "json_time (ki_Time_created (job_key env j jid))"
  shows "run_state (create_job_request env jspec) w =
    (let nj = new_job env j ws jid key (w_now w) in
      (Some [WriteHeader 201, Write (CJob nj)],
       (put_job nj (w\<lparr>w_uuids := us\<rparr>))\<lparr>w_sqs := w_sqs w @ [TJob nj]\<rparr>))"
proof -
  have "json_job (new_job env j ws jid key (w_now w))" using assms by (intro json_new_job)
  then show ?thesis
    using assms run_api_createJob [OF assms(1-3,6-8), of ws]
    by (simp add: create_job_request_def run_simps Let_def)
qed


text \<open>
  A valid job request, while no call fails, is answered 201 with the new record: fresh id
  and stream key, the normalised specification, state created. The record is stored under its id
  and sent to the scheduler at the end of SQS; nothing else in the job table changes.
\<close>

theorem create_job_request_ok:
  assumes "quiet w" "w_clock w = []" "w_uuids w = jid # key # us"
    and "Validate jspec = Some (None, ws, j)" "Api_test j \<noteq> 1" "json_spec j"
    and "json_time (w_now w)" "json_time (ki_Time_created (job_key env j jid))"
  shows "\<exists>w'. run_state (create_job_request env jspec) w =
      (Some [WriteHeader 201, Write (CJob (new_job env j ws jid key (w_now w)))], w') \<and>
    w_sqs w' = w_sqs w @ [TJob (new_job env j ws jid key (w_now w))] \<and>
    hlookup REDIS_KEY_ALLJOBS w' =
      (hlookup REDIS_KEY_ALLJOBS w)(jid \<mapsto> TJob (new_job env j ws jid key (w_now w)))"
proof -
  have "json_job (new_job env j ws jid key (w_now w))" using assms by (intro json_new_job)
  then show ?thesis using create_job_run [OF assms] by (simp add: Let_def)
qed

definition quiet_env :: api_env where
  "quiet_env = \<lparr>env_grow = (\<lambda>c. 2 * c), env_drm_post = (\<lambda>_. WebNoReply), env_drm_get = (\<lambda>_. WebNoReply),
     env_feed_starts = True, env_signal_ok = True\<rparr>"

definition api_world :: world where
  "api_world = empty_world\<lparr>w_uuids := [''1f'', ''2e'']\<rparr>"

lemma json_sample_spec [simp]: "json_spec sample_job" "Api_test sample_job = 0"
  by (simp_all add: sample_job_def sample_video_def json_spec_def json_float_def zero_Spec_def
      zero_Detection_def)

theorem create_job_request_ok_witness:
  "let j = new_job quiet_env sample_job [] ''1f'' ''2e'' (w_now api_world) in
   \<exists>w'. run_state (create_job_request quiet_env sample_job) api_world =
      (Some [WriteHeader 201, Write (CJob j)], w') \<and>
    w_sqs w' = w_sqs api_world @ [TJob j] \<and>
    hlookup REDIS_KEY_ALLJOBS w' = (hlookup REDIS_KEY_ALLJOBS api_world)(''1f'' \<mapsto> TJob j)"
  unfolding Let_def
  by (rule create_job_request_ok [where us = "[]", OF _ _ _ sample_job_accepted])
    (simp_all add: api_world_def empty_world_def quiet_def json_time_def job_key_def
      createDrmKey_def quiet_env_def zero_KeyInfo_def zero_time_def)

section \<open>Stop, resume, delete\<close>

text \<open>
  C18: for a stored job and while no call fails: a stop is refused for a stopped job, a resume for
  a running or streaming one, a delete for one that is not stopped, each with 403 and nothing
  changed. Otherwise a stop or a resume stores the flag and sends the record to the scheduler, and
  a delete removes the record and nothing else.
\<close>

theorem lifecycle_requests:
  assumes "quiet w" "hlookup REDIS_KEY_ALLJOBS w jid = Some (TJob j)" "lj_Id j = jid" "json_job j"
  shows "(let (acts, w') = run_state (put_stop jid) w in
      if lj_State j = JOB_STATE_STOPPED then http_status acts = 403 \<and> w' = w
      else acts = [WriteHeader 202] \<and>
        w' = (put_job (j\<lparr>Stop := True\<rparr>) w)\<lparr>w_sqs := w_sqs w @ [TJob (j\<lparr>Stop := True\<rparr>)]\<rparr>) \<and>
    (let (acts, w') = run_state (put_resume jid) w in
      if lj_State j = JOB_STATE_RUNNING \<or> lj_State j = JOB_STATE_STREAMING
      then http_status acts = 403 \<and> w' = w
      else acts = [WriteHeader 202] \<and>
        w' = (put_job (j\<lparr>Stop := False\<rparr>) w)\<lparr>w_sqs := w_sqs w @ [TJob (j\<lparr>Stop := False\<rparr>)]\<rparr>) \<and>
    (let (acts, w') = run_state (delete_job_request jid) w in
      if lj_State j \<noteq> JOB_STATE_STOPPED then http_status acts = 403 \<and> w' = w
      else http_status acts = 200 \<and> w' = hdel REDIS_KEY_ALLJOBS jid w)"
  using assms
  by (auto simp: put_stop_def put_resume_def delete_job_request_def send_update_def run_simps
      error2_def)

definition one_job_world :: world where
  "one_job_world = hput REDIS_KEY_ALLJOBS ''j1'' (TJob sample_live_job) empty_world"

lemma one_job_world_ok [simp]:
  "quiet one_job_world" "hlookup REDIS_KEY_ALLJOBS one_job_world = [''j1'' \<mapsto> TJob sample_live_job]"
  "lj_Id sample_live_job = ''j1''" "lj_State sample_live_job = JOB_STATE_CREATED"
  "w_faults one_job_world = []"
  by (simp_all add: one_job_world_def hlookup_hput)
    (simp_all add: quiet_def empty_world_def sample_live_job_def)

theorem lifecycle_requests_witness:
  "(let (acts, w') = run_state (put_stop ''j1'') one_job_world in
      if lj_State sample_live_job = JOB_STATE_STOPPED then http_status acts = 403 \<and> w' = one_job_world
      else acts = [WriteHeader 202] \<and>
        w' = (put_job (sample_live_job\<lparr>Stop := True\<rparr>) one_job_world)
          \<lparr>w_sqs := w_sqs one_job_world @ [TJob (sample_live_job\<lparr>Stop := True\<rparr>)]\<rparr>) \<and>
   (let (acts, w') = run_state (put_resume ''j1'') one_job_world in
      if lj_State sample_live_job = JOB_STATE_RUNNING \<or> lj_State sample_live_job = JOB_STATE_STREAMING
      then http_status acts = 403 \<and> w' = one_job_world
      else acts = [WriteHeader 202] \<and>
        w' = (put_job (sample_live_job\<lparr>Stop := False\<rparr>) one_job_world)
          \<lparr>w_sqs := w_sqs one_job_world @ [TJob (sample_live_job\<lparr>Stop := False\<rparr>)]\<rparr>) \<and>
   (let (acts, w') = run_state (delete_job_request ''j1'') one_job_world in
      if lj_State sample_live_job \<noteq> JOB_STATE_STOPPED
      then http_status acts = 403 \<and> w' = one_job_world
      else http_status acts = 200 \<and> w' = hdel REDIS_KEY_ALLJOBS ''j1'' one_job_world)"
  by (rule lifecycle_requests) simp_all

text \<open>
  A stop whose store write fails is answered 202 Accepted all the same, because the header is
  sent first; nothing is stored and no message goes to the scheduler.
\<close>

theorem failed_stop_is_accepted:
  assumes "w_faults w = [Done, LostRequest]" "hlookup REDIS_KEY_ALLJOBS w jid = Some (TJob j)"
    "lj_State j \<noteq> JOB_STATE_STOPPED" "json_job j"
  shows "http_status (result (put_stop jid) w) = 202 \<and>
    exec_state (put_stop jid) w = w\<lparr>w_faults := []\<rparr>"
  using assms
  by (simp add: put_stop_def api_getJobById_def api_stopJob_def send_update_def HGet_def
      HSetStruct_def HSetString_def redis_read_def redis_write_def next_outcome_def)

theorem failed_stop_is_accepted_witness:
  "http_status (result (put_stop ''j1'') (one_job_world\<lparr>w_faults := [Done, LostRequest]\<rparr>)) = 202 \<and>
   exec_state (put_stop ''j1'') (one_job_world\<lparr>w_faults := [Done, LostRequest]\<rparr>) =
     one_job_world\<lparr>w_faults := [Done, LostRequest], w_faults := []\<rparr>"
  by (rule failed_stop_is_accepted [of _ _ sample_live_job]) (simp_all add: job_states)

section \<open>Paths\<close>

lemma path_job_id_stop:
  assumes "CHR ''s'' \<notin> set jid"
  shows "path_job_id (''/jobs/'' @ jid @ ''/stop'') ''stop'' = Some jid"
proof -
  have "index_of (''/jobs/'' @ jid @ ''/stop'') ''stop'' = Some (length (''/jobs/'' @ jid @ ''/''))"
    using assms index_of_skip [of "''stop''" "jid @ ''/''" "[]"] by simp
  moreover have "index_of (''/jobs/'' @ jid @ ''/stop'') ''jobs'' = Some 1"
    using index_of_skip [of "''jobs''" "''/''" "''/'' @ jid @ ''/stop''"] by simp
  ultimately show ?thesis
    using slice_append [of "''/jobs/''" jid "''/stop''"]
    by (simp add: path_job_id_def str_index_def go_int_of_index_def liveJobsEndpoint_def add.commute)
qed

lemma path_job_id_resume:
  assumes "CHR ''r'' \<notin> set jid"
  shows "path_job_id (''/jobs/'' @ jid @ ''/resume'') ''resume'' = Some jid"
proof -
  have "index_of (''/jobs/'' @ jid @ ''/resume'') ''resume'' = Some (length (''/jobs/'' @ jid @ ''/''))"
    using assms index_of_skip [of "''resume''" "jid @ ''/''" "[]"] by simp
  moreover have "index_of (''/jobs/'' @ jid @ ''/resume'') ''jobs'' = Some 1"
    using index_of_skip [of "''jobs''" "''/''" "''/'' @ jid @ ''/resume''"] by simp
  ultimately show ?thesis
    using slice_append [of "''/jobs/''" jid "''/resume''"]
    by (simp add: path_job_id_def str_index_def go_int_of_index_def liveJobsEndpoint_def add.commute)
qed

text \<open>
  The id that a client puts between \<open>/jobs/\<close> and \<open>/stop\<close> or \<open>/resume\<close> is the id the request
  acts on, for every id made of hexadecimal digits and dashes.
\<close>

theorem put_paths:
  assumes "set jid \<subseteq> set ''0123456789abcdef-''"
  shows "put_job_request (''/jobs/'' @ jid @ ''/stop'') ''stop'' =
      do { acts \<leftarrow> put_stop jid; ret (Some acts) } \<and>
    put_job_request (''/jobs/'' @ jid @ ''/resume'') ''resume'' =
      do { acts \<leftarrow> put_resume jid; ret (Some acts) }"
proof -
  have no: "CHR ''s'' \<notin> set jid" "CHR ''r'' \<notin> set jid" "CHR ''t'' \<notin> set jid"
    using assms by auto
  have "CHR ''t'' \<notin> set (''/jobs/'' @ jid @ ''/resume'')" using no by simp
  moreover have "CHR ''t'' \<in> set (a @ ''stop'' @ b)" for a b by simp
  ultimately have "\<not> str_contains (''/jobs/'' @ jid @ ''/resume'') ''stop''"
    unfolding str_contains_iff by metis
  moreover have "str_contains (''/jobs/'' @ jid @ ''/stop'') ''stop''"
    using str_contains_self [of "''/jobs/'' @ jid @ ''/''" "''stop''" "[]"] by simp
  moreover have "str_contains (''/jobs/'' @ jid @ ''/resume'') ''resume''"
    using str_contains_self [of "''/jobs/'' @ jid @ ''/''" "''resume''" "[]"] by simp
  ultimately show ?thesis
    using path_job_id_stop [OF no(1)] path_job_id_resume [OF no(2)]
    by (simp add: put_job_request_def liveJobsEndpoint_def)
qed

theorem put_paths_witness:
  "put_job_request (''/jobs/'' @ ''4f-2a'' @ ''/stop'') ''stop'' =
      do { acts \<leftarrow> put_stop ''4f-2a''; ret (Some acts) } \<and>
   put_job_request (''/jobs/'' @ ''4f-2a'' @ ''/resume'') ''resume'' =
      do { acts \<leftarrow> put_resume ''4f-2a''; ret (Some acts) }"
  by (rule put_paths) simp

text \<open>
  A stop request without a job id panics the handler: the slice that should hold the id ends
  before it begins.
\<close>

theorem stop_without_id_panics:
  "fst (api_main_server_handler env
     \<lparr>r_Method = ''PUT'', r_Path = ''/jobs/stop'', r_Body = body\<rparr> s) = None"
proof -
  have "UrlLastPart ''/jobs/stop'' = Some ''stop''"
    using UrlLastPart_plain [of "''stop''" "''/jobs''"] by simp
  moreover have "str_contains ''/jobs/stop'' ''jobs''" "str_contains ''/jobs/stop'' ''stop''"
    "path_job_id ''/jobs/stop'' ''stop'' = None"
    by code_simp+
  ultimately show ?thesis
    by (simp add: api_main_server_handler_def jobs_handler_def put_job_request_def
        liveJobsEndpoint_def split: prod.splits)
qed

section \<open>Listing the jobs\<close>

lemma decode_elems_take:
  "i \<le> length (cells h p) \<Longrightarrow> decode_elems grow xs i p h = (q, g) \<Longrightarrow>
     take (i + length xs) (cells g q) = take i (cells h p) @ xs"
proof (induction grow xs i p h rule: decode_elems.induct)
  case (2 grow x xs i p h)
  obtain p1 h1 where step: "(if i < length (cells h p) then (p, h) else grow_array grow x i p h) = (p1, h1)"
    by fastforce
  have room: "i < length (cells h1 p1)" "take i (cells h1 p1) = take i (cells h p)"
    using step 2(2) by (auto simp: grow_array_def Let_def split: if_splits)
  let ?h2 = "h1\<lparr>cells := (cells h1)(p1 := (cells h1 p1)[i := x])\<rparr>"
  have "take (Suc i + length xs) (cells g q) = take (Suc i) (cells ?h2 p1) @ xs"
    by (rule 2(1) [OF step [symmetric] refl]) (use 2(3) step room in \<open>auto simp: Let_def\<close>)
  moreover have "take (Suc i) (cells ?h2 p1) = take i (cells h p) @ [x]"
    using room by (simp add: take_Suc_conv_app_nth)
  ultimately show ?case by simp
qed simp

text \<open>Right after it has been decoded, a slice holds what the JSON array held.\<close>

lemma decode_slice_read:
  "decode_slice grow xs sl h = (sl', h') \<Longrightarrow> read_slice h' sl' = xs"
  using decode_elems_take [of 0 h "fst sl" grow xs]
  by (auto simp: decode_slice_def read_slice_def split: if_splits prod.splits)

lemma deref_own:
  assumes "unmarshal_into grow (TJob j) v h = Some (v', h')"
  shows "deref h' v' = j"
proof -
  obtain vs hv where v: "decode_slice grow (Video_outputs (Output (Spec j))) (jv_video v) (ja_video h) = (vs, hv)"
    by fastforce
  obtain as ha where a: "decode_slice grow (Audio_outputs (Output (Spec j))) (jv_audio v) (ja_audio h) = (as, ha)"
    by fastforce
  from assms have "v' = \<lparr>jv_job = j, jv_video = vs, jv_audio = as\<rparr>" "h' = \<lparr>ja_video = hv, ja_audio = ha\<rparr>"
    by (simp_all add: unmarshal_into_def v a)
  with decode_slice_read [OF v] decode_slice_read [OF a] show ?thesis
    by (simp add: deref_def)
qed

definition with_video :: "LiveVideoOutputSpec list \<Rightarrow> LiveJob \<Rightarrow> LiveJob" where
  "with_video vos j = j\<lparr>Spec := (Spec j)\<lparr>Output := (Output (Spec j))\<lparr>Video_outputs := vos\<rparr>\<rparr>\<rparr>"

lemma with_video_own: "Video_outputs (Output (Spec j)) = vos \<Longrightarrow> with_video vos j = j"
  by (auto simp: with_video_def)

text \<open>
  C37: the list of all jobs shows the first of two jobs with the video output of the second: both
  copies of the variable the records are decoded into share one array of outputs. The records in
  the store are intact.
\<close>

theorem getAllJobs_aliases:
  assumes "quiet w" "w_hash w REDIS_KEY_ALLJOBS = [(k1, TJob j1), (k2, TJob j2)]" "k1 \<noteq> k2"
    and "Video_outputs (Output (Spec j1)) = [v1]" "Video_outputs (Output (Spec j2)) = [v2]"
    and "Audio_outputs (Output (Spec j1)) = []" "Audio_outputs (Output (Spec j2)) = []"
  shows "run_state (getAllJobs grow) w = (Inr [with_video [v2] j1, j2], w)"
proof -
  have "max (grow 0) (Suc 0) = Suc (max (grow 0) (Suc 0) - 1)" by simp
  then obtain n where n: "max (grow 0) (Suc 0) = Suc n" by blast
  have "j1\<lparr>Spec := Spec j1\<lparr>Output := Output (Spec j1)\<lparr>Video_outputs := [v2], Audio_outputs := []\<rparr>\<rparr>\<rparr>
      = with_video [v2] j1" "j2\<lparr>Spec := Spec j2\<lparr>Output := Output (Spec j2)
        \<lparr>Video_outputs := [v2], Audio_outputs := []\<rparr>\<rparr>\<rparr> = j2"
    using assms(5-7) by (auto simp: with_video_def)
  then show ?thesis
    using assms
    by (simp add: getAllJobs_def list_jobs_def run_HGetAll hlookup_def unmarshal_into_def
        decode_slice_def zero_job_var_def no_arrays_def grow_array_def Let_def n deref_def
        read_slice_def)
qed

definition sd_output :: LiveVideoOutputSpec where
  "sd_output = \<lparr>vo_Codec = ''h264'', vo_Framerate = Fin 25, vo_Width = 640, vo_Height = 360,
     vo_Bitrate = ''600k'', vo_Max_bitrate = ''800k'', vo_Buf_size = ''800k'',
     vo_Preset = ''faster'', vo_Crf = 25, vo_Threads = 2\<rparr>"

definition two_jobs_world :: world where
  "two_jobs_world = empty_world\<lparr>w_hash := (\<lambda>_. [])(REDIS_KEY_ALLJOBS :=
     [(''j1'', TJob (with_video [sd_output] sample_live_job)),
      (''j2'', TJob (with_video [sd_output\<lparr>vo_Codec := ''av1''\<rparr>] sample_live_job))])\<rparr>"

theorem getAllJobs_aliases_witness:
  "run_state (getAllJobs (\<lambda>c. 2 * c)) two_jobs_world =
     (Inr [with_video [sd_output\<lparr>vo_Codec := ''av1''\<rparr>] (with_video [sd_output] sample_live_job),
        with_video [sd_output\<lparr>vo_Codec := ''av1''\<rparr>] sample_live_job], two_jobs_world)"
  by (rule getAllJobs_aliases [where ?k1.0 = "''j1''" and ?k2.0 = "''j2''" and ?v1.0 = sd_output])
    (simp_all add: two_jobs_world_def quiet_def empty_world_def with_video_def sample_live_job_def
      zero_Spec_def)

text \<open>
  A single job is shown with its DRM key replaced by asterisks, but the list of all jobs shows
  the key.
\<close>

theorem list_shows_drm_key:
  assumes "quiet w" "w_hash w REDIS_KEY_ALLJOBS = [(jid, TJob j)]" "jid \<noteq> ''jobs''" "jid \<noteq> ''active''"
  shows "result (get_job env jid) w = [WriteHeader 200, Write (CJob (hide_key j))] \<and>
    result (get_job env ''jobs'') w = [WriteHeader 200, Write (CJobs [j])]"
proof -
  obtain v h where u: "unmarshal_into (env_grow env) (TJob j) zero_job_var
      \<lparr>ja_video = no_arrays, ja_audio = no_arrays\<rparr> = Some (v, h)"
    by (cases "unmarshal_into (env_grow env) (TJob j) zero_job_var
      \<lparr>ja_video = no_arrays, ja_audio = no_arrays\<rparr>") (auto simp: unmarshal_into_def split: prod.splits)
  show ?thesis
    using assms deref_own [OF u]
    by (simp add: get_job_def liveJobsEndpoint_def run_simps hlookup_def getAllJobs_def
        list_jobs_def run_HGetAll u list_reply_def)
qed

theorem list_shows_drm_key_witness:
  "result (get_job quiet_env ''j1'') one_job_world = [WriteHeader 200, Write (CJob (hide_key sample_live_job))] \<and>
   result (get_job quiet_env ''jobs'') one_job_world = [WriteHeader 200, Write (CJobs [sample_live_job])]"
  by (rule list_shows_drm_key)
    (simp_all, simp add: one_job_world_def hput_def empty_world_def)

end
