(* ===== verification/Worker.thy ===== *)
theory Worker
  imports Http Interfaces
begin

text \<open>
  \<open>worker/app/worker_app.go\<close>: the process on each worker machine that launches one transcoder
  per job. Its variables are the table of jobs, the list of running jobs and the list of free
  RTMP ports. The operating system and the services it asks (the scheduler, the public-IP
  service) are outside it and are arguments of the model.
\<close>

record WorkerAppConfig =
  SchedulerUrl :: string
  GetPublicIpUrl :: string
  MyPublicIP :: string
  WorkerPort :: string
  WorkerUdpPortBase :: int
  cf_CpuCapacity :: int
  cf_BandwidthCapacity :: int

text \<open>A running job; its command's process is nil (\<open>None\<close>) as long as it has not started.\<close>

record RunningJob =
  rj_Job :: LiveJob
  rj_Pid :: "int option"

datatype transcoder_arg = ArgJobId string | ArgParam LiveJobSpec | ArgDrm KeyInfo

text \<open>
  The operating system: whether a process is found, whether it takes a signal 0 and a SIGTERM
  without error, the process a launched command gets and whether the command failed within the
  100 ms the code waits, and what \<open>ps\<close> and \<open>iftop\<close> print (\<open>None\<close>: the command failed).
\<close>

record os_env =
  os_find :: "int \<Rightarrow> bool"
  os_alive :: "int \<Rightarrow> bool"
  os_term :: "int \<Rightarrow> bool"
  os_launch :: "transcoder_arg list \<Rightarrow> int option \<times> bool"
  os_ps :: "int \<Rightarrow> string option list"
  os_iftop :: "int \<Rightarrow> string option"

record worker_state =
  wjobs :: "(string \<times> LiveJob) list"
  running_jobs :: "RunningJob list"
  available_rtmp_ports :: "int list"
  my_worker_id :: string
  my_public_ip :: string
  last_confirmed_heartbeat_time :: go_time

definition rtmp_port_base :: int where "rtmp_port_base = 1935"
definition max_rtmp_ports :: int where "max_rtmp_ports = 15"
definition scheduler_heartbeat_interval :: string where "scheduler_heartbeat_interval = ''1s''"
definition worker_jobs_endpoint :: string where "worker_jobs_endpoint = ''jobs''"

text \<open>The variables as \<open>main\<close> leaves them before it serves requests (not registered yet).\<close>

definition init_worker :: worker_state where
  "init_worker = \<lparr>wjobs = [], running_jobs = [],
     available_rtmp_ports = [rtmp_port_base..rtmp_port_base + max_rtmp_ports - 1],
     my_worker_id = [], my_public_ip = [], last_confirmed_heartbeat_time = zero_time\<rparr>"

section \<open>Tables and ports\<close>

definition wput :: "string \<Rightarrow> LiveJob \<Rightarrow> worker_state \<Rightarrow> worker_state" where
  "wput k j s = s\<lparr>wjobs := AList.update k j (wjobs s)\<rparr>"

definition wdel :: "string \<Rightarrow> worker_state \<Rightarrow> worker_state" where
  "wdel k s = s\<lparr>wjobs := AList.delete k (wjobs s)\<rparr>"

definition wk_getJobById :: "string \<Rightarrow> worker_state \<Rightarrow> LiveJob option" where
  "wk_getJobById jid s = map_of (wjobs s) jid"

definition wk_createUpdateJob :: "LiveJob \<Rightarrow> (worker_state, unit) state" where
  "wk_createUpdateJob j = modify (wput (lj_Id j) j)"

definition wk_deleteJob :: "string \<Rightarrow> (worker_state, unit) state" where
  "wk_deleteJob jid = modify (wdel jid)"

definition wk_createJob :: "go_time \<Rightarrow> LiveJob \<Rightarrow> (worker_state, string option) state" where
  "wk_createJob now j = do {
     wk_createUpdateJob (j\<lparr>Time_received_by_worker := now\<rparr>);
     r \<leftarrow> gets (wk_getJobById (lj_Id j));
     ret (case r of None \<Rightarrow> None | Some j2 \<Rightarrow> Some (lj_Id j)) }"

definition release_port :: "int \<Rightarrow> worker_state \<Rightarrow> worker_state" where
  "release_port p s = s\<lparr>available_rtmp_ports := available_rtmp_ports s @ [p]\<rparr>"

definition front_port :: "worker_state \<Rightarrow> int option" where
  "front_port s = (case available_rtmp_ports s of [] \<Rightarrow> None | p # ps \<Rightarrow> Some p)"

definition take_port :: "worker_state \<Rightarrow> worker_state" where
  "take_port s = s\<lparr>available_rtmp_ports := tl (available_rtmp_ports s)\<rparr>"

definition allocateRtmpIngestPort :: "(worker_state, int) state" where
  "allocateRtmpIngestPort = do {
     e \<leftarrow> gets front_port;
     case e of None \<Rightarrow> ret (-1) | Some port \<Rightarrow> do { modify take_port; ret port } }"

definition releaseRtmpPort :: "int \<Rightarrow> (worker_state, unit) state" where
  "releaseRtmpPort port = modify (release_port port)"

definition ingest_url :: "string \<Rightarrow> int \<Rightarrow> string \<Rightarrow> string" where
  "ingest_url ip port key = ''rtmp://'' @ ip @ '':'' @ itoa port @ ''/live/'' @ key"

definition createIngestUrl :: "LiveJob \<Rightarrow> (worker_state, string option) state" where
  "createIngestUrl job = do {
     port \<leftarrow> allocateRtmpIngestPort;
     ip \<leftarrow> gets my_public_ip;
     let (err, job) = (if port < 0 then (Some ''NotEnoughRtmpIngestPort'', job)
       else (None, job\<lparr>RtmpIngestPort := port, RtmpIngestUrl := ingest_url ip port (StreamKey job)\<rparr>));
     wk_createUpdateJob job;
     ret err }"

section \<open>Launching a job\<close>

definition job_outputs :: "LiveJob \<Rightarrow> int" where
  "job_outputs j = int (length (Video_outputs (Output (Spec j)))) +
     int (length (Audio_outputs (Output (Spec j))))"

fun total_outputs :: "RunningJob list \<Rightarrow> int" where
  "total_outputs [] = 0"
| "total_outputs (rj # rjs) = job_outputs (rj_Job rj) + total_outputs rjs"

text \<open>The record the transcoder is launched with: the ingest URL as input, and its UDP ports.\<close>

definition launched_record :: "WorkerAppConfig \<Rightarrow> RunningJob list \<Rightarrow> LiveJob \<Rightarrow> LiveJob" where
  "launched_record cfg rjs j =
     j\<lparr>Spec := (Spec j)\<lparr>Input := (Input (Spec j))
        \<lparr>in_Url := RtmpIngestUrl j, JobUdpPortBase := WorkerUdpPortBase cfg + total_outputs rjs\<rparr>\<rparr>\<rparr>"

definition transcoder_args :: "LiveJob \<Rightarrow> transcoder_arg list" where
  "transcoder_args j = [ArgJobId (lj_Id j), ArgParam (Spec j)] @
     (if Key_id (DrmEncryptionKeyInfo j) \<noteq> [] then [ArgDrm (DrmEncryptionKeyInfo j)] else [])"

definition launchJob ::
    "WorkerAppConfig \<Rightarrow> os_env \<Rightarrow> LiveJob \<Rightarrow> (worker_state, string option) state" where
  "launchJob cfg env j0 = do {
     rjs \<leftarrow> gets running_jobs;
     let j = launched_record cfg rjs j0;
     if \<not> json_spec (Spec j) then ret (Some json_failure)
     else if Key_id (DrmEncryptionKeyInfo j) \<noteq> [] \<and> \<not> json_time (ki_Time_created (DrmEncryptionKeyInfo j))
     then ret (Some json_failure)
     else do {
       let (pid, failed) = os_launch env (transcoder_args j);
       modify (\<lambda>s. s\<lparr>running_jobs := running_jobs s @ [\<lparr>rj_Job = j, rj_Pid = pid\<rparr>]\<rparr>);
       ret (if failed then Some ''transcoder failure'' else None) } }"

section \<open>Stopping a job\<close>

text \<open>
  \<open>stopJob\<close>: \<open>None\<close> is a panic (the first running job of that id has no process), \<open>Some e\<close> the
  returned error.
\<close>

definition wk_stopJob :: "os_env \<Rightarrow> string \<Rightarrow> (worker_state, string option option) state" where
  "wk_stopJob env jid = do {
     known \<leftarrow> gets (wk_getJobById jid);
     rjs \<leftarrow> gets running_jobs;
     case known of
       None \<Rightarrow> ret (Some (Some ''jobNotFound''))
     | Some _ \<Rightarrow>
       (case find (\<lambda>rj. lj_Id (rj_Job rj) = jid) rjs of
          None \<Rightarrow> ret (Some (Some ''jobNotFound''))
        | Some rj \<Rightarrow>
          (case rj_Pid rj of
             None \<Rightarrow> ret None
           | Some pid \<Rightarrow>
               if os_find env pid \<and> os_term env pid then do {
                 releaseRtmpPort (RtmpIngestPort (rj_Job rj));
                 wk_deleteJob jid;
                 ret (Some None) }
               else ret (Some (Some ''StopJobFailed'')))) }"

section \<open>The request handler\<close>

definition wk_error :: "string \<Rightarrow> int \<Rightarrow> string \<Rightarrow> wact list" where
  "wk_error status code res = http_Error (error_page status ''  '' res) code"

definition wk_post_job ::
    "WorkerAppConfig \<Rightarrow> os_env \<Rightarrow> go_time \<Rightarrow> http_body \<Rightarrow> (worker_state, wact list) state" where
  "wk_post_job cfg env now body =
     (if body = NoBody then
        ret (wk_error ''400 bad request'' 400 ''Error New live job without job specification'')
      else case decode_job body of
        None \<Rightarrow> ret (wk_error ''400 bad request'' 400 ''Failed to decode job request'')
      | Some job \<Rightarrow> do {
          e1 \<leftarrow> wk_createJob now job;
          case e1 of
            None \<Rightarrow> do {
              wk_deleteJob [];
              ret (wk_error ''500 internal server error'' 500 []) }
          | Some jid \<Rightarrow> do {
              createIngestUrl job;
              r \<leftarrow> gets (wk_getJobById jid);
              case r of
                None \<Rightarrow> do {
                  wk_deleteJob jid;
                  ret (wk_error ''500 internal server error'' 500 []) }
              | Some j \<Rightarrow> do {
                  e3 \<leftarrow> launchJob cfg env j;
                  if e3 \<noteq> None then do {
                    wk_deleteJob jid;
                    ret (wk_error ''500 Internal serve error'' 500 []) }
                  else ret [WriteHeader 201, Write (CJob j)] } } })"

definition wk_get_job :: "string \<Rightarrow> (worker_state, wact list) state" where
  "wk_get_job lastPart =
     (if lastPart = worker_jobs_endpoint then do {
        t \<leftarrow> gets wjobs;
        ret [WriteHeader 200, Write (CJobTable t)] }
      else do {
        r \<leftarrow> gets (wk_getJobById lastPart);
        ret (case r of
            Some job \<Rightarrow> [WriteHeader 200, Write (CJob job)]
          | None \<Rightarrow> http_Error (''Non-existent job id: '' @ lastPart) 404) })"

definition wk_put_job :: "os_env \<Rightarrow> string \<Rightarrow> (worker_state, wact list option) state" where
  "wk_put_job env path =
     (if \<not> str_contains path ''stop'' then ret (Some [])
      else case slice path (str_index path ''jobs'' + int (length ''jobs'') + 1) (str_index path ''stop'' - 1) of
        None \<Rightarrow> ret None
      | Some jid \<Rightarrow> do {
          e \<leftarrow> wk_stopJob env jid;
          ret (case e of
              None \<Rightarrow> None
            | Some None \<Rightarrow> Some [WriteHeader 200]
            | Some (Some err) \<Rightarrow> Some (if err = ''jobNotFound''
                then wk_error ''404 internal server error'' 404 []
                else wk_error ''500 internal server error'' 500 [])) })"

definition wk_main_server_handler ::
    "WorkerAppConfig \<Rightarrow> os_env \<Rightarrow> go_time \<Rightarrow> http_request \<Rightarrow> (worker_state, wact list option) state" where
  "wk_main_server_handler cfg env now r =
     (case UrlLastPart (r_Path r) of
        None \<Rightarrow> ret None
      | Some lastPart \<Rightarrow>
          if str_contains (r_Path r) worker_jobs_endpoint then
            if \<not> (r_Method r = ''POST'' \<or> r_Method r = ''GET'' \<or> r_Method r = ''PUT'' \<or> r_Method r = ''DELETE'') then
              ret (Some (wk_error ''405 method not allowed'' 405
                (''Method = '' @ r_Method r @ '' is not allowed to '' @ r_Path r)))
            else if r_Method r = ''POST'' \<and> lastPart \<noteq> worker_jobs_endpoint then
              ret (Some (wk_error ''400 bad request'' 400 (''POST to '' @ r_Path r @ ''is not allowed'')))
            else if r_Method r = ''POST'' then do {
              acts \<leftarrow> wk_post_job cfg env now (r_Body r);
              ret (Some acts) }
            else if r_Method r = ''GET'' then do { acts \<leftarrow> wk_get_job lastPart; ret (Some acts) }
            else if r_Method r = ''PUT'' then wk_put_job env (r_Path r)
            else ret (Some [])
          else ret (Some []))"

end
