(* ===== verification/WorkerStatus.thy ===== *)
theory WorkerStatus
  imports Worker
begin

text \<open>
  The rest of \<open>worker/app/worker_app.go\<close>: the periodic check of the running jobs with its
  readings of CPU use and ingress bandwidth, registration and heartbeats, and the shutdown.
\<close>

section \<open>Readings\<close>

text \<open>\<open>cpu_utilization_threshold\<close>, and the matches of the regular expression \<open>.[0-9]\<close>.\<close>

definition cpu_utilization_threshold :: rat where "cpu_utilization_threshold = 5"

fun find_all_digits :: "string \<Rightarrow> string list" where
  "find_all_digits (c # d # s) =
     (if c \<noteq> CHR 0x0A \<and> digit_of d \<noteq> None then [c, d] # find_all_digits s
      else find_all_digits (d # s))"
| "find_all_digits [c] = []"
| "find_all_digits [] = []"

definition is_space :: "char \<Rightarrow> bool" where
  "is_space c = (c \<in> {CHR '' '', CHR 0x09, CHR 0x0A, CHR 0x0B, CHR 0x0C, CHR 0x0D})"

definition trim_space :: "string \<Rightarrow> string" where
  "trim_space s = rev (dropWhile is_space (rev (dropWhile is_space s)))"

text \<open>The readings of all the ffmpeg children of a job's process, one after the other.\<close>

definition readCpuUtil :: "os_env \<Rightarrow> RunningJob \<Rightarrow> string option" where
  "readCpuUtil env rj =
     (case rj_Pid rj of
        None \<Rightarrow> None
      | Some pid \<Rightarrow> Some (concat (map (\<lambda>out. case out of
            None \<Rightarrow> [] | Some ps \<Rightarrow> concat (map trim_space (find_all_digits ps))) (os_ps env pid))))"

text \<open>
  \<open>int64(x)\<close>: the whole part; out of range the result is the processor's, here the smallest
  integer, as on amd64.
\<close>

definition to_int64 :: "go_float \<Rightarrow> int" where
  "to_int64 x = (case x of
       Fin q \<Rightarrow> (let i = (if 0 \<le> q then \<lfloor>q\<rfloor> else \<lceil>q\<rceil>) in
         if - (2 ^ 63) \<le> i \<and> i < 2 ^ 63 then i else - (2 ^ 63))
     | _ \<Rightarrow> - (2 ^ 63))"

text \<open>What \<open>iftop\<close> printed as a bandwidth in kbps; \<open>None\<close> is a slice out of range.\<close>

definition bandwidth_value :: "string \<Rightarrow> int option" where
  "bandwidth_value out =
     (if out = ''0b'' then Some 0
      else case (slice out (int (length out) - 3) (int (length out) - 1),
                 slice_to out (int (length out) - 3)) of
          (Some unit, Some text) \<Rightarrow>
            (let bandwidth = (case parse_float text of None \<Rightarrow> Fin 0 | Some b \<Rightarrow> b) in
             Some (to_int64 (if unit = ''Mb'' then fmul bandwidth (Fin 1000) else bandwidth)))
        | _ \<Rightarrow> None)"

definition readIngressBandwidth :: "os_env \<Rightarrow> RunningJob \<Rightarrow> int option" where
  "readIngressBandwidth env rj =
     (case os_iftop env (RtmpIngestPort (rj_Job rj)) of None \<Rightarrow> Some 0 | Some out \<Rightarrow> bandwidth_value out)"

text \<open>
  The body of the goroutine that \<open>checkJobStatus\<close> starts for a job: it caches the readings in the
  job's record. A CPU text that is not a number ends it; \<open>None\<close> is a panic.
\<close>

definition update_cached_stats :: "os_env \<Rightarrow> RunningJob \<Rightarrow> worker_state \<Rightarrow> worker_state option" where
  "update_cached_stats env rj s =
     (case readCpuUtil env rj of
        None \<Rightarrow> None
      | Some cpu \<Rightarrow>
        (case parse_float cpu of
           None \<Rightarrow> Some s
         | Some cpu_float \<Rightarrow>
           (case (if fle (Fin cpu_utilization_threshold) cpu_float then readIngressBandwidth env rj
                  else Some 0) of
              None \<Rightarrow> None
            | Some bw \<Rightarrow>
              (case wk_getJobById (lj_Id (rj_Job rj)) s of
                 None \<Rightarrow> Some s
               | Some lj \<Rightarrow> Some (wput (lj_Id lj)
                   (lj\<lparr>lj_Ingress_bandwidth_kbps := bw, lj_Transcoding_cpu_utilization := cpu\<rparr>) s)))))"

section \<open>The check of the running jobs\<close>

text \<open>
  The first loop of \<open>checkJobStatus\<close>: it removes the element before the current one when the
  process of that element was not found or not running. Its variables are the previous element
  (\<open>None\<close>: nil) with the two flags, the jobs kept so far and the ids reported stopped;
  \<open>None\<close> is the panic on a command without a process.
\<close>

fun check_loop :: "os_env \<Rightarrow> RunningJob list \<Rightarrow> (RunningJob \<times> bool \<times> bool) option \<Rightarrow>
    RunningJob list \<Rightarrow> string list \<Rightarrow> (RunningJob list \<times> string list) option" where
  "check_loop env [] prev kept stopped =
     (case prev of
        None \<Rightarrow> Some (kept, stopped)
      | Some (p, found, running) \<Rightarrow>
          if \<not> found \<or> \<not> running then Some (kept, stopped @ [lj_Id (rj_Job p)])
          else Some (kept @ [p], stopped))"
| "check_loop env (e # es) prev kept stopped =
     (let (kept, stopped) = (case prev of
          None \<Rightarrow> (kept, stopped)
        | Some (p, found, running) \<Rightarrow>
            if \<not> found \<or> \<not> running then (kept, stopped @ [lj_Id (rj_Job p)])
            else (kept @ [p], stopped)) in
      case rj_Pid e of
        None \<Rightarrow> None
      | Some pid \<Rightarrow>
          check_loop env es
            (Some (e, os_find env pid, if os_find env pid then os_alive env pid else True))
            kept stopped)"

definition cached_stats :: "worker_state \<Rightarrow> RunningJob \<Rightarrow> LiveJobStats" where
  "cached_stats s rj =
     (case wk_getJobById (lj_Id (rj_Job rj)) s of
        None \<Rightarrow> \<lparr>st_Id = lj_Id (rj_Job rj), st_Ingress_bandwidth_kbps = 0,
          st_Transcoding_cpu_utilization = []\<rparr>
      | Some lj \<Rightarrow> \<lparr>st_Id = lj_Id (rj_Job rj),
          st_Ingress_bandwidth_kbps = lj_Ingress_bandwidth_kbps lj,
          st_Transcoding_cpu_utilization = lj_Transcoding_cpu_utilization lj\<rparr>)"

text \<open>The report of a check, and the state it leaves; \<open>None\<close> is a panic.\<close>

definition checkJobStatus :: "os_env \<Rightarrow> worker_state \<Rightarrow> (WorkerJobReport \<times> worker_state) option" where
  "checkJobStatus env s =
     (case check_loop env (running_jobs s) None [] [] of
        None \<Rightarrow> None
      | Some (kept, stopped) \<Rightarrow>
          Some (\<lparr>WorkerId = my_worker_id s, StoppedJobs = stopped,
                 JobStatsReport = map (cached_stats s) kept\<rparr>,
               s\<lparr>running_jobs := kept\<rparr>))"

definition reportJobStatus :: "unit web_reply \<Rightarrow> string option" where
  "reportJobStatus reply = (case reply of
       WebBadUrl \<Rightarrow> Some ''StatusReportFailure_fail_to_post''
     | WebNoReply \<Rightarrow> Some ''no reply''
     | WebReply status body \<Rightarrow>
         if status \<noteq> 200 then Some ''StatusReportFailure_fail_to_read_scheduler_response'' else None)"

section \<open>Registration and heartbeats\<close>

definition getPublicIp :: "string web_reply \<Rightarrow> string + string" where
  "getPublicIp reply = (case reply of
       WebBadUrl \<Rightarrow> Inl ''http_get_request_creation_failure''
     | WebNoReply \<Rightarrow> Inl ''http_get_request_send_failure''
     | WebReply status body \<Rightarrow> (case body of
           None \<Rightarrow> Inl ''http_get_response_parsing_failure''
         | Some None \<Rightarrow> Inl ''bad json''
         | Some (Some ip) \<Rightarrow> Inr ip))"

definition worker_info :: "WorkerAppConfig \<Rightarrow> string \<Rightarrow> WorkerInfo" where
  "worker_info cfg public_ip = \<lparr>ServerIp = (if MyPublicIP cfg \<noteq> [] then MyPublicIP cfg else public_ip),
     ServerPort = WorkerPort cfg, CpuCapacity = cf_CpuCapacity cfg,
     BandwidthCapacity = cf_BandwidthCapacity cfg, HeartbeatInterval = scheduler_heartbeat_interval\<rparr>"

text \<open>
  The scheduler's answer to a registration is read whatever its status; a body that is not JSON
  leaves the worker with empty id and address.
\<close>

definition registerWorker ::
    "WorkerAppConfig \<Rightarrow> string web_reply \<Rightarrow> (WorkerInfo \<Rightarrow> LiveWorker web_reply) \<Rightarrow>
      (worker_state, string option) state" where
  "registerWorker cfg ip_reply sched =
     (case getPublicIp ip_reply of
        Inl e \<Rightarrow> ret (Some e)
      | Inr public_ip \<Rightarrow>
        (case sched (worker_info cfg public_ip) of
           WebBadUrl \<Rightarrow> ret (Some ''http_post_request_creation_failure'')
         | WebNoReply \<Rightarrow> ret (Some ''http_post_request_send_failure'')
         | WebReply status body \<Rightarrow>
           (case body of
              None \<Rightarrow> ret (Some ''http_post_response_parsing_failure'')
            | Some b \<Rightarrow> do {
                let wkr = (case b of None \<Rightarrow> zero_LiveWorker | Some wkr \<Rightarrow> wkr);
                modify (\<lambda>s. s\<lparr>my_worker_id := lw_Id wkr, my_public_ip := ServerIp (Info wkr)\<rparr>);
                ret None })))"

definition sendHeartbeat ::
    "go_time \<Rightarrow> (WorkerHeartbeat \<Rightarrow> unit web_reply) \<Rightarrow> (worker_state, string option) state" where
  "sendHeartbeat now sched = do {
     wid \<leftarrow> gets my_worker_id;
     case sched \<lparr>Worker_id = wid, hb_LastHeartbeatTime = now\<rparr> of
       WebBadUrl \<Rightarrow> ret (Some ''HeartbeatFailure_fail_to_post'')
     | WebNoReply \<Rightarrow> ret (Some ''no reply'')
     | WebReply status body \<Rightarrow>
         if status \<noteq> 200 then ret (Some ''HeartbeatFailure_fail_to_read_scheduler_response'')
         else do { modify (\<lambda>s. s\<lparr>last_confirmed_heartbeat_time := now\<rparr>); ret None } }"

text \<open>One firing of the heartbeat ticker: a worker without an id registers first.\<close>

definition wk_heartbeat_tick ::
    "WorkerAppConfig \<Rightarrow> go_time \<Rightarrow> string web_reply \<Rightarrow> (WorkerInfo \<Rightarrow> LiveWorker web_reply) \<Rightarrow>
      (WorkerHeartbeat \<Rightarrow> unit web_reply) \<Rightarrow> (worker_state, string option) state" where
  "wk_heartbeat_tick cfg now ip_reply sched_workers sched_heartbeat = do {
     wid \<leftarrow> gets my_worker_id;
     if wid = [] then registerWorker cfg ip_reply sched_workers
     else sendHeartbeat now sched_heartbeat }"

section \<open>Shutdown\<close>

text \<open>On SIGTERM or SIGINT every running job is terminated; \<open>None\<close> is a panic.\<close>

fun wk_shutdown :: "os_env \<Rightarrow> RunningJob list \<Rightarrow> worker_state \<Rightarrow> worker_state option" where
  "wk_shutdown env [] s = Some s"
| "wk_shutdown env (rj # rjs) s =
     (case rj_Pid rj of
        None \<Rightarrow> None
      | Some pid \<Rightarrow>
          wk_shutdown env rjs
            (if os_find env pid \<and> os_term env pid
             then wdel (lj_Id (rj_Job rj)) (release_port (RtmpIngestPort (rj_Job rj)) s) else s))"

end
