(* ===== verification/WorkerSpec.thy ===== *)
theory WorkerSpec
  imports WorkerStatus
begin

text \<open>
  The properties of the worker: its table and its ports as instances of the two interfaces, the
  sharing of RTMP ports as an invariant over the worker's steps, the UDP ports of its jobs, and
  the exact report of a status check.
\<close>

section \<open>The table of jobs and the list of ports\<close>

interpretation wtbl: field_store "\<lambda>s k. wk_getJobById k s" wput wdel
  by unfold_locales (auto simp: wk_getJobById_def wput_def wdel_def fun_eq_iff)

interpretation wports: fifo_queue available_rtmp_ports release_port front_port take_port
  by unfold_locales (auto simp: release_port_def front_port_def take_port_def)

lemma wk_lookup_put: "wk_getJobById k (wput l j s) = (if k = l then Some j else wk_getJobById k s)"
  using wtbl.lookup_put [of l j s] by (simp add: fun_eq_iff)

lemma wk_lookup_del: "wk_getJobById k (wdel l s) = (if k = l then None else wk_getJobById k s)"
  using wtbl.lookup_del [of l s] by (simp add: fun_eq_iff)

lemma worker_frame [simp]:
  "running_jobs (wput k j s) = running_jobs s" "running_jobs (wdel k s) = running_jobs s"
  "running_jobs (release_port p s) = running_jobs s" "running_jobs (take_port s) = running_jobs s"
  "available_rtmp_ports (wput k j s) = available_rtmp_ports s"
  "available_rtmp_ports (wdel k s) = available_rtmp_ports s"
  "my_public_ip (wput k j s) = my_public_ip s" "my_public_ip (take_port s) = my_public_ip s"
  "wk_getJobById i (release_port p s) = wk_getJobById i s"
  "wk_getJobById i (take_port s) = wk_getJobById i s"
  "wk_getJobById i (s\<lparr>running_jobs := rjs\<rparr>) = wk_getJobById i s"
  by (simp_all add: wput_def wdel_def release_port_def take_port_def wk_getJobById_def)

section \<open>Runs of the handler\<close>

lemma run_wk_createJob:
  "run_state (wk_createJob now j) s =
     (Some (lj_Id j), wput (lj_Id j) (j\<lparr>Time_received_by_worker := now\<rparr>) s)"
  by (simp add: wk_createJob_def wk_createUpdateJob_def wk_lookup_put)

text \<open>The record a job is stored and launched with when a port is free.\<close>

definition with_port :: "worker_state \<Rightarrow> LiveJob \<Rightarrow> LiveJob" where
  "with_port s j = (case available_rtmp_ports s of
     [] \<Rightarrow> j
   | p # ps \<Rightarrow> j\<lparr>RtmpIngestPort := p, RtmpIngestUrl := ingest_url (my_public_ip s) p (StreamKey j)\<rparr>)"

lemma with_port_sel [simp]:
  "lj_Id (with_port s j) = lj_Id j" "Spec (with_port s j) = Spec j"
  "DrmEncryptionKeyInfo (with_port s j) = DrmEncryptionKeyInfo j"
  "Time_received_by_worker (with_port s j) = Time_received_by_worker j"
  "job_outputs (with_port s j) = job_outputs j"
  by (auto simp: with_port_def job_outputs_def split: list.splits)

definition ports_nonneg :: "worker_state \<Rightarrow> bool" where
  "ports_nonneg s \<longleftrightarrow> (\<forall>p \<in> set (available_rtmp_ports s). 0 \<le> p)"

lemma take_port_none: "available_rtmp_ports s = [] \<Longrightarrow> take_port s = s"
  by (cases s) (simp add: take_port_def)

lemma run_createIngestUrl:
  assumes "ports_nonneg s"
  shows "exec_state (createIngestUrl j) s = wput (lj_Id j) (with_port s j) (take_port s)"
  using assms
  by (cases "available_rtmp_ports s")
    (simp_all add: createIngestUrl_def allocateRtmpIngestPort_def wk_createUpdateJob_def
      front_port_def take_port_none with_port_def ports_nonneg_def)

text \<open>Whether the record can be written as the JSON arguments of the transcoder.\<close>

definition job_json_ok :: "LiveJob \<Rightarrow> bool" where
  "job_json_ok j \<longleftrightarrow> json_spec (Spec j) \<and>
     (Key_id (DrmEncryptionKeyInfo j) \<noteq> [] \<longrightarrow> json_time (ki_Time_created (DrmEncryptionKeyInfo j)))"

lemma job_json_ok_with_port [simp]: "job_json_ok (with_port s j) = job_json_ok j"
  by (simp add: job_json_ok_def)

lemma json_launched_record [simp]:
  "json_spec (Spec (launched_record cfg rjs j)) = json_spec (Spec j)"
  "DrmEncryptionKeyInfo (launched_record cfg rjs j) = DrmEncryptionKeyInfo j"
  "lj_Id (launched_record cfg rjs j) = lj_Id j"
  "RtmpIngestPort (launched_record cfg rjs j) = RtmpIngestPort j"
  "job_outputs (launched_record cfg rjs j) = job_outputs j"
  by (simp_all add: launched_record_def json_spec_def job_outputs_def)

definition launched_rj :: "WorkerAppConfig \<Rightarrow> os_env \<Rightarrow> RunningJob list \<Rightarrow> LiveJob \<Rightarrow> RunningJob" where
  "launched_rj cfg env rjs j = \<lparr>rj_Job = launched_record cfg rjs j,
     rj_Pid = fst (os_launch env (transcoder_args (launched_record cfg rjs j)))\<rparr>"

definition launch_failed :: "WorkerAppConfig \<Rightarrow> os_env \<Rightarrow> RunningJob list \<Rightarrow> LiveJob \<Rightarrow> bool" where
  "launch_failed cfg env rjs j = snd (os_launch env (transcoder_args (launched_record cfg rjs j)))"

lemma run_launchJob:
  assumes "job_json_ok j"
  shows "run_state (launchJob cfg env j) s =
    (if launch_failed cfg env (running_jobs s) j then Some ''transcoder failure'' else None,
     s\<lparr>running_jobs := running_jobs s @ [launched_rj cfg env (running_jobs s) j]\<rparr>)"
  using assms
  by (auto simp: launchJob_def Let_def job_json_ok_def launch_failed_def launched_rj_def
      split: prod.splits)

definition after_post :: "WorkerAppConfig \<Rightarrow> os_env \<Rightarrow> go_time \<Rightarrow> LiveJob \<Rightarrow> worker_state \<Rightarrow> worker_state" where
  "after_post cfg env now j s =
     (let j' = with_port s j;
          s1 = wput (lj_Id j) j' (take_port (wput (lj_Id j) (j\<lparr>Time_received_by_worker := now\<rparr>) s));
          s2 = s1\<lparr>running_jobs := running_jobs s @ [launched_rj cfg env (running_jobs s) j']\<rparr>
      in if launch_failed cfg env (running_jobs s) j' then wdel (lj_Id j) s2 else s2)"

lemma with_port_wput [simp]: "with_port (wput k i s) j = with_port s j"
  by (simp add: with_port_def split: list.splits)

lemma ports_nonneg_wput [simp]: "ports_nonneg (wput k i s) = ports_nonneg s"
  by (simp add: ports_nonneg_def)

lemma run_wk_post_job:
  assumes "ports_nonneg s" "job_json_ok j"
  shows "run_state (wk_post_job cfg env now (BodyJob j)) s =
    (if launch_failed cfg env (running_jobs s) (with_port s j)
     then wk_error ''500 Internal serve error'' 500 []
     else [WriteHeader 201, Write (CJob (with_port s j))],
     after_post cfg env now j s)"
proof -
  let ?s1 = "wput (lj_Id j) (j\<lparr>Time_received_by_worker := now\<rparr>) s"
  obtain r where url: "run_state (createIngestUrl j) ?s1 =
      (r, wput (lj_Id j) (with_port s j) (take_port ?s1))"
    using run_createIngestUrl [of ?s1 j] assms(1) by (cases "run_state (createIngestUrl j) ?s1") auto
  show ?thesis
    using assms
    by (simp add: wk_post_job_def run_wk_createJob url wk_lookup_put run_launchJob after_post_def
        Let_def wk_deleteJob_def)
qed

section \<open>RTMP ports are never shared\<close>

text \<open>
  The steps of the worker: a job is posted while a port is free and no running process carries
  its id; a job is stopped; the running jobs are checked; a reading is cached; the heartbeat
  ticker fires, which registers a worker without an id.
\<close>

definition running_ids :: "worker_state \<Rightarrow> string list" where
  "running_ids s = map (\<lambda>rj. lj_Id (rj_Job rj)) (running_jobs s)"

inductive worker_step :: "WorkerAppConfig \<Rightarrow> worker_state \<Rightarrow> worker_state \<Rightarrow> bool"
  for cfg :: WorkerAppConfig where
  Post: "available_rtmp_ports s \<noteq> [] \<Longrightarrow> job_json_ok j \<Longrightarrow> lj_Id j \<notin> set (running_ids s) \<Longrightarrow>
    worker_step cfg s (exec_state (wk_post_job cfg env now (BodyJob j)) s)"
| StopJob: "worker_step cfg s (exec_state (wk_stopJob env jid) s)"
| Check: "checkJobStatus env s = Some (report, s') \<Longrightarrow> worker_step cfg s s'"
| Cache: "update_cached_stats env rj s = Some s' \<Longrightarrow> worker_step cfg s s'"
| Heartbeat: "worker_step cfg s (exec_state (wk_heartbeat_tick cfg now ip_reply sched_workers sched_heartbeat) s)"

definition all_ports :: "int list" where
  "all_ports = [rtmp_port_base..rtmp_port_base + max_rtmp_ports - 1]"

definition port_inv :: "worker_state \<Rightarrow> bool" where
  "port_inv s \<longleftrightarrow>
     distinct (available_rtmp_ports s) \<and> set (available_rtmp_ports s) \<subseteq> set all_ports \<and>
     (\<forall>k j. wk_getJobById k s = Some j \<longrightarrow> lj_Id j = k \<and>
        RtmpIngestPort j \<in> set all_ports - set (available_rtmp_ports s)) \<and>
     (\<forall>k l i j. wk_getJobById k s = Some i \<longrightarrow> wk_getJobById l s = Some j \<longrightarrow>
        RtmpIngestPort i = RtmpIngestPort j \<longrightarrow> k = l) \<and>
     (\<forall>rj j. rj \<in> set (running_jobs s) \<longrightarrow> wk_getJobById (lj_Id (rj_Job rj)) s = Some j \<longrightarrow>
        RtmpIngestPort (rj_Job rj) = RtmpIngestPort j)"

lemma port_invD:
  assumes "port_inv s"
  shows "distinct (available_rtmp_ports s)" "set (available_rtmp_ports s) \<subseteq> set all_ports"
    "wk_getJobById k s = Some j \<Longrightarrow> lj_Id j = k"
    "wk_getJobById k s = Some j \<Longrightarrow> RtmpIngestPort j \<in> set all_ports"
    "wk_getJobById k s = Some j \<Longrightarrow> RtmpIngestPort j \<notin> set (available_rtmp_ports s)"
    "wk_getJobById k s = Some i \<Longrightarrow> wk_getJobById l s = Some j \<Longrightarrow>
       RtmpIngestPort i = RtmpIngestPort j \<Longrightarrow> k = l"
    "rj \<in> set (running_jobs s) \<Longrightarrow> wk_getJobById (lj_Id (rj_Job rj)) s = Some j \<Longrightarrow>
       RtmpIngestPort (rj_Job rj) = RtmpIngestPort j"
  using assms unfolding port_inv_def by blast+

lemma port_inv_nonneg: "port_inv s \<Longrightarrow> ports_nonneg s"
  by (auto simp: port_inv_def ports_nonneg_def all_ports_def rtmp_port_base_def)

lemma port_inv_del:
  assumes "port_inv s"
  shows "port_inv (wdel k s)"
  unfolding port_inv_def using port_invD [OF assms]
  by (simp add: wk_lookup_del)

lemma port_inv_running:
  assumes "port_inv s" "set rjs \<subseteq> set (running_jobs s)"
  shows "port_inv (s\<lparr>running_jobs := rjs\<rparr>)"
  unfolding port_inv_def using port_invD [OF assms(1)] assms(2) by simp blast

lemma port_inv_add_running:
  assumes "port_inv s"
    and "\<And>j. wk_getJobById (lj_Id (rj_Job rj)) s = Some j \<Longrightarrow>
      RtmpIngestPort (rj_Job rj) = RtmpIngestPort j"
  shows "port_inv (s\<lparr>running_jobs := running_jobs s @ [rj]\<rparr>)"
  unfolding port_inv_def using port_invD [OF assms(1)] assms(2) by simp

text \<open>A job put under its own id with the port at the front, which leaves the list.\<close>

lemma port_inv_put:
  assumes "port_inv s" "available_rtmp_ports s = p # ps" "RtmpIngestPort j = p"
    and "lj_Id j \<notin> set (running_ids s)"
  shows "port_inv (wput (lj_Id j) j (take_port s))"
proof -
  note inv = port_invD [OF assms(1)]
  have "distinct (p # ps)" "set (p # ps) \<subseteq> set all_ports"
    using inv(1,2) assms(2) by auto
  moreover have "rj \<in> set (running_jobs s) \<Longrightarrow> lj_Id (rj_Job rj) \<noteq> lj_Id j" for rj
    using assms(4) by (force simp: running_ids_def)
  moreover have "wk_getJobById k s = Some i \<Longrightarrow> RtmpIngestPort i \<noteq> p" for k i
    using inv(5) assms(2) by force
  moreover have "wk_getJobById k s = Some i \<Longrightarrow> RtmpIngestPort i \<in> set all_ports - set ps" for k i
    using inv(4,5) assms(2) by force
  ultimately show ?thesis
    using inv(3,6,7) assms(2,3)
    by (auto simp: port_inv_def wk_lookup_put wports.contents_deq) blast
qed

lemma port_inv_release:
  assumes "port_inv s" "wk_getJobById k s = Some j"
  shows "port_inv (wdel k (release_port (RtmpIngestPort j) s))"
proof -
  note inv = port_invD [OF assms(1)]
  have "wk_getJobById l s = Some i \<Longrightarrow> l \<noteq> k \<Longrightarrow> RtmpIngestPort i \<noteq> RtmpIngestPort j" for l i
    using inv(6) assms(2) by blast
  then show ?thesis
    using inv(1,2,3,6,7) inv(4,5) inv(4,5) [OF assms(2)]
    by (auto simp: port_inv_def wk_lookup_del wports.contents_enq)
qed

lemma port_inv_post:
  assumes "port_inv s" "available_rtmp_ports s \<noteq> []" "job_json_ok j"
    "lj_Id j \<notin> set (running_ids s)"
  shows "port_inv (exec_state (wk_post_job cfg env now (BodyJob j)) s)"
proof -
  obtain p ps where p: "available_rtmp_ports s = p # ps" using assms(2) by (cases "available_rtmp_ports s") auto
  let ?j = "with_port s j"
  have port: "RtmpIngestPort ?j = p" by (simp add: with_port_def p)
  let ?s1 = "wput (lj_Id j) ?j (take_port s)"
  have "port_inv ?s1" using port_inv_put [OF assms(1) p port] assms(4) by simp
  then have "port_inv (?s1\<lparr>running_jobs := running_jobs ?s1 @
      [launched_rj cfg env (running_jobs s) ?j]\<rparr>)"
    by (rule port_inv_add_running) (simp add: wk_lookup_put launched_rj_def)
  moreover have "wput (lj_Id j) ?j (take_port (wput (lj_Id j) i s)) = ?s1" for i
    by (simp add: wput_def take_port_def update_Some_unfold)
  ultimately show ?thesis
    using assms port_inv_nonneg
    by (simp add: run_wk_post_job after_post_def Let_def port_inv_del)
qed

lemma port_inv_stop:
  assumes "port_inv s"
  shows "port_inv (exec_state (wk_stopJob env jid) s)"
proof -
  have "port_inv (wdel jid (release_port (RtmpIngestPort (rj_Job rj)) s))"
    if "find (\<lambda>rj. lj_Id (rj_Job rj) = jid) (running_jobs s) = Some rj" "wk_getJobById jid s = Some j"
    for rj j
  proof -
    from that(1) have "rj \<in> set (running_jobs s)" "lj_Id (rj_Job rj) = jid"
      by (auto simp: find_Some_iff)
    with port_invD(7) [OF assms] that(2) have "RtmpIngestPort (rj_Job rj) = RtmpIngestPort j" by blast
    with port_inv_release [OF assms that(2)] show ?thesis by simp
  qed
  with assms show ?thesis
    by (auto simp: wk_stopJob_def releaseRtmpPort_def wk_deleteJob_def split: option.splits)
qed

section \<open>The status check\<close>

definition rj_alive :: "os_env \<Rightarrow> RunningJob \<Rightarrow> bool" where
  "rj_alive env rj = (case rj_Pid rj of None \<Rightarrow> False | Some pid \<Rightarrow> os_find env pid \<and> os_alive env pid)"

definition prev_jobs :: "(RunningJob \<times> bool \<times> bool) option \<Rightarrow> bool \<Rightarrow> RunningJob list" where
  "prev_jobs prev live = (case prev of
     None \<Rightarrow> [] | Some (p, found, running) \<Rightarrow> if (found \<and> running) = live then [p] else [])"

lemma check_loop_filter:
  "check_loop env es prev kept stopped =
     (if \<exists>e \<in> set es. rj_Pid e = None then None
      else Some (kept @ prev_jobs prev True @ filter (rj_alive env) es,
        stopped @ map (\<lambda>rj. lj_Id (rj_Job rj))
          (prev_jobs prev False @ filter (\<lambda>e. \<not> rj_alive env e) es)))"
proof (induction env es prev kept stopped rule: check_loop.induct)
  case (1 env prev kept stopped)
  then show ?case by (auto simp: prev_jobs_def split: option.splits)
next
  case (2 env e es prev kept stopped)
  show ?case
  proof (cases "rj_Pid e")
    case None
    then show ?thesis by (auto simp: Let_def split: prod.splits option.splits)
  next
    case (Some pid)
    have "check_loop env es (Some (e, os_find env pid, if os_find env pid then os_alive env pid else True)) k st =
       (if \<exists>e \<in> set es. rj_Pid e = None then None
        else Some (k @ prev_jobs (Some (e, os_find env pid, if os_find env pid then os_alive env pid else True)) True
            @ filter (rj_alive env) es,
          st @ map (\<lambda>rj. lj_Id (rj_Job rj))
            (prev_jobs (Some (e, os_find env pid, if os_find env pid then os_alive env pid else True)) False
             @ filter (\<lambda>e. \<not> rj_alive env e) es)))"
      if "(case prev of None \<Rightarrow> (kept, stopped)
        | Some (p, found, running) \<Rightarrow>
            if \<not> found \<or> \<not> running then (kept, stopped @ [lj_Id (rj_Job p)])
            else (kept @ [p], stopped)) = (k, st)" for k st
      by (rule 2 [OF that [symmetric] refl Some])
    moreover have "rj_alive env e = (os_find env pid \<and> os_alive env pid)"
      using Some by (simp add: rj_alive_def)
    ultimately show ?thesis
      using Some by (auto simp: Let_def prev_jobs_def split: option.splits prod.splits if_splits)
  qed
qed

text \<open>
  C23: a status check panics exactly when a running job's command has no process; otherwise it
  keeps the running jobs whose process is found and alive, reports the ids of the others as
  stopped, each in order, and the cached readings of those it keeps. It gives no port back.
\<close>

theorem checkJobStatus_exact:
  "checkJobStatus env s =
    (if \<exists>rj \<in> set (running_jobs s). rj_Pid rj = None then None
     else let kept = filter (rj_alive env) (running_jobs s) in
       Some (\<lparr>WorkerId = my_worker_id s,
          StoppedJobs = map (\<lambda>rj. lj_Id (rj_Job rj)) (filter (\<lambda>rj. \<not> rj_alive env rj) (running_jobs s)),
          JobStatsReport = map (cached_stats s) kept\<rparr>,
        s\<lparr>running_jobs := kept\<rparr>))"
  by (auto simp: checkJobStatus_def check_loop_filter prev_jobs_def Let_def)

section \<open>Reachable states\<close>

text \<open>Registration and heartbeats write the three variables of the worker and nothing else.\<close>

lemma registerWorker_frame:
  "\<exists>wid ip. exec_state (registerWorker cfg ip_reply sched) s = s\<lparr>my_worker_id := wid, my_public_ip := ip\<rparr>"
proof -
  have "\<exists>wid ip. s = s\<lparr>my_worker_id := wid, my_public_ip := ip\<rparr>"
    by (intro exI [of _ "my_worker_id s"] exI [of _ "my_public_ip s"]) simp
  then show ?thesis
    by (auto simp: registerWorker_def split: sum.split web_reply.split option.split)
qed

lemma heartbeat_time_frame:
  "\<exists>t. exec_state (sendHeartbeat now sched) s = s\<lparr>last_confirmed_heartbeat_time := t\<rparr>"
proof -
  have "\<exists>t. s = s\<lparr>last_confirmed_heartbeat_time := t\<rparr>"
    by (intro exI [of _ "last_confirmed_heartbeat_time s"]) simp
  then show ?thesis by (auto simp: sendHeartbeat_def Let_def split: web_reply.split)
qed

lemma port_inv_init: "port_inv (init_worker\<lparr>my_worker_id := wid, my_public_ip := ip\<rparr>)"
  by (simp add: port_inv_def init_worker_def all_ports_def wk_getJobById_def)

lemma port_inv_heartbeat:
  "port_inv s \<Longrightarrow> port_inv (exec_state (wk_heartbeat_tick cfg now ip_reply sw sh) s)"
  using registerWorker_frame [of cfg ip_reply sw s] heartbeat_time_frame [of now sh s]
  by (auto simp: wk_heartbeat_tick_def port_inv_def wk_getJobById_def)

lemma port_inv_cache:
  assumes "port_inv s" "update_cached_stats env rj s = Some s'"
  shows "port_inv s'"
proof -
  have "port_inv (wput (lj_Id lj) (lj\<lparr>lj_Ingress_bandwidth_kbps := b, lj_Transcoding_cpu_utilization := c\<rparr>) s)"
    if "wk_getJobById k s = Some lj" for k lj b c
  proof -
    note inv = port_invD [OF assms(1)]
    have k: "lj_Id lj = k" using inv(3) that by blast
    have *: "RtmpIngestPort i = RtmpIngestPort lj \<Longrightarrow> l = k" if "wk_getJobById l s = Some i" for l i
      using inv(6) [OF that \<open>wk_getJobById k s = Some lj\<close>] by blast
    then show ?thesis
      using inv that by (auto simp: port_inv_def wk_lookup_put k)
  qed
  with assms show ?thesis
    by (auto simp: update_cached_stats_def split: option.splits if_splits)
qed

lemma port_inv_check:
  assumes "port_inv s" "checkJobStatus env s = Some (report, s')"
  shows "port_inv s'"
proof -
  have "s' = s\<lparr>running_jobs := filter (rj_alive env) (running_jobs s)\<rparr>"
    using assms(2) by (auto simp: checkJobStatus_def check_loop_filter prev_jobs_def split: if_splits)
  with port_inv_running [OF assms(1)] show ?thesis by simp
qed

lemma port_inv_step: "worker_step cfg s s' \<Longrightarrow> port_inv s \<Longrightarrow> port_inv s'"
  by (induction rule: worker_step.induct)
    (auto intro: port_inv_post port_inv_stop port_inv_check port_inv_cache port_inv_heartbeat)

lemma port_inv_reachable: "(worker_step cfg)\<^sup>*\<^sup>* s s' \<Longrightarrow> port_inv s \<Longrightarrow> port_inv s'"
  by (induction rule: rtranclp_induct) (auto intro: port_inv_step)

text \<open>What the invariant says of the ports.\<close>

lemma port_inv_unshared:
  assumes "port_inv s"
  shows "distinct (available_rtmp_ports s) \<and>
    (\<forall>k j. wk_getJobById k s = Some j \<longrightarrow>
       1935 \<le> RtmpIngestPort j \<and> RtmpIngestPort j < 1950 \<and>
       RtmpIngestPort j \<notin> set (available_rtmp_ports s)) \<and>
    (\<forall>k l i j. wk_getJobById k s = Some i \<and> wk_getJobById l s = Some j \<and>
       RtmpIngestPort i = RtmpIngestPort j \<longrightarrow> k = l)"
proof -
  have "p \<in> set all_ports \<longleftrightarrow> 1935 \<le> p \<and> p < 1950" for p
    unfolding all_ports_def set_upto by (auto simp: rtmp_port_base_def max_rtmp_ports_def)
  with port_invD [OF assms] show ?thesis by blast
qed

definition sample_cfg :: WorkerAppConfig where
  "sample_cfg = \<lparr>SchedulerUrl = ''http://s'', GetPublicIpUrl = [], MyPublicIP = ''1.2.3.4'',
     WorkerPort = ''2080'', WorkerUdpPortBase = 10001, cf_CpuCapacity = 4000,
     cf_BandwidthCapacity = 50000\<rparr>"

definition sample_os :: os_env where
  "sample_os = \<lparr>os_find = (\<lambda>_. True), os_alive = (\<lambda>_. True), os_term = (\<lambda>_. True),
     os_launch = (\<lambda>_. (Some 7, False)), os_ps = (\<lambda>_. []), os_iftop = (\<lambda>_. None)\<rparr>"

definition plain_job :: "string \<Rightarrow> LiveJob" where
  "plain_job jid = zero_LiveJob\<lparr>lj_Id := jid, StreamKey := ''k''\<rparr>"

lemma plain_job_ok [simp]: "job_json_ok (plain_job i)" "lj_Id (plain_job i) = i"
  by (simp_all add: job_json_ok_def plain_job_def zero_LiveJob_def json_spec_def zero_Spec_def
      zero_Detection_def json_float_def zero_KeyInfo_def)

section \<open>What breaks the sharing\<close>



text \<open>
  The UDP ports of a new job start after as many ports as the running jobs use, not after the
  ports they use: once the first of two jobs has ended, the third job's ports overlap the second's
  (whenever the first had outputs, and fewer than the second and third together).
\<close>

theorem udp_ports_collide:
  assumes "running_jobs s = [A, B]" "rj_Pid A \<noteq> None" "rj_alive env B" "\<not> rj_alive env A"
    and base: "JobUdpPortBase (Input (Spec (rj_Job B))) = WorkerUdpPortBase cfg + job_outputs (rj_Job A)"
    and "0 < job_outputs (rj_Job A)" "job_outputs (rj_Job A) < job_outputs (rj_Job B) + job_outputs j"
    and "checkJobStatus env s = Some (report, s')"
  defines "C \<equiv> launched_record cfg (running_jobs s') j"
  shows "JobUdpPortBase (Input (Spec C)) < JobUdpPortBase (Input (Spec (rj_Job B))) + job_outputs (rj_Job B) \<and>
    JobUdpPortBase (Input (Spec (rj_Job B))) < JobUdpPortBase (Input (Spec C)) + job_outputs C"
proof -
  have "running_jobs s' = [B]"
    using assms(1-4,8) by (auto simp: checkJobStatus_def check_loop_filter prev_jobs_def
        split: if_splits)
  then show ?thesis using assms(5-7) by (simp add: C_def launched_record_def job_outputs_def)
qed

definition two_output_job :: "string \<Rightarrow> int \<Rightarrow> LiveJob" where
  "two_output_job i base = (plain_job i)\<lparr>Spec := zero_Spec\<lparr>Input := \<lparr>in_Url = [], JobUdpPortBase = base\<rparr>,
     Output := (Output zero_Spec)\<lparr>Audio_outputs :=
       replicate 2 \<lparr>ao_Codec = ''aac'', ao_Bitrate = ''64k''\<rparr>\<rparr>\<rparr>\<rparr>"

definition two_running :: worker_state where
  "two_running = init_worker\<lparr>running_jobs :=
     [\<lparr>rj_Job = two_output_job ''a'' 10001, rj_Pid = Some 1\<rparr>,
      \<lparr>rj_Job = two_output_job ''b'' 10003, rj_Pid = Some 2\<rparr>]\<rparr>"

lemma job_outputs_two [simp]: "job_outputs (two_output_job i b) = 2"
  by (simp add: job_outputs_def two_output_job_def zero_Spec_def)

theorem udp_ports_collide_witness:
  "let C = launched_record sample_cfg [\<lparr>rj_Job = two_output_job ''b'' 10003, rj_Pid = Some 2\<rparr>]
         (two_output_job ''c'' 0);
       B = two_output_job ''b'' 10003 in
   JobUdpPortBase (Input (Spec C)) < JobUdpPortBase (Input (Spec B)) + job_outputs B \<and>
   JobUdpPortBase (Input (Spec B)) < JobUdpPortBase (Input (Spec C)) + job_outputs C"
proof -
  let ?env = "sample_os\<lparr>os_alive := (\<lambda>pid. pid = 2)\<rparr>"
  let ?s' = "two_running\<lparr>running_jobs := [\<lparr>rj_Job = two_output_job ''b'' 10003, rj_Pid = Some 2\<rparr>]\<rparr>"
  have run: "checkJobStatus ?env two_running = Some (\<lparr>WorkerId = [], StoppedJobs = [''a''],
      JobStatsReport = [cached_stats two_running \<lparr>rj_Job = two_output_job ''b'' 10003, rj_Pid = Some 2\<rparr>]\<rparr>, ?s')"
    by (simp add: checkJobStatus_def two_running_def sample_os_def init_worker_def two_output_job_def)
  show ?thesis
    using udp_ports_collide [OF _ _ _ _ _ _ _ run, of _ _ sample_cfg "two_output_job ''c'' 0"]
    by (simp add: two_running_def rj_alive_def sample_os_def sample_cfg_def two_output_job_def Let_def
        job_outputs_def zero_Spec_def)
qed

section \<open>New jobs\<close>

text \<open>
  A job posted while a port is free and whose transcoder starts is answered 201 with the
  first free port and the ingest URL made of the worker's address, that port and the stream key;
  the record is in the table and the transcoder at the end of the running jobs. The time of
  receipt is that of the request: the time the worker took is overwritten.
\<close>

theorem post_job_ok:
  assumes "available_rtmp_ports s = p # ps" "ports_nonneg s" "job_json_ok j"
    "\<not> launch_failed cfg env (running_jobs s) (with_port s j)"
    "run_state (wk_post_job cfg env now (BodyJob j)) s = (acts, s')"
  shows "\<exists>j'. acts = [WriteHeader 201, Write (CJob j')] \<and> wk_getJobById (lj_Id j) s' = Some j' \<and>
    RtmpIngestPort j' = p \<and>
    RtmpIngestUrl j' = ''rtmp://'' @ my_public_ip s @ '':'' @ itoa p @ ''/live/'' @ StreamKey j \<and>
    Time_received_by_worker j' = Time_received_by_worker j \<and>
    available_rtmp_ports s' = ps \<and>
    running_jobs s' = running_jobs s @ [launched_rj cfg env (running_jobs s) j']"
proof -
  have "acts = [WriteHeader 201, Write (CJob (with_port s j))]" "s' = after_post cfg env now j s"
    using assms(5) by (simp_all add: run_wk_post_job [OF assms(2,3)] assms(4))
  moreover have "RtmpIngestPort (with_port s j) = p"
    "RtmpIngestUrl (with_port s j) = ingest_url (my_public_ip s) p (StreamKey j)"
    using assms(1) by (simp_all add: with_port_def)
  ultimately show ?thesis
    using assms(1,4)
    by (simp add: after_post_def Let_def wk_lookup_put wports.contents_deq ingest_url_def)
qed

theorem post_job_ok_witness:
  "\<exists>j'. result (wk_post_job sample_cfg sample_os 5 (BodyJob (plain_job ''a''))) init_worker =
      [WriteHeader 201, Write (CJob j')] \<and>
    wk_getJobById (lj_Id (plain_job ''a'')) (exec_state
      (wk_post_job sample_cfg sample_os 5 (BodyJob (plain_job ''a''))) init_worker) = Some j' \<and>
    RtmpIngestPort j' = 1935 \<and>
    RtmpIngestUrl j' = ''rtmp://'' @ my_public_ip init_worker @ '':'' @ itoa 1935 @ ''/live/'' @
      StreamKey (plain_job ''a'') \<and>
    Time_received_by_worker j' = Time_received_by_worker (plain_job ''a'') \<and>
    available_rtmp_ports (exec_state
      (wk_post_job sample_cfg sample_os 5 (BodyJob (plain_job ''a''))) init_worker) = [1936..1949] \<and>
    running_jobs (exec_state
      (wk_post_job sample_cfg sample_os 5 (BodyJob (plain_job ''a''))) init_worker) =
      running_jobs init_worker @ [launched_rj sample_cfg sample_os (running_jobs init_worker) j']"
  by (rule post_job_ok)
    (simp_all add: init_worker_def ports_nonneg_def rtmp_port_base_def max_rtmp_ports_def
      launch_failed_def sample_os_def)

text \<open>
  A job posted while no port is free is launched all the same and answered 201, with the
  port and the ingest URL that came with the request: the error of \<open>createIngestUrl\<close> is dropped.
\<close>

theorem post_job_without_port:
  assumes "available_rtmp_ports s = []" "job_json_ok j"
    "\<not> launch_failed cfg env (running_jobs s) j"
  shows "result (wk_post_job cfg env now (BodyJob j)) s = [WriteHeader 201, Write (CJob j)] \<and>
    running_jobs (exec_state (wk_post_job cfg env now (BodyJob j)) s) =
      running_jobs s @ [launched_rj cfg env (running_jobs s) j]"
proof -
  have "ports_nonneg s" "with_port s j = j" using assms(1) by (simp_all add: ports_nonneg_def with_port_def)
  with assms show ?thesis by (simp add: run_wk_post_job after_post_def Let_def)
qed

theorem post_job_without_port_witness:
  "result (wk_post_job sample_cfg sample_os 5 (BodyJob (plain_job ''a'')))
      (init_worker\<lparr>available_rtmp_ports := []\<rparr>) = [WriteHeader 201, Write (CJob (plain_job ''a''))] \<and>
   running_jobs (exec_state (wk_post_job sample_cfg sample_os 5 (BodyJob (plain_job ''a'')))
      (init_worker\<lparr>available_rtmp_ports := []\<rparr>)) =
     running_jobs (init_worker\<lparr>available_rtmp_ports := []\<rparr>) @
       [launched_rj sample_cfg sample_os (running_jobs (init_worker\<lparr>available_rtmp_ports := []\<rparr>)) (plain_job ''a'')]"
  by (rule post_job_without_port) (simp_all add: launch_failed_def sample_os_def)

end
