(* ===== verification/GoFormat.thy ===== *)
theory GoFormat
  imports GoFloat
begin

text \<open>
  The rest of the standard library that the transcoder's commands are made with:
  \<open>strconv.FormatFloat\<close> in the formats \<open>'f'\<close> with the fewest digits (precision \<open>-1\<close>) and \<open>'e'\<close>
  with two digits after the point, and \<open>path.Dir\<close>.
\<close>

section \<open>Decimal digits of a rational\<close>

text \<open>\<open>\<lfloor>log\<^sub>1\<^sub>0 (p / q)\<rfloor>\<close> for positive \<open>p\<close> and \<open>q\<close>, from the lengths of their numerals.\<close>

definition num_digits :: "int \<Rightarrow> int" where
  "num_digits n = int (length (nat_digits (nat n)))"

definition log10_ratio :: "int \<Rightarrow> int \<Rightarrow> int" where
  "log10_ratio p q =
     (let k = num_digits p - num_digits q
      in if (if 0 \<le> k then q * 10 ^ nat k \<le> p else q \<le> p * 10 ^ nat (- k)) then k else k - 1)"

text \<open>\<open>p / q * 10 ^ s\<close> as a quotient of integers.\<close>

definition scaled :: "int \<Rightarrow> int \<Rightarrow> int \<Rightarrow> int \<times> int" where
  "scaled p q s = (if 0 \<le> s then (p * 10 ^ nat s, q) else (p, q * 10 ^ nat (- s)))"

text \<open>A rounding up to the next power of ten loses the digit it gained.\<close>

definition carry :: "nat \<Rightarrow> int \<Rightarrow> int \<Rightarrow> int \<times> int" where
  "carry n m s = (if m = 10 ^ n then (10 ^ (n - 1), s - 1) else (m, s))"

text \<open>
  The decimal of \<open>n\<close> significant digits nearest to \<open>p / q\<close>, ties to even, as its digits and the
  exponent of the first.
\<close>

definition nearest_decimal :: "nat \<Rightarrow> int \<Rightarrow> int \<Rightarrow> int \<times> int" where
  "nearest_decimal n p q =
     (let s = int n - 1 - log10_ratio p q; (a, b) = scaled p q s; (m, t) = carry n (round_half_even a b) s
      in (m, int n - 1 - t))"

text \<open>Whether the decimal \<open>m / 10 ^ s\<close> reads back as the \<open>float64\<close> \<open>p / q\<close>.\<close>

definition reads_back :: "int \<Rightarrow> int \<Rightarrow> int \<Rightarrow> int \<Rightarrow> bool" where
  "reads_back p q m s =
     (let (a, b) = scaled m 1 (- s) in round_ratio a b = Some (of_int p / of_int q))"

text \<open>
  The shortest decimal that reads back: with \<open>n\<close> digits, the one below or the one above, and the
  nearer if both do; 17 digits always do. The result \<open>(m, s)\<close> is \<open>m / 10 ^ s\<close>, without a
  trailing zero after a carry into a new digit.
\<close>

fun shortest_decimal :: "nat \<Rightarrow> nat \<Rightarrow> int \<Rightarrow> int \<Rightarrow> int \<times> int" where
  "shortest_decimal 0 n p q =
     (let s = int n - 1 - log10_ratio p q; (a, b) = scaled p q s in carry n (round_half_even a b) s)"
| "shortest_decimal (Suc fuel) n p q =
     (let s = int n - 1 - log10_ratio p q; (a, b) = scaled p q s; m = a div b;
          down = reads_back p q m s; up = reads_back p q (m + 1) s
      in if down \<and> up then carry n (round_half_even a b) s
         else if down then carry n m s
         else if up then carry n (m + 1) s
         else shortest_decimal fuel (Suc n) p q)"

section \<open>FormatFloat\<close>

definition plain_decimal :: "int \<Rightarrow> int \<Rightarrow> string" where
  "plain_decimal m s =
     (if s \<le> 0 then itoa (m * 10 ^ nat (- s))
      else let ds = itoa m; ds = replicate (nat s + 1 - length ds) CHR ''0'' @ ds;
               k = length ds - nat s
           in take k ds @ ''.'' @ drop k ds)"

definition format_float_f :: "go_float \<Rightarrow> string" where
  "format_float_f x = (case x of NaN \<Rightarrow> ''NaN'' | PInf \<Rightarrow> ''+Inf'' | NInf \<Rightarrow> ''-Inf''
     | Fin r \<Rightarrow> (let (p, q) = quotient_of \<bar>r\<bar> in
         if p = 0 then ''0''
         else (if r < 0 then ''-'' else []) @ (case shortest_decimal 16 1 p q of (m, s) \<Rightarrow> plain_decimal m s)))"

definition exponent_text :: "int \<Rightarrow> string" where
  "exponent_text e = ''e'' @ (if e < 0 then ''-'' else ''+'') @
     (if \<bar>e\<bar> < 10 then ''0'' else []) @ itoa \<bar>e\<bar>"

definition format_float_e2 :: "go_float \<Rightarrow> string" where
  "format_float_e2 x = (case x of NaN \<Rightarrow> ''NaN'' | PInf \<Rightarrow> ''+Inf'' | NInf \<Rightarrow> ''-Inf''
     | Fin r \<Rightarrow> (let (p, q) = quotient_of \<bar>r\<bar> in
         if p = 0 then ''0.00e+00''
         else (if r < 0 then ''-'' else []) @ (case nearest_decimal 3 p q of (m, e) \<Rightarrow>
             take 1 (itoa m) @ ''.'' @ drop 1 (itoa m) @ exponent_text e)))"

section \<open>Paths\<close>

text \<open>The parts of a path between its slashes.\<close>

fun split_on :: "char \<Rightarrow> string \<Rightarrow> string list" where
  "split_on c [] = [[]]"
| "split_on c (x # xs) =
     (if x = c then [] # split_on c xs
      else case split_on c xs of [] \<Rightarrow> [[x]] | p # ps \<Rightarrow> (x # p) # ps)"

text \<open>One element of the path against the stack of those kept, the last on top.\<close>

definition clean_step :: "bool \<Rightarrow> string list \<Rightarrow> string \<Rightarrow> string list" where
  "clean_step rooted stack p =
     (if p = [] \<or> p = ''.'' then stack
      else if p = ''..'' then
        (case stack of
           [] \<Rightarrow> if rooted then [] else [''..'']
         | q # qs \<Rightarrow> if q = ''..'' then ''..'' # stack else qs)
      else p # stack)"

definition path_Clean :: "string \<Rightarrow> string" where
  "path_Clean p =
     (let rooted = has_prefix p ''/'';
          body = str_join (rev (foldl (clean_step rooted) [] (split_on CHR ''/'' p))) ''/''
      in if rooted then ''/'' @ body else if body = [] then ''.'' else body)"

definition path_Dir :: "string \<Rightarrow> string" where
  "path_Dir p =
     path_Clean (case last_index_of p ''/'' of None \<Rightarrow> [] | Some n \<Rightarrow> take (Suc n) p)"

lemma path_Dir_examples:
  "path_Dir ''/tmp/output_1/video_150k/seg_1.merged'' = ''/tmp/output_1/video_150k''"
  "path_Dir ''seg_1.merged'' = ''.''" "path_Clean ''/../a//b/./c'' = ''/a/b/c''"
  by (simp_all add: path_Dir_def path_Clean_def clean_step_def)

end
