(* ===== verification/Command.thy ===== *)
theory Command
  imports Validator Redis GoFormat
begin

text \<open>
  \<open>job/command.go\<close>: the command lines of ffmpeg, Shaka packager, ffprobe, the object detector and
  MP4Box, made from a job specification. A Go \<open>for i = range\<close> over an outer \<open>i\<close> leaves it at the
  last index, 0 for an empty slice; \<open>last_index\<close> is that value. Port numbers and indices stay far
  below \<open>2 ^ 63\<close> and are plain integers.
\<close>

definition RTMP :: string where "RTMP = ''rtmp''"
definition MPEGTS :: string where "MPEGTS = ''mpegts''"
definition FMP4 :: string where "FMP4 = ''fmp4''"
definition ffprobe_output_port_distance_from_base :: int where
  "ffprobe_output_port_distance_from_base = 1000"
definition HLS :: string where "HLS = ''hls''"
definition DASH :: string where "DASH = ''dash''"
definition H264_CODEC :: string where "H264_CODEC = ''h264''"
definition FFMPEG_H264 :: string where "FFMPEG_H264 = ''libx264''"
definition H265_CODEC :: string where "H265_CODEC = ''h265''"
definition FFMPEG_H265 :: string where "FFMPEG_H265 = ''libx265''"
definition AV1_CODEC :: string where "AV1_CODEC = ''av1''"
definition FFMPEG_AV1 :: string where "FFMPEG_AV1 = ''libsvtav1''"
definition AAC_CODEC :: string where "AAC_CODEC = ''aac''"
definition MP3_CODEC :: string where "MP3_CODEC = ''mp3''"
definition Media_output_path_prefix :: string where "Media_output_path_prefix = ''output_''"
definition drm_label_allmedia :: string where "drm_label_allmedia = ''allmedia''"
definition Mp4box_segment_template_prefix :: string where
  "Mp4box_segment_template_prefix = ''segment_''"
definition mp4box_segment_template :: string where
  "mp4box_segment_template = Mp4box_segment_template_prefix @ ''$Number$''"
definition DrmKeyFileName :: string where "DrmKeyFileName = ''key.bin''"
definition DrmKeyInfoFileName :: string where "DrmKeyInfoFileName = ''key.json''"

lemmas codec_names = H264_CODEC_def H265_CODEC_def AV1_CODEC_def AAC_CODEC_def MP3_CODEC_def
  FFMPEG_H264_def FFMPEG_H265_def FFMPEG_AV1_def

definition default_detection_frame_rate :: rat where "default_detection_frame_rate = 10"
definition default_detection_input_video_resolution_height :: int where
  "default_detection_input_video_resolution_height = 320"
definition default_detection_input_video_resolution_width :: int where
  "default_detection_input_video_resolution_width = 180"
definition default_detection_input_video_bitrate :: string where
  "default_detection_input_video_bitrate = ''150k''"
definition default_detection_input_video_max_bitrate :: string where
  "default_detection_input_video_max_bitrate = ''250k''"
definition default_detection_input_video_buf_size :: string where
  "default_detection_input_video_buf_size = ''250k''"
definition default_detection_encode_codec :: string where
  "default_detection_encode_codec = H264_CODEC"
definition default_detection_encode_preset :: string where
  "default_detection_encode_preset = ''veryfast''"
definition default_detection_encode_crf :: int where "default_detection_encode_crf = 25"

definition ArgumentArrayToString :: "string list \<Rightarrow> string" where
  "ArgumentArrayToString args = str_join args '' ''"

fun av1_in :: "LiveVideoOutputSpec list \<Rightarrow> bool" where
  "av1_in [] = False"
| "av1_in (vo # vos) = (if vo_Codec vo = AV1_CODEC then True else av1_in vos)"

definition HasAV1Output :: "LiveJobSpec \<Rightarrow> bool" where
  "HasAV1Output j = av1_in (Video_outputs (Output j))"

section \<open>The rendition for object detection\<close>

definition or_default :: "'a \<Rightarrow> 'a \<Rightarrow> 'a \<Rightarrow> 'a" where
  "or_default zero d x = (if x = zero then d else x)"

definition detection_video_output :: "ObjectDetectionConfig \<Rightarrow> LiveVideoOutputSpec" where
  "detection_video_output d =
     \<lparr>vo_Codec = or_default [] default_detection_encode_codec (Encode_codec d),
      vo_Framerate = (if feq (Input_video_frame_rate d) (Fin 0) then Fin default_detection_frame_rate
        else Input_video_frame_rate d),
      vo_Width = or_default 0 default_detection_input_video_resolution_width
        (Input_video_resolution_width d),
      vo_Height = or_default 0 default_detection_input_video_resolution_height
        (Input_video_resolution_height d),
      vo_Bitrate = or_default [] default_detection_input_video_bitrate (Input_video_bitrate d),
      vo_Max_bitrate = or_default [] default_detection_input_video_max_bitrate
        (Input_video_max_bitrate d),
      vo_Buf_size = or_default [] default_detection_input_video_buf_size (Input_video_buf_size d),
      vo_Preset = or_default [] default_detection_encode_preset (Encode_preset d),
      vo_Crf = or_default 0 default_detection_encode_crf (Encode_crf d),
      vo_Threads = 0\<rparr>"

definition AddDetectionVideoOutput :: "LiveJobSpec \<Rightarrow> LiveJobSpec" where
  "AddDetectionVideoOutput j =
     (let out = Output j; d = Detection out in
      if list_ex (\<lambda>vo. vo_Bitrate vo = Input_video_bitrate d) (Video_outputs out) then j
      else j\<lparr>Output := out\<lparr>Video_outputs := Video_outputs out @ [detection_video_output d]\<rparr>\<rparr>)"

section \<open>The detector and MP4Box\<close>

text \<open>\<open>None\<close>: the file name has no dot and the slice before it panics.\<close>

definition GenerateDetectionCommand ::
    "go_float \<Rightarrow> string \<Rightarrow> string \<Rightarrow> int \<Rightarrow> string \<Rightarrow> string \<Rightarrow> int \<Rightarrow> string list option" where
  "GenerateDetectionCommand rate codec preset crf input_file output_file sidx_timescale =
     (let name = Get_path_filename input_file in
      case slice_to name (str_last_index name ''.'') of
        None \<Rightarrow> None
      | Some seg_name \<Rightarrow> Some
          ([''/home/streamer/bins/od.sh'', input_file,
            format_float_e2 (if feq rate (Fin 0) then Fin default_detection_frame_rate else rate),
            path_Dir input_file, seg_name, output_file, itoa sidx_timescale]
           @ (if codec = H264_CODEC then [FFMPEG_H264]
              else if codec = H265_CODEC then [FFMPEG_H265] else [])
           @ [preset, itoa crf]))"

definition GenerateFmp4ConversionCommand :: "string \<Rightarrow> int \<Rightarrow> string list" where
  "GenerateFmp4ConversionCommand input seg_duration =
     [''-dash'', itoa (wrap64 (seg_duration * 1000)), ''-segment-name'', mp4box_segment_template,
      ''-out'', path_Dir input @ ''/dummy.m3u8'', input]"

section \<open>Pieces the ffmpeg commands share\<close>

definition listening_args :: "string \<Rightarrow> string list" where
  "listening_args url = (if str_contains url RTMP then [''-f'', ''flv'', ''-listen'', ''1''] else [])"

text \<open>The host of the input URL replaced by any address: what follows the last colon stays.\<close>

definition ffmpeg_listening_url :: "string \<Rightarrow> string" where
  "ffmpeg_listening_url url = ''rtmp://0.0.0.0:'' @
     (case last_index_of url '':'' of None \<Rightarrow> url | Some n \<Rightarrow> drop (Suc n) url)"

definition keyframe_args :: "LiveJobOutputSpec \<Rightarrow> string list" where
  "keyframe_args out =
     [''-force_key_frames'', ''expr:gte(t,n_forced*'' @ itoa (Fragment_duration out) @ '')'']"

definition rate_args :: "nat \<Rightarrow> LiveVideoOutputSpec \<Rightarrow> string list" where
  "rate_args i vo =
     (let bv = [''-b:v:'' @ itoa (int i), vo_Bitrate vo] in
      if vo_Bitrate vo \<noteq> [] \<and> vo_Max_bitrate vo \<noteq> [] \<and> vo_Buf_size vo \<noteq> [] then
        bv @ [''-maxrate'', vo_Max_bitrate vo, ''-bufsize'', vo_Buf_size vo]
      else if vo_Bitrate vo \<noteq> [] \<and> vo_Max_bitrate vo = [] \<and> vo_Buf_size vo = [] then bv
      else [])"

definition quality_args :: "LiveVideoOutputSpec \<Rightarrow> string list" where
  "quality_args vo =
     (if vo_Preset vo \<noteq> [] then [''-preset'', vo_Preset vo] else [])
     @ (if vo_Crf vo \<noteq> 0 then [''-crf'', itoa (vo_Crf vo)] else [])
     @ (if vo_Threads vo \<noteq> 0 then [''-threads'', itoa (vo_Threads vo)] else [])"

definition audio_codec_args :: "LiveAudioOutputSpec \<Rightarrow> string list" where
  "audio_codec_args ao = [''-map'', ''a:0'', ''-c:a'']
     @ (if ao_Codec ao = AAC_CODEC then [AAC_CODEC]
        else if ao_Codec ao = MP3_CODEC then [MP3_CODEC] else [])
     @ [''-b:a'', ao_Bitrate ao]"

definition udp_url :: "int \<Rightarrow> string" where
  "udp_url port = ''udp://127.0.0.1:'' @ itoa port"

definition generateFfprobeOutputUrl :: "int \<Rightarrow> string" where
  "generateFfprobeOutputUrl port_base =
     udp_url (port_base + ffprobe_output_port_distance_from_base)"

definition passthrough_args :: "int \<Rightarrow> string list" where
  "passthrough_args port_base =
     [''-c'', ''copy'', ''-f'', MPEGTS, generateFfprobeOutputUrl port_base]"

definition last_index :: "'a list \<Rightarrow> nat" where
  "last_index xs = length xs - 1"

section \<open>ffmpeg for the packager\<close>

definition ffmpeg_video_args ::
    "LiveJobOutputSpec \<Rightarrow> int \<Rightarrow> nat \<times> LiveVideoOutputSpec \<Rightarrow> string list" where
  "ffmpeg_video_args out port_base = (\<lambda>(i, vo).
     keyframe_args out
     @ [''-vf'', ''scale=w='' @ itoa (vo_Width vo) @ '':'' @ ''h='' @ itoa (vo_Height vo), ''-c:v'']
     @ (if vo_Codec vo = H264_CODEC then [FFMPEG_H264]
        else if vo_Codec vo = H265_CODEC then [FFMPEG_H265] else [])
     @ (if fgt (vo_Framerate vo) (Fin 0) then [''-r'', format_float_f (vo_Framerate vo)] else [])
     @ (if vo_Codec vo = H264_CODEC \<or> vo_Codec vo = H265_CODEC
        then [''-profile:v'', if vo_Height vo > 720 then ''high'' else ''main''] else [])
     @ rate_args i vo @ quality_args vo
     @ [''-an'', ''-f'', MPEGTS, udp_url (port_base + int i)])"

definition ffmpeg_audio_args :: "int \<Rightarrow> nat \<times> LiveAudioOutputSpec \<Rightarrow> string list" where
  "ffmpeg_audio_args first_port = (\<lambda>(k, ao).
     audio_codec_args ao @ [''-vn'', ''-f'', MPEGTS, udp_url (first_port + int k)])"

definition JobSpecToFFmpegArgs :: "LiveJobSpec \<Rightarrow> string \<Rightarrow> string list" where
  "JobSpecToFFmpegArgs j media_output_path =
     (let out = Output j; port_base = JobUdpPortBase (Input j); i = last_index (Video_outputs out) in
      listening_args (in_Url (Input j)) @ [''-i'', ffmpeg_listening_url (in_Url (Input j))]
      @ keyframe_args out
      @ concat (map (ffmpeg_video_args out port_base) (List.enumerate 0 (Video_outputs out)))
      @ concat (map (ffmpeg_audio_args (port_base + int i + 1)) (List.enumerate 0 (Audio_outputs out)))
      @ passthrough_args port_base)"

definition GenerateFfprobeArgs :: "LiveJobSpec \<Rightarrow> string \<Rightarrow> string list" where
  "GenerateFfprobeArgs j media_output_path =
     [''/home/streamer/bins/start_ffprobe.sh'', generateFfprobeOutputUrl (JobUdpPortBase (Input j)),
      media_output_path @ Input_json_file_name]"

end
