(* ===== verification/Packager.thy ===== *)
theory Packager
  imports Command
begin

text \<open>
  \<open>job/command.go\<close>, the commands that write the stream: Shaka packager's, which takes the
  renditions from ffmpeg over UDP, and that of ffmpeg alone for AV1. Each comes with the
  sub-directories of the output path it writes to.
\<close>

section \<open>Shaka packager\<close>

text \<open>
  The DRM argument is the text of a key (\<open>None\<close>: no argument); what cannot be decoded of it is
  the zero key.
\<close>

definition packager_key :: "rtext option \<Rightarrow> KeyInfo" where
  "packager_key drm = (case drm of None \<Rightarrow> zero_KeyInfo
     | Some t \<Rightarrow> (case unmarshal_key t of None \<Rightarrow> zero_KeyInfo | Some k \<Rightarrow> k))"

definition segment_templates :: "string \<Rightarrow> string \<Rightarrow> string" where
  "segment_templates path label =
     '',init_segment='' @ path @ label @ ''/init.mp4''
     @ '',segment_template='' @ path @ label @ ''/seg_$Number$.m4s''"

definition drm_label :: "rtext option \<Rightarrow> string" where
  "drm_label drm = (if drm \<noteq> None then '',drm_label='' @ drm_label_allmedia else [])"

definition video_label :: "LiveVideoOutputSpec \<Rightarrow> string" where
  "video_label vo = ''video_'' @ vo_Bitrate vo"

definition audio_label :: "LiveAudioOutputSpec \<Rightarrow> string" where
  "audio_label ao = ''audio_'' @ ao_Bitrate ao"

definition packager_video ::
    "string \<Rightarrow> int \<Rightarrow> string \<Rightarrow> rtext option \<Rightarrow> nat \<times> LiveVideoOutputSpec \<Rightarrow> string" where
  "packager_video stream_type port_base path drm = (\<lambda>(i, vo).
     ''in='' @ udp_url (port_base + int i) @ '',stream=video''
     @ segment_templates path (video_label vo)
     @ (if stream_type = HLS then '',playlist_name='' @ path @ video_label vo @ ''/playlist.m3u8'' else [])
     @ drm_label drm)"

definition packager_audio ::
    "string \<Rightarrow> int \<Rightarrow> string \<Rightarrow> rtext option \<Rightarrow> nat \<times> LiveAudioOutputSpec \<Rightarrow> string" where
  "packager_audio stream_type first_port path drm = (\<lambda>(k, ao).
     ''in='' @ udp_url (first_port + int k) @ '',stream=audio''
     @ segment_templates path (audio_label ao)
     @ (if stream_type = HLS then '',playlist_name='' @ path @ audio_label ao @ ''/playlist.m3u8''
          @ '',hls_group_id='' @ audio_label ao else [])
     @ drm_label drm)"

definition duration_args :: "LiveJobOutputSpec \<Rightarrow> string list" where
  "duration_args out = [''--fragment_duration'', itoa (Fragment_duration out),
     ''--segment_duration'', itoa (Segment_duration out)]"

definition time_shift_args :: "LiveJobOutputSpec \<Rightarrow> string list" where
  "time_shift_args out = [''--time_shift_buffer_depth'', itoa (Time_shift_buffer_depth out)]"

definition preserved_args :: "string list" where
  "preserved_args = [''--preserved_segments_outside_live_window'', ''8'']"

definition dash_args :: "LiveJobOutputSpec \<Rightarrow> string \<Rightarrow> string list" where
  "dash_args out path = duration_args out
     @ [''--min_buffer_time'', ''2'', ''--minimum_update_period'', ''60'']
     @ time_shift_args out @ preserved_args
     @ [''--mpd_output'', path @ DASH_MPD_FILE_NAME]"

text \<open>The initialisation vector is 16 random bytes, or empty if they cannot be read.\<close>

definition clear_key_args :: "string \<Rightarrow> LiveJobOutputSpec \<Rightarrow> KeyInfo \<Rightarrow> int list option \<Rightarrow> string list" where
  "clear_key_args job_id out key random =
     [''--enable_raw_key_encryption'', ''--keys'',
      ''label='' @ drm_label_allmedia @ '':'' @ ''key_id='' @ Key_id key @ '':'' @ ''key='' @ Key key
        @ '':'' @ ''iv='' @ (case Random_16bytes_as_string random of None \<Rightarrow> [] | Some iv \<Rightarrow> iv),
      ''--hls_key_uri'', ''https://'' @ Bucket (S3_output out) @ ''.s3.amazonaws.com/output_'' @ job_id
        @ ''/'' @ DrmKeyFileName]"

definition drm_args ::
    "string \<Rightarrow> LiveJobOutputSpec \<Rightarrow> rtext option \<Rightarrow> int list option \<Rightarrow> string list" where
  "drm_args job_id out drm random =
     (if drm \<noteq> None then
        [''--protection_scheme'', Protection_scheme (Drm out)]
        @ (if Disable_clear_key (Drm out) = 0
           then clear_key_args job_id out (packager_key drm) random else [])
      else [])"

definition hls_args ::
    "string \<Rightarrow> LiveJobOutputSpec \<Rightarrow> string \<Rightarrow> rtext option \<Rightarrow> int list option \<Rightarrow> string list" where
  "hls_args job_id out path drm random = duration_args out
     @ (if Time_shift_buffer_depth out > 0 then time_shift_args out else [])
     @ preserved_args @ [''--hls_playlist_type'', ''live'']
     @ drm_args job_id out drm random
     @ [''--hls_master_playlist_output'', path @ HLS_MASTER_PLAYLIST_FILE_NAME]"

definition JobSpecToShakaPackagerArgs ::
    "string \<Rightarrow> LiveJobSpec \<Rightarrow> string \<Rightarrow> rtext option \<Rightarrow> int list option \<Rightarrow> string list \<times> string list" where
  "JobSpecToShakaPackagerArgs job_id j path drm random =
     (let out = Output j; port_base = JobUdpPortBase (Input j);
          i = last_index (Video_outputs out) in
      (map (packager_video (Stream_type out) port_base path drm) (List.enumerate 0 (Video_outputs out))
       @ map (packager_audio (Stream_type out) (port_base + int i + 1) path drm)
           (List.enumerate 0 (Audio_outputs out))
       @ (if Stream_type out = DASH then dash_args out path
          else if Stream_type out = HLS then hls_args job_id out path drm random else []),
       map video_label (Video_outputs out) @ map audio_label (Audio_outputs out)))"

section \<open>ffmpeg alone\<close>

text \<open>
  The video part of \<open>JobSpecToEncoderArgs\<close>: arguments and sub-directories so far, and whether the
  loop returned early, on the first rendition that is not AV1.
\<close>

definition stream_dir :: "nat \<Rightarrow> string" where
  "stream_dir i = ''stream_'' @ itoa (int i)"

definition encoder_video_head :: "LiveJobOutputSpec \<Rightarrow> nat \<Rightarrow> LiveVideoOutputSpec \<Rightarrow> string list" where
  "encoder_video_head out i vo =
     [''-map'', ''v:0'', ''-s:'' @ itoa (int i), itoa (vo_Width vo) @ ''x'' @ itoa (vo_Height vo)]
     @ keyframe_args out @ [''-c:v'']"

fun encoder_videos :: "LiveJobOutputSpec \<Rightarrow> nat \<Rightarrow> LiveVideoOutputSpec list \<Rightarrow> string list \<Rightarrow>
    string list \<Rightarrow> string list \<times> string list \<times> bool" where
  "encoder_videos out i [] args dirs = (args, dirs, False)"
| "encoder_videos out i (vo # vos) args dirs =
     (let dirs = dirs @ [stream_dir i]; args = args @ encoder_video_head out i vo in
      if vo_Codec vo \<noteq> AV1_CODEC then (args, dirs, True)
      else encoder_videos out (Suc i) vos
        (args @ [FFMPEG_AV1]
         @ (if fgt (vo_Framerate vo) (Fin 0)
            then [''-filter:v'', ''fps='' @ format_float_f (vo_Framerate vo)] else [])
         @ rate_args i vo @ quality_args vo) dirs)"

definition encoder_dash_args :: "LiveJobOutputSpec \<Rightarrow> string \<Rightarrow> string list" where
  "encoder_dash_args out path =
     [''-seg_duration'', itoa (Segment_duration out), ''-window_size'', ''15'',
      ''-extra_window_size'', ''15'', ''-remove_at_exit'', ''1'']
     @ (if Low_latency_mode out \<noteq> 0
        then [''-ldash'', ''1'', ''-streaming'', ''1'', ''-use_timeline'', ''0'', ''-use_template'', ''1'']
        else [])
     @ [''-adaptation_sets'', ''id=0,streams=v id=1,streams=a'', ''-f'', DASH, path @ ''1.mpd'']"

definition var_stream_map :: "nat \<Rightarrow> nat \<Rightarrow> string" where
  "var_stream_map videos audios =
     concat (map (\<lambda>i. ''v:'' @ itoa (int i) @ '' '') [0..<videos])
     @ concat (map (\<lambda>i. ''a:'' @ itoa (int i) @ '' '') [0..<audios])"

text \<open>\<open>None\<close>: the last blank of an empty stream map is cut off, which panics.\<close>

definition encoder_hls_args :: "LiveJobOutputSpec \<Rightarrow> string list option" where
  "encoder_hls_args out =
     (let vsr = var_stream_map (length (Video_outputs out)) (length (Audio_outputs out));
          ext = (if Segment_format out = FMP4 then ''.m4s''
                 else if Segment_format out = MPEGTS then ''.ts'' else []) in
      case slice_to vsr (int (length vsr) - 1) of
        None \<Rightarrow> None
      | Some vsr \<Rightarrow> Some
          [''-f'', ''hls'', ''-hls_playlist_type'', ''event'', ''-hls_flags'', ''independent_segments'',
           ''-hls_segment_type'', Segment_format out, ''-hls_time'', itoa (Segment_duration out),
           ''-hls_segment_filename'', ''stream_%v/seg_%05d'' @ ext,
           ''-master_pl_name'', HLS_MASTER_PLAYLIST_FILE_NAME, ''-var_stream_map'', vsr,
           ''stream_%v/playlist.m3u8''])"

definition encoder_audio_args :: "LiveAudioOutputSpec list \<Rightarrow> string list" where
  "encoder_audio_args aos =
     (if aos = [] then [''-an''] else concat (map audio_codec_args aos))"

definition JobSpecToEncoderArgs :: "LiveJobSpec \<Rightarrow> string \<Rightarrow> (string list \<times> string list) option" where
  "JobSpecToEncoderArgs j path =
     (let out = Output j; i = last_index (Video_outputs out);
          (args, dirs, early) = encoder_videos out 0 (Video_outputs out)
            (listening_args (in_Url (Input j)) @ [''-i'', ffmpeg_listening_url (in_Url (Input j))]) [] in
      if early then Some (args, dirs)
      else
        map_option (\<lambda>stream.
            (args @ encoder_audio_args (Audio_outputs out) @ stream
             @ passthrough_args (JobUdpPortBase (Input j)),
             dirs @ map (\<lambda>k. stream_dir (i + k + 1)) [0..<length (Audio_outputs out)]))
          (if Stream_type out = DASH then Some (encoder_dash_args out path)
           else if Stream_type out = HLS then encoder_hls_args out
           else Some []))"

end
