(* ===== verification/CommandSpec.thy ===== *)
theory CommandSpec
  imports Packager ValidatorSpec
begin

text \<open>
  The commands fit together: the renditions ffmpeg sends are the inputs the packager reads, and
  ffprobe listens where ffmpeg sends the input stream. The command of ffmpeg alone is complete
  exactly when every rendition is AV1.
\<close>

section \<open>UDP ports\<close>

text \<open>The port of each rendition, the video renditions first.\<close>

definition rendition_ports :: "LiveJobSpec \<Rightarrow> int list" where
  "rendition_ports j =
     (let out = Output j; base = JobUdpPortBase (Input j) in
      map (\<lambda>i. base + int i) [0..<length (Video_outputs out)] @
      map (\<lambda>k. base + int (last_index (Video_outputs out)) + 1 + int k) [0..<length (Audio_outputs out)])"

definition probe_port :: "LiveJobSpec \<Rightarrow> int" where
  "probe_port j = JobUdpPortBase (Input j) + ffprobe_output_port_distance_from_base"

definition is_udp :: "string \<Rightarrow> bool" where
  "is_udp a = has_prefix a ''udp://''"

text \<open>The stream an argument of the packager reads.\<close>

definition input_stream :: "string \<Rightarrow> string" where
  "input_stream arg = takeWhile (\<lambda>c. c \<noteq> CHR '','') (drop 3 arg)"

text \<open>No text of the specification looks like the address of a stream.\<close>

definition texts_ok :: "LiveJobSpec \<Rightarrow> bool" where
  "texts_ok j \<longleftrightarrow>
     list_all (\<lambda>vo. \<not> is_udp (vo_Bitrate vo) \<and> \<not> is_udp (vo_Max_bitrate vo) \<and>
       \<not> is_udp (vo_Buf_size vo) \<and> \<not> is_udp (vo_Preset vo)) (Video_outputs (Output j)) \<and>
     list_all (\<lambda>ao. \<not> is_udp (ao_Bitrate ao)) (Audio_outputs (Output j))"

lemma is_udp_url [simp]: "is_udp (udp_url p)"
  by (simp add: is_udp_def udp_url_def)

lemma not_is_udp [simp]:
  "\<not> is_udp []" "a \<noteq> CHR ''u'' \<Longrightarrow> \<not> is_udp (a # s)"
  by (simp_all add: is_udp_def)

lemma digit_char_not_u: "digit_char m \<noteq> CHR ''u''" "CHR '','' \<noteq> digit_char m"
proof -
  have "of_char (digit_char m) = (48 + int (m mod 10))" by (rule of_char_digit_char)
  moreover have "m mod 10 < 10" by simp
  moreover have "(of_char (CHR ''u'') :: int) = 117" "(of_char (CHR '','') :: int) = 44" by simp_all
  ultimately show "digit_char m \<noteq> CHR ''u''" "CHR '','' \<noteq> digit_char m" by force+
qed

lemma nat_digits_head: "\<exists>c s. nat_digits n = c # s \<and> c \<noteq> CHR ''u''"
proof (induction n rule: nat_digits.induct)
  case (1 n)
  then show ?case by (cases "n < 10") (subst nat_digits.simps, auto simp: digit_char_not_u)+
qed

lemma nat_digits_no_comma: "CHR '','' \<notin> set (nat_digits n)"
proof (induction n rule: nat_digits.induct)
  case (1 n)
  then show ?case by (subst nat_digits.simps) (auto simp: digit_char_not_u)
qed

lemma itoa_no_comma [simp]: "CHR '','' \<notin> set (itoa i)"
  by (simp add: itoa_def nat_digits_no_comma)

lemma is_udp_itoa [simp]: "\<not> is_udp (itoa i)"
  using nat_digits_head [of "nat i"] by (auto simp: itoa_def)

lemma is_udp_itoa_append [simp]: "\<not> is_udp (itoa i @ s)"
  using nat_digits_head [of "nat i"] by (auto simp: itoa_def)

lemma not_is_udp_take: "hd xs \<noteq> CHR ''u'' \<Longrightarrow> \<not> is_udp (take k xs @ CHR ''.'' # t)"
  by (cases k; cases xs) auto

lemma hd_itoa: "hd (itoa m) \<noteq> CHR ''u''"
  using nat_digits_head [of "nat m"] by (auto simp: itoa_def)

lemma not_is_udp_plain_decimal: "\<not> is_udp (plain_decimal m s)"
proof (cases "s \<le> 0")
  case False
  have hd: "hd (replicate n CHR ''0'' @ itoa m) \<noteq> CHR ''u''" for n
    using hd_itoa [of m] by (cases n) auto
  have "\<not> is_udp (take k ds @ ''.'' @ drop k ds)" if "ds = replicate n CHR ''0'' @ itoa m" for n k ds
    unfolding that append_Cons append_Nil by (rule not_is_udp_take [OF hd])
  from this [OF refl] False show ?thesis by (simp only: plain_decimal_def Let_def if_False not_False_eq_True)
qed (simp add: plain_decimal_def)

lemma is_udp_format_float_f [simp]: "\<not> is_udp (format_float_f x)"
  by (auto simp: format_float_f_def Let_def not_is_udp_plain_decimal split: go_float.splits prod.splits)

lemmas command_parts = keyframe_args_def rate_args_def quality_args_def audio_codec_args_def
  listening_args_def ffmpeg_listening_url_def Let_def MPEGTS_def codec_names

lemma udp_video_args:
  assumes "\<not> is_udp (vo_Bitrate vo)" "\<not> is_udp (vo_Max_bitrate vo)"
    "\<not> is_udp (vo_Buf_size vo)" "\<not> is_udp (vo_Preset vo)"
  shows "filter is_udp (ffmpeg_video_args out base (i, vo)) = [udp_url (base + int i)]"
  using assms by (simp add: ffmpeg_video_args_def command_parts)

lemma udp_audio_args:
  "\<not> is_udp (ao_Bitrate ao) \<Longrightarrow>
    filter is_udp (ffmpeg_audio_args first (k, ao)) = [udp_url (first + int k)]"
  by (simp add: ffmpeg_audio_args_def command_parts)

text \<open>One stream per element: what a filter finds in the arguments made of a list.\<close>

lemma filter_concat_enumerate:
  assumes "\<And>i x. x \<in> set xs \<Longrightarrow> filter P (f (i, x)) = [g i]"
  shows "filter P (concat (map f (List.enumerate n xs))) = map g [n..<n + length xs]"
  using assms
proof (induction xs arbitrary: n)
  case (Cons x xs)
  have "filter P (concat (map f (List.enumerate (Suc n) xs))) = map g [Suc n..<Suc n + length xs]"
    by (rule Cons.IH) (simp add: Cons.prems)
  moreover have "[n..<n + length (x # xs)] = n # [Suc n..<Suc n + length xs]"
    by (subst upt_rec) simp
  ultimately show ?case using Cons.prems by simp
qed simp

lemma udp_ffmpeg:
  assumes "texts_ok j"
  shows "filter is_udp (JobSpecToFFmpegArgs j path) = map udp_url (rendition_ports j @ [probe_port j])"
proof -
  let ?out = "Output j" and ?base = "JobUdpPortBase (Input j)"
  have "filter is_udp (concat (map (ffmpeg_video_args ?out ?base) (List.enumerate 0 (Video_outputs ?out))))
      = map (\<lambda>i. udp_url (?base + int i)) [0..<0 + length (Video_outputs ?out)]"
    by (rule filter_concat_enumerate, rule udp_video_args)
      (use assms in \<open>auto simp: texts_ok_def list_all_iff\<close>)
  moreover have "filter is_udp (concat (map (ffmpeg_audio_args first) (List.enumerate 0 (Audio_outputs ?out))))
      = map (\<lambda>k. udp_url (first + int k)) [0..<0 + length (Audio_outputs ?out)]" for first
    by (rule filter_concat_enumerate, rule udp_audio_args)
      (use assms in \<open>auto simp: texts_ok_def list_all_iff\<close>)
  ultimately show ?thesis
    by (simp add: JobSpecToFFmpegArgs_def rendition_ports_def probe_port_def passthrough_args_def
        generateFfprobeOutputUrl_def command_parts o_def add.commute add.left_commute)
qed

lemma input_stream_udp: "input_stream (''in='' @ udp_url p @ CHR '','' # s) = udp_url p"
proof -
  have "takeWhile (\<lambda>c. c \<noteq> CHR '','') (udp_url p @ CHR '','' # s) = udp_url p"
    by (rule takeWhile_tail [THEN trans]) (auto simp: takeWhile_eq_all_conv udp_url_def takeWhile_append)
  then show ?thesis by (simp add: input_stream_def)
qed

lemma packager_video_stream:
  "input_stream (packager_video st base path drm x) = udp_url (base + int (fst x))"
  using input_stream_udp [of "base + int (fst x)"] by (cases x) (simp add: packager_video_def)

lemma packager_audio_stream:
  "input_stream (packager_audio st first path drm x) = udp_url (first + int (fst x))"
  using input_stream_udp [of "first + int (fst x)"] by (cases x) (simp add: packager_audio_def)

lemma map_enumerate_index: "map (\<lambda>(i, x). f i) (List.enumerate n xs) = map f [n..<n + length xs]"
proof (induction xs arbitrary: n)
  case (Cons x xs)
  have "[n..<n + length (x # xs)] = n # [Suc n..<Suc n + length xs]" by (subst upt_rec) simp
  with Cons [of "Suc n"] show ?case by simp
qed simp

lemma packager_streams:
  "map input_stream (take (length (rendition_ports j)) (fst (JobSpecToShakaPackagerArgs jid j path drm random)))
    = map udp_url (rendition_ports j)"
proof -
  let ?out = "Output j" and ?base = "JobUdpPortBase (Input j)"
  have "map (input_stream \<circ> packager_video st base path drm) (List.enumerate 0 vos) =
      map (\<lambda>i. udp_url (base + int i)) [0..<length vos]" for st base vos
    using map_enumerate_index [of "\<lambda>i. udp_url (base + int i)" 0 vos]
    by (simp add: o_def packager_video_stream case_prod_beta') 
  moreover have "map (input_stream \<circ> packager_audio st first path drm) (List.enumerate 0 aos) =
      map (\<lambda>k. udp_url (first + int k)) [0..<length aos]" for st first aos
    using map_enumerate_index [of "\<lambda>i. udp_url (first + int i)" 0 aos]
    by (simp add: o_def packager_audio_stream case_prod_beta')
  ultimately show ?thesis
    by (simp add: JobSpecToShakaPackagerArgs_def rendition_ports_def Let_def o_def
        add.commute add.left_commute)
qed

lemma distinct_rendition_ports: "distinct (rendition_ports j)"
  by (auto simp: rendition_ports_def Let_def distinct_map inj_on_def last_index_def)

lemma rendition_ports_range:
  "p \<in> set (rendition_ports j) \<Longrightarrow> JobUdpPortBase (Input j) \<le> p \<and>
    p \<le> JobUdpPortBase (Input j) + int (length (rendition_ports j))"
  by (auto simp: rendition_ports_def Let_def last_index_def)

text \<open>The texts of an accepted request are rates and presets, so none of them is an address.\<close>

lemma parse_float_udp: "parse_float (''udp:/'' @ t) = None"
  by (simp add: parse_float_def parse_special_def read_float_def drop_sign_def lower_def Let_def
      base_digit_def digit_of_def split: list.splits)

lemma rate_ok_not_udp: "rate_ok P s \<Longrightarrow> \<not> is_udp s"
proof
  assume r: "rate_ok P s" and "is_udp s"
  then obtain t where s: "s = ''udp://'' @ t" by (auto simp: is_udp_def has_prefix_iff)
  have "\<exists>u. butlast s = ''udp:/'' @ u" by (cases "t = []") (auto simp: s butlast_append)
  with r parse_float_udp show False by (auto simp: rate_ok_def)
qed

text \<open>
  C11: ffmpeg sends every rendition to the address that the packager reads it from, in the same
  order, and the input stream to the address ffprobe reads; no two of these ports are the same for a
  job of fewer than 1000 renditions.
\<close>

theorem packager_reads_ffmpeg:
  fixes jid path drm random
  assumes "texts_ok j" "length (rendition_ports j) < 1000"
  defines "packager \<equiv> fst (JobSpecToShakaPackagerArgs jid j path drm random)"
  shows "filter is_udp (JobSpecToFFmpegArgs j path) =
      map input_stream (take (length (rendition_ports j)) packager) @ [GenerateFfprobeArgs j path ! 1] \<and>
    map input_stream (take (length (rendition_ports j)) packager) = map udp_url (rendition_ports j) \<and>
    GenerateFfprobeArgs j path ! 1 = udp_url (probe_port j) \<and>
    distinct (rendition_ports j @ [probe_port j])"
proof -
  have "probe_port j \<notin> set (rendition_ports j)"
    using rendition_ports_range [of "probe_port j" j] assms(2)
    by (auto simp: probe_port_def ffprobe_output_port_distance_from_base_def)
  then show ?thesis
    using udp_ffmpeg [OF assms(1)] packager_streams distinct_rendition_ports
    by (simp add: packager_def GenerateFfprobeArgs_def generateFfprobeOutputUrl_def probe_port_def)
qed

theorem packager_reads_ffmpeg_witness:
  "filter is_udp (JobSpecToFFmpegArgs sample_job ''/tmp/'') =
      map input_stream (take 3 (fst (JobSpecToShakaPackagerArgs ''j1'' sample_job ''/tmp/'' None None)))
      @ [udp_url 1000]"
proof -
  have n: "length (rendition_ports sample_job) = 3" by code_simp
  have "texts_ok sample_job" by code_simp
  from packager_reads_ffmpeg [OF this, where jid = "''j1''" and path = "''/tmp/''" and drm = None
      and random = None] n
  show ?thesis
    by (simp add: probe_port_def ffprobe_output_port_distance_from_base_def sample_job_def zero_Spec_def)
qed

lemma preset_not_udp: "encoder_ok vo \<Longrightarrow> \<not> is_udp (vo_Preset vo)"
  by (auto simp: encoder_ok_def is_udp_def has_prefix_iff valid_values parse_int_def Let_def digit_of_def
      split: if_splits)

lemma accepted_texts_ok: "request_ok j \<Longrightarrow> texts_ok j"
  by (auto simp: request_ok_def texts_ok_def list_all_iff video_ok_def audio_ok_def rate_ok_not_udp
      preset_not_udp)

section \<open>Directories\<close>


text \<open>The validator accepts two renditions of one bitrate.\<close>

lemma same_bitrate_accepted:
  defines "j \<equiv> sample_job\<lparr>Output := (Output sample_job)\<lparr>Video_outputs :=
    [sample_video 640 360 ''365k'' ''500k'', sample_video 768 432 ''365k'' ''500k'']\<rparr>\<rparr>"
  shows "\<exists>w. Validate j = Some (None, w, j)"
  unfolding j_def by (rule exI [of _ "[]"]) code_simp

section \<open>ffmpeg alone\<close>

lemma encoder_videos_complete:
  "encoder_videos out i vos args dirs = (args', dirs', early) \<Longrightarrow>
    early = (\<not> list_all (\<lambda>vo. vo_Codec vo = AV1_CODEC) vos) \<and>
    (early \<longrightarrow> last args' = ''-c:v'') \<and> (\<not> early \<longrightarrow> length dirs' = length dirs + length vos)"
proof (induction vos arbitrary: i args dirs)
  case (Cons vo vos)
  show ?case
  proof (cases "vo_Codec vo = AV1_CODEC")
    case True
    with Cons.prems Cons.IH show ?thesis by (fastforce simp: Let_def)
  next
    case False
    then have "args' = args @ encoder_video_head out i vo" "early"
      using Cons.prems by (simp_all add: Let_def)
    with False show ?thesis by (simp add: encoder_video_head_def)
  qed
qed simp

lemma HasAV1Output_iff: "HasAV1Output j \<longleftrightarrow> list_ex (\<lambda>vo. vo_Codec vo = AV1_CODEC) (Video_outputs (Output j))"
proof -
  have "av1_in vos \<longleftrightarrow> list_ex (\<lambda>vo. vo_Codec vo = AV1_CODEC) vos" for vos
    by (induction vos) auto
  then show ?thesis by (simp add: HasAV1Output_def)
qed

lemma var_stream_map_nonempty: "vos > 0 \<Longrightarrow> var_stream_map vos aos \<noteq> []"
  by (cases vos) (simp_all add: var_stream_map_def)

lemma encoder_hls_args_total:
  "Video_outputs out \<noteq> [] \<Longrightarrow> encoder_hls_args out \<noteq> None"
proof -
  assume "Video_outputs out \<noteq> []"
  then have "var_stream_map (length (Video_outputs out)) (length (Audio_outputs out)) \<noteq> []"
    by (simp add: var_stream_map_nonempty)
  then show ?thesis by (auto simp: encoder_hls_args_def Let_def slice_to_def slice_def Suc_le_eq)
qed

lemma JobSpecToEncoderArgs_total:
  "Video_outputs (Output j) \<noteq> [] \<Longrightarrow> \<exists>args dirs. JobSpecToEncoderArgs j path = Some (args, dirs)"
  using encoder_hls_args_total [of "Output j"]
  by (auto simp: JobSpecToEncoderArgs_def Let_def split: prod.split)

text \<open>
  C31: for a job with an AV1 rendition the command of ffmpeg alone can always be made. It ends with
  the stream to ffprobe, after one directory per rendition, if all the renditions are AV1; if one is
  not, it ends with the option \<open>-c:v\<close> of that rendition, without its value and without any output.
\<close>

theorem encoder_complete_iff:
  assumes "HasAV1Output j"
  shows "\<exists>args dirs. JobSpecToEncoderArgs j path = Some (args, dirs) \<and>
    (if list_all (\<lambda>vo. vo_Codec vo = AV1_CODEC) (Video_outputs (Output j))
     then last args = udp_url (probe_port j) \<and> length dirs = length (rendition_ports j)
     else last args = ''-c:v'')"
proof -
  let ?out = "Output j"
  obtain args dirs early where e: "encoder_videos ?out 0 (Video_outputs ?out)
      (listening_args (in_Url (Input j)) @ [''-i'', ffmpeg_listening_url (in_Url (Input j))]) []
      = (args, dirs, early)" by (metis prod_cases3)
  note c = encoder_videos_complete [OF e]
  have "Video_outputs ?out \<noteq> []" using assms by (auto simp: HasAV1Output_iff)
  then obtain hls where "encoder_hls_args ?out = Some hls"
    using encoder_hls_args_total by blast
  then show ?thesis
    using c e by (auto simp: JobSpecToEncoderArgs_def Let_def passthrough_args_def
        generateFfprobeOutputUrl_def probe_port_def rendition_ports_def)
qed

definition av1_job :: LiveJobSpec where
  "av1_job = sample_job\<lparr>Output := (Output sample_job)\<lparr>Video_outputs :=
    [(sample_video 640 360 ''365k'' ''500k'')\<lparr>vo_Codec := ''av1'', vo_Preset := ''8''\<rparr>,
     sample_video 768 432 ''550k'' ''750k'']\<rparr>\<rparr>"

theorem encoder_complete_iff_witness:
  "\<exists>args dirs. JobSpecToEncoderArgs av1_job ''/tmp/'' = Some (args, dirs) \<and> last args = ''-c:v''"
proof -
  have "HasAV1Output av1_job" by code_simp
  moreover have "\<not> list_all (\<lambda>vo. vo_Codec vo = AV1_CODEC) (Video_outputs (Output av1_job))"
    by code_simp
  ultimately show ?thesis using encoder_complete_iff [of av1_job "''/tmp/''"] by simp
qed

text \<open>The validator accepts the job whose command is cut off.\<close>

lemma av1_job_accepted: "\<exists>w. Validate av1_job = Some (None, w, av1_job)"
proof -
  have "request_ok av1_job" by code_simp
  moreover have "av1_job = normal_form av1_job" by code_simp
  ultimately show ?thesis using accepted_iff by blast
qed

end
