(* ===== verification/TcFiles.thy ===== *)
theory TcFiles
  imports Command
begin

text \<open>
  \<open>worker/transcoder/worker_transcoder.go\<close>, the upload of stream files: the state of the process
  that runs ffmpeg and the packager of one job, the predicates on file names, and the list of
  files to upload with its periodic scan.

  The local disk is a map from paths to contents: a file is found by \<open>os.Stat\<close> and opened
  exactly when it is in the map, and writes to it succeed. S3 is outside the model: its answers
  are a script (\<open>tc_answers\<close>, empty when every upload succeeds), and the calls made of it are
  recorded with their results. A result \<open>None\<close> is a panic, which ends the process.
\<close>

section \<open>State\<close>

record Upload_item =
  File_path :: string
  it_Time_created :: go_time
  Num_retried :: int
  Remote_media_output_path :: string

record detectionJob =
  Time_enqueued :: int
  Merged_segment_path :: string
  dj_LiveJob :: LiveJobSpec
  Original_media_data_segment_path :: string
  dj_Remote_media_output_path :: string
  BaseMediaDecodeTime :: int
  Sidx_timescale :: int

text \<open>One call of \<open>s3.Upload\<close>: the local file, its name, the bucket path and whether it succeeded.\<close>

record s3_call =
  s3_local :: string
  s3_name :: string
  s3_bucket :: string
  s3_ok :: bool

record transcoder =
  disk :: "string \<Rightarrow> string option"
  s3_calls :: "s3_call list"
  tc_answers :: "bool list"
  tc_clock :: "go_time list"
  tc_now :: go_time
  upload_list :: "Upload_item list"
  init_segments_to_upload :: "(string \<times> Upload_item) list"
  queued_detection_jobs :: "detectionJob list"
  running_detection_jobs :: "detectionJob list"
  num_concurrent_detection_jobs :: int
  original_detection_target_init_segment_path_local :: string
  original_detection_target_hls_playlist_path_local :: string
  upload_candidate_detection_init_segment :: string
  watching :: bool

definition max_upload_retries :: int where "max_upload_retries = 3"
definition max_concurrent_uploads :: nat where "max_concurrent_uploads = 5"
definition max_concurrent_detection_jobs :: int where "max_concurrent_detection_jobs = 1"
definition stream_file_write_delay_ms :: int where "stream_file_write_delay_ms = 200"
definition init_segment_local_filename :: string where "init_segment_local_filename = ''init.mp4''"
definition detection_output_init_segment_local_filename :: string where
  "detection_output_init_segment_local_filename = Mp4box_segment_template_prefix @ ''init.mp4''"
definition undefined_bitrate :: string where "undefined_bitrate = ''undefined''"

text \<open>\<open>time.Now\<close>: the next reading of the clock, which stands still at the end of the script.\<close>

definition tc_Now :: "transcoder \<Rightarrow> go_time \<times> transcoder" where
  "tc_Now s = (case tc_clock s of [] \<Rightarrow> (tc_now s, s)
     | t # ts \<Rightarrow> (t, s\<lparr>tc_clock := ts, tc_now := t\<rparr>))"

section \<open>File names\<close>

definition isStreamFile :: "string \<Rightarrow> bool" where
  "isStreamFile f = ((str_contains f ''.m3u8'' \<or> str_contains f ''.mpd'' \<or> str_contains f ''.mp4'' \<or>
     str_contains f ''.ts'' \<or> str_contains f ''.m4s'') \<and> \<not> str_contains f ''.tmp'')"

definition isMediaDataSegment :: "string \<Rightarrow> bool" where
  "isMediaDataSegment f =
     ((str_contains f ''.ts'' \<or> str_contains f ''.m4s'') \<and> \<not> str_contains f ''.tmp'')"

definition isFmp4InitSegment :: "string \<Rightarrow> bool" where
  "isFmp4InitSegment f = (str_contains f ''.mp4'' \<and> \<not> str_contains f ''.tmp'')"

definition isHlsVariantPlaylist :: "string \<Rightarrow> bool" where
  "isHlsVariantPlaylist f =
     ((str_contains f ''playlist.m3u8'' \<or> str_contains f ''playlist_detected.m3u8'') \<and>
      \<not> str_contains f ''.tmp'')"

definition isHlsMasterPlaylist :: "string \<Rightarrow> bool" where
  "isHlsMasterPlaylist f = (str_contains f ''master.m3u8'' \<and> \<not> str_contains f ''.tmp'')"

definition isDetectionTarget :: "string \<Rightarrow> string \<Rightarrow> bool" where
  "isDetectionTarget f bitrate = str_contains f bitrate"

definition isDetectionTargetTypeMediaDataSegment :: "string \<Rightarrow> string \<Rightarrow> bool" where
  "isDetectionTargetTypeMediaDataSegment f bitrate =
     (str_contains f bitrate \<and> isMediaDataSegment f \<and> str_contains f ''seg_'')"

definition isDetectionTargetTypeMediaInitSegment :: "string \<Rightarrow> string \<Rightarrow> bool" where
  "isDetectionTargetTypeMediaInitSegment f bitrate =
     (str_contains f bitrate \<and> str_contains f init_segment_local_filename \<and>
      \<not> str_contains f detection_output_init_segment_local_filename)"

definition isDetectionTargetTypeHlsVariantPlaylist :: "string \<Rightarrow> string \<Rightarrow> bool" where
  "isDetectionTargetTypeHlsVariantPlaylist f bitrate =
     (str_contains f bitrate \<and> isHlsVariantPlaylist f)"

text \<open>The name of the directory a file is in, empty when the path has fewer than two slashes.\<close>

definition getRenditionNameFromPath :: "string \<Rightarrow> string" where
  "getRenditionNameFromPath path =
     (case last_index_of path ''/'' of
        None \<Rightarrow> []
      | Some n \<Rightarrow>
          let t = take n path in
          (case last_index_of t ''/'' of None \<Rightarrow> [] | Some m \<Rightarrow> drop (Suc m) t))"

section \<open>The upload list\<close>

definition push_upload :: "Upload_item \<Rightarrow> transcoder \<Rightarrow> transcoder" where
  "push_upload it s = s\<lparr>upload_list := upload_list s @ [it]\<rparr>"

definition addToUploadList :: "string \<Rightarrow> string \<Rightarrow> transcoder \<Rightarrow> transcoder" where
  "addToUploadList file_path remote s =
     (let (now, s) = tc_Now s;
          it = \<lparr>File_path = file_path, it_Time_created = now, Num_retried = 0,
                Remote_media_output_path = remote\<rparr>
      in if isFmp4InitSegment file_path then
           let rendition_name = getRenditionNameFromPath file_path in
           if rendition_name \<noteq> [] then
             s\<lparr>init_segments_to_upload := AList.update rendition_name it (init_segments_to_upload s)\<rparr>
           else s
         else push_upload it s)"

text \<open>\<open>s3.Upload\<close>: a file that cannot be opened, or the next answer of the script.\<close>

definition s3_Upload :: "string \<Rightarrow> string \<Rightarrow> string \<Rightarrow> transcoder \<Rightarrow> bool \<times> transcoder" where
  "s3_Upload file name bucket s =
     (if disk s file = None then (False, s)
      else let ok = (case tc_answers s of [] \<Rightarrow> True | a # _ \<Rightarrow> a) in
        (ok, s\<lparr>tc_answers := tl (tc_answers s),
               s3_calls := s3_calls s @ [\<lparr>s3_local = file, s3_name = name, s3_bucket = bucket,
                 s3_ok = ok\<rparr>]\<rparr>))"

definition is_first_segment :: "string \<Rightarrow> bool" where
  "is_first_segment f = (isMediaDataSegment f \<and>
     (str_contains f ''seg_00000.'' \<or> str_contains f ''seg_1.'' \<or> str_contains f ''segment_1.''))"

text \<open>
  Where a file goes under the remote base: its rendition with a slash, or nothing. The path from
  which the rendition is cut has lost one character more than its file name.
\<close>

definition remote_rendition :: "string \<Rightarrow> string option" where
  "remote_rendition local_file =
     (let posLast = str_last_index local_file ''/'' in
      case slice_to local_file (posLast - 1) of
        None \<Rightarrow> None
      | Some file_path \<Rightarrow>
          if isMediaDataSegment local_file \<or> isFmp4InitSegment local_file \<or>
             isHlsVariantPlaylist local_file then
            map_option (\<lambda>r. r @ ''/'')
              (slice local_file (str_last_index file_path ''/'' + 1) posLast)
          else Some [])"

text \<open>The first data segment of a rendition brings its init segment into the list.\<close>

definition enqueue_init :: "string \<Rightarrow> string \<Rightarrow> transcoder \<Rightarrow> transcoder option" where
  "enqueue_init local_file rendition_name s =
     (if is_first_segment local_file then
        map_option (\<lambda>r.
            case map_of (init_segments_to_upload s) r of None \<Rightarrow> s | Some it \<Rightarrow> push_upload it s)
          (slice_to rendition_name (int (length rendition_name) - 1))
      else Some s)"

definition uploadOneFile :: "string \<Rightarrow> string \<Rightarrow> transcoder \<Rightarrow> (bool \<times> transcoder) option" where
  "uploadOneFile local_file remote_path_base s =
     (if disk s local_file = None then Some (False, s)
      else
        let posLast = str_last_index local_file ''/'' in
        case (slice_from local_file (posLast + 1), remote_rendition local_file) of
          (Some file_name, Some rendition_name) \<Rightarrow>
            (let (ok, s) = s3_Upload local_file file_name (remote_path_base @ rendition_name) s in
             if \<not> ok then Some (False, s)
             else map_option (\<lambda>s. (True, s)) (enqueue_init local_file rendition_name s))
        | _ \<Rightarrow> None)"

text \<open>
  The scan of \<open>uploadFiles\<close>. The list it walks grows behind it: a failed upload and an init
  segment are pushed to its end and reached by the same scan. \<open>upload_list\<close> holds the elements
  not reached yet, \<open>kept\<close> those passed and left in the list, and \<open>i\<close> numbers the next upload;
  \<open>break\<close> leaves the current element and all behind it. Reading the size of a file that is not
  there panics.
\<close>

function (sequential) upload_scan :: "nat \<Rightarrow> Upload_item list \<Rightarrow> transcoder \<Rightarrow> transcoder option" where
  "upload_scan i kept s =
     (case upload_list s of
        [] \<Rightarrow> Some (s\<lparr>upload_list := kept\<rparr>)
      | f # rest \<Rightarrow>
          if disk s (File_path f) = None then None
          else
            let (now, s1) = tc_Now s; s2 = s1\<lparr>upload_list := rest\<rparr> in
            if UnixMilli now - UnixMilli (it_Time_created f) > stream_file_write_delay_ms then
              if max_concurrent_uploads < i then Some (s1\<lparr>upload_list := kept @ f # rest\<rparr>)
              else if Num_retried f < max_upload_retries then
                (case uploadOneFile (File_path f) (Remote_media_output_path f) s2 of
                   None \<Rightarrow> None
                 | Some (ok, s3) \<Rightarrow>
                     upload_scan (Suc i) kept
                       (if ok then s3 else push_upload (f\<lparr>Num_retried := Num_retried f + 1\<rparr>) s3))
              else upload_scan i kept s2
            else upload_scan i (kept @ [f]) s2)"
  by pat_completeness auto

termination
  by (relation "measures [\<lambda>(i, kept, s). Suc max_concurrent_uploads - i,
      \<lambda>(i, kept, s). length (upload_list s)]")
    (auto simp: tc_Now_def split: list.splits)

declare upload_scan.simps [simp del]

definition uploadFiles :: "transcoder \<Rightarrow> transcoder option" where
  "uploadFiles s = upload_scan 1 [] s"

section \<open>Key files and the input description\<close>

definition hex_value :: "char \<Rightarrow> int option" where
  "hex_value c =
     (let n = of_char c in
      if 48 \<le> n \<and> n \<le> 57 then Some (n - 48)
      else if 97 \<le> n \<and> n \<le> 102 then Some (n - 87)
      else if 65 \<le> n \<and> n \<le> 70 then Some (n - 55) else None)"

text \<open>\<open>hex.DecodeString\<close>; \<open>None\<close> for a character that is no digit and for an odd length.\<close>

fun hex_decode :: "string \<Rightarrow> string option" where
  "hex_decode [] = Some []"
| "hex_decode [c] = None"
| "hex_decode (c # d # s) =
     (case (hex_value c, hex_value d, hex_decode s) of
        (Some h, Some l, Some bs) \<Rightarrow> Some (char_of (nat (16 * h + l)) # bs)
      | _ \<Rightarrow> None)"

definition write_disk :: "string \<Rightarrow> string \<Rightarrow> transcoder \<Rightarrow> transcoder" where
  "write_disk path data s = s\<lparr>disk := (disk s)(path \<mapsto> data)\<rparr>"

definition writeKeyFile :: "string \<Rightarrow> string \<Rightarrow> transcoder \<Rightarrow> bool \<times> transcoder" where
  "writeKeyFile key file s =
     (case hex_decode key of None \<Rightarrow> (False, s) | Some b \<Rightarrow> (True, write_disk file b s))"

text \<open>The JSON text of a key is an argument of the model; a time out of range makes it empty.\<close>

definition writeKeyInfoFile ::
    "(KeyInfo \<Rightarrow> string) \<Rightarrow> KeyInfo \<Rightarrow> string \<Rightarrow> transcoder \<Rightarrow> bool \<times> transcoder" where
  "writeKeyInfoFile json k file s =
     (True, write_disk file (if marshalable (TKey k) then json k else []) s)"

definition createUploadDrmKeyFile ::
    "(KeyInfo \<Rightarrow> string) \<Rightarrow> rtext \<Rightarrow> string \<Rightarrow> string \<Rightarrow> transcoder \<Rightarrow> bool \<times> transcoder" where
  "createUploadDrmKeyFile json key_info local remote s =
     (case unmarshal_key key_info of
        None \<Rightarrow> (False, s)
      | Some k \<Rightarrow>
          let (ok, s1) = writeKeyFile (Key k) (local @ DrmKeyFileName) s in
          if \<not> ok then (False, s1)
          else
            let (ok, s2) = writeKeyInfoFile json k (local @ DrmKeyInfoFileName) s1 in
            if \<not> ok then (False, s2)
            else if disk s2 (local @ DrmKeyInfoFileName) = None then (False, s2)
            else s3_Upload (local @ DrmKeyFileName) DrmKeyFileName remote s2)"

text \<open>
  One attempt to upload what ffprobe found out: the timer is set again for a file that is not there
  or empty, and only then.
\<close>

datatype input_info = Timer_set | Upload_failed | Uploaded

definition uploadInputInfoFile :: "string \<Rightarrow> string \<Rightarrow> transcoder \<Rightarrow> input_info \<times> transcoder" where
  "uploadInputInfoFile local remote s =
     (case disk s (local @ Input_json_file_name) of
        None \<Rightarrow> (Timer_set, s)
      | Some data \<Rightarrow>
          if data = [] then (Timer_set, s)
          else
            let (ok, s1) = s3_Upload (local @ Input_json_file_name) Input_json_file_name remote s in
            (if ok then Uploaded else Upload_failed, s1))"

text \<open>
  The timer that keeps trying: the files on the disk each time it fires. It waits for a file that
  is there; the attempt that follows is the only one.
\<close>

fun set_upload_input_info_timer ::
    "string \<Rightarrow> string \<Rightarrow> (string \<Rightarrow> string option) list \<Rightarrow> transcoder \<Rightarrow> input_info \<times> transcoder" where
  "set_upload_input_info_timer local remote [] s = (Timer_set, s)"
| "set_upload_input_info_timer local remote (d # ds) s =
     (case uploadInputInfoFile local remote (s\<lparr>disk := d\<rparr>) of
        (Timer_set, s1) \<Rightarrow> set_upload_input_info_timer local remote ds s1
      | r \<Rightarrow> r)"

end
