(* ===== verification/Playlists.thy ===== *)
theory Playlists
  imports TcFiles
begin

text \<open>
  \<open>worker/transcoder/worker_transcoder.go\<close>, the two rewrites of HLS playlists that object detection
  needs, with \<open>bufio\<close>'s line scanner and buffered writer: the variant playlist of the detected
  rendition is cut after the latest detected segment, and the rendition is taken out of the
  master playlist.
\<close>

section \<open>Lines\<close>

definition NL :: char where "NL = CHR 0x0A"

function raw_lines :: "string \<Rightarrow> string list" where
  "raw_lines [] = []"
| "raw_lines (c # s) =
     takeWhile (\<lambda>x. x \<noteq> NL) (c # s) # raw_lines (drop 1 (dropWhile (\<lambda>x. x \<noteq> NL) (c # s)))"
  by pat_completeness auto

termination
proof (relation "measure length")
  fix c :: char and s :: string
  have "length (dropWhile (\<lambda>x. x \<noteq> NL) (c # s)) \<le> length (c # s)"
    by (rule length_dropWhile_le)
  then show "(drop 1 (dropWhile (\<lambda>x. x \<noteq> NL) (c # s)), c # s) \<in> measure length"
    by simp
qed simp

declare raw_lines.simps(2) [simp del]

definition drop_cr :: "string \<Rightarrow> string" where
  "drop_cr l = (if l \<noteq> [] \<and> last l = CHR 0x0D then butlast l else l)"

text \<open>The lines a \<open>Scanner\<close> returns; it stops at a line that does not fit its 64 KB buffer.\<close>

definition scan_lines :: "string \<Rightarrow> string list" where
  "scan_lines s = map drop_cr (takeWhile (\<lambda>l. length l < 65536) (raw_lines s))"

definition text_of :: "string list \<Rightarrow> string" where
  "text_of ls = concat (map (\<lambda>l. l @ [NL]) ls)"

section \<open>The buffered writer\<close>

text \<open>The file's contents and the buffer of 4096 bytes; \<open>WriteString\<close> and \<open>Flush\<close>.\<close>

type_synonym writer = "string \<times> string"

definition buffer_size :: nat where "buffer_size = 4096"

definition write_string :: "string \<Rightarrow> writer \<Rightarrow> writer" where
  "write_string s w =
     (let (file, buf) = w in
      if length s \<le> buffer_size - length buf then (file, buf @ s)
      else if buf = [] then (file @ s, [])
      else let n = buffer_size - length buf; rest = drop n s; file = file @ buf @ take n s in
        if length rest \<le> buffer_size then (file, rest) else (file @ rest, []))"

definition flush :: "writer \<Rightarrow> writer" where
  "flush w = (fst w @ snd w, [])"

section \<open>The variant playlist of the detected rendition\<close>

text \<open>\<open>line[:pos] + new + line[pos+n:]\<close> at the last occurrence of a text.\<close>

definition rename_segment :: "string \<Rightarrow> string option" where
  "rename_segment line =
     (let pos_seg = str_last_index line ''seg_'' in
      case (slice_to line pos_seg, slice_from line (pos_seg + 4)) of
        (Some a, Some b) \<Rightarrow> Some (a @ ''segment_'' @ b)
      | _ \<Rightarrow> None)"

definition rename_init :: "string \<Rightarrow> string option" where
  "rename_init line =
     map_option (\<lambda>a. a @ ''segment_init.mp4\"'') (slice_to line (str_last_index line ''init.mp4''))"

text \<open>
  The loop over the lines, up to the one with the segment: the writer it leaves and whether the
  segment was found; \<open>None\<close> is a panic.
\<close>

fun playlist_scan :: "string \<Rightarrow> string list \<Rightarrow> writer \<Rightarrow> (writer \<times> bool) option" where
  "playlist_scan name [] w = Some (w, False)"
| "playlist_scan name (line # ls) w =
     (if str_contains line ''init.mp4'' then
        (case rename_init line of
           None \<Rightarrow> None
         | Some l \<Rightarrow> playlist_scan name ls (write_string (l @ [NL]) w))
      else if str_contains line name then
        (case rename_segment line of
           None \<Rightarrow> None
         | Some l \<Rightarrow> Some (write_string (l @ [NL]) w, True))
      else if str_contains line ''seg_'' then
        (case rename_segment line of
           None \<Rightarrow> None
         | Some l \<Rightarrow> playlist_scan name ls (write_string (l @ [NL]) w))
      else playlist_scan name ls (write_string (line @ [NL]) w))"

definition detected_playlist_path :: "string \<Rightarrow> string option" where
  "detected_playlist_path file =
     (let pos_dot = str_last_index file ''.'' in
      case (slice_to file pos_dot, slice_from file pos_dot) of
        (Some a, Some b) \<Rightarrow> Some (a @ ''_detected'' @ b)
      | _ \<Rightarrow> None)"

definition segment_name :: "string \<Rightarrow> string" where
  "segment_name path = Get_path_filename path"

text \<open>
  \<open>updatePlaylistNewDetectedSegment\<close>: the error and the path of the new playlist. The file is
  created, so emptied, before the lines are read; the buffer is flushed only on success.
\<close>

definition updatePlaylistNewDetectedSegment ::
    "string \<Rightarrow> string \<Rightarrow> transcoder \<Rightarrow> (string option \<times> string \<times> transcoder) option" where
  "updatePlaylistNewDetectedSegment playlistFile original_segment_path s =
     (case detected_playlist_path playlistFile of
        None \<Rightarrow> None
      | Some path \<Rightarrow>
        (case disk s playlistFile of
           None \<Rightarrow> Some (Some ''error_reading_playlist'', path, s)
         | Some data \<Rightarrow>
           (case playlist_scan (segment_name original_segment_path) (scan_lines data) ([], []) of
              None \<Rightarrow> None
            | Some (w, found) \<Rightarrow>
                if \<not> found then Some (Some ''segment_not_found_in_playlist'', path, write_disk path (fst w) s)
                else Some (None, path, write_disk path (fst (flush w)) s))))"

section \<open>The master playlist\<close>

text \<open>
  The loop over the lines: the line before, the URL of the detected rendition, and the output so
  far. After a rendition the line before stays its \<open>EXT-X-STREAM-INF\<close> line.
\<close>

fun master_scan :: "string \<Rightarrow> string list \<Rightarrow> string \<Rightarrow> string \<Rightarrow> string \<Rightarrow> string \<times> string" where
  "master_scan bitrate [] prev url out = (url, out)"
| "master_scan bitrate (line # ls) prev url out =
     (if str_contains line ''EXT-X-STREAM-INF'' then master_scan bitrate ls line url out
      else if str_contains prev ''EXT-X-STREAM-INF'' then
        if \<not> str_contains line bitrate then
          let prev = prev @ [NL]; line = line @ [NL] in
          master_scan bitrate ls prev url (out @ prev @ line)
        else master_scan bitrate ls prev line out
      else let line = line @ [NL] in master_scan bitrate ls line url (out @ line))"

definition removeDetectionTargetRendition ::
    "string \<Rightarrow> string \<Rightarrow> transcoder \<Rightarrow> string \<times> string option \<times> transcoder" where
  "removeDetectionTargetRendition path bitrate s =
     (case disk s path of
        None \<Rightarrow> ([], Some ''error_reading_playlist'', s)
      | Some data \<Rightarrow>
          let (url, out) = master_scan bitrate (scan_lines data) [] [] [] in
          (url, None, write_disk path out s))"

end
