(* ===== verification/Detection.thy ===== *)
theory Detection
  imports Playlists
begin

text \<open>
  \<open>worker/transcoder/worker_transcoder.go\<close>, object detection: the queue of detection jobs, what
  becomes of a detected segment, and the watcher of new files. The detector, MP4Box and the
  package that reads and sets fields of MP4 segments are outside the repository; \<open>detect_env\<close>
  holds what they do: a command's success, its output and the disk it leaves.
\<close>

record detect_env =
  env_detector :: "string list \<Rightarrow> (string \<Rightarrow> string option) \<Rightarrow> bool \<times> string \<times> (string \<Rightarrow> string option)"
  env_mp4box :: "string list \<Rightarrow> (string \<Rightarrow> string option) \<Rightarrow> bool \<times> (string \<Rightarrow> string option)"
  env_GetTfdt :: "string \<Rightarrow> int"
  env_SetTfdt :: "string \<Rightarrow> int \<Rightarrow> string"
  env_GetSidx_Timescale :: "string \<Rightarrow> int"

definition os_Remove :: "string \<Rightarrow> transcoder \<Rightarrow> transcoder" where
  "os_Remove path s = s\<lparr>disk := (disk s)(path := None)\<rparr>"

definition os_Rename :: "string \<Rightarrow> string \<Rightarrow> transcoder \<Rightarrow> transcoder" where
  "os_Rename old new s = (case disk s old of None \<Rightarrow> s
     | Some data \<Rightarrow> s\<lparr>disk := (disk s)(old := None, new \<mapsto> data)\<rparr>)"

section \<open>Segments\<close>

text \<open>The value read, \<open>2 ^ 32 - 1\<close> with an error for a file that is not there.\<close>

definition read_baseMediaDecodeTime :: "detect_env \<Rightarrow> string \<Rightarrow> transcoder \<Rightarrow> int" where
  "read_baseMediaDecodeTime env path s =
     (case disk s path of None \<Rightarrow> 2 ^ 32 - 1 | Some data \<Rightarrow> env_GetTfdt env data)"

definition read_sidx_timescale :: "detect_env \<Rightarrow> string \<Rightarrow> transcoder \<Rightarrow> int" where
  "read_sidx_timescale env path s =
     (case disk s path of None \<Rightarrow> 2 ^ 32 - 1 | Some data \<Rightarrow> env_GetSidx_Timescale env data)"

text \<open>\<open>None\<close> is a panic, \<open>Some (None, s)\<close> a failure.\<close>

definition merge_init_and_data_segments ::
    "string \<Rightarrow> string \<Rightarrow> transcoder \<Rightarrow> (string option \<times> transcoder) option" where
  "merge_init_and_data_segments init_path data_path s =
     (case (disk s init_path, disk s data_path) of
        (Some init, Some data) \<Rightarrow>
          if data = [] then Some (None, s)
          else map_option (\<lambda>merged. (Some merged, write_disk merged (init @ data) s))
            (Change_file_extension data_path ''.merged'')
      | _ \<Rightarrow> Some (None, s))"

text \<open>MP4Box' output has fixed names next to its input.\<close>

definition mp4_to_fmp4 ::
    "detect_env \<Rightarrow> string \<Rightarrow> int \<Rightarrow> transcoder \<Rightarrow> string \<times> string \<times> bool \<times> transcoder" where
  "mp4_to_fmp4 env input seg_duration s =
     (let init = path_Dir input @ ''/'' @ detection_output_init_segment_local_filename;
          media = path_Dir input @ ''/segment_1.m4s'';
          (ok, d) = env_mp4box env (GenerateFmp4ConversionCommand input seg_duration) (disk s)
      in (init, media, ok, s\<lparr>disk := d\<rparr>))"

text \<open>A failure of the detector that mentions NNPACK counts as success.\<close>

definition run_detection ::
    "detect_env \<Rightarrow> LiveJobSpec \<Rightarrow> string \<Rightarrow> int \<Rightarrow> transcoder \<Rightarrow> (string \<times> bool \<times> transcoder) option" where
  "run_detection env j input timescale s =
     (let d = Detection (Output j) in
      case Change_file_extension input ''.detected'' of
        None \<Rightarrow> None
      | Some detected \<Rightarrow>
        (case GenerateDetectionCommand (Input_video_frame_rate d) (Encode_codec d) (Encode_preset d)
                (Encode_crf d) input detected timescale of
           None \<Rightarrow> None
         | Some args \<Rightarrow>
             let (ok, out, dk) = env_detector env args (disk s) in
             Some (detected, ok \<or> str_contains out ''NNPACK'', s\<lparr>disk := dk\<rparr>)))"

section \<open>The queue of detection jobs\<close>

text \<open>
  One firing of the timer: the job at the front is started unless another runs or it has waited
  for longer than a segment; then it stays at the front.
\<close>

definition executeNextDetectionJob :: "transcoder \<Rightarrow> transcoder" where
  "executeNextDetectionJob s =
     (case queued_detection_jobs s of
        [] \<Rightarrow> s
      | dj # rest \<Rightarrow>
          if num_concurrent_detection_jobs s \<ge> max_concurrent_detection_jobs then s
          else
            let (now, s) = tc_Now s in
            if UnixMilli now - Time_enqueued dj
                > wrap64 (Segment_duration (Output (dj_LiveJob dj)) * 1000) then s
            else s\<lparr>num_concurrent_detection_jobs := num_concurrent_detection_jobs s + 1,
                   queued_detection_jobs := rest,
                   running_detection_jobs := running_detection_jobs s @ [dj]\<rparr>)"

text \<open>The name of the detected segment: that of the original with another prefix.\<close>

definition detected_segment_name :: "string \<Rightarrow> string option" where
  "detected_segment_name orig =
     (case (slice_to orig (str_last_index orig ''seg_''), slice_from orig (str_last_index orig ''_'' + 1)) of
        (Some a, Some b) \<Rightarrow> Some (a @ ''segment_'' @ b)
      | _ \<Rightarrow> None)"

text \<open>The converted segment gets the time stamp of the original, also when it could not be read.\<close>

definition stamp_segment :: "detect_env \<Rightarrow> string \<Rightarrow> int \<Rightarrow> transcoder \<Rightarrow> transcoder" where
  "stamp_segment env path t s =
     (let data = (case disk s path of None \<Rightarrow> [] | Some data \<Rightarrow> data) in
      write_disk path (env_SetTfdt env data t) s)"

definition upload_detected_init :: "string \<Rightarrow> string \<Rightarrow> transcoder \<Rightarrow> transcoder" where
  "upload_detected_init init remote s =
     (if upload_candidate_detection_init_segment s = [] then
        addToUploadList init remote (s\<lparr>upload_candidate_detection_init_segment := init\<rparr>)
      else s)"

text \<open>
  The end of a detection job. A failed detection leaves the count of running jobs as it was.
\<close>

definition publish_detected ::
    "detectionJob \<Rightarrow> string \<Rightarrow> string \<Rightarrow> transcoder \<Rightarrow> transcoder option" where
  "publish_detected dj init media s =
     (let remote = dj_Remote_media_output_path dj; orig = Original_media_data_segment_path dj;
          s = upload_detected_init init remote s in
      case detected_segment_name orig of
        None \<Rightarrow> None
      | Some segment \<Rightarrow>
          let s = addToUploadList segment remote (os_Rename media segment s) in
          (case updatePlaylistNewDetectedSegment
                  (original_detection_target_hls_playlist_path_local s) orig s of
             None \<Rightarrow> None
           | Some (Some err, playlist, s) \<Rightarrow> Some s
           | Some (None, playlist, s) \<Rightarrow> Some (addToUploadList playlist remote s)))"

definition executeDetectionJob :: "detect_env \<Rightarrow> detectionJob \<Rightarrow> transcoder \<Rightarrow> transcoder option" where
  "executeDetectionJob env dj s =
     (case run_detection env (dj_LiveJob dj) (Merged_segment_path dj) (Sidx_timescale dj) s of
        None \<Rightarrow> None
      | Some (detected, ok, s) \<Rightarrow>
          if \<not> ok then Some s
          else
            let s = s\<lparr>num_concurrent_detection_jobs := num_concurrent_detection_jobs s - 1\<rparr>;
                s = os_Remove (Merged_segment_path dj) s;
                (init, media, converted, s) =
                  mp4_to_fmp4 env detected (Segment_duration (Output (dj_LiveJob dj))) s;
                s = stamp_segment env media (BaseMediaDecodeTime dj) s;
                s = os_Remove detected s in
            if \<not> converted then Some s else publish_detected dj init media s)"

section \<open>The watcher\<close>

record watch_config =
  wc_job :: LiveJobSpec
  wc_remote :: string
  wc_bitrate :: string

text \<open>A new data segment of the rendition to detect becomes a detection job. The watcher ends when
  the segment cannot be merged.\<close>

definition watch_segment :: "detect_env \<Rightarrow> watch_config \<Rightarrow> string \<Rightarrow> transcoder \<Rightarrow> transcoder option" where
  "watch_segment env cfg name s =
     (if original_detection_target_init_segment_path_local s = [] then Some s
      else
        let decode_time = read_baseMediaDecodeTime env name s;
            timescale = read_sidx_timescale env name s in
        case merge_init_and_data_segments
               (original_detection_target_init_segment_path_local s) name s of
          None \<Rightarrow> None
        | Some (None, s) \<Rightarrow> Some (s\<lparr>watching := False\<rparr>)
        | Some (Some merged, s) \<Rightarrow>
            let s = os_Remove name s; (now, s) = tc_Now s;
                dj = \<lparr>Time_enqueued = UnixMilli now, Merged_segment_path = merged,
                  dj_LiveJob = wc_job cfg, Original_media_data_segment_path = name,
                  dj_Remote_media_output_path = wc_remote cfg, BaseMediaDecodeTime = decode_time,
                  Sidx_timescale = timescale\<rparr>
            in Some (s\<lparr>queued_detection_jobs := queued_detection_jobs s @ [dj]\<rparr>))"

definition watch_plain :: "watch_config \<Rightarrow> string \<Rightarrow> transcoder \<Rightarrow> transcoder" where
  "watch_plain cfg name s =
     (let s = (if isHlsMasterPlaylist name \<and> wc_bitrate cfg \<noteq> undefined_bitrate
               then snd (snd (removeDetectionTargetRendition name (wc_bitrate cfg) s)) else s)
      in addToUploadList name (wc_remote cfg) s)"

text \<open>The handling of the creation of a file, by a watcher that is still running.\<close>

definition watchStreamFiles :: "detect_env \<Rightarrow> watch_config \<Rightarrow> string \<Rightarrow> transcoder \<Rightarrow> transcoder option" where
  "watchStreamFiles env cfg name s =
     (let bitrate = wc_bitrate cfg in
      if \<not> watching s then Some s
      else if \<not> isStreamFile name then Some s
      else if \<not> isDetectionTarget name bitrate then Some (watch_plain cfg name s)
      else if isDetectionTargetTypeMediaDataSegment name bitrate then watch_segment env cfg name s
      else if isDetectionTargetTypeMediaInitSegment name bitrate then
        Some (s\<lparr>original_detection_target_init_segment_path_local := name\<rparr>)
      else if isDetectionTargetTypeHlsVariantPlaylist name bitrate then
        Some (s\<lparr>original_detection_target_hls_playlist_path_local := name\<rparr>)
      else Some s)"

end
