(* ===== verification/Transcoder.thy ===== *)
theory Transcoder
  imports Detection Packager
begin

text \<open>
  \<open>worker/transcoder/worker_transcoder.go\<close>, the process as a whole: what \<open>main\<close> sets up for a
  job, the supervision of ffmpeg and the packager, the shutdown, and the steps the process takes:
  new files, the timers, and the end of a detection. Each step runs to its end before the next;
  a detection job ends at any later time.
\<close>

section \<open>Supervision of the commands\<close>

text \<open>
  Whether a process is found and whether it takes signal 0. The result is the processes sent
  SIGTERM, in order, and whether this process exits; \<open>None\<close> is the panic on a command that never
  started or on a process that is not found.
\<close>

record process_env =
  pr_found :: "int \<Rightarrow> bool"
  pr_runs :: "int \<Rightarrow> bool"

definition manageFfmpegAlone :: "process_env \<Rightarrow> int option \<Rightarrow> (int list \<times> bool) option" where
  "manageFfmpegAlone env ffmpeg =
     (case ffmpeg of
        None \<Rightarrow> None
      | Some pid \<Rightarrow>
          if \<not> pr_found env pid then None
          else if \<not> pr_runs env pid then Some ([pid], True) else Some ([], False))"

text \<open>The four outcomes for packager and ffmpeg, by whether each is there.\<close>

definition manage_pair ::
    "process_env \<Rightarrow> bool \<Rightarrow> bool \<Rightarrow> int \<Rightarrow> int \<Rightarrow> int \<Rightarrow> (int list \<times> bool) option" where
  "manage_pair env up1 up2 pid1 pid2 pid3 =
     (if \<not> up1 \<and> \<not> up2 then (if pr_found env pid3 then Some ([pid3], True) else None)
      else if up1 \<and> \<not> up2 then Some ([pid1], False)
      else if \<not> up1 \<and> up2 then Some ([pid2], False)
      else Some ([], False))"

definition manageCommands ::
    "process_env \<Rightarrow> int option \<Rightarrow> int option \<Rightarrow> int option \<Rightarrow> (int list \<times> bool) option" where
  "manageCommands env packager ffmpeg ffprobe =
     (case (packager, ffmpeg, ffprobe) of
        (Some pid1, Some pid2, Some pid3) \<Rightarrow>
          if \<not> (pr_found env pid1 \<and> pr_found env pid2) then
            manage_pair env (pr_found env pid1) (pr_found env pid2) pid1 pid2 pid3
          else manage_pair env (pr_runs env pid1) (pr_runs env pid2) pid1 pid2 pid3
      | _ \<Rightarrow> None)"

text \<open>On SIGTERM or SIGINT the packager, if there is one, and ffmpeg are terminated.\<close>

definition tc_shutdown :: "process_env \<Rightarrow> bool \<Rightarrow> int option \<Rightarrow> int option \<Rightarrow> int list option" where
  "tc_shutdown env ffmpegAlone packager ffmpeg =
     (case (if ffmpegAlone then Some []
            else map_option (\<lambda>pid. if pr_found env pid then [pid] else []) packager, ffmpeg) of
        (Some sent, Some pid) \<Rightarrow> Some (sent @ (if pr_found env pid then [pid] else []))
      | _ \<Rightarrow> None)"

section \<open>Set-up\<close>

text \<open>
  What \<open>main\<close> derives from its arguments: the commands it starts, the directories it makes and
  watches, where files go, and the bitrate by which the detected rendition is told. \<open>None\<close> is the
  panic of a command that cannot be made.
\<close>

record tc_setup =
  ts_spec :: LiveJobSpec
  ts_local :: string
  ts_remote :: string
  ts_ffmpegAlone :: bool
  ts_packager_args :: "string list option"
  ts_ffmpeg_args :: "string list"
  ts_ffprobe_args :: "string list"
  ts_subdirs :: "string list"
  ts_watch_dirs :: "string list"
  ts_bitrate :: string

definition transcoder_spec :: "LiveJobSpec \<Rightarrow> LiveJobSpec" where
  "transcoder_spec j = (if NeedObjectDetection j then AddDetectionVideoOutput j else j)"

definition local_output_path :: "string \<Rightarrow> string" where
  "local_output_path job_id = ''/tmp/'' @ Media_output_path_prefix @ job_id @ ''/''"

definition detection_target_bitrate :: "LiveJobSpec \<Rightarrow> string" where
  "detection_target_bitrate j =
     (if NeedObjectDetection j then Input_video_bitrate (Detection (Output j)) else undefined_bitrate)"

definition watched_dirs :: "string \<Rightarrow> string list \<Rightarrow> string list" where
  "watched_dirs path dirs = path # map (\<lambda>d. path @ d @ ''/'') dirs"

definition transcoder_main ::
    "string \<Rightarrow> LiveJobSpec \<Rightarrow> rtext option \<Rightarrow> int list option \<Rightarrow> tc_setup option" where
  "transcoder_main job_id j0 drm random =
     (let path = local_output_path job_id; alone = HasAV1Output j0; j = transcoder_spec j0;
          setup = (\<lambda>packager ffmpeg dirs.
            \<lparr>ts_spec = j, ts_local = path,
             ts_remote = Bucket (S3_output (Output j0)) @ ''/output_'' @ job_id @ ''/'',
             ts_ffmpegAlone = alone, ts_packager_args = packager, ts_ffmpeg_args = ffmpeg,
             ts_ffprobe_args = GenerateFfprobeArgs j path, ts_subdirs = dirs,
             ts_watch_dirs = watched_dirs path dirs,
             ts_bitrate = detection_target_bitrate j\<rparr>) in
      if \<not> alone then
        (let (packager, dirs) = JobSpecToShakaPackagerArgs job_id j path drm random in
         Some (setup (Some packager) (JobSpecToFFmpegArgs j path) dirs))
      else map_option (\<lambda>(ffmpeg, dirs). setup None ffmpeg dirs) (JobSpecToEncoderArgs j path))"

definition setup_watch :: "tc_setup \<Rightarrow> watch_config" where
  "setup_watch t = \<lparr>wc_job = ts_spec t, wc_remote = ts_remote t, wc_bitrate = ts_bitrate t\<rparr>"

definition init_transcoder :: "(string \<Rightarrow> string option) \<Rightarrow> go_time \<Rightarrow> transcoder" where
  "init_transcoder d now =
     \<lparr>disk = d, s3_calls = [], tc_answers = [], tc_clock = [], tc_now = now, upload_list = [],
      init_segments_to_upload = [], queued_detection_jobs = [], running_detection_jobs = [],
      num_concurrent_detection_jobs = 0, original_detection_target_init_segment_path_local = [],
      original_detection_target_hls_playlist_path_local = [],
      upload_candidate_detection_init_segment = [], watching = True\<rparr>"

section \<open>Steps\<close>

text \<open>
  A file created or changed by the encoders, the handling of a creation, the two timers, the end
  of a detection job, and the passing of time with new answers of S3. A panic is not a step.
\<close>

definition finish_job :: "detectionJob \<Rightarrow> transcoder \<Rightarrow> transcoder" where
  "finish_job dj s = s\<lparr>running_detection_jobs := remove1 dj (running_detection_jobs s)\<rparr>"

inductive tc_step :: "detect_env \<Rightarrow> watch_config \<Rightarrow> transcoder \<Rightarrow> transcoder \<Rightarrow> bool"
  for env cfg where
  Write_file: "tc_step env cfg s (write_disk path data s)"
| Remove_file: "tc_step env cfg s (os_Remove path s)"
| New_file: "watchStreamFiles env cfg name s = Some s' \<Longrightarrow> tc_step env cfg s s'"
| Upload_tick: "uploadFiles s = Some s' \<Longrightarrow> tc_step env cfg s s'"
| Detect_tick: "tc_step env cfg s (executeNextDetectionJob s)"
| Detect_end: "dj \<in> set (running_detection_jobs s) \<Longrightarrow>
    executeDetectionJob env dj (finish_job dj s) = Some s' \<Longrightarrow> tc_step env cfg s s'"
| Environment: "tc_now s \<le> t \<Longrightarrow> list_all (\<lambda>u. t \<le> u) ts \<Longrightarrow> sorted ts \<Longrightarrow>
    tc_step env cfg s (s\<lparr>tc_answers := as, tc_now := t, tc_clock := ts\<rparr>)"

end
