(* ===== verification/UploadSpec.thy ===== *)
theory UploadSpec
  imports TcFiles KeyServer
begin

text \<open>
  What the periodic scan of the upload list promises: at most five uploads, and no file leaves the
  list without having been uploaded or having failed three times. Then the ways a file gets lost
  all the same, the init segments, and the key file of a protected stream.
\<close>

section \<open>One upload\<close>

lemma tc_Now_frame [simp]:
  "tc_Now s = (t, s') \<Longrightarrow> upload_list s' = upload_list s"
  "tc_Now s = (t, s') \<Longrightarrow> s3_calls s' = s3_calls s"
  "tc_Now s = (t, s') \<Longrightarrow> disk s' = disk s"
  "tc_Now s = (t, s') \<Longrightarrow> tc_answers s' = tc_answers s"
  "tc_Now s = (t, s') \<Longrightarrow> init_segments_to_upload s' = init_segments_to_upload s"
  by (auto simp: tc_Now_def split: list.splits)

lemma push_upload_frame [simp]:
  "upload_list (push_upload f s) = upload_list s @ [f]" "s3_calls (push_upload f s) = s3_calls s"
  "disk (push_upload f s) = disk s" "tc_answers (push_upload f s) = tc_answers s"
  "init_segments_to_upload (push_upload f s) = init_segments_to_upload s"
  by (simp_all add: push_upload_def)

lemma enqueue_init_frame:
  "enqueue_init file r s = Some s' \<Longrightarrow> \<exists>extra. upload_list s' = upload_list s @ extra \<and>
    s3_calls s' = s3_calls s \<and> disk s' = disk s"
  by (auto simp: enqueue_init_def split: if_splits option.splits)

text \<open>One call of S3 for the file, whose result is that of the upload.\<close>

lemma uploadOneFile_call:
  assumes "uploadOneFile file remote s = Some (ok, s')" "disk s file \<noteq> None"
  shows "\<exists>c extra. s3_calls s' = s3_calls s @ [c] \<and> s3_local c = file \<and> s3_ok c = ok \<and>
    upload_list s' = upload_list s @ extra \<and> disk s' = disk s"
  using assms
  by (auto simp: uploadOneFile_def s3_Upload_def Let_def split: option.splits if_splits list.splits
      dest!: enqueue_init_frame)

section \<open>The scan\<close>

text \<open>The scan reaches \<open>f\<close> at time \<open>now\<close>; \<open>s2\<close> is the state with \<open>f\<close> off the list. And whether
  \<open>f\<close> has been written for long enough.\<close>

definition reaches :: "transcoder \<Rightarrow> Upload_item \<Rightarrow> go_time \<Rightarrow> transcoder \<Rightarrow> bool" where
  "reaches s f now s2 \<longleftrightarrow> (\<exists>rest s1. upload_list s = f # rest \<and> disk s (File_path f) \<noteq> None \<and>
     tc_Now s = (now, s1) \<and> s2 = s1\<lparr>upload_list := rest\<rparr>)"

definition due :: "go_time \<Rightarrow> Upload_item \<Rightarrow> bool" where
  "due now f \<longleftrightarrow> UnixMilli now - UnixMilli (it_Time_created f) > stream_file_write_delay_ms"

lemma reachesD:
  "reaches s f now s2 \<Longrightarrow> upload_list s = f # upload_list s2 \<and> disk s2 = disk s \<and>
    disk s (File_path f) \<noteq> None \<and> s3_calls s2 = s3_calls s \<and> tc_answers s2 = tc_answers s \<and>
    init_segments_to_upload s2 = init_segments_to_upload s"
  by (auto simp: reaches_def)

text \<open>The scan, one case at a time.\<close>

lemma upload_scan_nil:
  "upload_list s = [] \<Longrightarrow> upload_scan i kept s = Some (s\<lparr>upload_list := kept\<rparr>)"
  by (simp add: upload_scan.simps [of i kept s])

lemma upload_scan_missing:
  "upload_list s = f # rest \<Longrightarrow> disk s (File_path f) = None \<Longrightarrow> upload_scan i kept s = None"
  by (simp add: upload_scan.simps [of i kept s])

lemma upload_scan_skip:
  "reaches s f now s2 \<Longrightarrow> \<not> due now f \<Longrightarrow> upload_scan i kept s = upload_scan i (kept @ [f]) s2"
  by (auto simp: upload_scan.simps [of i kept s] reaches_def due_def)

lemma upload_scan_stop:
  "reaches s f now s2 \<Longrightarrow> due now f \<Longrightarrow> max_concurrent_uploads < i \<Longrightarrow>
    upload_scan i kept s = Some (s2\<lparr>upload_list := kept @ f # upload_list s2\<rparr>)"
  by (auto simp: upload_scan.simps [of i kept s] reaches_def due_def)

lemma upload_scan_drop:
  "reaches s f now s2 \<Longrightarrow> due now f \<Longrightarrow> i \<le> max_concurrent_uploads \<Longrightarrow>
    max_upload_retries \<le> Num_retried f \<Longrightarrow> upload_scan i kept s = upload_scan i kept s2"
  by (auto simp: upload_scan.simps [of i kept s] reaches_def due_def)

definition after_upload :: "Upload_item \<Rightarrow> bool \<times> transcoder \<Rightarrow> transcoder" where
  "after_upload f r = (if fst r then snd r
     else push_upload (f\<lparr>Num_retried := Num_retried f + 1\<rparr>) (snd r))"

lemma upload_scan_upload:
  "reaches s f now s2 \<Longrightarrow> due now f \<Longrightarrow> i \<le> max_concurrent_uploads \<Longrightarrow>
    Num_retried f < max_upload_retries \<Longrightarrow>
    upload_scan i kept s = Option.bind (uploadOneFile (File_path f) (Remote_media_output_path f) s2)
      (\<lambda>r. upload_scan (Suc i) kept (after_upload f r))"
  by (auto simp: upload_scan.simps [of i kept s] reaches_def due_def after_upload_def
      split: option.splits prod.splits)

lemma reaches_cases:
  assumes "upload_list s = f # rest" "disk s (File_path f) \<noteq> None"
  obtains now s2 where "reaches s f now s2"
  using assms by (cases "tc_Now s") (auto simp: reaches_def)

text \<open>Induction along a scan that does not panic.\<close>

lemma upload_scan_induct [consumes 1, case_names Nil Skip Stop Upload Drop]:
  assumes "upload_scan i kept s = Some s'"
    and nil: "\<And>i kept s. upload_list s = [] \<Longrightarrow> P i kept s (s\<lparr>upload_list := kept\<rparr>)"
    and skip: "\<And>i kept s f now s2 s'. reaches s f now s2 \<Longrightarrow> \<not> due now f \<Longrightarrow>
      P i (kept @ [f]) s2 s' \<Longrightarrow> P i kept s s'"
    and stop: "\<And>i kept s f now s2. reaches s f now s2 \<Longrightarrow> max_concurrent_uploads < i \<Longrightarrow>
      P i kept s (s2\<lparr>upload_list := kept @ f # upload_list s2\<rparr>)"
    and upload: "\<And>i kept s f now s2 r s'. reaches s f now s2 \<Longrightarrow> i \<le> max_concurrent_uploads \<Longrightarrow>
      Num_retried f < max_upload_retries \<Longrightarrow>
      uploadOneFile (File_path f) (Remote_media_output_path f) s2 = Some r \<Longrightarrow>
      P (Suc i) kept (after_upload f r) s' \<Longrightarrow> P i kept s s'"
    and drop: "\<And>i kept s f now s2 s'. reaches s f now s2 \<Longrightarrow> i \<le> max_concurrent_uploads \<Longrightarrow>
      max_upload_retries \<le> Num_retried f \<Longrightarrow> P i kept s2 s' \<Longrightarrow> P i kept s s'"
  shows "P i kept s s'"
  using assms(1)
proof (induction i kept s rule: upload_scan.induct)
  case (1 i kept s)
  show ?case
  proof (cases "upload_list s")
    case Nil
    with 1(4) nil show ?thesis by (auto simp: upload_scan_nil)
  next
    case (Cons f rest)
    with 1(4) have found: "disk s (File_path f) \<noteq> None"
      using upload_scan_missing by fastforce
    obtain now s1 where now: "tc_Now s = (now, s1)" by force
    let ?s2 = "s1\<lparr>upload_list := rest\<rparr>"
    have r: "reaches s f now ?s2" using Cons found now by (simp add: reaches_def)
    note IH = 1(1-3) [OF Cons found refl now [symmetric] refl]
    consider (skip) "\<not> due now f" | (stop) "due now f" "max_concurrent_uploads < i"
      | (upload) "due now f" "i \<le> max_concurrent_uploads" "Num_retried f < max_upload_retries"
      | (drop) "due now f" "i \<le> max_concurrent_uploads" "max_upload_retries \<le> Num_retried f"
      by linarith
    then show ?thesis
    proof cases
      case skip
      with 1(4) r have "upload_scan i (kept @ [f]) ?s2 = Some s'" by (simp add: upload_scan_skip)
      with IH(3) skip r show ?thesis by (intro assms(3) [of s f now ?s2]) (auto simp: due_def)
    next
      case stop
      with 1(4) r have "s' = ?s2\<lparr>upload_list := kept @ f # upload_list ?s2\<rparr>"
        by (simp add: upload_scan_stop)
      then show ?thesis using assms(4) [OF r stop(2)] by simp
    next
      case upload
      with 1(4) r obtain q where q: "uploadOneFile (File_path f) (Remote_media_output_path f) ?s2 = Some q"
        "upload_scan (Suc i) kept (after_upload f q) = Some s'"
        by (auto simp: upload_scan_upload bind_eq_Some_conv)
      have "P (Suc i) kept (after_upload f q) s'"
        using IH(1) [of q "fst q" "snd q"] q upload by (simp add: due_def after_upload_def)
      then show ?thesis by (rule assms(5) [OF r upload(2,3) q(1)])
    next
      case drop
      with 1(4) r have "upload_scan i kept ?s2 = Some s'" by (simp add: upload_scan_drop)
      with IH(2) drop r show ?thesis by (intro assms(6) [of s f now ?s2]) (auto simp: due_def)
    qed
  qed
qed

section \<open>Nothing is lost but by three failures\<close>

definition failures :: "string \<Rightarrow> s3_call list \<Rightarrow> int" where
  "failures file cs = int (length (filter (\<lambda>c. s3_local c = file \<and> \<not> s3_ok c) cs))"

lemma failures_simps [simp]:
  "failures file [] = 0"
  "failures file (c # cs) = (if s3_local c = file \<and> \<not> s3_ok c then 1 else 0) + failures file cs"
  by (simp_all add: failures_def)

text \<open>What may become of an item during the calls \<open>cs\<close>.\<close>

definition accounted :: "Upload_item \<Rightarrow> s3_call list \<Rightarrow> Upload_item list \<Rightarrow> bool" where
  "accounted f cs remaining \<longleftrightarrow>
     (\<exists>n. f\<lparr>Num_retried := n\<rparr> \<in> set remaining) \<or>
     (\<exists>c \<in> set cs. s3_local c = File_path f \<and> s3_ok c) \<or>
     max_upload_retries \<le> Num_retried f + failures (File_path f) cs"

lemma accounted_stays: "f \<in> set remaining \<Longrightarrow> accounted f cs remaining"
  by (auto simp: accounted_def intro: exI [of _ "Num_retried f"])

lemma accounted_Cons: "accounted f cs remaining \<Longrightarrow> accounted f (c # cs) remaining"
  by (auto simp: accounted_def)

lemma accounted_retry:
  assumes "accounted (f\<lparr>Num_retried := Num_retried f + 1\<rparr>) cs remaining"
    and "s3_local c = File_path f" "\<not> s3_ok c"
  shows "accounted f (c # cs) remaining"
  using assms by (auto simp: accounted_def)

text \<open>The state after an upload: one call more, and everything that was on the list but \<open>f\<close>.\<close>

lemma after_upload_call:
  assumes "reaches s f now s2" "uploadOneFile (File_path f) (Remote_media_output_path f) s2 = Some r"
  shows "\<exists>c. s3_calls (after_upload f r) = s3_calls s @ [c] \<and> s3_local c = File_path f \<and>
    disk (after_upload f r) = disk s \<and>
    (\<forall>g \<in> set (upload_list s) - {f}. g \<in> set (upload_list (after_upload f r))) \<and>
    (if s3_ok c then fst r
     else f\<lparr>Num_retried := Num_retried f + 1\<rparr> \<in> set (upload_list (after_upload f r)))"
proof -
  note r = reachesD [OF assms(1)]
  from assms(2) r obtain c extra where c: "s3_calls (snd r) = s3_calls s2 @ [c]"
      "s3_local c = File_path f" "s3_ok c = fst r" "upload_list (snd r) = upload_list s2 @ extra"
      "disk (snd r) = disk s2"
    using uploadOneFile_call [of "File_path f" "Remote_media_output_path f" s2 "fst r" "snd r"] by auto
  then show ?thesis using r by (intro exI [of _ c]) (simp add: after_upload_def)
qed

lemma upload_scan_accounted:
  "upload_scan i kept s = Some s' \<Longrightarrow> \<exists>cs. s3_calls s' = s3_calls s @ cs \<and>
    length cs \<le> Suc max_concurrent_uploads - i \<and>
    (\<forall>f \<in> set kept \<union> set (upload_list s). accounted f cs (upload_list s'))"
proof (induction rule: upload_scan_induct)
  case (Upload i kept s f now s2 r s')
  obtain c where c: "s3_calls (after_upload f r) = s3_calls s @ [c]" "s3_local c = File_path f"
      "\<forall>g \<in> set (upload_list s) - {f}. g \<in> set (upload_list (after_upload f r))"
      "\<not> s3_ok c \<Longrightarrow> f\<lparr>Num_retried := Num_retried f + 1\<rparr> \<in> set (upload_list (after_upload f r))"
    using after_upload_call [OF Upload(1,4)] by (auto split: if_splits)
  from Upload(5) obtain cs where cs: "s3_calls s' = s3_calls (after_upload f r) @ cs"
      "length cs \<le> Suc max_concurrent_uploads - Suc i"
      "\<forall>g \<in> set kept \<union> set (upload_list (after_upload f r)). accounted g cs (upload_list s')"
    by blast
  have "accounted f (c # cs) (upload_list s')"
  proof (cases "s3_ok c")
    case True
    with c(2) show ?thesis by (auto simp: accounted_def)
  next
    case False
    with c(2,4) cs(3) show ?thesis by (intro accounted_retry) auto
  qed
  then have "\<forall>g \<in> set kept \<union> set (upload_list s). accounted g (c # cs) (upload_list s')"
    using c(3) cs(3) by (auto intro: accounted_Cons)
  moreover have "length (c # cs) \<le> Suc max_concurrent_uploads - i" using cs(2) Upload(2) by simp
  ultimately show ?case using cs(1) c(1) by (intro exI [of _ "c # cs"]) simp
next
  case (Drop i kept s f now s2 s')
  then show ?case using reachesD [OF Drop(1)] by (fastforce simp: accounted_def failures_def)
next
  case (Stop i kept s f now s2)
  then show ?case using reachesD [OF Stop(1)] by (auto simp: accounted_stays)
next
  case (Skip i kept s f now s2 s')
  then show ?case using reachesD [OF Skip(1)] by simp
qed (simp add: accounted_stays)


definition upload_state :: "(string \<times> go_time) list \<Rightarrow> bool list \<Rightarrow> transcoder" where
  "upload_state files answers =
     \<lparr>disk = map_of (map (\<lambda>(p, t). (p, ''data'')) files), s3_calls = [], tc_answers = answers,
      tc_clock = [], tc_now = 1000000000,
      upload_list = map (\<lambda>(p, t). \<lparr>File_path = p, it_Time_created = t, Num_retried = 0,
        Remote_media_output_path = ''b/''\<rparr>) files,
      init_segments_to_upload = [], queued_detection_jobs = [], running_detection_jobs = [],
      num_concurrent_detection_jobs = 0, original_detection_target_init_segment_path_local = [],
      original_detection_target_hls_playlist_path_local = [],
      upload_candidate_detection_init_segment = [], watching = True\<rparr>"


section \<open>Termination without a panic\<close>

text \<open>A path whose last slash is not its first character can be cut into its parts.\<close>

definition file_ok :: "(string \<Rightarrow> string option) \<Rightarrow> Upload_item \<Rightarrow> bool" where
  "file_ok d f \<longleftrightarrow> d (File_path f) \<noteq> None \<and> 1 \<le> str_last_index (File_path f) ''/''"

lemma last_index_of_take:
  assumes "last_index_of (take n s) [c] = Some m"
  shows "m < n"
proof -
  have "has_prefix (drop m (take n s)) [c]" using last_index_of_SomeD [OF assms] by blast
  then have "drop m (take n s) \<noteq> []" by auto
  then show ?thesis by simp
qed

lemma remote_rendition_total:
  assumes "1 \<le> str_last_index file ''/''"
  shows "\<exists>r. remote_rendition file = Some r \<and> (isMediaDataSegment file \<longrightarrow> r \<noteq> [])"
proof -
  obtain n where n: "last_index_of file ''/'' = Some n" "str_last_index file ''/'' = int n" "1 \<le> n"
    using assms by (auto simp: str_last_index_def go_int_of_index_def split: option.splits)
  then have len: "n \<le> length file" using last_index_of_SomeD by blast
  have path: "slice_to file (int n - 1) = Some (take (n - 1) file)"
    using n(3) len by (simp add: slice_to_def slice_def nat_diff_distrib)
  have "str_last_index (take (n - 1) file) ''/'' < int n - 1 \<or> str_last_index (take (n - 1) file) ''/'' = - 1"
    using n(3) last_index_of_take [of "n - 1" "file" "CHR ''/''"]
    by (auto simp: str_last_index_def go_int_of_index_def split: option.splits)
  moreover have "- 1 \<le> str_last_index (take (n - 1) file) ''/''"
    by (auto simp: str_last_index_def go_int_of_index_def split: option.splits)
  ultimately have "slice file (str_last_index (take (n - 1) file) ''/'' + 1) (int n) \<noteq> None"
    using len n(3) by (auto simp: slice_None_iff)
  then show ?thesis using path n(2) by (auto simp: remote_rendition_def Let_def)
qed

lemma uploadOneFile_total:
  assumes "1 \<le> str_last_index file ''/''"
  shows "uploadOneFile file remote s \<noteq> None"
proof -
  obtain r where r: "remote_rendition file = Some r" "isMediaDataSegment file \<longrightarrow> r \<noteq> []"
    using remote_rendition_total [OF assms] by blast
  have "\<exists>n. slice_from file (str_last_index file ''/'' + 1) = Some n"
  proof -
    obtain n where n: "last_index_of file ''/'' = Some n" "str_last_index file ''/'' = int n"
      using assms by (auto simp: str_last_index_def go_int_of_index_def split: option.splits)
    then have "has_prefix (drop n file) ''/''" using last_index_of_SomeD by blast
    then have "n < length file" by (cases "n < length file") auto
    then show ?thesis using n(2) by (simp add: slice_from_def slice_def)
  qed
  moreover have "enqueue_init file r t \<noteq> None" for t
    using r(2) by (auto simp: enqueue_init_def is_first_segment_def slice_to_def slice_def Suc_le_eq)
  ultimately show ?thesis
    using r(1) by (auto simp: uploadOneFile_def Let_def split: prod.splits)
qed

text \<open>Every item on the list, and every init segment that may come on it, can be uploaded.\<close>

definition uploads_ok :: "transcoder \<Rightarrow> bool" where
  "uploads_ok s \<longleftrightarrow> list_all (file_ok (disk s)) (upload_list s) \<and>
     list_all (\<lambda>(r, it). file_ok (disk s) it) (init_segments_to_upload s)"

lemma enqueue_init_ok:
  assumes "enqueue_init path r s = Some s'" "uploads_ok s"
  shows "uploads_ok s'"
proof -
  have "map_of (init_segments_to_upload s) r = Some it \<Longrightarrow> file_ok (disk s) it" for r it
    using assms(2) by (auto simp: uploads_ok_def list_all_iff dest: map_of_SomeD)
  then show ?thesis
    using assms by (auto simp: enqueue_init_def uploads_ok_def split: if_splits option.splits)
qed

lemma uploadOneFile_ok:
  assumes "uploadOneFile path remote s = Some r" "uploads_ok s"
  shows "uploads_ok (snd r) \<and> disk (snd r) = disk s"
proof -
  have "uploads_ok (snd (s3_Upload path name bucket s)) \<and> disk (snd (s3_Upload path name bucket s)) = disk s"
    for name bucket
    using assms(2) by (simp add: s3_Upload_def uploads_ok_def Let_def)
  then show ?thesis
    using assms by (auto simp: uploadOneFile_def Let_def split: if_splits option.splits prod.splits)
      (metis enqueue_init_ok enqueue_init_frame snd_conv)+
qed

lemma upload_scan_total: "uploads_ok s \<Longrightarrow> upload_scan i kept s \<noteq> None"
proof (induction i kept s rule: upload_scan.induct)
  case (1 i kept s)
  show ?case
  proof (cases "upload_list s")
    case Nil
    then show ?thesis by (simp add: upload_scan_nil)
  next
    case (Cons f rest)
    with 1(4) have f: "disk s (File_path f) \<noteq> None" "1 \<le> str_last_index (File_path f) ''/''"
      by (auto simp: uploads_ok_def file_ok_def)
    obtain now s1 where now: "tc_Now s = (now, s1)" by force
    let ?s2 = "s1\<lparr>upload_list := rest\<rparr>"
    have r: "reaches s f now ?s2" using Cons f now by (simp add: reaches_def)
    have ok: "uploads_ok ?s2" using 1(4) Cons now by (auto simp: uploads_ok_def)
    note IH = 1(1-3) [OF Cons f(1) refl now [symmetric] refl]
    consider (skip) "\<not> due now f" | (stop) "due now f" "max_concurrent_uploads < i"
      | (upload) "due now f" "i \<le> max_concurrent_uploads" "Num_retried f < max_upload_retries"
      | (drop) "due now f" "i \<le> max_concurrent_uploads" "max_upload_retries \<le> Num_retried f"
      by linarith
    then show ?thesis
    proof cases
      case upload
      obtain q where q: "uploadOneFile (File_path f) (Remote_media_output_path f) ?s2 = Some q"
        using uploadOneFile_total [OF f(2)] by blast
      note q_ok = uploadOneFile_ok [OF q ok]
      have "file_ok (disk (snd q)) f" using f q_ok now by (simp add: file_ok_def)
      then have "uploads_ok (after_upload f q)"
        using q_ok by (auto simp: after_upload_def uploads_ok_def file_ok_def)
      then have "upload_scan (Suc i) kept (after_upload f q) \<noteq> None"
        using IH(1) [of q "fst q" "snd q"] q upload by (simp add: due_def after_upload_def)
      with upload_scan_upload [OF r upload] q show ?thesis by simp
    qed (use IH(2,3) r ok in \<open>auto simp: due_def upload_scan_skip upload_scan_stop upload_scan_drop\<close>)
  qed
qed



section \<open>An outage of one scan\<close>

lemma uploadOneFile_fails:
  assumes "disk s path \<noteq> None" "1 \<le> str_last_index path ''/''" "tc_answers s = False # as"
  shows "\<exists>c. uploadOneFile path remote s =
    Some (False, s\<lparr>tc_answers := as, s3_calls := s3_calls s @ [c]\<rparr>) \<and> s3_local c = path \<and> \<not> s3_ok c"
proof -
  obtain q where "uploadOneFile path remote s = Some q" using uploadOneFile_total [OF assms(2)] by blast
  then show ?thesis
    using assms by (auto simp: uploadOneFile_def s3_Upload_def Let_def split: option.splits if_splits)
qed

text \<open>The retry of a file at the end of the list, reached by the same scan.\<close>

lemma upload_scan_fail_once:
  assumes "upload_list s = [f]" "disk s (File_path f) \<noteq> None" "1 \<le> str_last_index (File_path f) ''/''"
    and "tc_clock s = []" "due (tc_now s) f" "i \<le> max_concurrent_uploads" "Num_retried f < max_upload_retries"
    and "tc_answers s = False # as"
  shows "\<exists>c. s3_local c = File_path f \<and> \<not> s3_ok c \<and> upload_scan i [] s = upload_scan (Suc i) []
    (s\<lparr>tc_answers := as, s3_calls := s3_calls s @ [c],
       upload_list := [f\<lparr>Num_retried := Num_retried f + 1\<rparr>]\<rparr>)"
proof -
  let ?s2 = "s\<lparr>upload_list := []\<rparr>"
  have r: "reaches s f (tc_now s) ?s2" using assms(1,2,4) by (simp add: reaches_def tc_Now_def)
  obtain c where c: "uploadOneFile (File_path f) (Remote_media_output_path f) ?s2 =
      Some (False, ?s2\<lparr>tc_answers := as, s3_calls := s3_calls ?s2 @ [c]\<rparr>)"
      "s3_local c = File_path f" "\<not> s3_ok c"
    using uploadOneFile_fails [of ?s2 "File_path f" as] assms(2,3,8) by auto
  then show ?thesis
    using upload_scan_upload [OF r assms(5-7), of "[]"]
    by (intro exI [of _ c]) (simp add: after_upload_def push_upload_def)
qed

text \<open>
  C39: a file whose upload fails is tried again by the same scan, because the retry is put at the end
  of the list that is being walked: when S3 fails for as long as one scan takes, a file alone on the
  list is tried three times and dropped, and it is never uploaded.
\<close>

theorem uploadFiles_drops_in_one_scan:
  assumes "upload_list s = [f]" "Num_retried f = 0" "disk s (File_path f) \<noteq> None"
    "1 \<le> str_last_index (File_path f) ''/''" "tc_clock s = []" "due (tc_now s) f"
    "tc_answers s = [False, False, False] @ as"
  shows "\<exists>s' cs. uploadFiles s = Some s' \<and> upload_list s' = [] \<and> tc_answers s' = as \<and>
    s3_calls s' = s3_calls s @ cs \<and> length cs = 3 \<and>
    (\<forall>c \<in> set cs. s3_local c = File_path f \<and> \<not> s3_ok c)"
proof -
  let ?again = "\<lambda>n bs cs. s\<lparr>tc_answers := bs, s3_calls := cs, upload_list := [f\<lparr>Num_retried := n\<rparr>]\<rparr>"
  have step: "\<exists>c. s3_local c = File_path f \<and> \<not> s3_ok c \<and>
      upload_scan i [] (?again n (False # bs) cs) = upload_scan (Suc i) [] (?again (n + 1) bs (cs @ [c]))"
    if "i \<le> 5" "n < 3" for i n bs cs
    using upload_scan_fail_once [of "?again n (False # bs) cs" "f\<lparr>Num_retried := n\<rparr>" i bs] assms that
    by (simp add: max_concurrent_uploads_def max_upload_retries_def due_def)
  obtain c1 where c1: "s3_local c1 = File_path f" "\<not> s3_ok c1" "upload_scan 1 [] (?again 0 (False # False # False # as) (s3_calls s))
      = upload_scan 2 [] (?again 1 (False # False # as) (s3_calls s @ [c1]))"
    using step [where i = 1 and n = 0 and bs = "False # False # as" and cs = "s3_calls s"] by (auto simp: numeral_2_eq_2)
  obtain c2 where c2: "s3_local c2 = File_path f" "\<not> s3_ok c2" "upload_scan 2 [] (?again 1 (False # False # as) (s3_calls s @ [c1]))
      = upload_scan 3 [] (?again 2 (False # as) (s3_calls s @ [c1, c2]))"
    using step [where i = 2 and n = 1 and bs = "False # as" and cs = "s3_calls s @ [c1]"] by auto
  obtain c3 where c3: "s3_local c3 = File_path f" "\<not> s3_ok c3" "upload_scan 3 [] (?again 2 (False # as) (s3_calls s @ [c1, c2]))
      = upload_scan 4 [] (?again 3 as (s3_calls s @ [c1, c2, c3]))"
    using step [where i = 3 and n = 2 and bs = as and cs = "s3_calls s @ [c1, c2]"] by auto
  let ?s = "?again 3 as (s3_calls s @ [c1, c2, c3])"
  have "reaches ?s (f\<lparr>Num_retried := 3\<rparr>) (tc_now s) (?s\<lparr>upload_list := []\<rparr>)"
    using assms by (simp add: reaches_def tc_Now_def)
  then have "upload_scan 4 [] ?s = Some (?s\<lparr>upload_list := []\<rparr>)"
    using assms(6) by (simp add: upload_scan_drop upload_scan_nil max_concurrent_uploads_def
        max_upload_retries_def due_def)
  moreover have "s = ?again 0 (False # False # False # as) (s3_calls s)" using assms by simp
  ultimately show ?thesis
    using c1 c2 c3 by (intro exI [of _ "?s\<lparr>upload_list := []\<rparr>"] exI [of _ "[c1, c2, c3]"])
      (simp add: uploadFiles_def)
qed

theorem uploadFiles_drops_in_one_scan_witness:
  "\<exists>s'. uploadFiles (upload_state [(''/t/o/v/seg_2.m4s'', 0)] [False, False, False]) = Some s' \<and>
    upload_list s' = []"
proof -
  let ?s = "upload_state [(''/t/o/v/seg_2.m4s'', 0)] [False, False, False]"
  have "upload_list ?s = [hd (upload_list ?s)]" by code_simp
  moreover have "Num_retried (hd (upload_list ?s)) = 0" "disk ?s (File_path (hd (upload_list ?s))) \<noteq> None"
    "1 \<le> str_last_index (File_path (hd (upload_list ?s))) ''/''" "tc_clock ?s = []"
    "due (tc_now ?s) (hd (upload_list ?s))" "tc_answers ?s = [False, False, False] @ []"
    by code_simp+
  ultimately show ?thesis
    using uploadFiles_drops_in_one_scan [of ?s "hd (upload_list ?s)" "[]"] by blast
qed

section \<open>Init segments\<close>

lemma last_slash [simp]:
  "CHR ''/'' \<notin> set name \<Longrightarrow> last_index_of (d @ CHR ''/'' # name) ''/'' = Some (length d)"
  by (rule last_index_of_char_append)

lemma rendition_of_path:
  assumes "CHR ''/'' \<notin> set r" "CHR ''/'' \<notin> set name"
  shows "getRenditionNameFromPath (d @ ''/'' @ r @ ''/'' @ name) = r"
proof -
  have "last_index_of ((d @ ''/'' @ r) @ CHR ''/'' # name) ''/'' = Some (length (d @ ''/'' @ r))"
    using assms(2) by (rule last_slash)
  moreover have "last_index_of (d @ CHR ''/'' # r) ''/'' = Some (length d)" using assms(1) by simp
  ultimately show ?thesis by (simp add: getRenditionNameFromPath_def Let_def)
qed

lemma remote_rendition_of_path:
  assumes "CHR ''/'' \<notin> set r" "CHR ''/'' \<notin> set name" "r \<noteq> []"
  shows "remote_rendition (d @ ''/'' @ r @ ''/'' @ name) = Some
    (if isMediaDataSegment (d @ ''/'' @ r @ ''/'' @ name) \<or> isFmp4InitSegment (d @ ''/'' @ r @ ''/'' @ name) \<or>
        isHlsVariantPlaylist (d @ ''/'' @ r @ ''/'' @ name) then r @ ''/'' else [])"
proof -
  let ?p = "d @ ''/'' @ r @ ''/'' @ name"
  have "last_index_of ((d @ ''/'' @ r) @ CHR ''/'' # name) ''/'' = Some (length (d @ ''/'' @ r))"
    using assms(2) by (rule last_slash)
  then have last: "str_last_index ?p ''/'' = int (length d + 1 + length r)"
    by (simp add: str_last_index_def go_int_of_index_def)
  have cut: "slice_to ?p (int (length d + 1 + length r) - 1) = Some (d @ ''/'' @ butlast r)"
  proof -
    have "?p = (d @ ''/'' @ butlast r) @ last r # ''/'' @ name" using assms(3) by simp
    moreover have "int (length d + 1 + length r) - 1 = int (length (d @ ''/'' @ butlast r))"
      using assms(3) by (cases r) auto
    ultimately show ?thesis using slice_to_append by metis
  qed
  have "CHR ''/'' \<notin> set (butlast r)" using assms(1) in_set_butlastD by fastforce
  then have second: "str_last_index (d @ ''/'' @ butlast r) ''/'' = int (length d)"
    by (simp add: str_last_index_def go_int_of_index_def)
  have "slice ((d @ ''/'') @ r @ (''/'' @ name)) (int (length (d @ ''/''))) (int (length (d @ ''/'') + length r)) = Some r"
    by (rule slice_append)
  then have "slice ?p (int (length d) + 1) (int (length d + 1 + length r)) = Some r"
    by (simp add: add.commute)
  then show ?thesis unfolding remote_rendition_def Let_def last cut option.case second by simp
qed

lemma addToUploadList_init:
  assumes "isFmp4InitSegment path" "getRenditionNameFromPath path = r" "r \<noteq> []"
  shows "\<exists>it. map_of (init_segments_to_upload (addToUploadList path remote s)) r = Some it \<and>
    File_path it = path \<and> Remote_media_output_path it = remote \<and> Num_retried it = 0 \<and>
    upload_list (addToUploadList path remote s) = upload_list s"
  using assms by (cases "tc_Now s") (auto simp: addToUploadList_def Let_def)

lemma str_contains_append: "str_contains b p \<Longrightarrow> str_contains (a @ b) p"
  by (auto simp: str_contains_iff) (metis append.assoc)

lemma str_contains_prefix: "str_contains a p \<Longrightarrow> str_contains (a @ b) p"
  by (auto simp: str_contains_iff) (metis append.assoc)



section \<open>The key file\<close>

lemma hex_value_char:
  assumes "0 \<le> d" "d < 16"
  shows "hex_value (hex_char d) = Some d"
proof -
  from assms have "d \<in> set [0..15]" by simp
  moreover have "list_all (\<lambda>d. hex_value (hex_char d) = Some d) [0..15]" by code_simp
  ultimately show ?thesis by (simp only: list_all_iff)
qed

lemma hex_decode_byte:
  "hex_decode (hex_byte b @ s) =
    map_option (\<lambda>bs. char_of (nat (b mod 256)) # bs) (hex_decode s)"
proof -
  have "hex_value (hex_char (b mod 256 div 16)) = Some (b mod 256 div 16)"
    "hex_value (hex_char (b mod 16)) = Some (b mod 16)"
    by (rule hex_value_char; presburger)+
  moreover have "16 * (b mod 256 div 16) + b mod 16 = b mod 256"
    using mult_div_mod_eq [of 16 "b mod 256"] by (simp add: mod_mod_cancel)
  ultimately show ?thesis by (simp add: hex_byte_def split: option.split)
qed

lemma hex_decode_key_text:
  "hex_decode (key_text bs) = Some (map (\<lambda>b. char_of (nat (b mod 256))) bs)"
  by (induction bs) (simp_all add: key_text_def hex_decode_byte)

text \<open>
  The key file that the transcoder writes next to a protected stream, and uploads, holds the very
  bytes that the key server drew for the key, whose record carries them in hexadecimal.
\<close>

theorem key_file_holds_key:
  fixes json local remote s
  assumes "Random_16bytes_as_string (Some bs) = Some (Key k)"
  defines "bytes \<equiv> map (\<lambda>b. char_of (nat (b mod 256))) bs"
  defines "r \<equiv> createUploadDrmKeyFile json (TKey k) local remote s"
  shows "disk (snd r) (local @ ''key.bin'') = Some bytes \<and>
    (\<exists>c. s3_calls (snd r) = s3_calls s @ [c] \<and> s3_local c = local @ ''key.bin'' \<and>
      s3_name c = ''key.bin'' \<and> s3_bucket c = remote \<and> s3_ok c = fst r)"
proof -
  have "hex_decode (Key k) = Some bytes"
    using assms(1) hex_decode_key_text [of bs]
    by (simp add: Random_16bytes_as_string_def key_text_def bytes_def)
  then show ?thesis
    by (simp add: r_def createUploadDrmKeyFile_def writeKeyFile_def writeKeyInfoFile_def write_disk_def
        DrmKeyFileName_def DrmKeyInfoFileName_def s3_Upload_def Let_def)
qed

theorem key_file_holds_key_witness:
  "disk (snd (createUploadDrmKeyFile (\<lambda>k. []) (TKey (zero_KeyInfo\<lparr>Key := key_text [0..15]\<rparr>)) ''/t/o/'' ''b/''
      (upload_state [] []))) ''/t/o/key.bin'' = Some (map (\<lambda>b. char_of (nat (b mod 256))) [0..15])"
proof -
  have "Random_16bytes_as_string (Some [0..15]) = Some (Key (zero_KeyInfo\<lparr>Key := key_text [0..15]\<rparr>))"
    by (simp add: Random_16bytes_as_string_def key_text_def)
  from key_file_holds_key [OF this, of "\<lambda>k. []" "''/t/o/''" "''b/''" "upload_state [] []"]
  show ?thesis by (simp only: append_Cons append_Nil)
qed

end
