(* ===== verification/PlaylistSpec.thy ===== *)
theory PlaylistSpec
  imports Playlists
begin

text \<open>
  What the two rewrites of HLS playlists produce, on playlists given by their lines: the variant
  playlist is cut after the latest detected segment with its segments renamed, and the master
  playlist loses the detected rendition. Then what goes wrong: a segment that is not in the playlist
  empties the playlist on the disk, and a line after the last rendition repeats that rendition.
\<close>

section \<open>Lines and writers\<close>

definition plain_line :: "string \<Rightarrow> bool" where
  "plain_line l \<longleftrightarrow> NL \<notin> set l \<and> CHR 0x0D \<notin> set l \<and> length l < 65536"

lemma raw_lines_text_of: "list_all (\<lambda>l. NL \<notin> set l) ls \<Longrightarrow> raw_lines (text_of ls) = ls"
proof (induction ls)
  case Nil
  show ?case by (simp add: text_of_def)
next
  case (Cons l ls)
  have split: "takeWhile (\<lambda>x. x \<noteq> NL) (l @ NL # t) = l" "dropWhile (\<lambda>x. x \<noteq> NL) (l @ NL # t) = NL # t" for t
    using Cons.prems by (auto simp: takeWhile_append dropWhile_append)
  obtain c s where cs: "l @ NL # text_of ls = c # s" by (cases l) auto
  have "raw_lines (c # s) = takeWhile (\<lambda>x. x \<noteq> NL) (c # s) # raw_lines (drop 1 (dropWhile (\<lambda>x. x \<noteq> NL) (c # s)))"
    by (rule raw_lines.simps(2))
  then have "raw_lines (l @ NL # text_of ls) = l # raw_lines (text_of ls)"
    unfolding cs [symmetric] split by simp
  with Cons show ?case by (simp add: text_of_def)
qed

lemma scan_lines_text_of: "list_all plain_line ls \<Longrightarrow> scan_lines (text_of ls) = ls"
proof -
  assume ls: "list_all plain_line ls"
  have raw: "raw_lines (text_of ls) = ls"
    by (rule raw_lines_text_of) (use ls in \<open>auto simp: list_all_iff plain_line_def\<close>)
  have id: "drop_cr l = l" if "l \<in> set ls" for l
  proof -
    have "CHR 0x0D \<notin> set l" using ls that by (auto simp: list_all_iff plain_line_def)
    then show ?thesis using last_in_set [of l] by (metis drop_cr_def)
  qed
  have "takeWhile (\<lambda>l. length l < 65536) ls = ls"
    using ls by (auto simp: list_all_iff plain_line_def takeWhile_eq_all_conv)
  then have "scan_lines (text_of ls) = map drop_cr ls" by (simp only: scan_lines_def raw)
  then show ?thesis using id by (simp only: map_idI)
qed

lemma text_of_simps [simp]:
  "text_of [] = []" "text_of (l # ls) = l @ [NL] @ text_of ls" "text_of (ls @ ms) = text_of ls @ text_of ms"
  by (simp_all add: text_of_def)

lemma flush_write_string [simp]:
  "fst (flush (write_string s w)) = fst (flush w) @ s"
  by (auto simp: flush_def write_string_def Let_def split: prod.splits)

text \<open>While everything fits the buffer, nothing reaches the file.\<close>

lemma write_string_small:
  "fst w = [] \<Longrightarrow> length (snd w) + length s \<le> buffer_size \<Longrightarrow> write_string s w = ([], snd w @ s)"
  by (cases w) (auto simp: write_string_def)

section \<open>The variant playlist\<close>

lemma last_index_of_iff: "last_index_of s p \<noteq> None \<longleftrightarrow> str_contains s p"
proof -
  have "last_index_of s p = None \<longleftrightarrow> index_of s p = None"
    by (induction s) (auto split: option.splits)
  then show ?thesis by (simp add: str_contains_def)
qed

text \<open>The line that the detected rendition has for a line of the original.\<close>

definition detected_line :: "string \<Rightarrow> string" where
  "detected_line l =
     (if str_contains l ''init.mp4'' then (case rename_init l of None \<Rightarrow> l | Some m \<Rightarrow> m)
      else if str_contains l ''seg_'' then (case rename_segment l of None \<Rightarrow> l | Some m \<Rightarrow> m)
      else l)"

lemma index_after:
  assumes "str_contains s p"
  shows "\<exists>n. str_last_index s p = int n \<and> n + length p \<le> length s"
proof -
  obtain n where n: "last_index_of s p = Some n" using assms last_index_of_iff by blast
  then obtain t where "n \<le> length s" "drop n s = p @ t"
    using last_index_of_SomeD has_prefix_iff by blast
  then have "n + length p \<le> length s" by (metis add_le_cancel_left length_append length_drop le_add1 le_add_diff_inverse)
  with n show ?thesis by (simp add: str_last_index_def go_int_of_index_def)
qed

lemma rename_total:
  "str_contains l ''init.mp4'' \<Longrightarrow> \<exists>m. rename_init l = Some m"
  "str_contains l ''seg_'' \<Longrightarrow> \<exists>m. rename_segment l = Some m"
  using index_after [of l "''init.mp4''"] index_after [of l "''seg_''"]
  by (auto simp: rename_init_def rename_segment_def Let_def slice_to_def slice_from_def slice_def)

lemma playlist_scan_Cons:
  "playlist_scan name (l # ls) w =
     (if str_contains l name \<and> \<not> str_contains l ''init.mp4'' then
        (if str_contains l ''seg_'' then Some (write_string (detected_line l @ [NL]) w, True)
         else playlist_scan name (l # ls) w)
      else playlist_scan name ls (write_string (detected_line l @ [NL]) w))"
  using rename_total [of l] by (auto simp: detected_line_def split: option.splits)

declare playlist_scan.simps(2) [simp del]

text \<open>No line of the playlist is the segment's.\<close>

definition not_listed :: "string \<Rightarrow> string list \<Rightarrow> bool" where
  "not_listed name = list_all (\<lambda>l. str_contains l ''init.mp4'' \<or> \<not> str_contains l name)"

lemma playlist_scan_skip:
  "not_listed name pre \<Longrightarrow> \<exists>w'. playlist_scan name (pre @ ls) w = playlist_scan name ls w' \<and>
    fst (flush w') = fst (flush w) @ text_of (map detected_line pre)"
proof (induction pre arbitrary: w)
  case (Cons l pre)
  then have "playlist_scan name (l # pre @ ls) w = playlist_scan name (pre @ ls) (write_string (detected_line l @ [NL]) w)"
    by (subst playlist_scan_Cons) (auto simp: not_listed_def)
  moreover have "not_listed name pre" using Cons.prems by (simp add: not_listed_def)
  from Cons.IH [OF this, of "write_string (detected_line l @ [NL]) w"]
  obtain w' where "playlist_scan name (pre @ ls) (write_string (detected_line l @ [NL]) w) = playlist_scan name ls w'"
    "fst (flush w') = fst (flush w) @ text_of (map detected_line (l # pre))" by auto
  ultimately show ?case by (intro exI [of _ w']) simp
qed auto

lemma playlist_scan_small:
  "not_listed name ls \<Longrightarrow> fst w = [] \<Longrightarrow> length (snd w) + length (text_of (map detected_line ls)) \<le> buffer_size \<Longrightarrow>
    playlist_scan name ls w = Some (([], snd w @ text_of (map detected_line ls)), False)"
proof (induction ls arbitrary: w)
  case (Cons l ls)
  have w: "write_string (detected_line l @ [NL]) w = ([], snd w @ detected_line l @ [NL])"
    by (rule write_string_small) (use Cons.prems in auto)
  have "playlist_scan name (l # ls) w = playlist_scan name ls (write_string (detected_line l @ [NL]) w)"
    using Cons.prems(1) by (subst playlist_scan_Cons) (auto simp: not_listed_def)
  then show ?case using Cons.IH [of "([], snd w @ detected_line l @ [NL])"] Cons.prems w
    by (simp add: not_listed_def)
qed (simp add: prod_eq_iff)

lemma updatePlaylist_cut:
  assumes "detected_playlist_path playlist = Some new"
    and "disk s playlist = Some (text_of (pre @ line # post))" "list_all plain_line (pre @ line # post)"
    and "not_listed (segment_name orig) pre"
    and "str_contains line (segment_name orig)" "str_contains line ''seg_''" "\<not> str_contains line ''init.mp4''"
  shows "updatePlaylistNewDetectedSegment playlist orig s =
    Some (None, new, write_disk new (text_of (map detected_line (pre @ [line]))) s)"
proof -
  obtain w' where w': "playlist_scan (segment_name orig) (pre @ line # post) ([], []) =
        playlist_scan (segment_name orig) (line # post) w'"
      "fst (flush w') = text_of (map detected_line pre)"
    using playlist_scan_skip [OF assms(4), of "line # post" "([], [])"] by (auto simp: flush_def)
  have "playlist_scan (segment_name orig) (line # post) w' = Some (write_string (detected_line line @ [NL]) w', True)"
    using assms(5-7) by (subst playlist_scan_Cons) simp
  then show ?thesis
    using assms(1,2) w' scan_lines_text_of [OF assms(3)]
    by (simp add: updatePlaylistNewDetectedSegment_def)
qed

text \<open>
  C28: once a segment has been detected, the new playlist holds the lines of the packager's playlist up
  to the line of that segment, each data segment under its detected name and the init segment
  replaced, and nothing of what comes after.
\<close>

theorem updatePlaylist_cuts:
  assumes "detected_playlist_path playlist = Some new"
    and "disk s playlist = Some (text_of (pre @ line # post))" "list_all plain_line (pre @ line # post)"
    and "not_listed (segment_name orig) pre"
    and "str_contains line (segment_name orig)" "str_contains line ''seg_''" "\<not> str_contains line ''init.mp4''"
  shows "updatePlaylistNewDetectedSegment playlist orig s =
    Some (None, new, write_disk new (text_of (map detected_line (pre @ [line]))) s)"
  using assms by (rule updatePlaylist_cut)

text \<open>
  When the segment is not in the packager's playlist, the playlist of detected segments on the
  disk is emptied (if it would fit the writer's buffer of 4096 bytes): the file is created before the
  lines are read, and what was written is never flushed.
\<close>

theorem updatePlaylist_empties:
  assumes "detected_playlist_path playlist = Some new"
    and "disk s playlist = Some (text_of ls)" "list_all plain_line ls" "not_listed (segment_name orig) ls"
    and "length (text_of (map detected_line ls)) \<le> 4096"
  shows "\<exists>s'. updatePlaylistNewDetectedSegment playlist orig s =
    Some (Some ''segment_not_found_in_playlist'', new, s') \<and> disk s' new = Some []"
proof -
  have "playlist_scan (segment_name orig) ls ([], []) = Some (([], text_of (map detected_line ls)), False)"
    using playlist_scan_small [OF assms(4), of "([], [])"] assms(5) by (simp add: buffer_size_def)
  then show ?thesis
    using assms(1,2) scan_lines_text_of [OF assms(3)]
    by (simp add: updatePlaylistNewDetectedSegment_def write_disk_def)
qed

definition media_playlist :: "string list" where
  "media_playlist = [''#EXTM3U'', ''#EXT-X-TARGETDURATION:4'', ''#EXT-X-MAP:URI=\"init.mp4\"'',
     ''#EXTINF:4.000,'', ''seg_1.m4s'', ''#EXTINF:4.000,'', ''seg_2.m4s'',
     ''#EXTINF:4.000,'', ''seg_3.m4s'']"

definition playlist_state :: "string \<Rightarrow> string list \<Rightarrow> transcoder" where
  "playlist_state path ls =
     \<lparr>disk = [path \<mapsto> text_of ls], s3_calls = [], tc_answers = [], tc_clock = [], tc_now = 0,
      upload_list = [], init_segments_to_upload = [], queued_detection_jobs = [],
      running_detection_jobs = [], num_concurrent_detection_jobs = 0,
      original_detection_target_init_segment_path_local = [],
      original_detection_target_hls_playlist_path_local = [],
      upload_candidate_detection_init_segment = [], watching = True\<rparr>"

theorem updatePlaylist_cuts_witness:
  "\<exists>s'. updatePlaylistNewDetectedSegment ''/t/v/playlist.m3u8'' ''/t/v/seg_2.m4s''
      (playlist_state ''/t/v/playlist.m3u8'' media_playlist) = Some (None, ''/t/v/playlist_detected.m3u8'', s') \<and>
    disk s' ''/t/v/playlist_detected.m3u8'' = Some (text_of [''#EXTM3U'', ''#EXT-X-TARGETDURATION:4'',
      ''#EXT-X-MAP:URI=\"segment_init.mp4\"'', ''#EXTINF:4.000,'', ''segment_1.m4s'',
      ''#EXTINF:4.000,'', ''segment_2.m4s''])"
proof -
  let ?pre = "take 6 media_playlist" and ?post = "drop 7 media_playlist"
  have "media_playlist = ?pre @ ''seg_2.m4s'' # ?post" by (simp add: media_playlist_def)
  moreover have "list_all plain_line (?pre @ ''seg_2.m4s'' # ?post)"
    by (simp add: media_playlist_def plain_line_def NL_def)
  moreover have "not_listed (segment_name ''/t/v/seg_2.m4s'') ?pre" by code_simp
  moreover have "detected_playlist_path ''/t/v/playlist.m3u8'' = Some ''/t/v/playlist_detected.m3u8''"
    "str_contains ''seg_2.m4s'' (segment_name ''/t/v/seg_2.m4s'')" "str_contains ''seg_2.m4s'' ''seg_''"
    "\<not> str_contains ''seg_2.m4s'' ''init.mp4''" by code_simp+
  moreover have "map detected_line (?pre @ [''seg_2.m4s'']) = [''#EXTM3U'', ''#EXT-X-TARGETDURATION:4'',
      ''#EXT-X-MAP:URI=\"segment_init.mp4\"'', ''#EXTINF:4.000,'', ''segment_1.m4s'',
      ''#EXTINF:4.000,'', ''segment_2.m4s'']" by code_simp
  ultimately show ?thesis
    using updatePlaylist_cuts [of "''/t/v/playlist.m3u8''" "''/t/v/playlist_detected.m3u8''"
        "playlist_state ''/t/v/playlist.m3u8'' media_playlist" ?pre "''seg_2.m4s''" ?post "''/t/v/seg_2.m4s''"]
    by (simp add: playlist_state_def write_disk_def)
qed

theorem updatePlaylist_empties_witness:
  "\<exists>s'. updatePlaylistNewDetectedSegment ''/t/v/playlist.m3u8'' ''/t/v/seg_9.m4s''
      (playlist_state ''/t/v/playlist.m3u8'' media_playlist) =
        Some (Some ''segment_not_found_in_playlist'', ''/t/v/playlist_detected.m3u8'', s') \<and>
    disk s' ''/t/v/playlist_detected.m3u8'' = Some []"
proof (rule updatePlaylist_empties)
  show "disk (playlist_state ''/t/v/playlist.m3u8'' media_playlist) ''/t/v/playlist.m3u8'' =
      Some (text_of media_playlist)" by (simp add: playlist_state_def)
  show "list_all plain_line media_playlist"
    by (simp add: media_playlist_def plain_line_def NL_def)
  have "map detected_line media_playlist = [''#EXTM3U'', ''#EXT-X-TARGETDURATION:4'',
      ''#EXT-X-MAP:URI=\"segment_init.mp4\"'', ''#EXTINF:4.000,'', ''segment_1.m4s'',
      ''#EXTINF:4.000,'', ''segment_2.m4s'', ''#EXTINF:4.000,'', ''segment_3.m4s'']" by code_simp
  then show "length (text_of (map detected_line media_playlist)) \<le> 4096" by simp
  show "detected_playlist_path ''/t/v/playlist.m3u8'' = Some ''/t/v/playlist_detected.m3u8''" by code_simp
  show "not_listed (segment_name ''/t/v/seg_9.m4s'') media_playlist" by code_simp
qed

section \<open>The master playlist\<close>

definition is_inf :: "string \<Rightarrow> bool" where
  "is_inf l = str_contains l ''EXT-X-STREAM-INF''"

text \<open>The two lines of each rendition: its tag and its URL.\<close>

definition rendition_lines :: "(string \<times> string) list \<Rightarrow> string list" where
  "rendition_lines rs = concat (map (\<lambda>(i, u). [i, u]) rs)"

lemma rendition_lines_simps [simp]:
  "rendition_lines [] = []" "rendition_lines ((i, u) # rs) = i # u # rendition_lines rs"
  "rendition_lines (rs @ qs) = rendition_lines rs @ rendition_lines qs"
  by (simp_all add: rendition_lines_def)

definition renditions_ok :: "(string \<times> string) list \<Rightarrow> bool" where
  "renditions_ok rs = list_all (\<lambda>(i, u). is_inf i \<and> \<not> is_inf u) rs"

lemma str_contains_newline:
  assumes "NL \<notin> set p"
  shows "str_contains (l @ [NL]) p = str_contains l p"
proof
  assume "str_contains (l @ [NL]) p"
  then obtain a b where ab: "l @ [NL] = a @ p @ b" by (auto simp: str_contains_iff)
  show "str_contains l p"
  proof (cases b rule: rev_cases)
    case Nil
    show ?thesis
    proof (cases p rule: rev_cases)
      case (snoc q c)
      with ab Nil assms show ?thesis by auto
    qed (auto simp: str_contains_iff)
  next
    case (snoc b' c)
    with ab have "l = a @ p @ b'" by (metis append.assoc butlast_snoc)
    then show ?thesis by (auto simp: str_contains_iff)
  qed
next
  assume "str_contains l p"
  then show "str_contains (l @ [NL]) p" by (auto simp: str_contains_iff) (metis append.assoc)
qed

lemma is_inf_newline [simp]: "is_inf (l @ [NL]) = is_inf l"
  unfolding is_inf_def by (rule str_contains_newline) (simp add: NL_def)

lemma is_inf_Nil [simp]: "\<not> is_inf []"
  by (simp add: is_inf_def str_contains_def)

lemma master_scan_header:
  "list_all (\<lambda>l. \<not> is_inf l) hs \<Longrightarrow> \<not> is_inf prev \<Longrightarrow> \<exists>p. \<not> is_inf p \<and>
    master_scan bitrate (hs @ ls) prev url out = master_scan bitrate ls p url (out @ text_of hs)"
proof (induction hs arbitrary: prev out)
  case (Cons h hs)
  then have "master_scan bitrate ((h # hs) @ ls) prev url out =
      master_scan bitrate (hs @ ls) (h @ [NL]) url (out @ h @ [NL])"
    by (simp add: is_inf_def [symmetric] Let_def)
  moreover obtain p where "\<not> is_inf p" "master_scan bitrate (hs @ ls) (h @ [NL]) url (out @ h @ [NL]) =
      master_scan bitrate ls p url ((out @ h @ [NL]) @ text_of hs)"
    using Cons.IH [of "h @ [NL]" "out @ h @ [NL]"] Cons.prems by auto
  ultimately show ?case by (intro exI [of _ p]) simp
qed auto

text \<open>The renditions that stay, and the URL of the last one taken out.\<close>

definition kept_renditions :: "string \<Rightarrow> (string \<times> string) list \<Rightarrow> (string \<times> string) list" where
  "kept_renditions bitrate rs = filter (\<lambda>(i, u). \<not> str_contains u bitrate) rs"

definition removed_url :: "string \<Rightarrow> (string \<times> string) list \<Rightarrow> string \<Rightarrow> string" where
  "removed_url bitrate rs url =
     foldl (\<lambda>v (i, u). if str_contains u bitrate then u else v) url rs"

lemma master_scan_renditions:
  "renditions_ok rs \<Longrightarrow> rs \<noteq> [] \<Longrightarrow> \<exists>p. p = (if str_contains (snd (last rs)) bitrate then fst (last rs) else fst (last rs) @ [NL]) \<and>
    master_scan bitrate (rendition_lines rs @ ls) prev url out =
      master_scan bitrate ls p (removed_url bitrate rs url) (out @ text_of (rendition_lines (kept_renditions bitrate rs)))"
proof (induction rs arbitrary: prev url out)
  case (Cons r rs)
  obtain i u where r: "r = (i, u)" by force
  have iu: "is_inf i" "\<not> is_inf u" and ok: "renditions_ok rs" using Cons.prems r by (auto simp: renditions_ok_def)
  let ?p = "if str_contains u bitrate then i else i @ [NL]"
  let ?url = "if str_contains u bitrate then u else url"
  let ?out = "if str_contains u bitrate then out else out @ i @ [NL] @ u @ [NL]"
  have one: "master_scan bitrate (rendition_lines (r # rs) @ ls) prev url out =
      master_scan bitrate (rendition_lines rs @ ls) ?p ?url ?out"
    using iu by (simp add: r is_inf_def [symmetric] Let_def)
  show ?case
  proof (cases "rs = []")
    case True
    with one show ?thesis by (simp add: r removed_url_def kept_renditions_def)
  next
    case False
    with one Cons.IH [OF ok, of ?p ?url ?out] show ?thesis
      by (auto simp: r removed_url_def kept_renditions_def)
  qed
qed simp

lemma master_scan_playlist:
  assumes "list_all (\<lambda>l. \<not> is_inf l) hs" "renditions_ok rs" "rs \<noteq> []"
  shows "master_scan bitrate (hs @ rendition_lines rs @ ls) [] [] [] = master_scan bitrate ls
    (if str_contains (snd (last rs)) bitrate then fst (last rs) else fst (last rs) @ [NL])
    (removed_url bitrate rs []) (text_of (hs @ rendition_lines (kept_renditions bitrate rs)))"
proof -
  obtain p where p: "master_scan bitrate (hs @ rendition_lines rs @ ls) [] [] [] =
      master_scan bitrate (rendition_lines rs @ ls) p [] ([] @ text_of hs)"
    using master_scan_header [OF assms(1) is_inf_Nil] by blast
  show ?thesis
    unfolding p using master_scan_renditions [OF assms(2,3), of bitrate ls p "[]" "[] @ text_of hs"]
    by (auto simp only: append_Nil text_of_simps(3))
qed

text \<open>
  C29: a master playlist of header lines and renditions, each a tag and a URL, is rewritten without the
  renditions whose URL holds the bitrate of the detection target, and is otherwise unchanged.
\<close>

theorem master_playlist_filtered:
  assumes "list_all (\<lambda>l. \<not> is_inf l) hs" "renditions_ok rs" "rs \<noteq> []"
    and "list_all plain_line (hs @ rendition_lines rs)"
    and "disk s path = Some (text_of (hs @ rendition_lines rs))"
  shows "removeDetectionTargetRendition path bitrate s = (removed_url bitrate rs [], None,
    write_disk path (text_of (hs @ rendition_lines (filter (\<lambda>(i, u). \<not> str_contains u bitrate) rs))) s)"
  using master_scan_playlist [OF assms(1-3), of bitrate "[]"] scan_lines_text_of [OF assms(4)] assms(5)
  by (simp add: removeDetectionTargetRendition_def kept_renditions_def)

text \<open>
  A further line after the last rendition is written behind a second copy of that rendition's tag
  and an empty line, because the tag is still remembered as the line before.
\<close>

theorem master_playlist_repeats_tag:
  assumes "list_all (\<lambda>l. \<not> is_inf l) hs" "renditions_ok rs" "rs \<noteq> []"
    and "list_all plain_line (hs @ rendition_lines rs @ [line])"
    and "disk s path = Some (text_of (hs @ rendition_lines rs @ [line]))"
    and "\<not> is_inf line" "\<not> str_contains line bitrate" "\<not> str_contains (snd (last rs)) bitrate"
  shows "removeDetectionTargetRendition path bitrate s = (removed_url bitrate rs [], None,
    write_disk path (text_of (hs @ rendition_lines (filter (\<lambda>(i, u). \<not> str_contains u bitrate) rs) @
      [fst (last rs), [], line])) s)"
proof -
  have "is_inf (fst (last rs))" using assms(2) last_in_set [OF assms(3)]
    by (cases "last rs") (auto simp: renditions_ok_def list_all_iff)
  then have "is_inf (fst (last rs) @ [NL])" by simp
  then have "master_scan bitrate [line] (fst (last rs) @ [NL]) url out =
      (url, out @ text_of [fst (last rs), [], line])" for url out
    using assms(6,7) by (simp add: is_inf_def [symmetric] Let_def del: is_inf_newline)
  then show ?thesis
    using master_scan_playlist [OF assms(1-3), of bitrate "[line]"] scan_lines_text_of [OF assms(4)] assms(5,8)
    by (simp add: removeDetectionTargetRendition_def kept_renditions_def)
qed

definition master_renditions :: "(string \<times> string) list" where
  "master_renditions =
     [(''#EXT-X-STREAM-INF:BANDWIDTH=200000'', ''video_150k/playlist.m3u8''),
      (''#EXT-X-STREAM-INF:BANDWIDTH=600000'', ''video_500k/playlist.m3u8'')]"

lemma master_renditions_ok:
  "renditions_ok master_renditions" "master_renditions \<noteq> []" "\<not> is_inf ''#EXTM3U''" "\<not> is_inf ''#''"
  by code_simp+

lemma master_plain: "list_all plain_line ([''#EXTM3U''] @ rendition_lines master_renditions @ [''#''])"
  by (simp add: master_renditions_def plain_line_def NL_def)

theorem master_playlist_filtered_witness:
  "removeDetectionTargetRendition ''/t/master.m3u8'' ''150k''
      (playlist_state ''/t/master.m3u8'' ([''#EXTM3U''] @ rendition_lines master_renditions)) =
    (''video_150k/playlist.m3u8'', None, write_disk ''/t/master.m3u8''
      (text_of ([''#EXTM3U''] @ rendition_lines [last master_renditions]))
      (playlist_state ''/t/master.m3u8'' ([''#EXTM3U''] @ rendition_lines master_renditions)))"
proof -
  let ?s = "playlist_state ''/t/master.m3u8'' ([''#EXTM3U''] @ rendition_lines master_renditions)"
  have "filter (\<lambda>(i, u). \<not> str_contains u ''150k'') master_renditions = [last master_renditions]"
    "removed_url ''150k'' master_renditions [] = ''video_150k/playlist.m3u8''" by code_simp+
  then show ?thesis
    using master_playlist_filtered [of "[''#EXTM3U'']" master_renditions ?s "''/t/master.m3u8''" "''150k''"]
      master_renditions_ok master_plain by (simp add: playlist_state_def)
qed

theorem master_playlist_repeats_tag_witness:
  "\<exists>url s'. removeDetectionTargetRendition ''/t/master.m3u8'' ''150k''
      (playlist_state ''/t/master.m3u8'' ([''#EXTM3U''] @ rendition_lines master_renditions @ [''#''])) = (url, None, s') \<and>
    disk s' ''/t/master.m3u8'' = Some (text_of ([''#EXTM3U''] @ rendition_lines [last master_renditions] @
      [''#EXT-X-STREAM-INF:BANDWIDTH=600000'', [], ''#'']))"
proof -
  let ?s = "playlist_state ''/t/master.m3u8'' ([''#EXTM3U''] @ rendition_lines master_renditions @ [''#''])"
  have "filter (\<lambda>(i, u). \<not> str_contains u ''150k'') master_renditions = [last master_renditions]"
    "fst (last master_renditions) = ''#EXT-X-STREAM-INF:BANDWIDTH=600000''"
    "\<not> str_contains ''#'' ''150k''" "\<not> str_contains (snd (last master_renditions)) ''150k''"
    by code_simp+
  then show ?thesis
    using master_playlist_repeats_tag [of "[''#EXTM3U'']" master_renditions "''#''" ?s "''/t/master.m3u8''" "''150k''"]
      master_renditions_ok master_plain by (simp add: playlist_state_def write_disk_def)
qed

end
