(* ===== verification/TranscoderSpec.thy ===== *)
theory TranscoderSpec
  imports Transcoder UploadSpec PlaylistSpec
begin

text \<open>
  Object detection over the runs of the transcoder: at most one detection runs at a time, and three
  ways in which it comes to a halt for good. Then the files that the watcher withholds from upload,
  and the supervision of ffmpeg and the packager.
\<close>

section \<open>What the other operations leave alone\<close>

definition detection_part :: "transcoder \<Rightarrow> detectionJob list \<times> detectionJob list \<times> int" where
  "detection_part s =
     (queued_detection_jobs s, running_detection_jobs s, num_concurrent_detection_jobs s)"

text \<open>The clock is read in order.\<close>

definition clock_ok :: "transcoder \<Rightarrow> bool" where
  "clock_ok s \<longleftrightarrow> list_all (\<lambda>t. tc_now s \<le> t) (tc_clock s) \<and> sorted (tc_clock s)"

definition apart :: "transcoder \<Rightarrow> transcoder \<Rightarrow> bool" where
  "apart s s' \<longleftrightarrow> detection_part s' = detection_part s \<and>
     (clock_ok s \<longrightarrow> clock_ok s' \<and> tc_now s \<le> tc_now s')"

named_theorems apart_intros \<open>operations that leave the detection jobs alone\<close>

lemma apart_refl [apart_intros]: "apart s s"
  by (simp add: apart_def)

lemma apart_trans: "apart s t \<Longrightarrow> apart t u \<Longrightarrow> apart s u"
  by (auto simp: apart_def)

lemma apart_Now:
  assumes "tc_Now s = (t, s')"
  shows "apart s s' \<and> (clock_ok s \<longrightarrow> tc_now s \<le> t \<and> tc_now s' = t)"
proof (cases "tc_clock s")
  case Nil
  then have "t = tc_now s \<and> s' = s" using assms by (auto simp: tc_Now_def)
  then show ?thesis by (simp add: apart_refl)
next
  case (Cons u us)
  then have "t = u \<and> s' = s\<lparr>tc_clock := us, tc_now := u\<rparr>" using assms by (auto simp: tc_Now_def)
  then show ?thesis
    using Cons by (simp add: apart_def detection_part_def clock_ok_def list_all_iff)
qed

text \<open>A change of other fields only.\<close>

lemma apart_fields:
  "detection_part s' = detection_part s \<Longrightarrow> tc_now s' = tc_now s \<Longrightarrow> tc_clock s' = tc_clock s \<Longrightarrow> apart s s'"
  by (simp add: apart_def clock_ok_def)

lemma apart_push [apart_intros]: "apart s (push_upload it s)"
  by (rule apart_fields) (simp_all add: push_upload_def detection_part_def)

lemma apart_write [apart_intros]: "apart s (write_disk path data s)"
  by (rule apart_fields) (simp_all add: write_disk_def detection_part_def)

lemma apart_remove [apart_intros]: "apart s (os_Remove path s)"
  by (rule apart_fields) (simp_all add: os_Remove_def detection_part_def)

lemma apart_rename [apart_intros]: "apart s (os_Rename old new s)"
  by (rule apart_fields) (simp_all add: os_Rename_def detection_part_def split: option.splits)

lemma apart_add [apart_intros]: "apart s (addToUploadList path remote s)"
proof -
  obtain t s1 where now: "tc_Now s = (t, s1)" by force
  have "apart s1 (addToUploadList path remote s)"
    using now by (auto simp: addToUploadList_def Let_def push_upload_def detection_part_def
        intro!: apart_fields)
  with apart_Now [OF now] show ?thesis by (blast intro: apart_trans)
qed

lemma apart_s3: "apart s (snd (s3_Upload path name bucket s))"
  by (rule apart_fields) (simp_all add: s3_Upload_def Let_def detection_part_def)

lemma apart_enqueue: "enqueue_init path r s = Some s' \<Longrightarrow> apart s s'"
  by (auto simp: enqueue_init_def apart_refl apart_push split: if_splits option.splits)

lemma apart_upload_one: "uploadOneFile path remote s = Some r \<Longrightarrow> apart s (snd r)"
  by (auto simp: uploadOneFile_def Let_def apart_refl split: if_splits option.splits prod.splits)
    (metis apart_s3 apart_enqueue apart_trans snd_conv)+

lemma apart_reaches:
  assumes "reaches s f now s2"
  shows "apart s s2"
proof -
  obtain rest s1 where "tc_Now s = (now, s1)" "s2 = s1\<lparr>upload_list := rest\<rparr>"
    using assms by (auto simp: reaches_def)
  then show ?thesis
    using apart_Now apart_fields [of s2 s1] by (auto simp: detection_part_def intro: apart_trans)
qed

lemma apart_list [apart_intros]: "apart s (s\<lparr>upload_list := l\<rparr>)"
  by (rule apart_fields) (simp_all add: detection_part_def)

lemma apart_upload_scan: "upload_scan i kept s = Some s' \<Longrightarrow> apart s s'"
proof (induction rule: upload_scan_induct)
  case (Upload i kept s f now s2 r s')
  have "apart s2 (after_upload f r)"
    using apart_upload_one [OF Upload(4)] by (auto simp: after_upload_def intro: apart_trans apart_push)
  with Upload(1,5) apart_reaches show ?case by (blast intro: apart_trans)
qed (blast intro: apart_trans apart_reaches apart_list)+

lemma apart_uploadFiles: "uploadFiles s = Some s' \<Longrightarrow> apart s s'"
  unfolding uploadFiles_def by (rule apart_upload_scan)

lemma apart_playlist:
  "updatePlaylistNewDetectedSegment playlist orig s = Some (e, path, s') \<Longrightarrow> apart s s'"
  by (auto simp: updatePlaylistNewDetectedSegment_def intro: apart_intros
      split: option.splits prod.splits if_splits)

lemma apart_master: "apart s (snd (snd (removeDetectionTargetRendition path bitrate s)))"
  by (auto simp: removeDetectionTargetRendition_def Let_def intro: apart_intros
      split: option.splits prod.splits)

lemma apart_init: "apart s (upload_detected_init init remote s)"
proof -
  have "apart s (s\<lparr>upload_candidate_detection_init_segment := init\<rparr>)"
    by (rule apart_fields) (simp_all add: detection_part_def)
  then show ?thesis
    by (auto simp: upload_detected_init_def apart_refl intro: apart_trans apart_add)
qed

lemma apart_publish:
  assumes "publish_detected dj init media s = Some s'"
  shows "apart s s'"
proof -
  let ?s1 = "upload_detected_init init (dj_Remote_media_output_path dj) s"
  obtain segment e playlist s3 where segment: "detected_segment_name (Original_media_data_segment_path dj) = Some segment"
    and pl: "updatePlaylistNewDetectedSegment
        (original_detection_target_hls_playlist_path_local
          (addToUploadList segment (dj_Remote_media_output_path dj) (os_Rename media segment ?s1)))
        (Original_media_data_segment_path dj)
        (addToUploadList segment (dj_Remote_media_output_path dj) (os_Rename media segment ?s1)) = Some (e, playlist, s3)"
    and s': "s' = (case e of None \<Rightarrow> addToUploadList playlist (dj_Remote_media_output_path dj) s3 | Some _ \<Rightarrow> s3)"
    using assms by (auto simp: publish_detected_def Let_def split: option.splits prod.splits)
  have "apart s3 s'" using s' by (cases e) (auto intro: apart_intros)
  with apart_playlist [OF pl] apart_add apart_rename apart_init show ?thesis
    by (meson apart_trans)
qed

section \<open>The abstract detection queue\<close>

text \<open>
  What object detection promises: a queue, the jobs at work, a counter and the time. \<open>may_succeed\<close>
  tells whether any detection can succeed.
\<close>

record detection_queue =
  dq_waiting :: "detectionJob list"
  dq_working :: "detectionJob list"
  dq_count :: int
  dq_time :: go_time

definition detection_limit :: "detectionJob \<Rightarrow> int" where
  "detection_limit dj = wrap64 (Segment_duration (Output (dj_LiveJob dj)) * 1000)"

inductive dq_step :: "bool \<Rightarrow> detection_queue \<Rightarrow> detection_queue \<Rightarrow> bool" for may_succeed where
  Time_passes: "dq_time q \<le> t \<Longrightarrow> dq_step may_succeed q (q\<lparr>dq_time := t\<rparr>)"
| Enqueued: "dq_time q \<le> t \<Longrightarrow> Time_enqueued dj = UnixMilli t \<Longrightarrow>
    dq_step may_succeed q (q\<lparr>dq_time := t, dq_waiting := dq_waiting q @ [dj]\<rparr>)"
| Started: "dq_waiting q = dj # rest \<Longrightarrow> dq_count q < 1 \<Longrightarrow> dq_time q \<le> t \<Longrightarrow>
    UnixMilli t - Time_enqueued dj \<le> detection_limit dj \<Longrightarrow>
    dq_step may_succeed q (q\<lparr>dq_time := t, dq_waiting := rest, dq_working := dq_working q @ [dj],
      dq_count := dq_count q + 1\<rparr>)"
| Failed: "dj \<in> set (dq_working q) \<Longrightarrow> dq_time q \<le> t \<Longrightarrow>
    dq_step may_succeed q (q\<lparr>dq_working := remove1 dj (dq_working q), dq_time := t\<rparr>)"
| Succeeded: "may_succeed \<Longrightarrow> dj \<in> set (dq_working q) \<Longrightarrow> dq_time q \<le> t \<Longrightarrow>
    dq_step may_succeed q (q\<lparr>dq_working := remove1 dj (dq_working q),
      dq_count := dq_count q - 1, dq_time := t\<rparr>)"

definition dq_of :: "transcoder \<Rightarrow> detection_queue" where
  "dq_of s = \<lparr>dq_waiting = queued_detection_jobs s, dq_working = running_detection_jobs s,
     dq_count = num_concurrent_detection_jobs s, dq_time = tc_now s\<rparr>"

lemma dq_of_sel [simp]:
  "dq_waiting (dq_of s) = queued_detection_jobs s" "dq_working (dq_of s) = running_detection_jobs s"
  "dq_count (dq_of s) = num_concurrent_detection_jobs s" "dq_time (dq_of s) = tc_now s"
  by (simp_all add: dq_of_def)

lemma dq_of_apart:
  assumes "apart s s'" "clock_ok s"
  shows "clock_ok s' \<and> tc_now s \<le> tc_now s' \<and> dq_of s' = (dq_of s)\<lparr>dq_time := tc_now s'\<rparr>"
  using assms by (auto simp: apart_def detection_part_def dq_of_def)

lemma apart_refines: "apart s s' \<Longrightarrow> clock_ok s \<Longrightarrow> clock_ok s' \<and> dq_step m (dq_of s) (dq_of s')"
  using dq_of_apart [of s s'] Time_passes [of "dq_of s" "tc_now s'" m] by simp

subsection \<open>The timer\<close>

lemma Now_dq:
  assumes "tc_Now s = (t, s1)" "clock_ok s"
  shows "clock_ok s1" "tc_now s \<le> t" "dq_of s1 = (dq_of s)\<lparr>dq_time := t\<rparr>"
  using apart_Now [OF assms(1)] dq_of_apart [of s s1] assms(2) by auto

lemma next_job_refines:
  assumes ok: "clock_ok s"
  shows "clock_ok (executeNextDetectionJob s) \<and>
    dq_step m (dq_of s) (dq_of (executeNextDetectionJob s))"
proof -
  obtain t s1 where now: "tc_Now s = (t, s1)" by force
  note d = Now_dq [OF now ok]
  have keep: "apart s s1" using apart_Now [OF now] by simp
  show ?thesis
  proof (cases "queued_detection_jobs s")
    case Nil
    then show ?thesis
      using apart_refines [OF apart_refl ok] by (simp add: executeNextDetectionJob_def)
  next
    case (Cons dj rest)
    consider (full) "num_concurrent_detection_jobs s \<ge> 1"
      | (late) "num_concurrent_detection_jobs s < 1" "UnixMilli t - Time_enqueued dj > detection_limit dj"
      | (start) "num_concurrent_detection_jobs s < 1" "UnixMilli t - Time_enqueued dj \<le> detection_limit dj"
      by linarith
    then show ?thesis
    proof cases
      case full
      then show ?thesis using Cons apart_refines [OF apart_refl ok]
        by (simp add: executeNextDetectionJob_def max_concurrent_detection_jobs_def)
    next
      case late
      then show ?thesis using Cons now apart_refines [OF keep ok]
        by (simp add: executeNextDetectionJob_def max_concurrent_detection_jobs_def detection_limit_def)
    next
      case start
      let ?s' = "s1\<lparr>num_concurrent_detection_jobs := num_concurrent_detection_jobs s1 + 1,
        queued_detection_jobs := rest, running_detection_jobs := running_detection_jobs s1 @ [dj]\<rparr>"
      have s': "executeNextDetectionJob s = ?s'"
        using start Cons now
        by (simp add: executeNextDetectionJob_def max_concurrent_detection_jobs_def detection_limit_def)
      have "dq_of ?s' = (dq_of s)\<lparr>dq_time := t, dq_waiting := rest,
          dq_working := dq_working (dq_of s) @ [dj], dq_count := dq_count (dq_of s) + 1\<rparr>"
        using d(3) by (simp add: dq_of_def)
      moreover have "clock_ok ?s'" using d(1) by (simp add: clock_ok_def)
      ultimately show ?thesis
        using Started [of "dq_of s" dj rest t m] start Cons d(2) s' by simp
    qed
  qed
qed

subsection \<open>The end of a detection\<close>

definition detector_succeeds :: "detect_env \<Rightarrow> bool" where
  "detector_succeeds env \<longleftrightarrow> (\<exists>args d ok out d'. env_detector env args d = (ok, out, d') \<and>
     (ok \<or> str_contains out ''NNPACK''))"

lemma run_detection_ok:
  assumes "run_detection env j input timescale s = Some (detected, True, s1)"
  shows "detector_succeeds env"
proof -
  obtain args ok out d' where "env_detector env args (disk s) = (ok, out, d')"
    "ok \<or> str_contains out ''NNPACK''"
    using assms by (auto simp: run_detection_def Let_def split: option.splits prod.splits)
  then show ?thesis unfolding detector_succeeds_def by blast
qed

lemma run_detection_apart:
  "run_detection env j input timescale s = Some (detected, ok, s1) \<Longrightarrow> apart s s1"
  by (auto simp: run_detection_def Let_def detection_part_def intro: apart_fields
      split: option.splits prod.splits)

lemma mp4_apart: "mp4_to_fmp4 env input d s = (init, media, ok, s1) \<Longrightarrow> apart s s1"
  by (auto simp: mp4_to_fmp4_def Let_def detection_part_def intro: apart_fields split: prod.splits)

lemma stamp_apart: "apart s (stamp_segment env path t s)"
  by (simp add: stamp_segment_def Let_def apart_write)

text \<open>After a detection that succeeded only the counter differs, as far as the queue goes.\<close>

lemma executeDetectionJob_apart:
  assumes "executeDetectionJob env dj s = Some s'"
  shows "apart s s' \<or>
    (detector_succeeds env \<and>
     apart (s\<lparr>num_concurrent_detection_jobs := num_concurrent_detection_jobs s - 1\<rparr>) s')"
proof -
  obtain detected ok s1 where run: "run_detection env (dj_LiveJob dj) (Merged_segment_path dj)
      (Sidx_timescale dj) s = Some (detected, ok, s1)"
    using assms by (auto simp: executeDetectionJob_def split: option.splits prod.splits)
  note a1 = run_detection_apart [OF run]
  show ?thesis
  proof (cases ok)
    case False
    then show ?thesis using assms run a1 by (simp add: executeDetectionJob_def)
  next
    case True
    let ?s = "s\<lparr>num_concurrent_detection_jobs := num_concurrent_detection_jobs s - 1\<rparr>"
    let ?s2 = "os_Remove (Merged_segment_path dj)
        (s1\<lparr>num_concurrent_detection_jobs := num_concurrent_detection_jobs s1 - 1\<rparr>)"
    obtain init media converted s3 where mp4: "mp4_to_fmp4 env detected
        (Segment_duration (Output (dj_LiveJob dj))) ?s2 = (init, media, converted, s3)"
      by (metis prod_cases4)
    let ?s4 = "os_Remove detected (stamp_segment env media (BaseMediaDecodeTime dj) s3)"
    have fin: "(if converted then publish_detected dj init media ?s4 else Some ?s4) = Some s'"
      using assms run mp4 True by (simp add: executeDetectionJob_def Let_def split: if_splits)
    have "apart ?s (s1\<lparr>num_concurrent_detection_jobs := num_concurrent_detection_jobs s1 - 1\<rparr>)"
      using a1 by (auto simp: apart_def detection_part_def clock_ok_def)
    then have "apart ?s ?s4"
      using mp4_apart [OF mp4] stamp_apart apart_remove by (meson apart_trans)
    moreover have "apart ?s4 s'"
      using fin apart_publish by (auto simp: apart_refl split: if_splits)
    ultimately have "apart ?s s'" by (rule apart_trans)
    moreover have "detector_succeeds env" using run True by (auto dest: run_detection_ok)
    ultimately show ?thesis by blast
  qed
qed

lemma finished_refines:
  assumes ok: "clock_ok s" and dj: "dj \<in> set (running_detection_jobs s)"
    and run: "executeDetectionJob env dj (finish_job dj s) = Some s'"
  shows "clock_ok s' \<and> dq_step (detector_succeeds env) (dq_of s) (dq_of s')"
proof -
  let ?s1 = "finish_job dj s"
  let ?s2 = "?s1\<lparr>num_concurrent_detection_jobs := num_concurrent_detection_jobs ?s1 - 1\<rparr>"
  have q1: "clock_ok ?s1" "dq_of ?s1 = (dq_of s)\<lparr>dq_working := remove1 dj (dq_working (dq_of s))\<rparr>"
    and q2: "clock_ok ?s2" "dq_of ?s2 = (dq_of s)\<lparr>dq_working := remove1 dj (dq_working (dq_of s)),
      dq_count := dq_count (dq_of s) - 1\<rparr>"
    using ok by (simp_all add: finish_job_def clock_ok_def dq_of_def)
  have t: "tc_now ?s1 = tc_now s" "tc_now ?s2 = tc_now s" by (simp_all add: finish_job_def)
  from executeDetectionJob_apart [OF run] show ?thesis
  proof
    assume "apart ?s1 s'"
    from dq_of_apart [OF this q1(1)] show ?thesis
      using Failed [of dj "dq_of s" "tc_now s'" "detector_succeeds env"] dj t q1(2) by simp
  next
    assume a: "detector_succeeds env \<and> apart ?s2 s'"
    from dq_of_apart [OF conjunct2 [OF a] q2(1)] show ?thesis
      using Succeeded [of "detector_succeeds env" dj "dq_of s" "tc_now s'"] a dj t q2(2) by simp
  qed
qed

subsection \<open>The watcher\<close>

lemma merge_apart:
  "merge_init_and_data_segments a b s = Some (r, s1) \<Longrightarrow> apart s s1"
  by (auto simp: merge_init_and_data_segments_def apart_refl apart_write split: option.splits if_splits)

lemma watch_plain_apart: "apart s (watch_plain cfg name s)"
  by (simp add: watch_plain_def Let_def apart_add apart_trans [OF apart_master apart_add])

lemma watch_segment_refines:
  assumes w: "watch_segment env cfg name s = Some s'" and ok: "clock_ok s"
  shows "clock_ok s' \<and> dq_step m (dq_of s) (dq_of s')"
proof (cases "original_detection_target_init_segment_path_local s = []")
  case True
  then show ?thesis using w apart_refines [OF apart_refl ok] by (simp add: watch_segment_def)
next
  case False
  let ?init = "original_detection_target_init_segment_path_local s"
  obtain r s1 where m: "merge_init_and_data_segments ?init name s = Some (r, s1)"
    using w False by (auto simp: watch_segment_def Let_def split: option.splits)
  note a1 = merge_apart [OF m]
  show ?thesis
  proof (cases r)
    case None
    then have "s' = s1\<lparr>watching := False\<rparr>" using w False m by (simp add: watch_segment_def)
    then have "apart s s'"
      using a1 apart_fields [of s' s1] by (auto simp: detection_part_def intro: apart_trans)
    from apart_refines [OF this ok] show ?thesis .
  next
    case (Some merged)
    obtain t s2 where now: "tc_Now (os_Remove name s1) = (t, s2)" by force
    define dj where "dj = \<lparr>Time_enqueued = UnixMilli t, Merged_segment_path = merged,
        dj_LiveJob = wc_job cfg, Original_media_data_segment_path = name,
        dj_Remote_media_output_path = wc_remote cfg,
        BaseMediaDecodeTime = read_baseMediaDecodeTime env name s,
        Sidx_timescale = read_sidx_timescale env name s\<rparr>"
    have s': "s' = s2\<lparr>queued_detection_jobs := queued_detection_jobs s2 @ [dj]\<rparr>"
      using w False m Some now by (simp add: watch_segment_def dj_def)
    have a: "apart s (os_Remove name s1)" using a1 apart_remove by (rule apart_trans)
    from dq_of_apart [OF this ok] have ok1: "clock_ok (os_Remove name s1)" by simp
    note n = Now_dq [OF now ok1]
    have t: "tc_now s \<le> t" using dq_of_apart [OF a ok] n(2) by linarith
    have "dq_of s2 = (dq_of s)\<lparr>dq_time := t\<rparr>" using dq_of_apart [OF a ok] n(3) by simp
    then have "dq_of s' = (dq_of s)\<lparr>dq_time := t, dq_waiting := dq_waiting (dq_of s) @ [dj]\<rparr>"
      by (simp add: s' dq_of_def)
    moreover have "clock_ok s'" using n(1) by (simp add: s' clock_ok_def)
    moreover have "Time_enqueued dj = UnixMilli t" by (simp add: dj_def)
    ultimately show ?thesis using Enqueued [of "dq_of s" t dj m] t by simp
  qed
qed

lemma watcher_refines:
  assumes w: "watchStreamFiles env cfg name s = Some s'" and ok: "clock_ok s"
  shows "clock_ok s' \<and> dq_step m (dq_of s) (dq_of s')"
proof (cases "watching s \<and> isStreamFile name \<and> isDetectionTarget name (wc_bitrate cfg) \<and>
    isDetectionTargetTypeMediaDataSegment name (wc_bitrate cfg)")
  case True
  then show ?thesis
    using w watch_segment_refines [OF _ ok] by (simp add: watchStreamFiles_def Let_def)
next
  case False
  have "apart s (s\<lparr>original_detection_target_init_segment_path_local := name\<rparr>)"
    "apart s (s\<lparr>original_detection_target_hls_playlist_path_local := name\<rparr>)"
    by (rule apart_fields; simp add: detection_part_def)+
  then have "apart s s'"
    using False w apart_refl watch_plain_apart
    by (auto simp: watchStreamFiles_def Let_def split: if_splits)
  from apart_refines [OF this ok] show ?thesis .
qed

subsection \<open>All steps\<close>

lemma tc_step_detection:
  assumes "tc_step env cfg s s'" and ok: "clock_ok s"
  shows "clock_ok s' \<and> dq_step (detector_succeeds env) (dq_of s) (dq_of s')"
  using assms(1)
proof cases
  case (Environment t ts as)
  then have "apart s s'"
    using ok by (simp add: apart_def detection_part_def clock_ok_def)
  from apart_refines [OF this ok] show ?thesis .
next
  case (Write_file path data)
  with apart_refines [OF apart_write ok] show ?thesis by simp
next
  case (Remove_file path)
  with apart_refines [OF apart_remove ok] show ?thesis by simp
next
  case (New_file name)
  from watcher_refines [OF this ok] show ?thesis .
next
  case Upload_tick
  from apart_refines [OF apart_uploadFiles [OF this] ok] show ?thesis .
next
  case Detect_tick
  with next_job_refines [OF ok] show ?thesis by simp
next
  case (Detect_end dj)
  from finished_refines [OF ok this] show ?thesis .
qed

text \<open>
  C5. Refinement: every step of the transcoder, started with a clock that runs forward, is a step
  of the abstract detection queue: time passes, a job is enqueued with the time of the step, the
  front job is started while none is counted and it is no older than a segment, or a running job
  ends, with the counter going down only if a detection can succeed.
\<close>

theorem detection_refines:
  assumes "tc_step env cfg s s'" "clock_ok s"
  shows "clock_ok s' \<and> dq_step (detector_succeeds env) (dq_of s) (dq_of s')"
  using assms by (rule tc_step_detection)

section \<open>How detection comes to a halt\<close>

lemma detection_refines_steps:
  assumes "(tc_step env cfg)\<^sup>*\<^sup>* s s'" "clock_ok s"
  shows "clock_ok s' \<and> (dq_step (detector_succeeds env))\<^sup>*\<^sup>* (dq_of s) (dq_of s')"
  using assms
proof (induction rule: rtranclp_induct)
  case (step t u)
  from tc_step_detection [OF step(2)] step show ?case by (meson rtranclp.rtrancl_into_rtrancl)
qed simp

lemma clock_ok_init: "clock_ok (init_transcoder d now)"
  by (simp add: clock_ok_def init_transcoder_def)

lemma dq_counted:
  assumes "(dq_step m)\<^sup>*\<^sup>* q q'"
    and "int (length (dq_working q)) \<le> dq_count q \<and> dq_count q \<le> 1"
  shows "int (length (dq_working q')) \<le> dq_count q' \<and> dq_count q' \<le> 1"
  using assms
proof (induction rule: rtranclp_induct)
  case (step t u)
  from step(2) step(3) [OF step(4)] show ?case
  proof cases
    case (Failed dj)
    then show ?thesis using step(3) [OF step(4)] by (simp add: length_remove1)
  next
    case (Succeeded dj)
    then have "dq_working t \<noteq> []" by auto
    then have "int (length (dq_working t) - 1) = int (length (dq_working t)) - 1"
      by (cases "dq_working t") simp_all
    with Succeeded step(3) [OF step(4)] show ?thesis by (simp add: length_remove1)
  qed auto
qed simp

text \<open>
  C14. At most one detection runs at a time: in every state that the transcoder reaches the counter
  is at most 1 and no less than the number of detections at work. (It can be more: see the next
  property.)
\<close>

theorem one_detection_at_a_time:
  assumes "(tc_step env cfg)\<^sup>*\<^sup>* (init_transcoder d now) s"
  shows "int (length (running_detection_jobs s)) \<le> num_concurrent_detection_jobs s \<and>
    num_concurrent_detection_jobs s \<le> 1"
proof -
  from detection_refines_steps [OF assms clock_ok_init]
  have "(dq_step (detector_succeeds env))\<^sup>*\<^sup>* (dq_of (init_transcoder d now)) (dq_of s)" by simp
  from dq_counted [OF this] show ?thesis by (simp add: init_transcoder_def)
qed

lemma dq_never_again:
  assumes "(dq_step m)\<^sup>*\<^sup>* q q'" and "dq_working q = []" "dq_count q = 1"
  shows "dq_working q' = [] \<and> dq_count q' = 1 \<and> (\<exists>new. dq_waiting q' = dq_waiting q @ new)"
  using assms
proof (induction rule: rtranclp_induct)
  case (step t u)
  from step(2) step(3) [OF step(4,5)] show ?case by cases auto
qed simp

text \<open>The counter after a detection that failed.\<close>

lemma failed_execute:
  assumes "run_detection env (dj_LiveJob dj) (Merged_segment_path dj) (Sidx_timescale dj) s =
      Some (detected, False, s1)"
    and "executeDetectionJob env dj s = Some s'"
  shows "apart s s'"
  using assms run_detection_apart [OF assms(1)] by (simp add: executeDetectionJob_def)

text \<open>
  C34. The code forgets to count a failed detection as ended: once one detection has failed, no other
  ever starts, in no continuation of the run. The queue keeps every job it holds and grows with
  each new segment.
\<close>

theorem failed_detection_stops_all:
  assumes run: "(tc_step env cfg)\<^sup>*\<^sup>* (init_transcoder d now) s"
    and dj: "dj \<in> set (running_detection_jobs s)"
    and fails: "run_detection env (dj_LiveJob dj) (Merged_segment_path dj) (Sidx_timescale dj)
      (finish_job dj s) = Some (detected, False, s1)"
    and "end": "executeDetectionJob env dj (finish_job dj s) = Some s2"
    and more: "(tc_step env cfg)\<^sup>*\<^sup>* s2 s3"
  shows "running_detection_jobs s3 = [] \<and> num_concurrent_detection_jobs s3 = 1 \<and>
    (\<exists>new. queued_detection_jobs s3 = queued_detection_jobs s2 @ new)"
proof -
  have ok: "clock_ok s" using detection_refines_steps [OF run clock_ok_init] by simp
  have "dq_working (dq_of (init_transcoder d now)) = []" "dq_count (dq_of (init_transcoder d now)) = 0"
    by (simp_all add: init_transcoder_def)
  with detection_refines_steps [OF run clock_ok_init] dq_counted [of _ "dq_of (init_transcoder d now)" "dq_of s"]
  have "int (length (running_detection_jobs s)) \<le> num_concurrent_detection_jobs s"
    "num_concurrent_detection_jobs s \<le> 1" by auto
  moreover have "length (running_detection_jobs s) > 0" using dj by (cases "running_detection_jobs s") auto
  ultimately have one: "length (running_detection_jobs s) = 1" "num_concurrent_detection_jobs s = 1"
    by linarith+
  have a: "apart (finish_job dj s) s2" using failed_execute [OF fails "end"] .
  have "running_detection_jobs (finish_job dj s) = []" "num_concurrent_detection_jobs (finish_job dj s) = 1"
    using one dj by (auto simp: finish_job_def length_remove1 simp flip: length_0_conv)
  with a have s2: "dq_working (dq_of s2) = []" "dq_count (dq_of s2) = 1"
    by (simp_all add: apart_def detection_part_def)
  have "clock_ok (finish_job dj s)" using ok by (simp add: clock_ok_def finish_job_def)
  with a have "clock_ok s2" by (simp add: apart_def)
  with detection_refines_steps [OF more] dq_never_again [OF _ s2] show ?thesis by fastforce
qed

lemma dq_late_front:
  assumes "(dq_step m)\<^sup>*\<^sup>* q q'" and "dq_waiting q = dj # rest"
    and "UnixMilli (dq_time q) - Time_enqueued dj > detection_limit dj"
  shows "\<exists>new. dq_waiting q' = dj # rest @ new \<and> dq_time q \<le> dq_time q' \<and>
    set (dq_working q') \<subseteq> set (dq_working q)"
  using assms
proof (induction rule: rtranclp_induct)
  case (step t u)
  from step(3) [OF step(4,5)] obtain new where new: "dq_waiting t = dj # rest @ new"
    "dq_time q \<le> dq_time t" "set (dq_working t) \<subseteq> set (dq_working q)" by blast
  have late: "UnixMilli x - Time_enqueued dj > detection_limit dj" if "dq_time t \<le> x" for x
    using UnixMilli_mono [of "dq_time q" x] new(2) that step(5) by linarith
  from step(2) show ?case
  proof cases
    case (Started dj' rest' x)
    with new late [of x] show ?thesis by auto
  qed (use new set_remove1_subset in \<open>fastforce+\<close>)
qed simp

text \<open>
  C35. Ordering: a job that has waited at the front of the queue for longer than a segment is neither
  started nor taken off. From then on no detection starts in any continuation of the run: the job
  stays at the front with all others behind it, and the only detections at work are those that
  already were.
\<close>

theorem late_job_blocks_queue:
  assumes "(tc_step env cfg)\<^sup>*\<^sup>* s s'" "clock_ok s"
    and "queued_detection_jobs s = dj # rest"
    and "UnixMilli (tc_now s) - Time_enqueued dj >
      wrap64 (Segment_duration (Output (dj_LiveJob dj)) * 1000)"
  shows "\<exists>new. queued_detection_jobs s' = dj # rest @ new \<and>
    set (running_detection_jobs s') \<subseteq> set (running_detection_jobs s)"
  using detection_refines_steps [OF assms(1,2)]
    dq_late_front [of "detector_succeeds env" "dq_of s" "dq_of s'" dj rest] assms(3,4)
  by (auto simp: detection_limit_def)

section \<open>A run up to the first detection\<close>

definition sample_init :: string where "sample_init = ''/o/150k/init.mp4''"
definition sample_segment :: string where "sample_segment = ''/o/150k/seg_1.m4s''"

definition watched_job :: LiveJobSpec where
  "watched_job = zero_Spec\<lparr>Output := (Output zero_Spec)\<lparr>Segment_duration := 2,
     Detection := zero_Detection\<lparr>Input_video_bitrate := ''150k''\<rparr>\<rparr>\<rparr>"

definition sample_watch :: watch_config where
  "sample_watch = \<lparr>wc_job = watched_job, wc_remote = ''b/output_1/'', wc_bitrate = ''150k''\<rparr>"

text \<open>A detector that fails, and one that succeeds.\<close>

definition sample_env :: "bool \<Rightarrow> detect_env" where
  "sample_env works = \<lparr>env_detector = (\<lambda>args d. (works, [], d)), env_mp4box = (\<lambda>args d. (works, d)),
     env_GetTfdt = (\<lambda>data. 7), env_SetTfdt = (\<lambda>data t. data), env_GetSidx_Timescale = (\<lambda>data. 1000)\<rparr>"

definition sample_detection :: detectionJob where
  "sample_detection = \<lparr>Time_enqueued = 0, Merged_segment_path = ''/o/150k/seg_1.merged'',
     dj_LiveJob = watched_job, Original_media_data_segment_path = sample_segment,
     dj_Remote_media_output_path = ''b/output_1/'', BaseMediaDecodeTime = 7, Sidx_timescale = 1000\<rparr>"

definition sample_started :: transcoder where
  "sample_started = write_disk sample_segment ''d''
     ((write_disk sample_init ''i'' (init_transcoder Map.empty 0))
       \<lparr>original_detection_target_init_segment_path_local := sample_init\<rparr>)"

definition sample_queued :: transcoder where
  "sample_queued = (os_Remove sample_segment (write_disk ''/o/150k/seg_1.merged'' ''id'' sample_started))
     \<lparr>queued_detection_jobs := [sample_detection]\<rparr>"

definition sample_running :: transcoder where
  "sample_running = sample_queued\<lparr>queued_detection_jobs := [],
     running_detection_jobs := [sample_detection], num_concurrent_detection_jobs := 1\<rparr>"

lemma sample_names:
  "isStreamFile sample_init" "isStreamFile sample_segment"
  "isDetectionTarget sample_init ''150k''" "isDetectionTarget sample_segment ''150k''"
  "\<not> isDetectionTargetTypeMediaDataSegment sample_init ''150k''"
  "isDetectionTargetTypeMediaDataSegment sample_segment ''150k''"
  "isDetectionTargetTypeMediaInitSegment sample_init ''150k''"
  "Change_file_extension sample_segment ''.merged'' = Some ''/o/150k/seg_1.merged''"
  "Change_file_extension ''/o/150k/seg_1.merged'' ''.detected'' = Some ''/o/150k/seg_1.detected''"
  "sample_init \<noteq> sample_segment" "sample_init \<noteq> []" "sample_init \<noteq> ''/o/150k/seg_1.merged''"
  by code_simp+

lemma sample_watch_init:
  "watchStreamFiles env sample_watch sample_init (write_disk sample_init ''i'' (init_transcoder Map.empty 0)) =
     Some ((write_disk sample_init ''i'' (init_transcoder Map.empty 0))
       \<lparr>original_detection_target_init_segment_path_local := sample_init\<rparr>)"
  by (simp add: watchStreamFiles_def sample_names sample_watch_def write_disk_def init_transcoder_def)

lemma sample_watch_segment:
  "watchStreamFiles (sample_env works) sample_watch sample_segment sample_started = Some sample_queued"
  by (simp add: watchStreamFiles_def watch_segment_def sample_names sample_watch_def write_disk_def
      init_transcoder_def sample_started_def sample_queued_def sample_detection_def sample_env_def
      merge_init_and_data_segments_def os_Remove_def tc_Now_def read_baseMediaDecodeTime_def
      read_sidx_timescale_def UnixMilli_def sample_names(10) [symmetric])

lemma sample_start: "executeNextDetectionJob sample_queued = sample_running"
  by (simp add: executeNextDetectionJob_def sample_queued_def sample_running_def sample_started_def
      write_disk_def init_transcoder_def os_Remove_def tc_Now_def max_concurrent_detection_jobs_def
      UnixMilli_def sample_detection_def watched_job_def zero_Spec_def wrap64_def)

lemma sample_reaches_queued:
  "(tc_step (sample_env works) sample_watch)\<^sup>*\<^sup>* (init_transcoder Map.empty 0) sample_queued"
proof -
  let ?s0 = "init_transcoder Map.empty 0"
  let ?s2 = "(write_disk sample_init ''i'' ?s0)
       \<lparr>original_detection_target_init_segment_path_local := sample_init\<rparr>"
  let ?R = "tc_step (sample_env works) sample_watch"
  have "?R ?s0 (write_disk sample_init ''i'' ?s0)" by (rule tc_step.Write_file)
  moreover have "?R (write_disk sample_init ''i'' ?s0) ?s2"
    by (rule tc_step.New_file [OF sample_watch_init])
  moreover have "?R ?s2 sample_started" unfolding sample_started_def by (rule tc_step.Write_file)
  moreover have "?R sample_started sample_queued"
    by (rule tc_step.New_file [OF sample_watch_segment])
  ultimately show ?thesis
    by (meson converse_rtranclp_into_rtranclp rtranclp.rtrancl_refl)
qed

lemma sample_reaches_running:
  "(tc_step (sample_env works) sample_watch)\<^sup>*\<^sup>* (init_transcoder Map.empty 0) sample_running"
  using sample_reaches_queued tc_step.Detect_tick [where s = sample_queued, unfolded sample_start]
  by (rule rtranclp.rtrancl_into_rtrancl)

theorem one_detection_at_a_time_witness:
  "length (running_detection_jobs sample_running) = 1 \<and> num_concurrent_detection_jobs sample_running \<le> 1"
  using one_detection_at_a_time [OF sample_reaches_running [of True]]
  by (simp add: sample_running_def)

lemma sample_ok: "clock_ok sample_queued" "tc_now sample_queued = 0"
  by (simp_all add: clock_ok_def sample_queued_def sample_started_def write_disk_def os_Remove_def
      init_transcoder_def)

theorem detection_refines_witness:
  "dq_step (detector_succeeds (sample_env False)) (dq_of sample_queued) (dq_of sample_running)"
  using detection_refines [OF tc_step.Detect_tick [where env = "sample_env False" and cfg = sample_watch] sample_ok(1)]
  by (simp add: sample_start)

text \<open>The failing detector: the next segment is queued and waits forever.\<close>

lemma sample_fails:
  "\<exists>s1. run_detection (sample_env False) watched_job ''/o/150k/seg_1.merged'' 1000
     (finish_job sample_detection sample_running) = Some (''/o/150k/seg_1.detected'', False, s1)"
proof -
  have "slice_to (Get_path_filename ''/o/150k/seg_1.merged'')
      (str_last_index (Get_path_filename ''/o/150k/seg_1.merged'') ''.'') = Some ''seg_1''"
    "\<not> str_contains [] ''NNPACK''" by code_simp+
  then show ?thesis
    by (simp add: run_detection_def sample_names GenerateDetectionCommand_def sample_env_def Let_def)
qed

definition sample_again :: transcoder where
  "sample_again = (os_Remove sample_segment (write_disk ''/o/150k/seg_1.merged'' ''id''
     (write_disk sample_segment ''d'' (finish_job sample_detection sample_running))))
     \<lparr>queued_detection_jobs := [sample_detection]\<rparr>"

lemma sample_watch_again:
  "watchStreamFiles (sample_env works) sample_watch sample_segment
     (write_disk sample_segment ''d'' (finish_job sample_detection sample_running)) = Some sample_again"
  by (simp add: watchStreamFiles_def watch_segment_def sample_names sample_watch_def write_disk_def
      init_transcoder_def sample_started_def sample_queued_def sample_detection_def sample_env_def
      sample_running_def sample_again_def finish_job_def
      merge_init_and_data_segments_def os_Remove_def tc_Now_def read_baseMediaDecodeTime_def
      read_sidx_timescale_def UnixMilli_def sample_names(10) [symmetric])

theorem failed_detection_stops_all_witness:
  "running_detection_jobs (executeNextDetectionJob sample_again) = []"
proof -
  let ?s2 = "finish_job sample_detection sample_running"
  let ?R = "tc_step (sample_env False) sample_watch"
  obtain s1 where fails: "run_detection (sample_env False) watched_job ''/o/150k/seg_1.merged'' 1000
      ?s2 = Some (''/o/150k/seg_1.detected'', False, s1)"
    using sample_fails by blast
  then have "s1 = ?s2"
    by (auto simp: run_detection_def sample_env_def Let_def split: option.splits)
  then have "end": "executeDetectionJob (sample_env False) sample_detection ?s2 = Some ?s2"
    using fails by (simp add: executeDetectionJob_def sample_detection_def)
  have "?R ?s2 (write_disk sample_segment ''d'' ?s2)" by (rule tc_step.Write_file)
  moreover have "?R (write_disk sample_segment ''d'' ?s2) sample_again"
    by (rule tc_step.New_file [OF sample_watch_again])
  moreover have "?R sample_again (executeNextDetectionJob sample_again)" by (rule tc_step.Detect_tick)
  ultimately have "?R\<^sup>*\<^sup>* ?s2 (executeNextDetectionJob sample_again)"
    by (meson converse_rtranclp_into_rtranclp rtranclp.rtrancl_refl)
  from failed_detection_stops_all [OF sample_reaches_running _ _ "end" this] fails
  show ?thesis by (simp add: sample_detection_def sample_running_def)
qed

theorem late_job_blocks_queue_witness:
  "\<exists>new. queued_detection_jobs (executeNextDetectionJob
     (sample_queued\<lparr>tc_now := 3000000000\<rparr>)) = [sample_detection] @ new"
proof -
  let ?s = "sample_queued\<lparr>tc_now := 3000000000\<rparr>"
  have "(tc_step (sample_env True) sample_watch)\<^sup>*\<^sup>* ?s (executeNextDetectionJob ?s)"
    by (rule r_into_rtranclp) (rule tc_step.Detect_tick)
  moreover have "clock_ok ?s"
    by (simp add: clock_ok_def sample_queued_def sample_started_def write_disk_def os_Remove_def
        init_transcoder_def)
  ultimately show ?thesis
    using late_job_blocks_queue [of "sample_env True" sample_watch ?s _ sample_detection "[]"]
    by (simp add: sample_queued_def UnixMilli_def sample_detection_def watched_job_def zero_Spec_def
        wrap64_def)
qed

section \<open>New files\<close>

lemma tc_Now_disk: "tc_Now (s\<lparr>disk := d\<rparr>) = (fst (tc_Now s), (snd (tc_Now s))\<lparr>disk := d\<rparr>)"
  by (cases "tc_clock s") (simp_all add: tc_Now_def)

lemma tc_Now_keeps [simp]:
  "disk (snd (tc_Now s)) = disk s" "upload_list (snd (tc_Now s)) = upload_list s"
  "init_segments_to_upload (snd (tc_Now s)) = init_segments_to_upload s"
  "queued_detection_jobs (snd (tc_Now s)) = queued_detection_jobs s"
  "original_detection_target_hls_playlist_path_local (snd (tc_Now s)) =
     original_detection_target_hls_playlist_path_local s"
  "upload_candidate_detection_init_segment (snd (tc_Now s)) = upload_candidate_detection_init_segment s"
  "num_concurrent_detection_jobs (snd (tc_Now s)) = num_concurrent_detection_jobs s"
  by (cases "tc_clock s"; simp add: tc_Now_def)+

text \<open>
  C30. A new data segment of the rendition to detect, once that rendition's init segment is known,
  is merged with it into a file next to it, is deleted, and becomes a detection job with its
  decode time and time scale at the end of the queue; it is not put on the upload list.
\<close>

theorem new_segment_queued:
  assumes "watching s" "isStreamFile name" "isDetectionTargetTypeMediaDataSegment name (wc_bitrate cfg)"
    and "init = original_detection_target_init_segment_path_local s" "init \<noteq> []"
    and "disk s init = Some i" "disk s name = Some data" "data \<noteq> []"
    and "name = base @ ''.m4s''"
  shows "\<exists>s' now. watchStreamFiles env cfg name s = Some s' \<and> fst (tc_Now s) = now \<and>
    disk s' = (disk s)(base @ ''.merged'' \<mapsto> i @ data, name := None) \<and>
    queued_detection_jobs s' = queued_detection_jobs s @
      [\<lparr>Time_enqueued = UnixMilli now, Merged_segment_path = base @ ''.merged'',
        dj_LiveJob = wc_job cfg, Original_media_data_segment_path = name,
        dj_Remote_media_output_path = wc_remote cfg, BaseMediaDecodeTime = env_GetTfdt env data,
        Sidx_timescale = env_GetSidx_Timescale env data\<rparr>] \<and>
    upload_list s' = upload_list s \<and> init_segments_to_upload s' = init_segments_to_upload s"
proof -
  have merged: "Change_file_extension (base @ ''.m4s'') ''.merged'' = Some (base @ ''.merged'')"
    using Change_file_extension_dot [of "''m4s''" base "''.merged''"] by simp
  have target: "isDetectionTarget name (wc_bitrate cfg)"
    using assms(3) by (simp add: isDetectionTarget_def isDetectionTargetTypeMediaDataSegment_def)
  show ?thesis
    using assms target merged
    by (simp add: watchStreamFiles_def watch_segment_def merge_init_and_data_segments_def
        read_baseMediaDecodeTime_def read_sidx_timescale_def os_Remove_def write_disk_def
        tc_Now_disk)
qed

text \<open>
  A file counts as part of the rendition to detect when its path contains the bitrate of that
  rendition anywhere, and no such file is ever put on the upload list.
\<close>

lemma target_files_withheld:
  assumes "str_contains name (wc_bitrate cfg)" "watchStreamFiles env cfg name s = Some s'"
  shows "upload_list s' = upload_list s \<and> init_segments_to_upload s' = init_segments_to_upload s"
proof (cases "watching s \<and> isStreamFile name \<and>
    isDetectionTargetTypeMediaDataSegment name (wc_bitrate cfg) \<and>
    original_detection_target_init_segment_path_local s \<noteq> []")
  case True
  let ?m = "merge_init_and_data_segments (original_detection_target_init_segment_path_local s) name s"
  have w: "watch_segment env cfg name s = Some s'"
    using True assms by (simp add: watchStreamFiles_def isDetectionTarget_def)
  obtain r s1 where m: "?m = Some (r, s1)"
    using w True by (auto simp: watch_segment_def Let_def split: option.splits)
  then have s1: "upload_list s1 = upload_list s" "init_segments_to_upload s1 = init_segments_to_upload s"
    by (auto simp: merge_init_and_data_segments_def write_disk_def split: option.splits if_splits)
  obtain t s2 where now: "tc_Now (os_Remove name s1) = (t, s2)" by force
  have "upload_list s2 = upload_list s" "init_segments_to_upload s2 = init_segments_to_upload s"
    using arg_cong [OF now, of snd] s1 tc_Now_keeps [of "os_Remove name s1"] by (simp_all add: os_Remove_def)
  with w True m now s1 show ?thesis
    by (cases r) (auto simp: watch_segment_def)
next
  case False
  with assms show ?thesis
    by (auto simp: watchStreamFiles_def Let_def isDetectionTarget_def watch_segment_def split: if_splits)
qed

text \<open>
  Detection without a bitrate: the request is taken with a warning only, the transcoder is
  started, and from then on no file that ffmpeg or the packager makes is put on the upload list,
  of no rendition, because every path contains the empty text.
\<close>

theorem missing_bitrate_withholds_all:
  assumes "transcoder_main job_id j drm random = Some t"
    and "NeedObjectDetection j" "Input_video_bitrate (Detection (Output j)) = []"
    and "watchStreamFiles env (setup_watch t) name s = Some s'"
  shows "upload_list s' = upload_list s \<and> init_segments_to_upload s' = init_segments_to_upload s"
proof -
  have "Detection (Output (transcoder_spec j)) = Detection (Output j)"
    by (simp add: transcoder_spec_def AddDetectionVideoOutput_def Let_def)
  then have "wc_bitrate (setup_watch t) = []"
    using assms(1-3) by (auto simp: transcoder_main_def Let_def setup_watch_def
        detection_target_bitrate_def NeedObjectDetection_def split: if_splits prod.splits)
  then have "str_contains name (wc_bitrate (setup_watch t))"
    by (cases name) (simp_all add: str_contains_def)
  from target_files_withheld [OF this assms(4)] show ?thesis .
qed

section \<open>The end of a detection\<close>

lemma run_detection_state:
  assumes "run_detection env j input timescale s = Some (detected, ok, s1)"
  shows "\<exists>dk. s1 = s\<lparr>disk := dk\<rparr>"
  using assms by (auto simp: run_detection_def Let_def split: option.splits prod.splits)

text \<open>
  Without an HLS playlist, as in a DASH stream, the transcoder panics at the end of the first
  detection that succeeds: the name of the playlist to update is empty, and the text before its
  last dot is cut at place -1.
\<close>

theorem detection_without_playlist_panics:
  assumes "original_detection_target_hls_playlist_path_local s = []"
    and "run_detection env (dj_LiveJob dj) (Merged_segment_path dj) (Sidx_timescale dj) s =
      Some (detected, True, s1)"
    and "\<And>args d. fst (env_mp4box env args d)"
  shows "executeDetectionJob env dj s = None"
proof -
  have none: "updatePlaylistNewDetectedSegment [] orig u = None" for orig u
    by (simp add: updatePlaylistNewDetectedSegment_def detected_playlist_path_def str_last_index_def
        go_int_of_index_def slice_to_def slice_def)
  have keep: "original_detection_target_hls_playlist_path_local (addToUploadList p r u) =
      original_detection_target_hls_playlist_path_local u"
    "original_detection_target_hls_playlist_path_local (os_Rename p r u) =
      original_detection_target_hls_playlist_path_local u"
    "original_detection_target_hls_playlist_path_local (upload_detected_init p r u) =
      original_detection_target_hls_playlist_path_local u" for p r u
    by (simp_all add: addToUploadList_def Let_def push_upload_def split_beta os_Rename_def
        upload_detected_init_def split: option.splits)
  obtain dk where s1: "s1 = s\<lparr>disk := dk\<rparr>" using run_detection_state [OF assms(2)] by blast
  have publish: "publish_detected dj init media u = None"
    if "original_detection_target_hls_playlist_path_local u = []" for init media u
    using that by (simp add: publish_detected_def Let_def keep none split: option.splits)
  let ?u = "os_Remove (Merged_segment_path dj)
    (s1\<lparr>num_concurrent_detection_jobs := num_concurrent_detection_jobs s1 - 1\<rparr>)"
  obtain init media converted s3 where mp4: "mp4_to_fmp4 env detected
      (Segment_duration (Output (dj_LiveJob dj))) ?u = (init, media, converted, s3)"
    by (metis prod_cases4)
  obtain d2 where "env_mp4box env (GenerateFmp4ConversionCommand detected
      (Segment_duration (Output (dj_LiveJob dj)))) (disk ?u) = (True, d2)"
    using assms(3) by (metis prod.collapse)
  with mp4 have "converted" "s3 = ?u\<lparr>disk := d2\<rparr>" by (simp_all add: mp4_to_fmp4_def Let_def)
  moreover from this have "original_detection_target_hls_playlist_path_local
      (os_Remove detected (stamp_segment env media (BaseMediaDecodeTime dj) s3)) = []"
    using assms(1) by (simp add: s1 os_Remove_def stamp_segment_def write_disk_def Let_def)
  ultimately show ?thesis
    using assms(2) mp4 publish by (simp add: executeDetectionJob_def)
qed

text \<open>The last occurrence of a text whose last character does not come again.\<close>

lemma last_index_of_tail:
  assumes "c \<notin> set b"
  shows "last_index_of (a @ q @ c # b) (q @ [c]) = Some (length a)"
proof (induction a)
  case Nil
  show ?case
  proof (cases q)
    case Nil
    then show ?thesis using last_index_of_char_append [OF assms, of "[]"] by simp
  next
    case (Cons x q')
    have "last_index_of (q' @ c # b) (x # q' @ [c]) = None"
    proof (rule ccontr)
      assume "last_index_of (q' @ c # b) (x # q' @ [c]) \<noteq> None"
      then obtain n where "last_index_of (q' @ c # b) (x # q' @ [c]) = Some n" by blast
      then obtain t where n: "n \<le> length (q' @ c # b)" and t: "drop n (q' @ c # b) = x # q' @ c # t"
        using last_index_of_SomeD [of "q' @ c # b" "x # q' @ [c]" n] by (auto simp: has_prefix_iff)
      have len: "n < length b" using arg_cong [OF t, of length] by simp
      have "drop n (q' @ c # b) ! (length q' + 1) = c" unfolding t by (simp add: nth_append)
      moreover have "drop n (q' @ c # b) ! (length q' + 1) = b ! n"
        using n by (subst nth_drop) (simp_all add: nth_append)
      ultimately show False using assms nth_mem [OF len] by simp
    qed
    moreover have "has_prefix (q @ c # b) (q @ [c])" by (auto simp: has_prefix_iff)
    ultimately show ?thesis by (simp add: Cons)
  qed
qed simp

lemma detected_segment_name_eq:
  assumes "CHR ''_'' \<notin> set rest"
  shows "detected_segment_name (pre @ ''seg_'' @ rest) = Some (pre @ ''segment_'' @ rest)"
proof -
  have "str_last_index (pre @ ''seg_'' @ rest) ''seg_'' = int (length pre)"
    using last_index_of_tail [OF assms, of pre "''seg''"]
    by (simp add: str_last_index_def go_int_of_index_def)
  moreover have "str_last_index (pre @ ''seg_'' @ rest) ''_'' = int (length (pre @ ''seg''))"
    using last_index_of_tail [OF assms, of "pre @ ''seg''" "[]"]
    by (simp add: str_last_index_def go_int_of_index_def)
  moreover have "slice_from (pre @ ''seg_'' @ rest) (int (length (pre @ ''seg_''))) = Some rest"
    using slice_from_append [of "pre @ ''seg_''" rest] by simp
  ultimately show ?thesis
    using slice_to_append [of pre "''seg_'' @ rest"] by (simp add: detected_segment_name_def)
qed

lemma addToUploadList_segment:
  assumes "\<not> isFmp4InitSegment path"
  shows "\<exists>it. upload_list (addToUploadList path remote s) = upload_list s @ [it] \<and>
    File_path it = path \<and> Remote_media_output_path it = remote \<and> Num_retried it = 0"
  using assms by (simp add: addToUploadList_def push_upload_def split_beta)

lemma addToUploadList_frame [simp]:
  "disk (addToUploadList path remote s) = disk s"
  "num_concurrent_detection_jobs (addToUploadList path remote s) = num_concurrent_detection_jobs s"
  "original_detection_target_hls_playlist_path_local (addToUploadList path remote s) =
     original_detection_target_hls_playlist_path_local s"
  "isFmp4InitSegment path \<Longrightarrow> upload_list (addToUploadList path remote s) = upload_list s"
  by (simp_all add: addToUploadList_def Let_def push_upload_def split_beta)

text \<open>The publication of a converted segment, from the state \<open>v\<close> in which it lies on the disk.\<close>

lemma publish_detected_ok:
  assumes v: "disk v media = Some data" "disk v playlist = Some (text_of (front @ line # behind))"
      "original_detection_target_hls_playlist_path_local v = playlist"
    and names: "Original_media_data_segment_path dj = pre @ ''seg_'' @ rest" "CHR ''_'' \<notin> set rest"
      "seg = pre @ ''segment_'' @ rest"
    and playlist: "playlist \<noteq> media" "playlist \<noteq> seg" "new \<noteq> seg"
      "list_all plain_line (front @ line # behind)" "detected_playlist_path playlist = Some new"
    and line: "not_listed (segment_name (pre @ ''seg_'' @ rest)) front"
      "str_contains line (segment_name (pre @ ''seg_'' @ rest))" "str_contains line ''seg_''"
      "\<not> str_contains line ''init.mp4''"
    and kinds: "isFmp4InitSegment init" "\<not> isFmp4InitSegment seg" "\<not> isFmp4InitSegment new"
  shows "\<exists>s' a b. publish_detected dj init media v = Some s' \<and>
    num_concurrent_detection_jobs s' = num_concurrent_detection_jobs v \<and>
    disk s' seg = Some data \<and> disk s' new = Some (text_of (map detected_line (front @ [line]))) \<and>
    upload_list s' = upload_list v @ [a, b] \<and> File_path a = seg \<and> File_path b = new"
proof -
  define remote where "remote = dj_Remote_media_output_path dj"
  define w where "w = upload_detected_init init remote v"
  define x where "x = addToUploadList seg remote (os_Rename media seg w)"
  define y where "y = write_disk new (text_of (map detected_line (front @ [line]))) x"
  have w: "disk w = disk v" "upload_list w = upload_list v"
    "num_concurrent_detection_jobs w = num_concurrent_detection_jobs v"
    "original_detection_target_hls_playlist_path_local w = playlist"
    using kinds(1) v(3) by (simp_all add: w_def upload_detected_init_def)
  have ren: "os_Rename media seg w = w\<lparr>disk := (disk w)(media := None, seg \<mapsto> data)\<rparr>"
    using v(1) w(1) by (simp add: os_Rename_def)
  obtain a where a: "upload_list x = upload_list v @ [a]" "File_path a = seg"
    using addToUploadList_segment [OF kinds(2), of remote "os_Rename media seg w"] w(2) ren
    by (auto simp: x_def)
  have x: "disk x seg = Some data" "disk x playlist = Some (text_of (front @ line # behind))"
    "num_concurrent_detection_jobs x = num_concurrent_detection_jobs v"
    "original_detection_target_hls_playlist_path_local x = playlist"
    using w v(2) playlist(1,2) by (simp_all add: x_def ren)
  have up: "updatePlaylistNewDetectedSegment playlist (Original_media_data_segment_path dj) x = Some (None, new, y)"
    using updatePlaylist_cut [OF playlist(5) x(2) playlist(4) line] unfolding names(1) y_def .
  have "detected_segment_name (Original_media_data_segment_path dj) = Some seg"
    unfolding names(1,3) by (rule detected_segment_name_eq [OF names(2)])
  then have fin: "publish_detected dj init media v = Some (addToUploadList new remote y)"
    using up x(4) by (simp add: publish_detected_def remote_def [symmetric] w_def [symmetric]
        x_def [symmetric] del: addToUploadList_frame)
  obtain b where b: "upload_list (addToUploadList new remote y) = upload_list v @ [a, b]" "File_path b = new"
    using addToUploadList_segment [OF kinds(3), of remote y] a(1) by (auto simp: y_def write_disk_def)
  have "disk (addToUploadList new remote y) seg = Some data"
    "disk (addToUploadList new remote y) new = Some (text_of (map detected_line (front @ [line])))"
    "num_concurrent_detection_jobs (addToUploadList new remote y) = num_concurrent_detection_jobs v"
    using playlist x by (simp_all add: y_def write_disk_def)
  with fin a(2) b show ?thesis by blast
qed


section \<open>The new files and the end of a detection, on the sample run\<close>

theorem new_segment_queued_witness:
  "\<exists>s' now. watchStreamFiles (sample_env True) sample_watch sample_segment sample_started = Some s' \<and>
    fst (tc_Now sample_started) = now \<and>
    disk s' = (disk sample_started)(''/o/150k/seg_1.merged'' \<mapsto> ''id'', sample_segment := None) \<and>
    length (queued_detection_jobs s') = 1 \<and> upload_list s' = []"
proof -
  have "sample_segment = ''/o/150k/seg_1'' @ ''.m4s''" by (simp add: sample_segment_def)
  moreover have "disk sample_started sample_init = Some ''i''" "watching sample_started"
    "disk sample_started sample_segment = Some ''d''" "queued_detection_jobs sample_started = []"
    "original_detection_target_init_segment_path_local sample_started = sample_init"
    "upload_list sample_started = []"
    using sample_names(10)
    by (auto simp: sample_started_def write_disk_def init_transcoder_def)
  ultimately show ?thesis
    using new_segment_queued [of sample_started sample_segment sample_watch sample_init "''i''" "''d''"
        "''/o/150k/seg_1''" "sample_env True"] sample_names
    by (auto simp: sample_watch_def)
qed

definition no_bitrate_job :: LiveJobSpec where
  "no_bitrate_job = zero_Spec\<lparr>Output := (Output zero_Spec)\<lparr>
     Detection := zero_Detection\<lparr>Encode_codec := ''h264''\<rparr>\<rparr>\<rparr>"

theorem missing_bitrate_withholds_all_witness:
  "\<exists>t. transcoder_main ''j1'' no_bitrate_job None None = Some t \<and>
    (\<exists>s'. watchStreamFiles (sample_env True) (setup_watch t) ''/o/video_500k/seg_1.m4s''
        (init_transcoder Map.empty 0) = Some s' \<and> upload_list s' = [])"
proof -
  have need: "NeedObjectDetection no_bitrate_job"
    "Input_video_bitrate (Detection (Output no_bitrate_job)) = []"
    "\<not> HasAV1Output no_bitrate_job"
    by (simp_all add: NeedObjectDetection_def no_bitrate_job_def zero_Detection_def zero_Spec_def
        detection_eq_def HasAV1Output_def)
  then obtain t where t: "transcoder_main ''j1'' no_bitrate_job None None = Some t"
    by (cases "JobSpecToShakaPackagerArgs ''j1'' (transcoder_spec no_bitrate_job)
        (local_output_path ''j1'') None None") (auto simp: transcoder_main_def Let_def)
  moreover have "wc_bitrate (setup_watch t) = []"
    using need t by (auto simp: transcoder_main_def Let_def setup_watch_def transcoder_spec_def
        detection_target_bitrate_def NeedObjectDetection_def AddDetectionVideoOutput_def
        split: prod.splits if_splits)
  moreover have "isStreamFile ''/o/video_500k/seg_1.m4s''"
    "isDetectionTarget ''/o/video_500k/seg_1.m4s'' []"
    "isDetectionTargetTypeMediaDataSegment ''/o/video_500k/seg_1.m4s'' []" by code_simp+
  ultimately have w: "watchStreamFiles (sample_env True) (setup_watch t) ''/o/video_500k/seg_1.m4s''
      (init_transcoder Map.empty 0) = Some (init_transcoder Map.empty 0)"
    by (simp add: watchStreamFiles_def watch_segment_def init_transcoder_def)
  from missing_bitrate_withholds_all [OF t need(1,2) w] w t
  show ?thesis by (auto simp: init_transcoder_def)
qed

theorem detection_without_playlist_panics_witness:
  "executeDetectionJob (sample_env True) sample_detection (finish_job sample_detection sample_running) = None"
proof -
  have "slice_to (Get_path_filename ''/o/150k/seg_1.merged'')
      (str_last_index (Get_path_filename ''/o/150k/seg_1.merged'') ''.'') = Some ''seg_1''"
    by code_simp
  then have "run_detection (sample_env True) watched_job ''/o/150k/seg_1.merged'' 1000
      (finish_job sample_detection sample_running) =
    Some (''/o/150k/seg_1.detected'', True, finish_job sample_detection sample_running)"
    by (simp add: run_detection_def sample_names GenerateDetectionCommand_def sample_env_def Let_def)
  then show ?thesis
    by (intro detection_without_playlist_panics [where detected = "''/o/150k/seg_1.detected''"])
      (simp_all add: sample_detection_def sample_env_def finish_job_def sample_running_def
        sample_queued_def sample_started_def os_Remove_def write_disk_def init_transcoder_def)
qed

definition publish_env :: detect_env where
  "publish_env = (sample_env True)\<lparr>env_mp4box := (\<lambda>args d. (True, d(''/o/150k/segment_init.mp4'' \<mapsto> ''i'',
     ''/o/150k/segment_1.m4s'' \<mapsto> ''m'')))\<rparr>"

definition publish_state :: transcoder where
  "publish_state = (init_transcoder [''/o/150k/playlist.m3u8'' \<mapsto> text_of media_playlist] 0)
     \<lparr>original_detection_target_hls_playlist_path_local := ''/o/150k/playlist.m3u8'',
      num_concurrent_detection_jobs := 1\<rparr>"


end
