(* ===== verification/System.thy ===== *)
theory System
  imports ApiSpec WorkerSpec CommandSpec TranscoderSpec
begin

text \<open>
  Properties that span components: the UDP ports the worker gives to its jobs against the ports the
  transcoders' commands use, and a stop request on its way from the API server through the
  scheduler.
\<close>

section \<open>The UDP ports of a worker's transcoders\<close>

text \<open>The ports of a running job's renditions, as its transcoder numbers them.\<close>

definition job_ports :: "RunningJob \<Rightarrow> int list" where
  "job_ports rj = rendition_ports (transcoder_spec (Spec (rj_Job rj)))"

text \<open>Whether the transcoder adds a rendition for object detection.\<close>

definition adds_rendition :: "LiveJobSpec \<Rightarrow> bool" where
  "adds_rendition j \<longleftrightarrow> NeedObjectDetection j \<and>
     \<not> list_ex (\<lambda>vo. vo_Bitrate vo = Input_video_bitrate (Detection (Output j))) (Video_outputs (Output j))"

definition spec_base :: "RunningJob \<Rightarrow> int" where
  "spec_base rj = JobUdpPortBase (Input (Spec (rj_Job rj)))"

lemma rendition_ports_upto:
  assumes "Video_outputs (Output j) \<noteq> []"
  shows "rendition_ports j = map (\<lambda>i. JobUdpPortBase (Input j) + int i)
    [0..<length (Video_outputs (Output j)) + length (Audio_outputs (Output j))]"
proof -
  let ?v = "length (Video_outputs (Output j))" and ?b = "JobUdpPortBase (Input j)"
  have "int (?v - 1) + 1 = int ?v" using assms by (cases "Video_outputs (Output j)") simp_all
  then have step: "(\<lambda>k. ?b + int (?v - 1) + 1 + int k) = (\<lambda>i. ?b + int i) \<circ> (\<lambda>k. k + ?v)" by auto
  have "map (\<lambda>k. ?b + int (?v - 1) + 1 + int k) [0..<m] = map (\<lambda>i. ?b + int i) [?v..<m + ?v]" for m
    unfolding step by (simp only: map_map [symmetric] map_add_upt)
  moreover have "[0..<?v + m] = [0..<?v] @ [?v..<m + ?v]" for m
    using upt_add_eq_append [of 0 ?v m] by (simp only: add.commute le0)
  ultimately show ?thesis
    by (simp only: rendition_ports_def Let_def last_index_def map_append)
qed

lemma transcoder_spec_plain: "\<not> adds_rendition j \<Longrightarrow> transcoder_spec j = j"
  by (auto simp: adds_rendition_def transcoder_spec_def AddDetectionVideoOutput_def Let_def)

lemma transcoder_spec_added:
  "adds_rendition j \<Longrightarrow> transcoder_spec j = j\<lparr>Output := (Output j)\<lparr>Video_outputs :=
     Video_outputs (Output j) @ [detection_video_output (Detection (Output j))]\<rparr>\<rparr>"
  by (simp add: adds_rendition_def transcoder_spec_def AddDetectionVideoOutput_def Let_def)

text \<open>A job takes the ports from its base up to the base of the next.\<close>

lemma job_ports_set:
  assumes "Video_outputs (Output (Spec (rj_Job rj))) \<noteq> []" "\<not> adds_rendition (Spec (rj_Job rj))"
  shows "set (job_ports rj) = {spec_base rj ..< spec_base rj + job_outputs (rj_Job rj)}"
    "distinct (job_ports rj)"
proof -
  have "int ` {0..<n} = {0..<int n}" for n by (simp add: image_int_atLeastLessThan)
  moreover have "(\<lambda>i. b + i) ` {0..<m} = {b..<b + m}" for b m :: int
    by (simp add: image_add_atLeastLessThan add.commute)
  ultimately have "(\<lambda>i. b + int i) ` {0..<n} = {b..<b + int n}" for b n
    by (metis image_image)
  then show "set (job_ports rj) = {spec_base rj ..< spec_base rj + job_outputs (rj_Job rj)}"
    using assms by (simp add: job_ports_def transcoder_spec_plain rendition_ports_upto spec_base_def
        job_outputs_def)
  show "distinct (job_ports rj)" by (simp add: job_ports_def distinct_rendition_ports)
qed

definition launch_jobs :: "WorkerAppConfig \<Rightarrow> os_env \<Rightarrow> LiveJob list \<Rightarrow> worker_state \<Rightarrow> worker_state" where
  "launch_jobs cfg env js s = foldl (\<lambda>s j. exec_state (launchJob cfg env j) s) s js"

definition plain_spec :: "LiveJobSpec \<Rightarrow> bool" where
  "plain_spec j \<longleftrightarrow> Video_outputs (Output j) \<noteq> [] \<and> \<not> adds_rendition j"

lemma launched_record_spec [simp]:
  "Output (Spec (launched_record cfg rjs j)) = Output (Spec j)"
  "JobUdpPortBase (Input (Spec (launched_record cfg rjs j))) = WorkerUdpPortBase cfg + total_outputs rjs"
  "job_outputs (launched_record cfg rjs j) = job_outputs j"
  by (simp_all add: launched_record_def job_outputs_def)

lemma plain_launched [simp]: "plain_spec (Spec (launched_record cfg rjs j)) = plain_spec (Spec j)"
  by (simp add: plain_spec_def adds_rendition_def NeedObjectDetection_def)

lemma total_outputs_append [simp]: "total_outputs (rjs @ [rj]) = total_outputs rjs + job_outputs (rj_Job rj)"
  by (induction rjs) simp_all

lemma launchJob_running:
  "running_jobs (exec_state (launchJob cfg env j) s) = running_jobs s \<or>
   (\<exists>pid. running_jobs (exec_state (launchJob cfg env j) s) =
      running_jobs s @ [\<lparr>rj_Job = launched_record cfg (running_jobs s) j, rj_Pid = pid\<rparr>])"
  by (auto simp: launchJob_def Let_def run_simps split: prod.splits)

definition ports_in_place :: "WorkerAppConfig \<Rightarrow> RunningJob list \<Rightarrow> bool" where
  "ports_in_place cfg rjs \<longleftrightarrow> distinct (concat (map job_ports rjs)) \<and>
     set (concat (map job_ports rjs)) \<subseteq> {WorkerUdpPortBase cfg ..< WorkerUdpPortBase cfg + total_outputs rjs}"

lemma ports_in_place_launch:
  assumes "ports_in_place cfg rjs" "plain_spec (Spec j)"
  shows "ports_in_place cfg (rjs @ [\<lparr>rj_Job = launched_record cfg rjs j, rj_Pid = pid\<rparr>])"
proof -
  let ?rj = "\<lparr>rj_Job = launched_record cfg rjs j, rj_Pid = pid\<rparr>"
  have "plain_spec (Spec (rj_Job ?rj))" using assms(2) by simp
  then have "set (job_ports ?rj) = {WorkerUdpPortBase cfg + total_outputs rjs ..<
      WorkerUdpPortBase cfg + total_outputs rjs + job_outputs j}" "distinct (job_ports ?rj)"
    using job_ports_set [of ?rj] by (auto simp: plain_spec_def spec_base_def)
  moreover have "0 \<le> job_outputs j" by (simp add: job_outputs_def)
  moreover have "0 \<le> total_outputs rjs" by (induction rjs) (simp_all add: job_outputs_def)
  ultimately show ?thesis using assms(1) unfolding ports_in_place_def by (auto simp: subset_iff)
qed

text \<open>
  C12. As long as no job has ended and no transcoder adds a rendition of its own, the jobs a worker
  launches one after another have distinct UDP ports, all at or above the worker's base: the
  worker's count of outputs agrees with the numbering of the transcoders' commands.
\<close>

theorem launched_jobs_ports_distinct:
  assumes "running_jobs s = []" "list_all (\<lambda>j. plain_spec (Spec j)) js"
  shows "distinct (concat (map job_ports (running_jobs (launch_jobs cfg env js s)))) \<and>
    set (concat (map job_ports (running_jobs (launch_jobs cfg env js s)))) \<subseteq>
      {WorkerUdpPortBase cfg ..<
       WorkerUdpPortBase cfg + total_outputs (running_jobs (launch_jobs cfg env js s))}"
proof -
  have "ports_in_place cfg (running_jobs (launch_jobs cfg env js s))"
    if "ports_in_place cfg (running_jobs s)" for s
    using assms(2) that
  proof (induction js arbitrary: s)
    case (Cons j js)
    have "ports_in_place cfg (running_jobs (exec_state (launchJob cfg env j) s))"
      using launchJob_running [of cfg env j s] ports_in_place_launch [OF Cons.prems(2), of j]
        Cons.prems by auto
    with Cons show ?case by (simp add: launch_jobs_def)
  qed (simp add: launch_jobs_def)
  moreover have "ports_in_place cfg (running_jobs s)" by (simp add: ports_in_place_def assms(1))
  ultimately show ?thesis by (simp only: ports_in_place_def)
qed

lemma ffmpeg_ports:
  assumes "transcoder_main job_id j drm random = Some t" "\<not> HasAV1Output j" "texts_ok (transcoder_spec j)"
    "p \<in> set (rendition_ports (transcoder_spec j))"
  shows "udp_url p \<in> set (ts_ffmpeg_args t)"
proof -
  have "ts_ffmpeg_args t = JobSpecToFFmpegArgs (transcoder_spec j) (local_output_path job_id)"
    using assms(1,2) by (auto simp: transcoder_main_def Let_def split: prod.splits)
  then have "filter is_udp (ts_ffmpeg_args t) =
      map udp_url (rendition_ports (transcoder_spec j) @ [probe_port (transcoder_spec j)])"
    using udp_ffmpeg [OF assms(3)] by simp
  then have "udp_url p \<in> set (filter is_udp (ts_ffmpeg_args t))" using assms(4) by simp
  then show ?thesis by simp
qed

text \<open>
  C36. A rendition added for object detection is not counted by the worker: its job's ports then
  reach up to the base of the next job, and the ffmpeg commands of the two transcoders write to one and
  the same UDP address.
\<close>

theorem detection_port_collides:
  assumes "adds_rendition (Spec j1)" "Video_outputs (Output (Spec j2)) \<noteq> []"
    and "r1 = launched_record cfg rjs j1"
    and "r2 = launched_record cfg (rjs @ [\<lparr>rj_Job = r1, rj_Pid = pid\<rparr>]) j2"
    and "transcoder_main id1 (Spec r1) drm1 random1 = Some t1"
    and "transcoder_main id2 (Spec r2) drm2 random2 = Some t2"
    and "\<not> HasAV1Output (Spec j1)" "\<not> HasAV1Output (Spec j2)"
    and "texts_ok (transcoder_spec (Spec r1))" "texts_ok (transcoder_spec (Spec r2))"
  shows "udp_url (JobUdpPortBase (Input (Spec r2))) \<in> set (ts_ffmpeg_args t1) \<inter> set (ts_ffmpeg_args t2)"
proof -
  let ?p = "JobUdpPortBase (Input (Spec r2))"
  have p: "?p = JobUdpPortBase (Input (Spec r1)) + job_outputs j1"
    by (simp add: assms(3,4))
  have adds: "adds_rendition (Spec r1)"
    using assms(1) by (simp add: assms(3) adds_rendition_def NeedObjectDetection_def)
  have "?p \<in> set (rendition_ports (transcoder_spec (Spec r1)))"
    unfolding p transcoder_spec_added [OF adds]
    by (subst rendition_ports_upto) (auto simp: assms(3) job_outputs_def)
  moreover have "?p \<in> set (rendition_ports (transcoder_spec (Spec r2)))"
  proof -
    have "Video_outputs (Output (transcoder_spec (Spec r2))) \<noteq> []"
      "Input (transcoder_spec (Spec r2)) = Input (Spec r2)"
      using assms(2) by (simp_all add: transcoder_spec_def AddDetectionVideoOutput_def Let_def assms(4))
    then show ?thesis by (subst rendition_ports_upto) (auto simp: image_iff intro!: bexI [of _ 0])
  qed
  moreover have "\<not> HasAV1Output (Spec r1)" "\<not> HasAV1Output (Spec r2)"
    using assms(7,8) by (simp_all add: assms(3,4) HasAV1Output_def)
  ultimately show ?thesis
    using ffmpeg_ports [OF assms(5)] ffmpeg_ports [OF assms(6)] assms(9,10) by blast
qed

section \<open>A stop request that overtakes its job\<close>

lemma available_cong:
  "w_hash w' REDIS_KEY_ALLWORKERS = w_hash w REDIS_KEY_ALLWORKERS \<Longrightarrow> available w' = available w"
  by (simp add: available_def workers_of_def hlookup_def)

lemma w_hash_jobs [simp]:
  "w_hash (put_job j w) REDIS_KEY_ALLWORKERS = w_hash w REDIS_KEY_ALLWORKERS"
  "w_hash (push_job j w) = w_hash w"
  by (simp_all add: put_job_def push_job_def hput_def redis_keys lpush_def rpop_def)

text \<open>One firing: a job to start goes to the end, a stop without a worker is dropped.\<close>

lemma schedule_waits:
  fixes reply
  assumes "quiet w" "store_inv w" "available w = []" "pending w = j # js" "\<not> Stop j" "\<not> Delete j" "json_job j"
  defines "w' \<equiv> exec_state (scheduleOneJob reply) w"
  shows "quiet w' \<and> store_inv w' \<and> pending w' = js @ [j] \<and> w_sent w' = w_sent w"
proof -
  have "available (rpop REDIS_KEY_SCHEDULER_QUEUED_JOBS w) = []"
    using assms(3) available_cong [of "rpop REDIS_KEY_SCHEDULER_QUEUED_JOBS w" w] by simp
  then have "w' = push_job j (rpop REDIS_KEY_SCHEDULER_QUEUED_JOBS w)"
    using assms by (simp add: w'_def run_simps after_schedule_def after_start_def)
  moreover have "quiet w'" "store_inv w'"
    using assms(1,2) store_inv_schedule by (simp_all add: w'_def)
  ultimately show ?thesis using assms(4,7) by simp
qed

lemma schedule_drops_stop:
  assumes "quiet w" "store_inv w" "pending w = j # js" "Stop j" "Assigned_worker_id j = []"
  shows "pending (exec_state (scheduleOneJob reply) w) = js \<and>
    w_sent (exec_state (scheduleOneJob reply) w) = w_sent w"
  using assms by (simp add: run_simps after_schedule_def after_stop_def)


section \<open>Examples\<close>

definition two_rendition_spec :: "ObjectDetectionConfig \<Rightarrow> LiveJobSpec" where
  "two_rendition_spec d = zero_Spec\<lparr>Output := (Output zero_Spec)\<lparr>Detection := d,
     Video_outputs := [sample_video 640 360 ''365k'' ''500k''], Audio_outputs := [\<lparr>ao_Codec = ''aac'', ao_Bitrate = ''64k''\<rparr>]\<rparr>\<rparr>"

definition rendition_job :: "ObjectDetectionConfig \<Rightarrow> string \<Rightarrow> LiveJob" where
  "rendition_job d i = (plain_job i)\<lparr>Spec := two_rendition_spec d\<rparr>"

lemma plain_rendition_job: "plain_spec (Spec (rendition_job zero_Detection i))"
  by (simp add: plain_spec_def adds_rendition_def NeedObjectDetection_def rendition_job_def
      two_rendition_spec_def detection_eq_def zero_Detection_def)

theorem launched_jobs_ports_distinct_witness:
  "distinct (concat (map job_ports (running_jobs (launch_jobs sample_cfg sample_os
     [rendition_job zero_Detection ''a'', rendition_job zero_Detection ''b''] init_worker))))"
  using launched_jobs_ports_distinct [of init_worker
      "[rendition_job zero_Detection ''a'', rendition_job zero_Detection ''b'']" sample_cfg sample_os]
  by (simp add: init_worker_def plain_rendition_job)

definition detect_150k :: ObjectDetectionConfig where
  "detect_150k = zero_Detection\<lparr>Input_video_bitrate := ''150k''\<rparr>"

theorem detection_port_collides_witness:
  "\<exists>t1 t2. let r1 = launched_record sample_cfg [] (rendition_job detect_150k ''a'');
      r2 = launched_record sample_cfg [\<lparr>rj_Job = r1, rj_Pid = None\<rparr>] (rendition_job zero_Detection ''b'') in
    transcoder_main ''a'' (Spec r1) None None = Some t1 \<and>
    transcoder_main ''b'' (Spec r2) None None = Some t2 \<and>
    udp_url (JobUdpPortBase (Input (Spec r2))) \<in> set (ts_ffmpeg_args t1) \<inter> set (ts_ffmpeg_args t2)"
proof -
  let ?r1 = "launched_record sample_cfg [] (rendition_job detect_150k ''a'')"
  let ?r2 = "launched_record sample_cfg [\<lparr>rj_Job = ?r1, rj_Pid = None\<rparr>] (rendition_job zero_Detection ''b'')"
  have av1: "\<not> HasAV1Output (Spec (rendition_job d i))" for d i
    by (simp add: HasAV1Output_def rendition_job_def two_rendition_spec_def sample_video_def AV1_CODEC_def)
  then have main: "\<exists>t. transcoder_main i (Spec (launched_record cfg rjs (rendition_job d i))) None None = Some t"
    for i cfg rjs d
    by (cases "JobSpecToShakaPackagerArgs i (transcoder_spec (Spec (launched_record cfg rjs (rendition_job d i))))
        (local_output_path i) None None") (simp add: transcoder_main_def Let_def HasAV1Output_def)
  obtain t1 t2 where t: "transcoder_main ''a'' (Spec ?r1) None None = Some t1"
    "transcoder_main ''b'' (Spec ?r2) None None = Some t2" using main by blast
  have adds: "adds_rendition (Spec (rendition_job detect_150k ''a''))"
    by (simp add: adds_rendition_def NeedObjectDetection_def rendition_job_def two_rendition_spec_def
        detection_eq_def zero_Detection_def detect_150k_def sample_video_def)
  have "texts_ok (transcoder_spec (Spec ?r1))" "texts_ok (transcoder_spec (Spec ?r2))" by code_simp+
  from detection_port_collides [OF adds _ refl _ t av1 av1 this, where pid = None]
  have "udp_url (JobUdpPortBase (Input (Spec ?r2))) \<in> set (ts_ffmpeg_args t1) \<inter> set (ts_ffmpeg_args t2)"
    by (simp add: rendition_job_def two_rendition_spec_def)
  with t show ?thesis unfolding Let_def by blast
qed

definition waiting_world :: world where
  "waiting_world = push_job sample_live_job (put_job sample_live_job empty_world)"


end
