(* ===== verification/Startup.thy ===== *)
theory Startup
  imports ApiServer SchedulerServer WorkerStatus
begin

text \<open>
  What the \<open>main\<close> functions do before they serve: the configuration of each service with its
  defaults, the addresses they use, and the worker's first registration. What the file system answers is an
  argument.
\<close>

section \<open>Configurations\<close>

record RedisConfig =
  RedisIp :: string
  RedisPort :: string

definition zero_RedisConfig :: RedisConfig where
  "zero_RedisConfig = \<lparr>RedisIp = [], RedisPort = []\<rparr>"

text \<open>\<open>redis_client.CreateClient\<close>: the address it connects to.\<close>

definition CreateClient :: "string \<Rightarrow> string \<Rightarrow> string" where
  "CreateClient redis_ip redis_port = redis_ip @ '':'' @ redis_port"

text \<open>
  A configuration file, by what decoding its text leaves in an empty configuration; \<open>None\<close> for a
  file that cannot be opened, which leaves the configuration empty as well.
\<close>

type_synonym 'c config_files = "string \<Rightarrow> 'c option"

definition decoded :: "'c \<Rightarrow> 'c config_files \<Rightarrow> string \<Rightarrow> 'c" where
  "decoded zero files path = (case files path of None \<Rightarrow> zero | Some c \<Rightarrow> c)"

definition flag_or :: "string \<Rightarrow> string \<Rightarrow> string" where
  "flag_or otherwise flag = (if flag \<noteq> [] then flag else otherwise)"

text \<open>A service about to serve: its queue, the Redis address, its log file and its own address.\<close>

record service =
  sv_queue :: string
  sv_redis :: string
  sv_log :: string
  sv_addr :: string

section \<open>The API server\<close>

record ApiServerConfig =
  Api_server_hostname :: string
  Api_server_port :: string
  Log_path :: string
  Drm_key_server_url :: string
  ac_Queue_name :: string
  ac_Redis :: RedisConfig

definition api_readConfig :: "ApiServerConfig config_files \<Rightarrow> string \<Rightarrow> ApiServerConfig" where
  "api_readConfig = decoded \<lparr>Api_server_hostname = [], Api_server_port = [], Log_path = [],
     Drm_key_server_url = [], ac_Queue_name = [], ac_Redis = zero_RedisConfig\<rparr>"

text \<open>
  The log path of the configuration, when its directory is there or can be made. Which directories
  are missing and whether making one succeeds are arguments.
\<close>

definition api_log_path :: "string \<Rightarrow> (string \<Rightarrow> bool) \<Rightarrow> (string \<Rightarrow> bool) \<Rightarrow> string" where
  "api_log_path path missing mkdir_all =
     (let pos = str_last_index path ''/'' in
      if path \<noteq> [] \<and> pos \<ge> 0 then
        (case slice_to path pos of
           None \<Rightarrow> ''/tmp/api_server.log''
         | Some dir \<Rightarrow> if \<not> missing dir \<or> mkdir_all dir then path else ''/tmp/api_server.log'')
      else ''/tmp/api_server.log'')"

definition api_addr :: "ApiServerConfig \<Rightarrow> string" where
  "api_addr c = flag_or ''0.0.0.0'' (Api_server_hostname c) @ '':'' @ flag_or ''1080'' (Api_server_port c)"

text \<open>\<open>None\<close> is the panic when the log file cannot be created.\<close>

definition api_main ::
    "ApiServerConfig config_files \<Rightarrow> (string \<Rightarrow> bool) \<Rightarrow> (string \<Rightarrow> bool) \<Rightarrow> (string \<Rightarrow> bool) \<Rightarrow>
      string \<Rightarrow> service option" where
  "api_main files missing mkdir_all log_ok flag =
     (let c = api_readConfig files (flag_or ''config.json'' flag);
          log = api_log_path (Log_path c) missing mkdir_all in
      if \<not> log_ok log then None
      else Some \<lparr>sv_queue = ac_Queue_name c,
        sv_redis = CreateClient (RedisIp (ac_Redis c)) (RedisPort (ac_Redis c)), sv_log = log,
        sv_addr = api_addr c\<rparr>)"

section \<open>The scheduler and the key server\<close>

record SchedulerConfig =
  Server_hostname :: string
  Server_port :: string
  sc_Queue_name :: string
  sc_Redis :: RedisConfig

definition sched_readConfig :: "SchedulerConfig config_files \<Rightarrow> string \<Rightarrow> SchedulerConfig" where
  "sched_readConfig = decoded \<lparr>Server_hostname = [], Server_port = [], sc_Queue_name = [],
     sc_Redis = zero_RedisConfig\<rparr>"

definition sched_addr :: "SchedulerConfig \<Rightarrow> string" where
  "sched_addr c = flag_or ''0.0.0.0'' (Server_hostname c) @ '':'' @ flag_or ''80'' (Server_port c)"

definition sched_main ::
    "SchedulerConfig config_files \<Rightarrow> (string \<Rightarrow> bool) \<Rightarrow> string \<Rightarrow> service option" where
  "sched_main files log_ok flag =
     (let c = sched_readConfig files (flag_or ''config.json'' flag);
          log = ''/home/streamer/log/scheduler.log'' in
      if \<not> log_ok log then None
      else Some \<lparr>sv_queue = sc_Queue_name c,
        sv_redis = CreateClient (RedisIp (sc_Redis c)) (RedisPort (sc_Redis c)), sv_log = log,
        sv_addr = sched_addr c\<rparr>)"

record KeyServerConfig =
  kc_Server_hostname :: string
  kc_Server_port :: string
  kc_Redis :: RedisConfig

definition key_readConfig :: "KeyServerConfig config_files \<Rightarrow> string \<Rightarrow> KeyServerConfig" where
  "key_readConfig = decoded \<lparr>kc_Server_hostname = [], kc_Server_port = [], kc_Redis = zero_RedisConfig\<rparr>"

text \<open>The key server has no default address and no queue.\<close>

definition key_main :: "KeyServerConfig config_files \<Rightarrow> (string \<Rightarrow> bool) \<Rightarrow> string \<Rightarrow> service option" where
  "key_main files log_ok flag =
     (let c = key_readConfig files (flag_or ''config.json'' flag);
          log = ''/home/streamer/log/key_server.log'' in
      if \<not> log_ok log then None
      else Some \<lparr>sv_queue = [],
        sv_redis = CreateClient (RedisIp (kc_Redis c)) (RedisPort (kc_Redis c)), sv_log = log,
        sv_addr = kc_Server_hostname c @ '':'' @ kc_Server_port c\<rparr>)"

section \<open>The worker\<close>

definition wk_readConfig :: "WorkerAppConfig config_files \<Rightarrow> string \<Rightarrow> WorkerAppConfig" where
  "wk_readConfig = decoded \<lparr>SchedulerUrl = [], GetPublicIpUrl = [], MyPublicIP = [], WorkerPort = [],
     WorkerUdpPortBase = 0, cf_CpuCapacity = 0, cf_BandwidthCapacity = 0\<rparr>"

definition wk_addr :: "WorkerAppConfig \<Rightarrow> string" where
  "wk_addr c = ''0.0.0.0:'' @ WorkerPort c"

text \<open>
  The worker's address and its variables when it begins to serve: it has tried to register once,
  and a failure is left to the heartbeat.
\<close>

definition wk_main ::
    "WorkerAppConfig config_files \<Rightarrow> (string \<Rightarrow> bool) \<Rightarrow> string \<Rightarrow> string web_reply \<Rightarrow>
      (WorkerInfo \<Rightarrow> LiveWorker web_reply) \<Rightarrow> (string \<times> worker_state) option" where
  "wk_main files log_ok flag ip_reply sched =
     (if \<not> log_ok ''/home/streamer/log/worker_app.log'' then None
      else
        let c = wk_readConfig files (flag_or ''worker_app_config.json'' flag) in
        Some (wk_addr c, exec_state (registerWorker c ip_reply sched) init_worker))"

end
