(* ===== verification/TcStart.thy ===== *)
theory TcStart
  imports Transcoder Worker
begin

text \<open>
  The start of a transcoder, \<open>main\<close> of \<open>worker/transcoder/worker_transcoder.go\<close>: its flags, its
  directories, the programs it runs, in order, and how a start that fails ends. What the operating
  system answers is an argument.
\<close>

section \<open>Flags\<close>

text \<open>
  The flags by what they stand for: a job description by what decoding its text leaves, a key by
  its text. \<open>None\<close> is an empty flag.
\<close>

record tc_flags =
  fl_job_id :: string
  fl_file :: string
  fl_param :: "LiveJobSpec option"
  fl_drm :: "rtext option"

fun set_flag :: "transcoder_arg \<Rightarrow> tc_flags \<Rightarrow> tc_flags" where
  "set_flag (ArgJobId i) f = f\<lparr>fl_job_id := i\<rparr>"
| "set_flag (ArgParam j) f = f\<lparr>fl_param := Some j\<rparr>"
| "set_flag (ArgDrm k) f = f\<lparr>fl_drm := Some (TKey k)\<rparr>"

definition parse_flags :: "transcoder_arg list \<Rightarrow> tc_flags" where
  "parse_flags args = fold set_flag args \<lparr>fl_job_id = [], fl_file = [], fl_param = None, fl_drm = None\<rparr>"

section \<open>What a start does\<close>

text \<open>
  The file with the job (\<open>None\<close>: it cannot be opened), whether the log file can be created, which
  directories are missing when they are looked for, whether making one succeeds, and whether a
  watcher for files can be had.
\<close>

record start_env =
  se_file :: "string \<Rightarrow> LiveJobSpec option"
  se_log :: "string \<Rightarrow> bool"
  se_missing :: "string \<Rightarrow> bool"
  se_mkdir :: "string \<Rightarrow> bool"
  se_watcher :: bool

text \<open>
  A directory that is made, and a program that is run, with its arguments and its working
  directory. A program that does not start leaves a line in the log and nothing else.
\<close>

datatype start_act = Make_dir string | Run string "string list" "string option"

datatype start_end = Returns | Exits int | Panics | Serves tc_setup

definition start_spec :: "start_env \<Rightarrow> tc_flags \<Rightarrow> start_end + LiveJobSpec" where
  "start_spec env f =
     (case fl_param f of
        Some j \<Rightarrow> Inr j
      | None \<Rightarrow>
          if fl_file f \<noteq> [] then
            (case se_file env (fl_file f) of None \<Rightarrow> Inl Returns | Some j \<Rightarrow> Inr j)
          else Inl (Exits 1))"

definition log_name :: "string \<Rightarrow> string" where
  "log_name job_id = ''/home/streamer/log/worker_transcoder_'' @ job_id @ ''.log''"

text \<open>The directories that are made of a list, given those made before, and whether all are there.\<close>

fun make_dirs :: "start_env \<Rightarrow> string list \<Rightarrow> string list \<Rightarrow> string list \<times> bool" where
  "make_dirs env made [] = ([], True)"
| "make_dirs env made (d # ds) =
     (if se_missing env d \<and> d \<notin> set made then
        (if se_mkdir env d then
           (let (new, ok) = make_dirs env (d # made) ds in (d # new, ok))
         else ([], False))
      else make_dirs env made ds)"

text \<open>
  The packager, then the key file, whose failure is ignored, then ffmpeg; or ffmpeg alone, in the
  directory of the job.
\<close>

definition start_encoders ::
    "(KeyInfo \<Rightarrow> string) \<Rightarrow> rtext option \<Rightarrow> tc_setup \<Rightarrow> transcoder \<Rightarrow> start_act list \<times> transcoder" where
  "start_encoders json drm t s =
     (case ts_packager_args t of
        Some args \<Rightarrow>
          ([Run ''packager'' args None, Run ''ffmpeg'' (ts_ffmpeg_args t) None],
           case drm of None \<Rightarrow> s
           | Some k \<Rightarrow> snd (createUploadDrmKeyFile json k (ts_local t) (ts_remote t) s))
      | None \<Rightarrow> ([Run ''ffmpeg'' (ts_ffmpeg_args t) (Some (ts_local t))], s))"

definition start_ffprobe :: "tc_setup \<Rightarrow> start_act" where
  "start_ffprobe t = Run ''sh'' (ts_ffprobe_args t) None"

definition start_watch :: "start_env \<Rightarrow> transcoder \<Rightarrow> transcoder" where
  "start_watch env s = s\<lparr>upload_list := [], watching := se_watcher env\<rparr>"

definition tc_start ::
    "(KeyInfo \<Rightarrow> string) \<Rightarrow> start_env \<Rightarrow> tc_flags \<Rightarrow> int list option \<Rightarrow> transcoder \<Rightarrow>
      start_end \<times> start_act list \<times> transcoder" where
  "tc_start json env f random s =
     (case start_spec env f of
        Inl e \<Rightarrow> (e, [], s)
      | Inr j \<Rightarrow>
          let path = local_output_path (fl_job_id f); (base, base_ok) = make_dirs env [] [path] in
          if \<not> se_log env (log_name (fl_job_id f)) then (Returns, [], s)
          else if \<not> base_ok then (Exits 1, [], s)
          else
            (case transcoder_main (fl_job_id f) j (fl_drm f) random of
               None \<Rightarrow> (Panics, map Make_dir base, s)
             | Some t \<Rightarrow>
                 let (runs, s1) = start_encoders json (fl_drm f) t s;
                     (dirs, ok) = make_dirs env base (map (\<lambda>d. path @ d) (ts_subdirs t));
                     acts = map Make_dir base @ runs @ [start_ffprobe t]
                       @ map Make_dir dirs in
                 if ok then (Serves t, acts, start_watch env s1) else (Exits 1, acts, s1)))"

end
