(* ===== verification/StartSpec.thy ===== *)
theory StartSpec
  imports Startup TcStart WorkerSpec UploadSpec CommandSpec
begin

text \<open>
  What holds once a service has started: the worker's ports from its start on, the addresses without
  a configuration, the directories and programs of a transcoder that serves, what a failed start
  leaves behind, and the upload of the input description.
\<close>

section \<open>The worker from its start on\<close>

lemma wk_main_port_inv:
  assumes "wk_main files log_ok flag ip_reply sched = Some (addr, s)"
  shows "port_inv s"
proof -
  obtain cfg where "s = exec_state (registerWorker cfg ip_reply sched) init_worker"
    using assms by (auto simp: wk_main_def Let_def split: if_splits)
  then show ?thesis
    using registerWorker_frame [of cfg ip_reply sched init_worker] port_inv_init by auto
qed

text \<open>
  C8: in every state the worker reaches from its start, whatever its configuration and whether or
  not it could register, as long as jobs are posted only while a port is free and under ids that no
  running process carries: no port is twice in the list of free ports, no job of the table holds a
  free port, and no two jobs hold the same port, all of them among the fifteen ports from 1935.
\<close>

theorem ports_never_shared:
  assumes "wk_main files log_ok flag ip_reply sched = Some (addr, s0)" "(worker_step cfg)\<^sup>*\<^sup>* s0 s"
  shows "distinct (available_rtmp_ports s) \<and>
    (\<forall>k j. wk_getJobById k s = Some j \<longrightarrow>
       1935 \<le> RtmpIngestPort j \<and> RtmpIngestPort j < 1950 \<and>
       RtmpIngestPort j \<notin> set (available_rtmp_ports s)) \<and>
    (\<forall>k l i j. wk_getJobById k s = Some i \<and> wk_getJobById l s = Some j \<and>
       RtmpIngestPort i = RtmpIngestPort j \<longrightarrow> k = l)"
  by (rule port_inv_unshared [OF port_inv_reachable [OF assms(2) wk_main_port_inv [OF assms(1)]]])

definition sample_files :: "WorkerAppConfig config_files" where
  "sample_files = [''worker_app_config.json'' \<mapsto> sample_cfg]"

lemma sample_wk_main:
  "wk_main sample_files (\<lambda>_. True) [] WebNoReply (\<lambda>info. WebReply 201 (Some (Some
     (zero_LiveWorker\<lparr>lw_Id := ''w'', Info := info\<rparr>)))) =
   Some (''0.0.0.0:2080'', exec_state (registerWorker sample_cfg WebNoReply (\<lambda>info. WebReply 201 (Some (Some
     (zero_LiveWorker\<lparr>lw_Id := ''w'', Info := info\<rparr>))))) init_worker)"
  by (simp add: wk_main_def wk_readConfig_def decoded_def flag_or_def wk_addr_def sample_files_def sample_cfg_def Let_def)

theorem ports_never_shared_witness:
  "let s0 = exec_state (registerWorker sample_cfg WebNoReply (\<lambda>info. WebReply 201 (Some (Some
       (zero_LiveWorker\<lparr>lw_Id := ''w'', Info := info\<rparr>))))) init_worker;
     s = exec_state (wk_post_job sample_cfg sample_os 5 (BodyJob (plain_job ''a''))) s0 in
   distinct (available_rtmp_ports s) \<and>
    (\<forall>k j. wk_getJobById k s = Some j \<longrightarrow>
       1935 \<le> RtmpIngestPort j \<and> RtmpIngestPort j < 1950 \<and>
       RtmpIngestPort j \<notin> set (available_rtmp_ports s)) \<and>
    (\<forall>k l i j. wk_getJobById k s = Some i \<and> wk_getJobById l s = Some j \<and>
       RtmpIngestPort i = RtmpIngestPort j \<longrightarrow> k = l)"
proof -
  let ?s0 = "exec_state (registerWorker sample_cfg WebNoReply (\<lambda>info. WebReply 201 (Some (Some
       (zero_LiveWorker\<lparr>lw_Id := ''w'', Info := info\<rparr>))))) init_worker"
  obtain wid ip where "?s0 = init_worker\<lparr>my_worker_id := wid, my_public_ip := ip\<rparr>"
    using registerWorker_frame by blast
  then have "worker_step sample_cfg ?s0
      (exec_state (wk_post_job sample_cfg sample_os 5 (BodyJob (plain_job ''a''))) ?s0)"
    by (intro worker_step.Post)
      (simp_all add: init_worker_def running_ids_def rtmp_port_base_def max_rtmp_ports_def)
  then show ?thesis
    unfolding Let_def by (intro ports_never_shared [OF sample_wk_main r_into_rtranclp])
qed

section \<open>Addresses\<close>

text \<open>
  Without a configuration file the API server listens on port 1080, the scheduler on port 80, and
  the key server on an empty port of an empty host.
\<close>

lemma addresses_without_configuration:
  "map_option sv_addr (api_main Map.empty missing mkdir_all (\<lambda>_. True) flag) = Some ''0.0.0.0:1080''"
  "map_option sv_addr (sched_main Map.empty (\<lambda>_. True) flag) = Some ''0.0.0.0:80''"
  "map_option sv_addr (key_main Map.empty (\<lambda>_. True) flag) = Some '':''"
  by (simp_all add: api_main_def sched_main_def key_main_def api_readConfig_def sched_readConfig_def
      key_readConfig_def decoded_def flag_or_def sched_addr_def api_addr_def Let_def)

text \<open>The API server falls back to its own log file when the directory of the configured one cannot
  be made, and when the path has no directory.\<close>

lemma api_log_path_cases:
  "CHR ''/'' \<notin> set name \<Longrightarrow> api_log_path (dir @ ''/'' @ name) missing mkdir_all =
     (if missing dir \<and> \<not> mkdir_all dir then ''/tmp/api_server.log'' else dir @ ''/'' @ name)"
  using slice_to_append [of dir "''/'' @ name"]
  by (simp add: api_log_path_def Let_def str_last_index_char)

section \<open>The start of a transcoder\<close>

lemma make_dirs_ok:
  "snd (make_dirs env made ds) \<longleftrightarrow>
     (\<forall>d \<in> set ds. se_missing env d \<and> d \<notin> set made \<longrightarrow> se_mkdir env d)"
  by (induction env made ds rule: make_dirs.induct) (auto split: prod.splits)

lemma make_dirs_made:
  "make_dirs env made ds = (new, True) \<Longrightarrow>
     distinct new \<and> set new = {d \<in> set ds. se_missing env d} - set made"
proof (induction ds arbitrary: made new)
  case (Cons d ds)
  show ?case
  proof (cases "se_missing env d \<and> d \<notin> set made")
    case True
    obtain rest ok where r: "make_dirs env (d # made) ds = (rest, ok)" by fastforce
    with Cons.prems True have "se_mkdir env d" "ok" "new = d # rest" by (auto split: if_splits)
    with Cons.IH [of "d # made" rest] r True show ?thesis by auto
  next
    case False
    with Cons.prems have "make_dirs env made ds = (new, True)" by simp
    from Cons.IH [OF this] False show ?thesis by auto
  qed
qed simp

text \<open>The programs a transcoder runs for a job, in the order in which it starts them.\<close>

definition programs :: "tc_setup \<Rightarrow> start_act list" where
  "programs t =
     (case ts_packager_args t of
        Some args \<Rightarrow> [Run ''packager'' args None, Run ''ffmpeg'' (ts_ffmpeg_args t) None]
      | None \<Rightarrow> [Run ''ffmpeg'' (ts_ffmpeg_args t) (Some (ts_local t))])
     @ [Run ''sh'' (ts_ffprobe_args t) None]"

definition output_dirs :: "tc_setup \<Rightarrow> string list" where
  "output_dirs t = ts_local t # map (\<lambda>d. ts_local t @ d) (ts_subdirs t)"

fun made_dir :: "start_act \<Rightarrow> string option" where
  "made_dir (Make_dir d) = Some d"
| "made_dir (Run p args d) = None"

definition runs_program :: "start_act \<Rightarrow> bool" where
  "runs_program a = (made_dir a = None)"

lemma made_dir_map [simp]:
  "List.map_filter made_dir (map Make_dir ds) = ds" "filter runs_program (map Make_dir ds) = []"
  by (induction ds) (simp_all add: runs_program_def map_filter_simps)

lemma made_dir_programs [simp]:
  "List.map_filter made_dir (xs @ ys) = List.map_filter made_dir xs @ List.map_filter made_dir ys"
  by (simp add: List.map_filter_def)

lemma start_encoders_runs:
  "fst (start_encoders json drm t s) @ [start_ffprobe t] = programs t"
  by (simp add: start_encoders_def start_ffprobe_def programs_def split: option.split)

lemma programs_run [simp]: "filter runs_program (programs t) = programs t"
  "List.map_filter made_dir (programs t) = []"
  by (simp_all add: programs_def runs_program_def map_filter_simps split: option.split)

lemma transcoder_main_paths:
  "transcoder_main job_id j drm random = Some t \<Longrightarrow> ts_local t = local_output_path job_id \<and>
     ts_watch_dirs t = watched_dirs (ts_local t) (ts_subdirs t)"
  by (auto simp: transcoder_main_def Let_def split: if_splits prod.splits)

lemma transcoder_main_remote:
  "transcoder_main job_id j drm random = Some t \<Longrightarrow>
     ts_remote t = Bucket (S3_output (Output j)) @ ''/output_'' @ job_id @ ''/''"
  by (auto simp: transcoder_main_def Let_def split: if_splits prod.splits)

text \<open>What is known once the job is read, the log file is there and the commands can be made.\<close>

lemma tc_start_run:
  assumes "start_spec env f = Inr j" "se_log env (log_name (fl_job_id f))"
    and "transcoder_main (fl_job_id f) j (fl_drm f) random = Some t"
    and "make_dirs env [] [ts_local t] = (base, True)"
    and "make_dirs env base (map (\<lambda>d. ts_local t @ d) (ts_subdirs t)) = (dirs, ok)"
  shows "\<exists>s1. tc_start json env f random s =
    (if ok then Serves t else Exits 1, map Make_dir base @ programs t @ map Make_dir dirs,
     if ok then start_watch env s1 else s1)"
  using assms transcoder_main_paths [OF assms(3)] start_encoders_runs [of json "fl_drm f" t s]
  by (auto simp: tc_start_def Let_def split: prod.splits)

lemma transcoder_main_total: "\<exists>t. transcoder_main job_id j drm random = Some t"
proof (cases "HasAV1Output j")
  case True
  then have "Video_outputs (Output (transcoder_spec j)) \<noteq> []"
    by (auto simp: HasAV1Output_iff transcoder_spec_def AddDetectionVideoOutput_def Let_def)
  from JobSpecToEncoderArgs_total [OF this, of "local_output_path job_id"] True show ?thesis
    by (auto simp: transcoder_main_def Let_def)
next
  case False
  then show ?thesis
    by (cases "JobSpecToShakaPackagerArgs job_id (transcoder_spec j) (local_output_path job_id) drm random")
      (simp add: transcoder_main_def Let_def)
qed

text \<open>
  C9: once the job is read and the log file is there, a start never panics. It ends in a transcoder
  that serves exactly when every directory that is missing can be made: then the encoders are
  started before ffprobe, the packager before ffmpeg, and exactly the missing directories have been
  made, each once. Otherwise the transcoder exits with 1, and unless it is the directory of the job
  that cannot be made, it leaves all the programs running, ffmpeg among them, which nothing stops.
\<close>

theorem transcoder_start_exact:
  fixes json s
  assumes "start_spec env f = Inr j" "se_log env (log_name (fl_job_id f))"
  shows "\<exists>t acts s'. transcoder_main (fl_job_id f) j (fl_drm f) random = Some t \<and>
    (if \<forall>d \<in> set (output_dirs t). se_missing env d \<longrightarrow> se_mkdir env d
     then tc_start json env f random s = (Serves t, acts, s') \<and> filter runs_program acts = programs t \<and>
       distinct (List.map_filter made_dir acts) \<and>
       set (List.map_filter made_dir acts) = {d \<in> set (output_dirs t). se_missing env d}
     else tc_start json env f random s = (Exits 1, acts, s') \<and>
       filter runs_program acts =
         (if se_missing env (ts_local t) \<and> \<not> se_mkdir env (ts_local t) then [] else programs t))"
proof -
  obtain t where t: "transcoder_main (fl_job_id f) j (fl_drm f) random = Some t"
    using transcoder_main_total by blast
  have local: "ts_local t = local_output_path (fl_job_id f)" using transcoder_main_paths [OF t] by simp
  obtain base base_ok where base: "make_dirs env [] [ts_local t] = (base, base_ok)" by fastforce
  obtain dirs ok where dirs: "make_dirs env base (map (\<lambda>d. ts_local t @ d) (ts_subdirs t)) = (dirs, ok)"
    by fastforce
  have base': "make_dirs env [] [ts_local t] = (base, True)" if base_ok using base that by simp
  have base_ok: "base_ok \<longleftrightarrow> (se_missing env (ts_local t) \<longrightarrow> se_mkdir env (ts_local t))"
    using base make_dirs_ok [of env "[]" "[ts_local t]"] by simp
  show ?thesis
  proof (cases base_ok)
    case False
    then have "tc_start json env f random s = (Exits 1, [], s)"
      using base local assms by (simp add: tc_start_def Let_def)
    then show ?thesis using t False base_ok by (intro exI [of _ t]) (simp add: output_dirs_def)
  next
    case True
    obtain s' where run: "tc_start json env f random s =
        (if ok then Serves t else Exits 1, map Make_dir base @ programs t @ map Make_dir dirs, s')"
      using tc_start_run [OF assms t base' [OF True] dirs] by (metis (full_types))
    note new = make_dirs_made [OF base' [OF True]]
    have "ok \<longleftrightarrow> (\<forall>d \<in> set (output_dirs t). se_missing env d \<longrightarrow> se_mkdir env d)"
      using dirs make_dirs_ok [of env base "map (\<lambda>d. ts_local t @ d) (ts_subdirs t)"] new True base_ok
      by (auto simp: output_dirs_def)
    moreover have "distinct (base @ dirs) \<and> set (base @ dirs) = {d \<in> set (output_dirs t). se_missing env d}"
      if ok using make_dirs_made [OF dirs [simplified that]] new that by (auto simp: output_dirs_def)
    ultimately show ?thesis using t run True base_ok by (intro exI [of _ t]) auto
  qed
qed

text \<open>A job that Shaka packager gets, on an empty disk where the directory of the second rendition
  cannot be made.\<close>

definition sample_flags :: tc_flags where
  "sample_flags = \<lparr>fl_job_id = ''1f'', fl_file = [], fl_param = Some sample_job, fl_drm = None\<rparr>"

definition narrow_env :: start_env where
  "narrow_env = \<lparr>se_file = Map.empty, se_log = (\<lambda>_. True), se_missing = (\<lambda>_. True),
     se_mkdir = (\<lambda>d. d \<noteq> ''/tmp/output_1f/video_550k''), se_watcher = True\<rparr>"

lemma sample_setup:
  assumes "transcoder_main ''1f'' sample_job None None = Some t"
  shows "ts_local t = ''/tmp/output_1f/'' \<and> ''video_550k'' \<in> set (ts_subdirs t)"
proof -
  have "\<not> HasAV1Output sample_job" "transcoder_spec sample_job = sample_job"
    "map video_label (Video_outputs (Output sample_job)) = [''video_365k'', ''video_550k'']"
    by code_simp+
  with assms show ?thesis
    by (auto simp: transcoder_main_def JobSpecToShakaPackagerArgs_def Let_def local_output_path_def
        Media_output_path_prefix_def)
qed

theorem transcoder_start_exact_witness:
  "\<exists>t acts s'. transcoder_main ''1f'' sample_job None None = Some t \<and>
     tc_start (\<lambda>k. []) narrow_env sample_flags None (upload_state [] []) = (Exits 1, acts, s') \<and>
     filter runs_program acts = programs t"
proof -
  have j: "start_spec narrow_env sample_flags = Inr sample_job"
    "se_log narrow_env (log_name (fl_job_id sample_flags))"
    "fl_job_id sample_flags = ''1f''" "fl_drm sample_flags = None"
    by (simp_all add: start_spec_def sample_flags_def narrow_env_def)
  have blocked: "\<not> (\<forall>d \<in> set (output_dirs t). se_missing narrow_env d \<longrightarrow> se_mkdir narrow_env d)"
    "\<not> (se_missing narrow_env (ts_local t) \<and> \<not> se_mkdir narrow_env (ts_local t))"
    if "transcoder_main ''1f'' sample_job None None = Some t" for t
    using sample_setup [OF that] by (auto simp: narrow_env_def output_dirs_def)
  from transcoder_start_exact [OF j(1,2), of None "\<lambda>k. []" "upload_state [] []"] show ?thesis
    unfolding j(3,4) using blocked by (elim exE conjE) (simp only: if_False, blast)
qed

text \<open>The flags a worker passes are read back as the job and, for a protected job, its key.\<close>

lemma parse_transcoder_args:
  "parse_flags (transcoder_args j) = \<lparr>fl_job_id = lj_Id j, fl_file = [], fl_param = Some (Spec j),
     fl_drm = (if Key_id (DrmEncryptionKeyInfo j) \<noteq> [] then Some (TKey (DrmEncryptionKeyInfo j)) else None)\<rparr>"
  by (simp add: parse_flags_def transcoder_args_def)

definition disk_ready :: "start_env \<Rightarrow> bool" where
  "disk_ready env \<longleftrightarrow> (\<forall>f. se_log env f) \<and> (\<forall>d. se_missing env d \<longrightarrow> se_mkdir env d)"

lemma launched_starts:
  assumes "disk_ready env"
  shows "\<exists>t acts s'. transcoder_main (lj_Id j) (Spec j) (fl_drm (parse_flags (transcoder_args j))) random = Some t \<and>
    tc_start json env (parse_flags (transcoder_args j)) random s = (Serves t, acts, s') \<and>
    filter runs_program acts = programs t"
proof -
  let ?f = "parse_flags (transcoder_args j)"
  have f: "start_spec env ?f = Inr (Spec j)" "fl_job_id ?f = lj_Id j"
    by (simp_all add: parse_transcoder_args start_spec_def)
  obtain t where t: "transcoder_main (fl_job_id ?f) (Spec j) (fl_drm ?f) random = Some t"
    using transcoder_main_total by blast
  have dirs: "\<exists>new. make_dirs env made ds = (new, True)" for made ds
    using make_dirs_ok [of env made ds] assms by (cases "make_dirs env made ds") (auto simp: disk_ready_def)
  obtain base new where "make_dirs env [] [ts_local t] = (base, True)"
    "make_dirs env base (map (\<lambda>d. ts_local t @ d) (ts_subdirs t)) = (new, True)"
    using dirs by meson
  from tc_start_run [OF f(1) _ t this, of json s] assms t f(2) show ?thesis
    by (auto simp: disk_ready_def)
qed

text \<open>
  A transcoder that gets no watcher for files serves all the same: it passes over every file the
  encoders write, so nothing is put on the upload list.
\<close>

lemma no_watcher_no_uploads:
  assumes "tc_start json env f random s = (Serves t, acts, s')" "\<not> se_watcher env"
  shows "upload_list s' = [] \<and> watchStreamFiles denv cfg name s' = Some s'"
proof -
  obtain s1 where "s' = start_watch env s1"
    using assms(1)
    by (auto simp: tc_start_def start_spec_def Let_def
        split: sum.splits prod.splits option.splits if_splits)
  then show ?thesis using assms(2) by (simp add: start_watch_def watchStreamFiles_def)
qed

section \<open>The input description\<close>

text \<open>
  The timer waits for a description that is not empty; the upload that follows is the only one,
  whether or not it succeeds.
\<close>

lemma input_info_once:
  fixes remote later s
  assumes "\<And>d. d \<in> set ds \<Longrightarrow> d (local @ Input_json_file_name) \<in> {None, Some []}"
    and "d (local @ Input_json_file_name) = Some data" "data \<noteq> []"
  defines "r \<equiv> set_upload_input_info_timer local remote (ds @ d # later) s"
  shows "\<exists>c. s3_calls (snd r) = s3_calls s @ [c] \<and> s3_local c = local @ Input_json_file_name \<and>
    s3_bucket c = remote \<and> fst r = (if s3_ok c then Uploaded else Upload_failed)"
  using assms(1) unfolding r_def
proof (induction ds arbitrary: s)
  case Nil
  then show ?case using assms(2,3)
    by (auto simp: uploadInputInfoFile_def s3_Upload_def Let_def)
next
  case (Cons e ds)
  have "uploadInputInfoFile local remote (s\<lparr>disk := e\<rparr>) = (Timer_set, s\<lparr>disk := e\<rparr>)"
    by (cases "e (local @ Input_json_file_name)")
      (use Cons.prems [of e] in \<open>auto simp: uploadInputInfoFile_def\<close>)
  with Cons.IH [of "s\<lparr>disk := e\<rparr>"] Cons.prems show ?case by simp
qed

end
