(* ===== verification/Journey.thy ===== *)
theory Journey
  imports System StartSpec
begin

text \<open>
  A job on its whole way: from the client's request through the API server, SQS, the scheduler and
  the worker to the transcoder, and the way of the stop that ends it. The worker's replies to the
  scheduler are those of the model of its request handler.
\<close>

section \<open>The worker as the scheduler's peer\<close>

text \<open>
  The network between the two: the path of a URL is what follows the host, a body is the record it
  encodes, and a handler that panics gives no reply.
\<close>

definition url_path :: "string \<Rightarrow> string" where
  "url_path url = dropWhile (\<lambda>c. c \<noteq> CHR ''/'') (drop (length ''http://'') url)"

definition request_of :: "wreq \<Rightarrow> http_request" where
  "request_of rq = \<lparr>r_Method = rq_method rq, r_Path = url_path (rq_url rq),
     r_Body = (case rq_job rq of None \<Rightarrow> BodyBad | Some j \<Rightarrow> BodyJob j)\<rparr>"

fun body_text :: "wact list \<Rightarrow> rtext" where
  "body_text [] = TBad []"
| "body_text (WriteHeader c # acts) = body_text acts"
| "body_text (Write (CJob j) # acts) = TJob j"
| "body_text (Write b # acts) = TBad []"

definition worker_answer ::
    "WorkerAppConfig \<Rightarrow> os_env \<Rightarrow> go_time \<Rightarrow> worker_state \<Rightarrow> wreq \<Rightarrow> http_reply \<times> worker_state" where
  "worker_answer cfg env now s rq =
     (case run_state (wk_main_server_handler cfg env now (request_of rq)) s of
        (None, s') \<Rightarrow> (NoReply, s')
      | (Some acts, s') \<Rightarrow> (Reply (http_status acts) (Some (body_text acts)), s'))"

definition plain_host :: "LiveWorker \<Rightarrow> bool" where
  "plain_host wk \<longleftrightarrow> CHR ''/'' \<notin> set (ServerIp (Info wk)) \<and> CHR ''/'' \<notin> set (ServerPort (Info wk))"

lemma url_path_worker:
  assumes "plain_host wk"
  shows "url_path (worker_url wk @ rest) = ''/jobs'' @ rest"
proof -
  have "dropWhile (\<lambda>c. c \<noteq> CHR ''/'') (ServerIp (Info wk) @ '':'' @ ServerPort (Info wk) @ ''/jobs'' @ rest) =
      ''/jobs'' @ rest"
    using assms by (subst dropWhile_append2; auto simp: plain_host_def)+
  then show ?thesis by (simp add: url_path_def worker_url_def)
qed

lemma start_path: "UrlLastPart ''/jobs'' = Some ''jobs''" "str_contains ''/jobs'' ''jobs''"
  by code_simp+

text \<open>A start request makes the worker launch the job.\<close>

lemma worker_answer_start:
  assumes "plain_host wk" "json_job j" "ports_nonneg s" "job_json_ok j"
    and "\<not> launch_failed cfg env (running_jobs s) (with_port s j)"
  shows "worker_answer cfg env now s (start_request wk j) =
    (Reply 201 (Some (TJob (with_port s j))), after_post cfg env now j s)"
  using url_path_worker [OF assms(1), of "[]"] assms(2,5)
  by (simp add: worker_answer_def request_of_def start_request_def wk_main_server_handler_def
      worker_jobs_endpoint_def start_path run_wk_post_job [OF assms(3,4)])

section \<open>From the request to the running transcoder\<close>

lemma clock_frame [simp]:
  "w_clock (put_job j w) = w_clock w" "w_now (put_job j w) = w_now w"
  "w_clock (push_job j w) = w_clock w" "w_now (push_job j w) = w_now w"
  by (simp_all add: put_job_def push_job_def hput_def lpush_def)

lemma still_clock: "w_clock w = [] \<Longrightarrow> reading w = w_now w \<and> tick_clock w = w"
  by (simp add: reading_def tick_clock_def)

text \<open>The record as the scheduler queues it.\<close>

definition queued_job ::
    "api_env \<Rightarrow> LiveJobSpec \<Rightarrow> string list \<Rightarrow> string \<Rightarrow> string \<Rightarrow> go_time \<Rightarrow> LiveJob" where
  "queued_job env j ws jid key now = (new_job env j ws jid key now)\<lparr>Time_received_by_scheduler := now\<rparr>"

lemma queued_job_sel [simp]:
  "lj_Id (queued_job env j ws jid key now) = jid" "Spec (queued_job env j ws jid key now) = j"
  "\<not> Stop (queued_job env j ws jid key now)" "\<not> Delete (queued_job env j ws jid key now)"
  "StreamKey (queued_job env j ws jid key now) = key"
  "Playback_url (queued_job env j ws jid key now) = playback_url j jid"
  by (simp_all add: queued_job_def) (simp_all add: new_job_def zero_LiveJob_def)

text \<open>What the poll leaves: the job, and nothing else, in the queue.\<close>

lemma request_polled:
  assumes "quiet w" "store_inv w" "w_clock w = []" "w_uuids w = jid # key # us" "w_sqs w = []"
    and "pending w = []" "Validate jspec = Some (None, ws, j)" "Api_test j \<noteq> 1" "json_spec j"
    and "json_time (w_now w)" "json_time (ki_Time_created (job_key env j jid))"
  defines "w1 \<equiv> exec_state pollJobQueue (exec_state (create_job_request env jspec) w)"
    and "qj \<equiv> queued_job env j ws jid key (w_now w)"
  shows "json_job qj \<and> quiet w1 \<and> store_inv w1 \<and> pending w1 = [qj] \<and> w_sqs w1 = [] \<and>
    available w1 = available w \<and> (\<forall>k. stored_load k w1 = stored_load k w) \<and> w_sent w1 = w_sent w \<and>
    w_draws w1 = w_draws w"
proof -
  let ?nj = "new_job env j ws jid key (w_now w)"
  have json: "json_job ?nj" using assms(9-11) by (intro json_new_job)
  then have jq: "json_job qj" using assms(10) by (simp add: qj_def queued_job_def json_job_def)
  let ?w0 = "(put_job ?nj (w\<lparr>w_uuids := us\<rparr>))\<lparr>w_sqs := [TJob ?nj]\<rparr>"
  have run: "exec_state (create_job_request env jspec) w = ?w0"
    using create_job_run [OF assms(1,3,4,7-11)] assms(5) by (simp add: Let_def)
  have clock: "reading ?w0 = w_now w" "tick_clock ?w0 = ?w0"
    using still_clock [of ?w0] assms(3) by simp_all
  have rec: "received (w_now w) ?nj = qj" by (simp add: received_def qj_def queued_job_def)
  have w1: "w1 = (push_job qj (put_job qj ?w0))\<lparr>w_sqs := []\<rparr>"
    using pollJobQueue_run [of ?w0 ?nj "[]"] assms(1) clock rec
    by (simp add: w1_def run Let_def)
  have "available w1 = available w"
    by (rule available_cong) (simp add: w1)
  moreover have "w_draws w1 = w_draws w"
    by (simp add: w1 push_job_def put_job_def hput_def lpush_def)
  moreover have "store_inv w1"
    using assms(2) jq store_inv_data by (simp add: w1 push_job_def store_inv_push queued_def data_inv_def)
  moreover have "stored_load k w1 = stored_load k w" for k
    by (simp add: w1 stored_load_def data_inv_def)
  ultimately show ?thesis
    using assms(1,6) jq by (simp add: w1 pending_def data_inv_def)
qed

lemma loaded_frame:
  "hlookup REDIS_KEY_ALLJOBS (loaded wk j w) = hlookup REDIS_KEY_ALLJOBS w"
  "w_sqs (loaded wk j w) = w_sqs w" "w_sent (loaded wk j w) = w_sent w"
  "w_sqs (sent rq w) = w_sqs w" "w_sqs (next_draw w) = w_sqs w"
  by (simp_all add: loaded_def sent_def next_draw_def hlookup_hput redis_keys)

text \<open>The firing that launches the job.\<close>

lemma launch_fired:
  assumes "quiet w" "store_inv w" "pending w = [qj]" "\<not> Stop qj" "\<not> Delete qj" "json_job qj"
    and "available w = [wk]" "fits wk (stored_load (lw_Id wk) w)"
    and "reply (start_request wk qj) = Reply 201 (Some (TJob j2))" "json_job j2"
  defines "w2 \<equiv> exec_state (scheduleOneJob reply) w"
    and "r \<equiv> j2\<lparr>Assigned_worker_id := lw_Id wk, lj_State := JOB_STATE_RUNNING\<rparr>"
  shows "hlookup REDIS_KEY_ALLJOBS w2 (lj_Id j2) = Some (TJob r) \<and> pending w2 = [] \<and>
    w_sqs w2 = w_sqs w \<and> w_sent w2 = w_sent w @ [start_request wk qj] \<and>
    Jobs (stored_load (lw_Id wk) w2) = Jobs (stored_load (lw_Id wk) w) @ [job_load (lj_Id j2)]"
proof -
  let ?w1 = "rpop REDIS_KEY_SCHEDULER_QUEUED_JOBS w" and ?rq = "start_request wk qj"
  have "chosen ?w1 = wk"
    using assms(7) drawn_less [of 1 w] by (simp add: chosen_def drawn_def)
  then have w2: "w2 = loaded wk r (put_job r (sent ?rq (next_draw ?w1)))"
    using assms by (simp add: w2_def run_simps after_schedule_def after_start_def Let_def tried_def
        confirmed_def launched_job_def r_def)
  have "json_job r" using assms(10) by (simp add: r_def json_job_def)
  moreover have "lj_Id r = lj_Id j2" by (simp add: r_def)
  ultimately show ?thesis
    using assms(3) by (simp add: w2 stored_load_loaded loaded_frame)
qed


section \<open>From the stop request to the end of the transcoder\<close>

lemma stop_path_parts:
  assumes "set jid \<subseteq> set ''0123456789abcdef-''"
  shows "UrlLastPart (''/jobs/'' @ jid @ ''/stop'') = Some ''stop''"
    "str_contains (''/jobs/'' @ jid @ ''/stop'') ''jobs''" "str_contains (''/jobs/'' @ jid @ ''/stop'') ''stop''"
    "slice (''/jobs/'' @ jid @ ''/stop'') (str_index (''/jobs/'' @ jid @ ''/stop'') ''jobs'' + int (length ''jobs'') + 1)
       (str_index (''/jobs/'' @ jid @ ''/stop'') ''stop'' - 1) = Some jid"
proof -
  show "UrlLastPart (''/jobs/'' @ jid @ ''/stop'') = Some ''stop''"
    using UrlLastPart_plain [of "''stop''" "''/jobs/'' @ jid"] by simp
  show "str_contains (''/jobs/'' @ jid @ ''/stop'') ''jobs''"
    using str_contains_self [of "''/''" "''jobs''" "''/'' @ jid @ ''/stop''"] by simp
  show "str_contains (''/jobs/'' @ jid @ ''/stop'') ''stop''"
    using str_contains_self [of "''/jobs/'' @ jid @ ''/''" "''stop''" "[]"] by simp
  have "CHR ''s'' \<notin> set jid" using assms by auto
  from path_job_id_stop [OF this] show "slice (''/jobs/'' @ jid @ ''/stop'')
      (str_index (''/jobs/'' @ jid @ ''/stop'') ''jobs'' + int (length ''jobs'') + 1)
      (str_index (''/jobs/'' @ jid @ ''/stop'') ''stop'' - 1) = Some jid"
    by (simp add: path_job_id_def liveJobsEndpoint_def)
qed

lemma run_wk_stopJob:
  assumes "wk_getJobById jid s \<noteq> None" "find (\<lambda>rj. lj_Id (rj_Job rj) = jid) (running_jobs s) = Some rj"
    and "rj_Pid rj = Some pid" "os_find os pid" "os_term os pid"
  shows "run_state (wk_stopJob os jid) s =
    (Some None, wdel jid (release_port (RtmpIngestPort (rj_Job rj)) s))"
  using assms by (auto simp: wk_stopJob_def releaseRtmpPort_def wk_deleteJob_def)

lemma worker_answer_stop:
  assumes "plain_host wk" "set (lj_Id j) \<subseteq> set ''0123456789abcdef-''"
    and "wk_getJobById (lj_Id j) s \<noteq> None"
      "find (\<lambda>rj. lj_Id (rj_Job rj) = lj_Id j) (running_jobs s) = Some rj"
      "rj_Pid rj = Some pid" "os_find os pid" "os_term os pid"
  shows "worker_answer cfg os now s (stop_request wk j) =
    (Reply 200 (Some (TBad [])), wdel (lj_Id j) (release_port (RtmpIngestPort (rj_Job rj)) s))"
proof -
  have "request_of (stop_request wk j) = \<lparr>r_Method = ''PUT'', r_Path = ''/jobs/'' @ lj_Id j @ ''/stop'',
      r_Body = (case rq_job (stop_request wk j) of None \<Rightarrow> BodyBad | Some j \<Rightarrow> BodyJob j)\<rparr>"
    using url_path_worker [OF assms(1), of "''/'' @ lj_Id j @ ''/stop''"]
    by (simp add: request_of_def stop_request_def)
  then show ?thesis
    unfolding worker_answer_def wk_main_server_handler_def
    using stop_path_parts [OF assms(2)] run_wk_stopJob [OF assms(3-7)]
    by (simp add: worker_jobs_endpoint_def wk_put_job_def)
qed


section \<open>The same for one job\<close>

definition journey_world :: world where
  "journey_world = hput REDIS_KEY_ALLWORKERS ''w1'' (TWorker sample_worker)
     (empty_world\<lparr>w_uuids := [''1f'', ''2e'']\<rparr>)"

lemma journey_world_ok:
  "quiet journey_world" "w_clock journey_world = []" "w_uuids journey_world = [''1f'', ''2e'']"
  "w_sqs journey_world = []" "pending journey_world = []" "w_now journey_world = w_now empty_world"
  "stored_load k journey_world = zero_WorkerLoad" "available journey_world = [sample_worker]"
  by (simp_all add: journey_world_def quiet_def empty_world_def pending_def queue_contents_def
      stored_load_def hlookup_def hput_def redis_keys available_def workers_of_def worker_available_def
      sample_worker_def)

lemma journey_world_inv: "store_inv journey_world"
proof -
  have "store_inv (empty_world\<lparr>w_uuids := [''1f'', ''2e'']\<rparr>)"
    using store_inv_empty by (simp add: store_inv_def tbl.entries_ok_def)
  then show ?thesis
    by (auto simp: journey_world_def worker_entry_def sample_worker_def json_time_def
        intro!: store_inv_put_worker)
qed

definition empty_disk :: start_env where
  "empty_disk = narrow_env\<lparr>se_mkdir := \<lambda>_. True\<rparr>"


definition stop_journey_job :: LiveJob where
  "stop_journey_job = sample_live_job\<lparr>lj_Id := ''1f'', lj_State := JOB_STATE_RUNNING,
     Assigned_worker_id := ''w1'', RtmpIngestPort := 1935\<rparr>"

definition stop_journey_world :: world where
  "stop_journey_world = put_job stop_journey_job journey_world"

definition busy_worker :: worker_state where
  "busy_worker = init_worker\<lparr>wjobs := [(''1f'', stop_journey_job)],
     running_jobs := [\<lparr>rj_Job = stop_journey_job, rj_Pid = Some 7\<rparr>],
     available_rtmp_ports := [1936..1949]\<rparr>"


end
