(* ===== verification/Spec2Isabelle.thy ===== *)
theory Spec2Isabelle
  imports Journey UploadSpec PlaylistSpec
begin

text \<open>
  ezLiveStreaming, a live transcoding service in Go.

  \<^bold>\<open>The program.\<close> An API server takes clients' job requests, validates them and puts them on an
  SQS queue. A scheduler moves them from there to a queue of pending jobs in Redis and hands each to
  a registered worker with room for it. A worker gives the job an ingest port and launches one
  transcoder process for it. The transcoder starts ffmpeg and Shaka packager, or ffmpeg alone for
  AV1, uploads the files they make to S3, and runs object detection on one rendition when the job
  asks for it. A key server makes the DRM keys. The services share the Redis tables of jobs,
  workers, loads and keys.

  \<^bold>\<open>The model.\<close> Services are state-passing programs over \<open>world\<close> (Redis, SQS, the clock, random
  draws, and a script of which calls fail and how), over \<open>worker_state\<close>, or over \<open>transcoder\<close>.
  A panic is \<open>None\<close>, an error a text or the right status code, an HTTP handler the list of its
  actions on the response. Paths below are under \<open>src/\<close>.

  \<^item> \<open>Prelude\<close>: Hoare triples for the state monad, loops over slices, facts on lists and maps.
    \<open>GoStrings\<close>, \<open>GoFloat\<close>, \<open>GoFormat\<close>: the parts of Go's \<open>strings\<close>, \<open>strconv\<close>, \<open>path\<close> that are used.
  \<^item> \<open>JobTypes\<close>: \<open>job/job.go\<close>, \<open>models/worker.go\<close>, \<open>models/drm.go\<close>. \<open>Utils\<close>: \<open>utils/utils.go\<close>.
  \<^item> \<open>Validator\<close>, \<open>ValidatorSpec\<close>: \<open>job/validator.go\<close>. \<open>Validate\<close> accepts exactly the requests of
    the declarative \<open>request_ok\<close> and returns their normal form; what it panics on; its bounds.
  \<^item> \<open>Redis\<close>: \<open>redis_client/redis_client.go\<close> and \<open>world\<close>. \<open>Interfaces\<close>: the locales \<open>field_store\<close> and
    \<open>fifo_queue\<close>, interpreted by \<open>RedisSpec\<close> on Redis and by \<open>WorkerSpec\<close> on the worker's table and
    ports.
  \<^item> \<open>Scheduler\<close>, \<open>SchedulerServer\<close>: \<open>scheduler/scheduler.go\<close> and the SQS calls of \<open>job_sqs\<close>.
    \<open>SchedulerSpec\<close>: the store stays well formed whatever fails. \<open>SchedulerRuns\<close>: the operations
    when nothing fails. \<open>SchedulerProps\<close>, \<open>SchedulerQueue\<close>, \<open>SchedulerLoad\<close>: refinement of an
    abstract scheduler, progress and loss in the queues, capacity, loads, heartbeats.
  \<^item> \<open>Http\<close>: what the handlers share. \<open>KeyServer\<close>: \<open>drm_key_server/ezKey_server.go\<close>.
    \<open>ApiServer\<close>, \<open>ApiSpec\<close>: \<open>api_server/api_server_main.go\<close> and what each request does.
  \<^item> \<open>Worker\<close>, \<open>WorkerStatus\<close>, \<open>WorkerSpec\<close>: \<open>worker/app/worker_app.go\<close>; ingest ports as an invariant
    over the worker's steps, UDP ports, the report of a status check.
  \<^item> \<open>Command\<close>, \<open>Packager\<close>, \<open>CommandSpec\<close>: \<open>job/command.go\<close>; ffmpeg's outputs are the packager's
    inputs, directories are distinct, the command of ffmpeg alone is complete.
  \<^item> \<open>TcFiles\<close>, \<open>Playlists\<close>, \<open>Detection\<close>, \<open>Transcoder\<close>: \<open>worker/transcoder/worker_transcoder.go\<close> with
    \<open>s3/s3.go\<close>. \<open>UploadSpec\<close>: the scan of the upload list. \<open>PlaylistSpec\<close>: the two rewrites of
    playlists. \<open>TranscoderSpec\<close>: the steps of the process refine an abstract queue of detections.
  \<^item> \<open>Startup\<close>: what the \<open>main\<close> functions of the services do before they serve. \<open>TcStart\<close>: the start of a
    transcoder, from its flags to the programs it runs. \<open>StartSpec\<close>: ingest ports from the start of a
    worker on, and what a start of a transcoder leaves, also when it fails.
  \<^item> \<open>System\<close>: ports from the worker to the transcoder's commands, and a stop from the API server
    through SQS to the scheduler. \<open>Journey\<close>: a request on its whole way to the transcoder, and the
    stop that ends it, with the worker's handler answering the scheduler.

  \<^bold>\<open>Bounds and fuel.\<close> No loop has fuel that can run out unnoticed: the scan of the upload list
  terminates by the number of the next upload and the length of the list; the shortest decimal of a
  float is searched up to 17 significant digits, which tell all floats apart; a duration is read
  until its text ends. Integers are mathematical where the code's stay far below \<open>2 ^ 63\<close>, and
  wrapped (\<open>wrap64\<close>) where a request can make them overflow. The clock is a script of readings.

  \<^bold>\<open>Outside the code\<close>, as parameters: the answers of Redis, SQS and S3, the workers' HTTP
  replies, the operating system's processes (\<open>os_env\<close>, \<open>process_env\<close>), the detector, MP4Box and the
  package that reads MP4 boxes (\<open>detect_env\<close>). JSON text is modelled by the record it stands for.

  \<^bold>\<open>Not modelled.\<close> The text of configuration files and flags (their decoded values are arguments), the
  connections to Redis and AWS, what the started programs do and print, logging, which directories
  the file watcher could add, and the programs run by hand (tests and readers under
  \<open>redis_client/test\<close>, \<open>redis_client/utils\<close>, \<open>s3/test\<close>, \<open>worker/utils\<close>), which have no state of their
  own. \<open>demo/demo.go\<close> is one struct with one text. Handlers and timer functions run one at a time.
\<close>

end
